(* ===== verification/Kerghan_Prelude.thy ===== *)
theory Kerghan_Prelude
  imports Main "HOL-Library.Sublist"
begin

text \<open>
  The shared vocabulary of the development.

  \<^item> \<^emph>\<open>Tables.\<close> The backend keeps its state in SQL tables.  A table is a list of rows in
    insertion order and the next value of its \<^verbatim>\<open>AUTO_INCREMENT\<close> primary key; the statements
    the services issue (a \<^verbatim>\<open>SELECT\<close> of one or of all matching rows, a \<^verbatim>\<open>COUNT\<close>, a
    conditional \<^verbatim>\<open>UPDATE\<close> with its affected-row count, a conditional \<^verbatim>\<open>DELETE\<close>, an
    \<^verbatim>\<open>INSERT\<close> guarded by unique indexes) are operations on that list.
  \<^item> \<^emph>\<open>Handlers.\<close> An asynchronous service method is a function from a state to a result and
    the next state; the result is \<^term>\<open>Inl e\<close> when the method throws \<open>e\<close>, and the state
    reached before the throw is kept, because a committed statement is not undone by a later
    exception.
  \<^item> \<^emph>\<open>Strings.\<close> The string functions of JavaScript that the sources use, over character
    codes below 256.
\<close>

named_theorems table_simps \<open>what each statement does to the rows of a table\<close>
named_theorems handler_defs \<open>definitions of the service methods\<close>

text \<open>An optional JavaScript string counts as given when it is present and not empty.\<close>

definition truthy :: "string option \<Rightarrow> bool" where
  "truthy x = (case x of None \<Rightarrow> False | Some s \<Rightarrow> s \<noteq> [])"

lemma truthy_simps [simp]:
  "\<not> truthy None"
  "truthy (Some s) \<longleftrightarrow> s \<noteq> []"
  by (simp_all add: truthy_def)

section \<open>JavaScript strings\<close>

definition js_space :: "char \<Rightarrow> bool" where
  "js_space c = ((of_char c :: nat) \<in> {9, 10, 11, 12, 13, 32, 160})"

definition js_trim :: "string \<Rightarrow> string" where
  "js_trim s = rev (dropWhile js_space (rev (dropWhile js_space s)))"

fun js_split :: "char \<Rightarrow> string \<Rightarrow> string list" where
  "js_split d [] = [[]]"
| "js_split d (c # cs) =
     (if c = d then [] # js_split d cs
      else case js_split d cs of w # ws \<Rightarrow> (c # w) # ws | [] \<Rightarrow> [[c]])"

definition lower_char :: "char \<Rightarrow> char" where
  "lower_char c = (let n = (of_char c :: nat)
     in if 65 \<le> n \<and> n \<le> 90 then char_of (n + 32) else c)"

definition upper_char :: "char \<Rightarrow> char" where
  "upper_char c = (let n = (of_char c :: nat)
     in if 97 \<le> n \<and> n \<le> 122 then char_of (n - 32) else c)"

definition js_lower :: "string \<Rightarrow> string" where
  "js_lower s = map lower_char s"

definition js_upper :: "string \<Rightarrow> string" where
  "js_upper s = map upper_char s"

fun js_join :: "string \<Rightarrow> string list \<Rightarrow> string" where
  "js_join sep [] = []"
| "js_join sep [w] = w"
| "js_join sep (w # ws) = w @ sep @ js_join sep ws"

definition is_digit :: "char \<Rightarrow> bool" where
  "is_digit c = (let n = (of_char c :: nat) in 48 \<le> n \<and> n \<le> 57)"

text \<open>\<^verbatim>\<open>Number\<close> of a non-empty string of decimal digits.\<close>

definition digits_value :: "string \<Rightarrow> nat" where
  "digits_value s = foldl (\<lambda>n c. 10 * n + (of_char c - 48)) 0 s"

lemma js_split_nonempty: "js_split d s \<noteq> []"
  by (induction s) (auto split: list.splits)

lemma js_split_no_sep: "w \<in> set (js_split d s) \<Longrightarrow> d \<notin> set w"
  by (induction s arbitrary: w) (auto split: list.splits if_splits)

lemma js_split_append: "js_split d (xs @ d # ys) = js_split d xs @ js_split d ys"
  by (induction xs) (auto split: list.splits simp: js_split_nonempty)

lemma js_join_split: "js_join [d] (js_split d s) = s"
proof (induction s)
  case (Cons c s)
  obtain w ws where w: "js_split d s = w # ws" using js_split_nonempty by (cases "js_split d s") auto
  with Cons.IH show ?case by (cases ws) auto
qed simp

lemma js_split_plain: "d \<notin> set s \<Longrightarrow> js_split d s = [s]"
  by (induction s) auto

lemma dropWhile_no_head: "dropWhile P xs = y # ys \<Longrightarrow> \<not> P y"
  by (metis hd_dropWhile list.distinct(1) list.sel(1))

lemma js_trim_idem [simp]: "js_trim (js_trim s) = js_trim s"
proof -
  let ?l = "dropWhile js_space s"
  let ?m = "dropWhile js_space (rev ?l)"
  have "dropWhile js_space (rev ?m) = rev ?m"
  proof (cases "rev ?m")
    case Nil
    then show ?thesis by (simp only: dropWhile.simps)
  next
    case (Cons c cs)
    have "suffix ?m (rev ?l)" by (rule suffix_dropWhile)
    then obtain zs where "rev ?l = zs @ ?m" by (auto simp: suffix_def)
    then have "?l = rev ?m @ rev zs" by (metis rev_append rev_rev_ident)
    with Cons have "?l = c # cs @ rev zs" by simp
    then have "\<not> js_space c" by (rule dropWhile_no_head)
    with Cons show ?thesis by simp
  qed
  then show ?thesis by (simp add: js_trim_def)
qed

section \<open>Tables\<close>

record 'r table =
  rows :: "'r list"
  next_id :: nat

definition empty_table :: "'r table" where
  "empty_table = \<lparr>rows = [], next_id = 1\<rparr>"

definition find_one :: "('r \<Rightarrow> bool) \<Rightarrow> 'r table \<Rightarrow> 'r option" where
  "find_one p t = List.find p (rows t)"

definition select_where :: "('r \<Rightarrow> bool) \<Rightarrow> 'r table \<Rightarrow> 'r list" where
  "select_where p t = filter p (rows t)"

definition count_where :: "('r \<Rightarrow> bool) \<Rightarrow> 'r table \<Rightarrow> nat" where
  "count_where p t = length (filter p (rows t))"

definition update_where :: "('r \<Rightarrow> bool) \<Rightarrow> ('r \<Rightarrow> 'r) \<Rightarrow> 'r table \<Rightarrow> 'r table" where
  "update_where p f t = t\<lparr>rows := map (\<lambda>r. if p r then f r else r) (rows t)\<rparr>"

definition delete_where :: "('r \<Rightarrow> bool) \<Rightarrow> 'r table \<Rightarrow> 'r table" where
  "delete_where p t = t\<lparr>rows := filter (\<lambda>r. \<not> p r) (rows t)\<rparr>"

definition insert_row :: "(nat \<Rightarrow> 'r) \<Rightarrow> 'r table \<Rightarrow> 'r table" where
  "insert_row mk t = \<lparr>rows = rows t @ [mk (next_id t)], next_id = Suc (next_id t)\<rparr>"

definition exists_where :: "('r \<Rightarrow> bool) \<Rightarrow> 'r table \<Rightarrow> bool" where
  "exists_where p t = list_ex p (rows t)"

lemma exists_where_iff: "exists_where p t \<longleftrightarrow> (\<exists>r \<in> set (rows t). p r)"
  by (simp add: exists_where_def list_ex_iff)

text \<open>A query ordered by a key, descending or ascending, oldest row first among equals.\<close>

definition order_asc :: "('r \<Rightarrow> int) \<Rightarrow> 'r list \<Rightarrow> 'r list" where
  "order_asc k rs = sort_key k rs"

definition order_desc :: "('r \<Rightarrow> int) \<Rightarrow> 'r list \<Rightarrow> 'r list" where
  "order_desc k rs = sort_key (\<lambda>r. - k r) rs"

lemma rows_update_where [table_simps]:
  "rows (update_where p f t) = map (\<lambda>r. if p r then f r else r) (rows t)"
  by (simp add: update_where_def)

lemma rows_delete_where [table_simps]:
  "rows (delete_where p t) = filter (\<lambda>r. \<not> p r) (rows t)"
  by (simp add: delete_where_def)

lemma rows_insert_row [table_simps]:
  "rows (insert_row mk t) = rows t @ [mk (next_id t)]"
  by (simp add: insert_row_def)

lemma next_id_table_ops [table_simps]:
  "next_id (update_where p f t) = next_id t"
  "next_id (delete_where p t) = next_id t"
  "next_id (insert_row mk t) = Suc (next_id t)"
  by (simp_all add: update_where_def delete_where_def insert_row_def)

lemma find_one_Some:
  "find_one p t = Some r \<Longrightarrow> r \<in> set (rows t) \<and> p r"
  by (auto simp: find_one_def find_Some_iff)

lemma find_one_None:
  "find_one p t = None \<longleftrightarrow> (\<forall>r \<in> set (rows t). \<not> p r)"
  by (auto simp: find_one_def find_None_iff)

lemma find_one_unique:
  assumes "r \<in> set (rows t)" and "p r" and "\<And>r'. r' \<in> set (rows t) \<Longrightarrow> p r' \<Longrightarrow> r' = r"
  shows "find_one p t = Some r"
proof (cases "find_one p t")
  case None
  with assms(1,2) show ?thesis by (auto simp: find_one_None)
next
  case (Some r')
  with find_one_Some [OF Some] assms(3) show ?thesis by auto
qed

lemma count_where_zero: "count_where p t = 0 \<longleftrightarrow> (\<forall>r \<in> set (rows t). \<not> p r)"
  by (auto simp: count_where_def filter_empty_conv)

lemma count_where_insert:
  "count_where Q (insert_row mk t) = count_where Q t + (if Q (mk (next_id t)) then 1 else 0)"
  by (simp add: count_where_def rows_insert_row)

lemma count_where_update_keep:
  assumes "\<And>r. p r \<Longrightarrow> Q (f r) = Q r"
  shows "count_where Q (update_where p f t) = count_where Q t"
proof -
  have "length (filter Q (map (\<lambda>r. if p r then f r else r) xs)) = length (filter Q xs)" for xs
    using assms by (induction xs) auto
  then show ?thesis by (simp add: count_where_def rows_update_where)
qed

text \<open>An update that takes rows out of a class leaves the others; it lowers the count when it hits.\<close>

lemma count_where_update_out:
  assumes "\<And>r. p r \<Longrightarrow> \<not> Q (f r)"
  shows "count_where Q (update_where p f t) \<le> count_where Q t"
    and "r \<in> set (rows t) \<Longrightarrow> p r \<Longrightarrow> Q r \<Longrightarrow> count_where Q (update_where p f t) < count_where Q t"
proof -
  have le: "length (filter Q (map (\<lambda>r. if p r then f r else r) xs)) \<le> length (filter Q xs)" for xs
    using assms by (induction xs) auto
  then show "count_where Q (update_where p f t) \<le> count_where Q t"
    by (simp add: count_where_def rows_update_where)
  have "r \<in> set xs \<Longrightarrow> p r \<Longrightarrow> Q r \<Longrightarrow>
      length (filter Q (map (\<lambda>r. if p r then f r else r) xs)) < length (filter Q xs)" for xs
    using assms le by (induction xs) (auto simp: less_Suc_eq_le)
  then show "r \<in> set (rows t) \<Longrightarrow> p r \<Longrightarrow> Q r \<Longrightarrow>
      count_where Q (update_where p f t) < count_where Q t"
    by (simp add: count_where_def rows_update_where)
qed

text \<open>
  An update that takes every row it touches out of a class of rows leaves the rest of that
  class as it was: the shape of every revocation.
\<close>

lemma filter_update_out:
  assumes "\<And>r. p r \<Longrightarrow> \<not> Q (f r)"
  shows "filter Q (map (\<lambda>r. if p r then f r else r) xs) = filter (\<lambda>r. Q r \<and> \<not> p r) xs"
  using assms by (induction xs) auto

lemma map_update_keep:
  assumes "\<And>r. p r \<Longrightarrow> k (f r) = k r"
  shows "map k (map (\<lambda>r. if p r then f r else r) xs) = map k xs"
  using assms by (induction xs) auto

lemma distinct_map_filter_weaken:
  assumes "distinct (map k (filter P xs))" and "\<And>x. x \<in> set xs \<Longrightarrow> Q x \<Longrightarrow> P x"
  shows "distinct (map k (filter Q xs))"
proof -
  have "filter Q xs = filter Q (filter P xs)"
    using assms(2) by (induction xs) auto
  with assms(1) show ?thesis by (metis distinct_map_filter)
qed

lemma distinct_map_inj:
  assumes "distinct (map k xs)" and "x \<in> set xs" and "y \<in> set xs" and "k x = k y"
  shows "x = y"
  using assms by (auto simp: distinct_map inj_on_def)

text \<open>The one row with a given key value.\<close>

lemma filter_key_singleton:
  assumes "distinct (map k xs)" and "x \<in> set xs" and "\<And>y. p y \<Longrightarrow> k y = k x"
  shows "filter p xs = (if p x then [x] else [])"
  using assms(1,2)
proof (induction xs)
  case (Cons y xs)
  show ?case
  proof (cases "y = x")
    case True
    with Cons.prems(1) have "k z \<noteq> k x" if "z \<in> set xs" for z using that by (auto simp: image_iff)
    with assms(3) have "filter p xs = []" by (auto simp: filter_empty_conv)
    with True show ?thesis by simp
  next
    case False
    with Cons.prems have "k y \<noteq> k x" by auto
    with assms(3) have "\<not> p y" by blast
    with Cons False show ?thesis by simp
  qed
qed simp

section \<open>Objects\<close>

text \<open>
  An object of JavaScript is the list of its properties in order; assigning one keeps the place it
  has, and \<^verbatim>\<open>{ ...a, ...b }\<close> assigns those of the second in order.
\<close>

definition obj_set :: "string \<Rightarrow> 'v \<Rightarrow> (string \<times> 'v) list \<Rightarrow> (string \<times> 'v) list" where
  "obj_set k v fs =
     (if k \<in> fst ` set fs then map (\<lambda>(k', v'). if k' = k then (k', v) else (k', v')) fs else fs @ [(k, v)])"

definition obj_spread :: "(string \<times> 'v) list \<Rightarrow> (string \<times> 'v) list \<Rightarrow> (string \<times> 'v) list" where
  "obj_spread fs gs = fold (\<lambda>(k, v). obj_set k v) gs fs"

lemma obj_set_nonempty [simp]: "obj_set k v fs \<noteq> []"
  by (cases fs) (auto simp: obj_set_def)

lemma obj_spread_simps [simp]:
  "obj_spread fs [] = fs" "obj_spread fs ((k, v) # gs) = obj_spread (obj_set k v fs) gs"
  by (simp_all add: obj_spread_def)

lemma obj_spread_nonempty: "fs \<noteq> [] \<Longrightarrow> obj_spread fs gs \<noteq> []"
proof (induction gs arbitrary: fs)
  case (Cons g gs) then show ?case by (cases g) simp
qed simp

lemma obj_spread_empty [simp]: "obj_spread fs gs = [] \<longleftrightarrow> fs = [] \<and> gs = []"
  by (cases gs) (auto simp: obj_spread_nonempty)

lemma map_of_replace:
  "map_of (map (\<lambda>(k', v'). if k' = k then (k', v) else (k', v')) fs) x
     = (if x = k \<and> k \<in> fst ` set fs then Some v else map_of fs x)"
proof (induction fs)
  case (Cons f fs) then show ?case by (cases f; cases "k \<in> fst ` set fs") auto
qed simp

lemma obj_set_lookup: "map_of (obj_set k v fs) = (map_of fs)(k \<mapsto> v)"
proof (cases "k \<in> fst ` set fs")
  case True
  then show ?thesis by (simp add: obj_set_def fun_eq_iff map_of_replace)
next
  case False
  then have "map_of fs k = None" by (simp add: map_of_eq_None_iff)
  then have "map_of (fs @ [(k, v)]) x = ((map_of fs)(k \<mapsto> v)) x" for x
    by (simp add: map_add_def split: option.split)
  with False show ?thesis by (simp add: obj_set_def fun_eq_iff)
qed

lemma obj_spread_lookup: "distinct (map fst gs) \<Longrightarrow> map_of (obj_spread fs gs) = map_of fs ++ map_of gs"
proof (induction gs arbitrary: fs)
  case (Cons g gs)
  obtain k v where g: "g = (k, v)" by (cases g)
  with Cons.prems have k: "map_of gs k = None" by (auto simp: map_of_eq_None_iff)
  have "map_of (obj_spread fs (g # gs)) = (map_of fs)(k \<mapsto> v) ++ map_of gs"
    using Cons g by (simp add: obj_set_lookup)
  also have "\<dots> = map_of fs ++ (map_of gs)(k \<mapsto> v)"
    using k by (auto simp: map_add_def fun_eq_iff split: option.split)
  finally show ?case unfolding g by (simp only: map_of.simps fst_conv snd_conv)
qed simp

lemma obj_spread_other: "k \<notin> fst ` set gs \<Longrightarrow> map_of (obj_spread fs gs) k = map_of fs k"
  by (induction gs arbitrary: fs) (auto simp: obj_set_lookup)

end
