(* ===== verification/Runtime.thy ===== *)
theory Runtime
  imports Kerghan_Prelude
begin

text \<open>
  What the services take from outside the repository, as parameters of the model:

  \<^item> \<^term>\<open>env\<close> collects the functions of the platform and of third-party packages the services
    call: SHA-256 (\<^verbatim>\<open>core/token-hash.ts\<close>), bcrypt, the JWT signer, MySQL's collation on
    text columns, the process environment (\<^verbatim>\<open>ConfigService\<close>) and JavaScript's
    \<^verbatim>\<open>Number\<close> and \<^verbatim>\<open>Date\<close> string parsers;
  \<^item> \<^term>\<open>ctx\<close> is what one request draws from the machine: the current time in milliseconds, a
    fresh UUID, fresh random bytes and a bcrypt salt.  A request reads the clock once.

  The theory also models the two ways the sources read a number from the environment
  (\<^verbatim>\<open>core/numeric-config.ts\<close>), thrown values, and the \<^verbatim>\<open>core/error-codes.ts\<close> table.
\<close>

section \<open>Exceptions\<close>

datatype message = Msg string | Msgs "string list"

record http_exception =
  ex_status :: nat
  ex_code :: "string option"
  ex_message :: message
  ex_retryAfterSeconds :: "int option"

text \<open>
  A thrown value: a Nest \<^verbatim>\<open>HttpException\<close>, an http-errors style error carrying a numeric
  status, MySQL's unique-index violation, any other \<^verbatim>\<open>Error\<close>, or one of the domain errors of
  \<^verbatim>\<open>integrations/integration-errors.ts\<close>.
\<close>

datatype credential_error =
    CredentialInvalidError
  | InsufficientPermissionsError string
  | InstallationNotAccessibleError
  | InstallationSuspendedError
  | GithubUnavailableError
  | GithubRateLimitedError "int option"

datatype exn =
    HttpExn http_exception
  | StatusExn int
  | DupEntryExn
  | ErrorExn string
  | CredentialExn credential_error

definition http_exn :: "nat \<Rightarrow> string \<Rightarrow> exn" where
  "http_exn st m = HttpExn \<lparr>ex_status = st, ex_code = None, ex_message = Msg m,
     ex_retryAfterSeconds = None\<rparr>"

definition http_exn_code :: "nat \<Rightarrow> string \<Rightarrow> string \<Rightarrow> exn" where
  "http_exn_code st c m = HttpExn \<lparr>ex_status = st, ex_code = Some c, ex_message = Msg m,
     ex_retryAfterSeconds = None\<rparr>"

abbreviation BadRequest :: "string \<Rightarrow> exn" where "BadRequest \<equiv> http_exn 400"
abbreviation Unauthorized :: "string \<Rightarrow> exn" where "Unauthorized \<equiv> http_exn 401"
abbreviation Forbidden :: "string \<Rightarrow> exn" where "Forbidden \<equiv> http_exn 403"
abbreviation NotFound :: "string \<Rightarrow> exn" where "NotFound \<equiv> http_exn 404"
abbreviation Locked :: "string \<Rightarrow> exn" where "Locked \<equiv> http_exn 423"
abbreviation ConflictCode :: "string \<Rightarrow> string \<Rightarrow> exn" where "ConflictCode \<equiv> http_exn_code 409"
abbreviation ForbiddenCode :: "string \<Rightarrow> string \<Rightarrow> exn" where "ForbiddenCode \<equiv> http_exn_code 403"
abbreviation UnprocessableCode :: "string \<Rightarrow> string \<Rightarrow> exn" where
  "UnprocessableCode \<equiv> http_exn_code 422"

lemma http_exn_inject [simp]:
  "http_exn a m = http_exn b n \<longleftrightarrow> a = b \<and> m = n"
  "http_exn_code a c m = http_exn_code b d n \<longleftrightarrow> a = b \<and> c = d \<and> m = n"
  "http_exn a m \<noteq> http_exn_code b d n"
  "http_exn_code b d n \<noteq> http_exn a m"
  "http_exn a m \<noteq> DupEntryExn" "http_exn_code b d n \<noteq> DupEntryExn"
  "DupEntryExn \<noteq> http_exn a m" "DupEntryExn \<noteq> http_exn_code b d n"
  by (auto simp: http_exn_def http_exn_code_def)

type_synonym ('a, 's) outcome = "(exn + 'a) \<times> 's"

section \<open>The platform\<close>

datatype js_number = NaN | Finite int

datatype js_value = JUndefined | JNull | JString string | JNumber js_number

record access_token_payload =
  pl_sub :: nat
  pl_sid :: string
  pl_username :: string
  pl_isAdmin :: bool

record env =
  env_hashToken :: "string \<Rightarrow> string"
  env_bcrypt_hash :: "string \<Rightarrow> string \<Rightarrow> string"
  env_bcrypt_compare :: "string \<Rightarrow> string \<Rightarrow> bool"
  env_jwt_sign :: "access_token_payload \<Rightarrow> string"
  env_collate :: "string \<Rightarrow> string \<Rightarrow> bool"
  env_config :: "string \<Rightarrow> js_value"
  env_parse_number :: "string \<Rightarrow> js_number"
  env_parse_date :: "string \<Rightarrow> int option"

record ctx =
  c_now :: int
  c_uuid :: string
  c_token :: string
  c_salt :: string

text \<open>
  The documented behaviour of bcrypt the services rely on: a password verifies against every
  digest made from it; and of MySQL's collations: they are equivalence relations.
\<close>

definition bcrypt_ok :: "env \<Rightarrow> bool" where
  "bcrypt_ok e \<longleftrightarrow> (\<forall>salt p. env_bcrypt_compare e p (env_bcrypt_hash e salt p))"

definition collate_ok :: "env \<Rightarrow> bool" where
  "collate_ok e \<longleftrightarrow> equivp (env_collate e)"

section \<open>Reading numbers from the configuration\<close>

definition js_Number :: "env \<Rightarrow> js_value \<Rightarrow> js_number" where
  "js_Number e v = (case v of
       JUndefined \<Rightarrow> NaN
     | JNull \<Rightarrow> Finite 0
     | JString s \<Rightarrow> env_parse_number e s
     | JNumber n \<Rightarrow> n)"

definition getNumberConfig :: "env \<Rightarrow> string \<Rightarrow> int \<Rightarrow> int" where
  "getNumberConfig e key fallback =
     (let raw = env_config e key
      in if raw = JUndefined \<or> raw = JNull then fallback
         else case js_Number e raw of NaN \<Rightarrow> fallback | Finite n \<Rightarrow> n)"

lemma getNumberConfig_fallback:
  "env_config e key = JUndefined \<Longrightarrow> getNumberConfig e key d = d"
  "env_config e key = JNull \<Longrightarrow> getNumberConfig e key d = d"
  "js_Number e (env_config e key) = NaN \<Longrightarrow> getNumberConfig e key d = d"
  by (simp_all add: getNumberConfig_def Let_def)

text \<open>A text variable of the environment, empty when it is unset.\<close>

definition config_string :: "env \<Rightarrow> string \<Rightarrow> string" where
  "config_string e key = (case env_config e key of JString v \<Rightarrow> v | _ \<Rightarrow> [])"

section \<open>Category codes of HTTP statuses\<close>

fun nat_to_string :: "nat \<Rightarrow> string" where
  "nat_to_string n =
     (if n < 10 then [char_of (48 + n)]
      else nat_to_string (n div 10) @ [char_of (48 + n mod 10)])"

declare nat_to_string.simps [simp del]

definition CATEGORY_CODES :: "(nat \<times> string) list" where
  "CATEGORY_CODES =
    [(400, ''BAD_REQUEST''), (401, ''UNAUTHORIZED''), (403, ''FORBIDDEN''),
     (404, ''NOT_FOUND''), (409, ''CONFLICT''), (422, ''UNPROCESSABLE_ENTITY''),
     (423, ''LOCKED''), (429, ''TOO_MANY_REQUESTS''), (500, ''INTERNAL_ERROR''),
     (502, ''BAD_GATEWAY''), (503, ''SERVICE_UNAVAILABLE'')]"

definition categoryCodeFor :: "nat \<Rightarrow> string" where
  "categoryCodeFor st =
     (case map_of CATEGORY_CODES st of Some c \<Rightarrow> c | None \<Rightarrow> ''HTTP_'' @ nat_to_string st)"

end
