(* ===== verification/Auth_State.thy ===== *)
theory Auth_State
  imports Runtime
begin

text \<open>
  The rows of the Auth module's five tables (\<^verbatim>\<open>auth/entities/*.ts\<close>), the events it emits
  (\<^verbatim>\<open>auth/events/*.ts\<close>) and its state: the tables, the events emitted so far, the set of TTL
  keys \<^verbatim>\<open>TokenService\<close> has warned about and the id \<^verbatim>\<open>DefaultUserService\<close> recorded at boot.
  The \<^verbatim>\<open>updated_at\<close> columns, which the ORM writes and no service reads, are left out.
\<close>

section \<open>Entities\<close>

datatype user_status = PENDING | APPROVED | DENIED

record user =
  u_id :: nat
  u_username :: string
  u_email :: string
  u_passwordDigest :: string
  u_isAdmin :: bool
  u_status :: user_status
  u_createdAt :: int

datatype revoked_reason =
    ROTATED | LOGOUT | USER_REVOKED | PASSWORD_CHANGE | PASSWORD_RESET
  | ADMIN_PASSWORD_CHANGE | REPLAY_DETECTED | ADMIN_DENIED

record refresh_token =
  rt_id :: nat
  rt_tokenHash :: string
  rt_userId :: nat
  rt_expiresAt :: int
  rt_issuedAt :: int
  rt_revokedAt :: "int option"
  rt_revokedReason :: "revoked_reason option"
  rt_keepSignedIn :: bool
  rt_sessionUuid :: string
  rt_startedAt :: int

record password_reset_token =
  pr_id :: nat
  pr_tokenHash :: string
  pr_userId :: nat
  pr_expiresAt :: int
  pr_createdAt :: int
  pr_usedAt :: "int option"

datatype request_status = Open | Approved | Denied | Logged | Expired

record authorization_request =
  ar_id :: nat
  ar_uuid :: string
  ar_username :: string
  ar_userId :: "nat option"
  ar_status :: request_status
  ar_pollTokenHash :: string
  ar_requestIp :: string
  ar_requestUserAgent :: string
  ar_approvedByUserId :: "nat option"
  ar_createdAt :: int
  ar_expiresAt :: int
  ar_resolvedAt :: "int option"
  ar_loggedAt :: "int option"
  ar_authorizeFailedAttempts :: int
  ar_authorizeLockedUntil :: "int option"
  ar_keepSignedIn :: bool

record account_edit_lockout =
  al_id :: nat
  al_userId :: nat
  al_failedAttempts :: int
  al_lockedUntil :: "int option"

section \<open>Events\<close>

datatype auth_event =
    UserRegisteredEvent nat string string
  | PasswordRecoveryRequestedEvent nat string string string
  | AuthorizationRequestCreatedEvent string string "nat option"
  | AuthorizationRequestApprovedEvent string nat
  | AuthorizationRequestDeniedEvent string nat
  | AuthorizationRequestLoggedEvent string nat

section \<open>The state of the Auth module\<close>

record auth_state =
  users :: "user table"
  refresh_tokens :: "refresh_token table"
  reset_tokens :: "password_reset_token table"
  auth_requests :: "authorization_request table"
  edit_lockouts :: "account_edit_lockout table"
  events :: "auth_event list"
  warnedTtlKeys :: "string list"
  defaultUserId :: "nat option"

definition init_auth_state :: auth_state where
  "init_auth_state = \<lparr>users = empty_table, refresh_tokens = empty_table,
     reset_tokens = empty_table, auth_requests = empty_table, edit_lockouts = empty_table,
     events = [], warnedTtlKeys = [], defaultUserId = None\<rparr>"

definition emit :: "auth_event \<Rightarrow> auth_state \<Rightarrow> auth_state" where
  "emit ev s = s\<lparr>events := events s @ [ev]\<rparr>"

lemma emit_simps [simp]:
  "users (emit ev s) = users s" "refresh_tokens (emit ev s) = refresh_tokens s"
  "reset_tokens (emit ev s) = reset_tokens s" "auth_requests (emit ev s) = auth_requests s"
  "edit_lockouts (emit ev s) = edit_lockouts s" "events (emit ev s) = events s @ [ev]"
  "warnedTtlKeys (emit ev s) = warnedTtlKeys s" "defaultUserId (emit ev s) = defaultUserId s"
  by (simp_all add: emit_def)

section \<open>Lookups by primary key and by user text\<close>

definition find_user :: "nat \<Rightarrow> auth_state \<Rightarrow> user option" where
  "find_user i s = find_one (\<lambda>u. u_id u = i) (users s)"

definition find_user_by_username :: "env \<Rightarrow> string \<Rightarrow> auth_state \<Rightarrow> user option" where
  "find_user_by_username e n s = find_one (\<lambda>u. env_collate e (u_username u) n) (users s)"

definition find_user_by_email :: "env \<Rightarrow> string \<Rightarrow> auth_state \<Rightarrow> user option" where
  "find_user_by_email e m s = find_one (\<lambda>u. env_collate e (u_email u) m) (users s)"

text \<open>The unique indexes of \<^verbatim>\<open>auth_users\<close> on \<^verbatim>\<open>username\<close> and \<^verbatim>\<open>email\<close>.\<close>

definition user_clash :: "env \<Rightarrow> user \<Rightarrow> user \<Rightarrow> bool" where
  "user_clash e u r \<longleftrightarrow> u_id r \<noteq> u_id u \<and>
     (env_collate e (u_username r) (u_username u) \<or> env_collate e (u_email r) (u_email u))"

text \<open>\<^verbatim>\<open>userRepository.save\<close> of a loaded row.\<close>

definition save_user :: "env \<Rightarrow> user \<Rightarrow> auth_state \<Rightarrow> (unit, auth_state) outcome" where
  "save_user e u s =
     (if exists_where (user_clash e u) (users s) then (Inl DupEntryExn, s)
      else (Inr (), s\<lparr>users := update_where (\<lambda>r. u_id r = u_id u) (\<lambda>_. u) (users s)\<rparr>))"

text \<open>\<^verbatim>\<open>userRepository.save\<close> of a new row.\<close>

definition insert_user :: "env \<Rightarrow> (nat \<Rightarrow> user) \<Rightarrow> auth_state \<Rightarrow> (user, auth_state) outcome" where
  "insert_user e mk s =
     (let u = mk (next_id (users s))
      in if exists_where (user_clash e u) (users s) then (Inl DupEntryExn, s)
         else (Inr u, s\<lparr>users := insert_row mk (users s)\<rparr>))"

definition users_ok :: "env \<Rightarrow> user table \<Rightarrow> bool" where
  "users_ok e t \<longleftrightarrow> distinct (map u_id (rows t)) \<and> (\<forall>u \<in> set (rows t). u_id u < next_id t)
     \<and> (\<forall>u \<in> set (rows t). \<forall>v \<in> set (rows t). \<not> user_clash e u v)"

lemma find_user_Some: "find_user i s = Some u \<Longrightarrow> u \<in> set (rows (users s)) \<and> u_id u = i"
  using find_one_Some by (fastforce simp: find_user_def)

lemma find_user_in:
  assumes "distinct (map u_id (rows (users s)))" and "u \<in> set (rows (users s))"
  shows "find_user (u_id u) s = Some u"
  unfolding find_user_def using assms by (intro find_one_unique) (auto dest: distinct_map_inj)

lemma find_user_cong: "users s = users s' \<Longrightarrow> find_user i s = find_user i s'"
  by (simp add: find_user_def)

end
