(* ===== verification/Demo.thy ===== *)
theory Demo
  imports Auth_State
begin

text \<open>
  A small concrete platform and database, on which the witnesses of the development evaluate:
  a tagging function for the hash and for bcrypt, an ASCII case-insensitive collation, an empty
  process environment, and one approved user.
\<close>

definition demo_env :: env where
  "demo_env = \<lparr>env_hashToken = (\<lambda>x. ''h:'' @ x), env_bcrypt_hash = (\<lambda>salt p. ''b:'' @ p),
     env_bcrypt_compare = (\<lambda>p d. d = ''b:'' @ p), env_jwt_sign = (\<lambda>p. ''jwt:'' @ pl_sid p),
     env_collate = (\<lambda>a b. js_lower a = js_lower b), env_config = (\<lambda>_. JUndefined),
     env_parse_number = (\<lambda>_. NaN), env_parse_date = (\<lambda>_. None)\<rparr>"

definition demo_uuid :: string where
  "demo_uuid = ''0b5d6f1e-0000-4000-8000-0123456789ab''"

definition demo_ctx :: ctx where
  "demo_ctx = \<lparr>c_now = 1000, c_uuid = demo_uuid, c_token = ''t1'', c_salt = ''s''\<rparr>"

definition demo_ctx2 :: ctx where
  "demo_ctx2 = \<lparr>c_now = 2000, c_uuid = ''0b5d6f1e-0000-4000-8000-0123456789ac'',
     c_token = ''t2'', c_salt = ''s''\<rparr>"

definition demo_user :: user where
  "demo_user = \<lparr>u_id = 1, u_username = ''demo'', u_email = ''demo@x'', u_passwordDigest = ''b:secret'',
     u_isAdmin = False, u_status = APPROVED, u_createdAt = 0\<rparr>"

definition demo_state :: auth_state where
  "demo_state = init_auth_state\<lparr>users := \<lparr>rows = [demo_user], next_id = 2\<rparr>\<rparr>"

definition is_Inr :: "'a + 'b \<Rightarrow> bool" where
  "is_Inr x = (case x of Inr _ \<Rightarrow> True | Inl _ \<Rightarrow> False)"

lemma is_Inr_outcome: "is_Inr (fst x) \<Longrightarrow> \<exists>r. x = (Inr r, snd x)"
  by (cases x; cases "fst x") (auto simp: is_Inr_def)

lemma not_Inr_outcome: "\<not> is_Inr (fst x) \<Longrightarrow> \<exists>e. x = (Inl e, snd x)"
  by (cases x; cases "fst x") (auto simp: is_Inr_def)

lemma demo_bcrypt_ok: "bcrypt_ok demo_env"
  by (simp add: bcrypt_ok_def demo_env_def)

lemma demo_collate_ok: "collate_ok demo_env"
  by (auto simp: collate_ok_def demo_env_def intro!: equivpI reflpI sympI transpI)

end
