(* ===== verification/Token_Service.thy ===== *)
theory Token_Service
  imports Demo
begin

text \<open>
  \<^verbatim>\<open>auth/token.service.ts\<close>: minting of login sessions, the passive lookup of an active token
  and the revocations every other service goes through, with the invariant of the
  \<^verbatim>\<open>auth_refresh_tokens\<close> table.
\<close>

section \<open>Operations\<close>

definition DEFAULT_REFRESH_TOKEN_TTL_MS :: int where
  "DEFAULT_REFRESH_TOKEN_TTL_MS = 7 * 24 * 60 * 60 * 1000"

definition DEFAULT_PERSISTENT_REFRESH_TOKEN_TTL_MS :: int where
  "DEFAULT_PERSISTENT_REFRESH_TOKEN_TTL_MS = 30 * 24 * 60 * 60 * 1000"

record session_identity =
  si_sessionUuid :: string
  si_startedAt :: int

record auth_result =
  res_user :: user
  res_accessToken :: string
  res_refreshToken :: string
  res_refreshTokenExpiresAt :: int

definition resolveTtl :: "env \<Rightarrow> string \<Rightarrow> int \<Rightarrow> auth_state \<Rightarrow> int \<times> auth_state" where
  "resolveTtl e key fallback s =
     (let ttl = getNumberConfig e key fallback
      in if ttl > 0 then (ttl, s)
         else (fallback,
           if key \<in> set (warnedTtlKeys s) then s
           else s\<lparr>warnedTtlKeys := warnedTtlKeys s @ [key]\<rparr>))"

definition refreshTokenTtlMs :: "env \<Rightarrow> bool \<Rightarrow> auth_state \<Rightarrow> int \<times> auth_state" where
  "refreshTokenTtlMs e keepSignedIn s =
     (if keepSignedIn
      then resolveTtl e ''KERGHAN_PERSISTENT_REFRESH_TOKEN_TTL_MS''
             DEFAULT_PERSISTENT_REFRESH_TOKEN_TTL_MS s
      else resolveTtl e ''KERGHAN_REFRESH_TOKEN_TTL_MS'' DEFAULT_REFRESH_TOKEN_TTL_MS s)"

definition issueTokens ::
  "env \<Rightarrow> ctx \<Rightarrow> user \<Rightarrow> bool \<Rightarrow> session_identity option \<Rightarrow> auth_state
     \<Rightarrow> (auth_result, auth_state) outcome" where
  "issueTokens e c u keepSignedIn session s =
     (let sessionUuid = (case session of Some si \<Rightarrow> si_sessionUuid si | None \<Rightarrow> c_uuid c);
          accessToken = env_jwt_sign e \<lparr>pl_sub = u_id u, pl_sid = sessionUuid,
            pl_username = u_username u, pl_isAdmin = u_isAdmin u\<rparr>;
          refreshToken = c_token c;
          (ttl, s1) = refreshTokenTtlMs e keepSignedIn s;
          refreshTokenExpiresAt = c_now c + ttl;
          pruned = delete_where (\<lambda>r. rt_userId r = u_id u \<and> rt_expiresAt r < c_now c)
            (refresh_tokens s1);
          tokenHash = env_hashToken e refreshToken
      in if exists_where (\<lambda>r. rt_tokenHash r = tokenHash) pruned
         then (Inl DupEntryExn, s1\<lparr>refresh_tokens := pruned\<rparr>)
         else (Inr \<lparr>res_user = u, res_accessToken = accessToken, res_refreshToken = refreshToken,
                  res_refreshTokenExpiresAt = refreshTokenExpiresAt\<rparr>,
               s1\<lparr>refresh_tokens := insert_row (\<lambda>i. \<lparr>rt_id = i, rt_tokenHash = tokenHash,
                  rt_userId = u_id u, rt_expiresAt = refreshTokenExpiresAt,
                  rt_issuedAt = c_now c, rt_revokedAt = None, rt_revokedReason = None,
                  rt_keepSignedIn = keepSignedIn, rt_sessionUuid = sessionUuid,
                  rt_startedAt = (case session of Some si \<Rightarrow> si_startedAt si | None \<Rightarrow> c_now c)\<rparr>)
                pruned\<rparr>))"

definition token_active :: "int \<Rightarrow> refresh_token \<Rightarrow> bool" where
  "token_active now r \<longleftrightarrow> rt_revokedAt r = None \<and> rt_expiresAt r > now"

definition findActiveToken :: "env \<Rightarrow> int \<Rightarrow> string option \<Rightarrow> auth_state \<Rightarrow> refresh_token option" where
  "findActiveToken e now refreshToken s =
     (let tokenRow = (if truthy refreshToken
            then find_one (\<lambda>r. rt_tokenHash r = env_hashToken e (the refreshToken)) (refresh_tokens s)
            else None)
      in case tokenRow of
           Some r \<Rightarrow> if token_active now r then Some r else None
         | None \<Rightarrow> None)"

text \<open>
  The \<^verbatim>\<open>UPDATE\<close> every revocation issues: the matching rows that are still unrevoked get a
  revocation time and a reason.
\<close>

definition revoke_matching ::
  "int \<Rightarrow> revoked_reason \<Rightarrow> (refresh_token \<Rightarrow> bool) \<Rightarrow> auth_state \<Rightarrow> auth_state" where
  "revoke_matching now reason p s = s\<lparr>refresh_tokens :=
     update_where (\<lambda>r. p r \<and> rt_revokedAt r = None)
       (\<lambda>r. r\<lparr>rt_revokedAt := Some now, rt_revokedReason := Some reason\<rparr>) (refresh_tokens s)\<rparr>"

definition revoke_affected :: "(refresh_token \<Rightarrow> bool) \<Rightarrow> auth_state \<Rightarrow> nat" where
  "revoke_affected p s = count_where (\<lambda>r. p r \<and> rt_revokedAt r = None) (refresh_tokens s)"

definition revokeUserTokens ::
  "env \<Rightarrow> int \<Rightarrow> nat \<Rightarrow> revoked_reason \<Rightarrow> string option \<Rightarrow> auth_state \<Rightarrow> auth_state" where
  "revokeUserTokens e now userId reason keepRefreshToken s =
     (if truthy keepRefreshToken
      then revoke_matching now reason
             (\<lambda>r. rt_userId r = userId \<and> rt_tokenHash r \<noteq> env_hashToken e (the keepRefreshToken)) s
      else revoke_matching now reason (\<lambda>r. rt_userId r = userId) s)"

definition revokeToken :: "int \<Rightarrow> nat \<Rightarrow> revoked_reason \<Rightarrow> auth_state \<Rightarrow> auth_state" where
  "revokeToken now i reason s = revoke_matching now reason (\<lambda>r. rt_id r = i) s"

section \<open>The invariant of the refresh-token table\<close>

definition unrevoked :: "refresh_token \<Rightarrow> bool" where
  "unrevoked r \<longleftrightarrow> rt_revokedAt r = None"

text \<open>
  Ids and hashes are unique, a revocation time comes with a reason, and a session (a UUID) has
  at most one row that is not revoked.
\<close>

definition one_live_row_per_session :: "refresh_token table \<Rightarrow> bool" where
  "one_live_row_per_session t \<longleftrightarrow> distinct (map rt_sessionUuid (filter unrevoked (rows t)))"

definition tokens_ok :: "refresh_token table \<Rightarrow> bool" where
  "tokens_ok t \<longleftrightarrow> distinct (map rt_id (rows t)) \<and> (\<forall>r \<in> set (rows t). rt_id r < next_id t)
     \<and> distinct (map rt_tokenHash (rows t))
     \<and> (\<forall>r \<in> set (rows t). rt_revokedAt r = None \<longleftrightarrow> rt_revokedReason r = None)"

lemma revoke_matching_frame [simp]:
  "users (revoke_matching now why p s) = users s"
  "reset_tokens (revoke_matching now why p s) = reset_tokens s"
  "auth_requests (revoke_matching now why p s) = auth_requests s"
  "edit_lockouts (revoke_matching now why p s) = edit_lockouts s"
  "events (revoke_matching now why p s) = events s"
  "defaultUserId (revoke_matching now why p s) = defaultUserId s"
  by (simp_all add: revoke_matching_def)

lemma revokeUserTokens_frame [simp]:
  "users (revokeUserTokens e now i why k s) = users s"
  "reset_tokens (revokeUserTokens e now i why k s) = reset_tokens s"
  "auth_requests (revokeUserTokens e now i why k s) = auth_requests s"
  "edit_lockouts (revokeUserTokens e now i why k s) = edit_lockouts s"
  "events (revokeUserTokens e now i why k s) = events s"
  "defaultUserId (revokeUserTokens e now i why k s) = defaultUserId s"
  by (simp_all add: revokeUserTokens_def)

lemma rows_revoke_matching [table_simps]:
  "rows (refresh_tokens (revoke_matching now why p s)) =
     map (\<lambda>r. if p r \<and> rt_revokedAt r = None
              then r\<lparr>rt_revokedAt := Some now, rt_revokedReason := Some why\<rparr> else r)
       (rows (refresh_tokens s))"
  by (simp add: revoke_matching_def rows_update_where)

lemma next_id_revoke_matching [table_simps]:
  "next_id (refresh_tokens (revoke_matching now why p s)) = next_id (refresh_tokens s)"
  by (simp add: revoke_matching_def next_id_table_ops)

text \<open>A revocation keeps every row but for its revocation columns.\<close>

lemma revoke_matching_keeps:
  assumes "\<And>r t x. k (r\<lparr>rt_revokedAt := t, rt_revokedReason := x\<rparr>) = k r"
  shows "map k (rows (refresh_tokens (revoke_matching now why p s))) = map k (rows (refresh_tokens s))"
  unfolding rows_revoke_matching using assms by (intro map_update_keep) blast

lemma unrevoked_revoke_matching:
  "filter unrevoked (rows (refresh_tokens (revoke_matching now why p s))) =
   filter (\<lambda>r. unrevoked r \<and> \<not> p r) (rows (refresh_tokens s))"
proof -
  have "filter unrevoked (rows (refresh_tokens (revoke_matching now why p s))) =
        filter (\<lambda>r. unrevoked r \<and> \<not> (p r \<and> rt_revokedAt r = None)) (rows (refresh_tokens s))"
    unfolding rows_revoke_matching by (rule filter_update_out) (simp add: unrevoked_def)
  also have "\<dots> = filter (\<lambda>r. unrevoked r \<and> \<not> p r) (rows (refresh_tokens s))"
    by (rule filter_cong) (auto simp: unrevoked_def)
  finally show ?thesis .
qed

lemma tokens_ok_revoke_matching:
  assumes "tokens_ok (refresh_tokens s)"
  shows "tokens_ok (refresh_tokens (revoke_matching now why p s))"
proof -
  have ids: "map rt_id (rows (refresh_tokens (revoke_matching now why p s))) =
      map rt_id (rows (refresh_tokens s))"
    by (rule revoke_matching_keeps) simp
  have hashes: "map rt_tokenHash (rows (refresh_tokens (revoke_matching now why p s))) =
      map rt_tokenHash (rows (refresh_tokens s))"
    by (rule revoke_matching_keeps) simp
  show ?thesis
    using assms unfolding tokens_ok_def ids hashes next_id_revoke_matching
    by (auto simp: rows_revoke_matching)
qed

lemma one_live_revoke_matching:
  assumes "one_live_row_per_session (refresh_tokens s)"
  shows "one_live_row_per_session (refresh_tokens (revoke_matching now why p s))"
  using assms unfolding one_live_row_per_session_def unrevoked_revoke_matching
  by (rule distinct_map_filter_weaken) auto

lemma tokens_ok_delete: "tokens_ok t \<Longrightarrow> tokens_ok (delete_where p t)"
  by (auto simp: tokens_ok_def table_simps distinct_map_filter)

lemma one_live_delete:
  assumes "one_live_row_per_session t"
  shows "one_live_row_per_session (delete_where p t)"
proof -
  have "filter unrevoked (rows (delete_where p t)) = filter (\<lambda>r. unrevoked r \<and> \<not> p r) (rows t)"
    by (simp add: table_simps conj_commute)
  with assms show ?thesis
    unfolding one_live_row_per_session_def by (metis (mono_tags) distinct_map_filter_weaken)
qed

lemma findActiveToken_Some:
  assumes "findActiveToken e now tok s = Some r"
  shows "r \<in> set (rows (refresh_tokens s)) \<and> token_active now r \<and>
         (\<exists>x. tok = Some x \<and> x \<noteq> [] \<and> rt_tokenHash r = env_hashToken e x)"
  using assms find_one_Some
  by (cases tok) (fastforce simp: findActiveToken_def Let_def split: option.splits if_splits)+

section \<open>What a mint does\<close>

lemma resolveTtl_frame [simp]:
  "users (snd (resolveTtl e k d s)) = users s"
  "refresh_tokens (snd (resolveTtl e k d s)) = refresh_tokens s"
  "reset_tokens (snd (resolveTtl e k d s)) = reset_tokens s"
  "auth_requests (snd (resolveTtl e k d s)) = auth_requests s"
  "edit_lockouts (snd (resolveTtl e k d s)) = edit_lockouts s"
  "events (snd (resolveTtl e k d s)) = events s"
  "defaultUserId (snd (resolveTtl e k d s)) = defaultUserId s"
  by (simp_all add: resolveTtl_def Let_def)

lemma refreshTokenTtlMs_frame [simp]:
  "users (snd (refreshTokenTtlMs e k s)) = users s"
  "refresh_tokens (snd (refreshTokenTtlMs e k s)) = refresh_tokens s"
  "reset_tokens (snd (refreshTokenTtlMs e k s)) = reset_tokens s"
  "auth_requests (snd (refreshTokenTtlMs e k s)) = auth_requests s"
  "edit_lockouts (snd (refreshTokenTtlMs e k s)) = edit_lockouts s"
  "events (snd (refreshTokenTtlMs e k s)) = events s"
  "defaultUserId (snd (refreshTokenTtlMs e k s)) = defaultUserId s"
  by (simp_all add: refreshTokenTtlMs_def)

lemma refreshTokenTtlMs_pos: "0 < fst (refreshTokenTtlMs e k s)"
  by (simp add: refreshTokenTtlMs_def resolveTtl_def Let_def DEFAULT_REFRESH_TOKEN_TTL_MS_def
      DEFAULT_PERSISTENT_REFRESH_TOKEN_TTL_MS_def)

text \<open>The rows a mint keeps, the row it adds and the session the row belongs to.\<close>

definition pruned_tokens :: "ctx \<Rightarrow> user \<Rightarrow> auth_state \<Rightarrow> refresh_token table" where
  "pruned_tokens c u s =
     delete_where (\<lambda>r. rt_userId r = u_id u \<and> rt_expiresAt r < c_now c) (refresh_tokens s)"

definition minted_session :: "ctx \<Rightarrow> session_identity option \<Rightarrow> string" where
  "minted_session c session = (case session of Some si \<Rightarrow> si_sessionUuid si | None \<Rightarrow> c_uuid c)"

definition minted_row ::
  "env \<Rightarrow> ctx \<Rightarrow> user \<Rightarrow> bool \<Rightarrow> session_identity option \<Rightarrow> auth_state \<Rightarrow> nat \<Rightarrow> refresh_token" where
  "minted_row e c u k session s i = \<lparr>rt_id = i, rt_tokenHash = env_hashToken e (c_token c),
     rt_userId = u_id u, rt_expiresAt = c_now c + fst (refreshTokenTtlMs e k s),
     rt_issuedAt = c_now c, rt_revokedAt = None, rt_revokedReason = None,
     rt_keepSignedIn = k, rt_sessionUuid = minted_session c session,
     rt_startedAt = (case session of Some si \<Rightarrow> si_startedAt si | None \<Rightarrow> c_now c)\<rparr>"

lemma issueTokens_eq:
  "issueTokens e c u k session s =
     (if exists_where (\<lambda>r. rt_tokenHash r = env_hashToken e (c_token c)) (pruned_tokens c u s)
      then (Inl DupEntryExn, (snd (refreshTokenTtlMs e k s))\<lparr>refresh_tokens := pruned_tokens c u s\<rparr>)
      else (Inr \<lparr>res_user = u,
              res_accessToken = env_jwt_sign e \<lparr>pl_sub = u_id u, pl_sid = minted_session c session,
                pl_username = u_username u, pl_isAdmin = u_isAdmin u\<rparr>,
              res_refreshToken = c_token c,
              res_refreshTokenExpiresAt = c_now c + fst (refreshTokenTtlMs e k s)\<rparr>,
            (snd (refreshTokenTtlMs e k s))\<lparr>refresh_tokens :=
              insert_row (minted_row e c u k session s) (pruned_tokens c u s)\<rparr>))"
  by (simp add: issueTokens_def Let_def pruned_tokens_def minted_row_def [abs_def]
      minted_session_def split_beta)

lemma issueTokens_frame:
  assumes "issueTokens e c u k session s = (res, s')"
  shows "users s' = users s" and "reset_tokens s' = reset_tokens s"
    and "auth_requests s' = auth_requests s" and "edit_lockouts s' = edit_lockouts s"
    and "events s' = events s" and "defaultUserId s' = defaultUserId s"
  using assms by (auto simp: issueTokens_eq split: if_splits)

lemma issueTokens_Inr:
  assumes "issueTokens e c u k session s = (Inr res, s')"
  shows "refresh_tokens s' = insert_row (minted_row e c u k session s) (pruned_tokens c u s)"
    and "\<And>r. r \<in> set (rows (pruned_tokens c u s)) \<Longrightarrow> rt_tokenHash r \<noteq> env_hashToken e (c_token c)"
    and "res_user res = u" and "res_refreshToken res = c_token c"
    and "res_refreshTokenExpiresAt res = c_now c + fst (refreshTokenTtlMs e k s)"
    and "res_accessToken res = env_jwt_sign e \<lparr>pl_sub = u_id u, pl_sid = minted_session c session,
           pl_username = u_username u, pl_isAdmin = u_isAdmin u\<rparr>"
  using assms by (auto simp: issueTokens_eq exists_where_iff split: if_splits)

lemma issueTokens_tokens:
  assumes "issueTokens e c u k session s = (res, s')"
  shows "refresh_tokens s' = pruned_tokens c u s \<or>
         refresh_tokens s' = insert_row (minted_row e c u k session s) (pruned_tokens c u s)
         \<and> (\<forall>r \<in> set (rows (pruned_tokens c u s)). rt_tokenHash r \<noteq> env_hashToken e (c_token c))"
  using assms by (auto simp: issueTokens_eq exists_where_iff split: if_splits)

lemma minted_row_simps [simp]:
  "rt_id (minted_row e c u k si s i) = i"
  "rt_tokenHash (minted_row e c u k si s i) = env_hashToken e (c_token c)"
  "rt_userId (minted_row e c u k si s i) = u_id u"
  "rt_revokedAt (minted_row e c u k si s i) = None"
  "rt_revokedReason (minted_row e c u k si s i) = None"
  "rt_sessionUuid (minted_row e c u k si s i) = minted_session c si"
  "rt_keepSignedIn (minted_row e c u k si s i) = k"
  "rt_expiresAt (minted_row e c u k si s i) = c_now c + fst (refreshTokenTtlMs e k s)"
  "rt_startedAt (minted_row e c u k si s i) =
     (case si of Some x \<Rightarrow> si_startedAt x | None \<Rightarrow> c_now c)"
  by (simp_all add: minted_row_def)

lemma tokens_ok_insert:
  assumes "tokens_ok t" and "\<forall>r \<in> set (rows t). rt_tokenHash r \<noteq> env_hashToken e (c_token c)"
  shows "tokens_ok (insert_row (minted_row e c u k si s) t)"
  using assms by (fastforce simp: tokens_ok_def table_simps)

lemma tokens_ok_issueTokens:
  assumes "tokens_ok (refresh_tokens s)" and "issueTokens e c u k si s = (res, s')"
  shows "tokens_ok (refresh_tokens s')"
proof -
  from assms(1) have "tokens_ok (pruned_tokens c u s)"
    unfolding pruned_tokens_def by (rule tokens_ok_delete)
  with issueTokens_tokens [OF assms(2)] show ?thesis
    by (auto intro: tokens_ok_insert)
qed

lemma unrevoked_insert_minted:
  "filter unrevoked (rows (insert_row (minted_row e c u k si s) t)) =
   filter unrevoked (rows t) @ [minted_row e c u k si s (next_id t)]"
  by (simp add: table_simps unrevoked_def)

lemma minted_token_found:
  assumes "issueTokens e c u k session s = (Inr res, s')" and "c_token c \<noteq> []"
    and "t < res_refreshTokenExpiresAt res"
  shows "c_now c < res_refreshTokenExpiresAt res \<and>
         (\<exists>r. findActiveToken e t (Some (res_refreshToken res)) s' = Some r \<and>
              rt_userId r = u_id u \<and> rt_keepSignedIn r = k \<and>
              rt_sessionUuid r = minted_session c session)"
proof -
  note m = issueTokens_Inr [OF assms(1)]
  let ?r = "minted_row e c u k session s (next_id (pruned_tokens c u s))"
  have "find_one (\<lambda>r. rt_tokenHash r = env_hashToken e (c_token c)) (refresh_tokens s') = Some ?r"
    unfolding m(1) by (rule find_one_unique) (use m(2) in \<open>auto simp: table_simps\<close>)
  moreover have "token_active t ?r"
    using assms(3) by (simp add: token_active_def m)
  ultimately have "findActiveToken e t (Some (c_token c)) s' = Some ?r"
    using assms(2) by (simp add: findActiveToken_def)
  with refreshTokenTtlMs_pos [of e k s] m(4,5) show ?thesis by simp
qed

text \<open>
  C2. A minted session is found again: until the expiry it was minted with (which lies in the
  future whatever the configured lifetime is), the refresh token handed to the client
  identifies an active row of the user it was minted for, with the requested persistence and
  session identity.
\<close>

theorem issueTokens_findActiveToken:
  assumes "issueTokens e c u k session s = (Inr res, s')" and "c_token c \<noteq> []"
    and "t < res_refreshTokenExpiresAt res"
  shows "c_now c < res_refreshTokenExpiresAt res \<and>
         (\<exists>r. findActiveToken e t (Some (res_refreshToken res)) s' = Some r \<and>
              rt_userId r = u_id u \<and> rt_keepSignedIn r = k \<and>
              rt_sessionUuid r = minted_session c session)"
  using assms by (rule minted_token_found)

theorem issueTokens_findActiveToken_witness:
  "\<exists>res s'. issueTokens demo_env demo_ctx demo_user False None demo_state = (Inr res, s') \<and>
     c_now demo_ctx < res_refreshTokenExpiresAt res \<and>
     (\<exists>r. findActiveToken demo_env (c_now demo_ctx) (Some (res_refreshToken res)) s' = Some r \<and>
          rt_userId r = u_id demo_user \<and> rt_keepSignedIn r = False \<and>
          rt_sessionUuid r = minted_session demo_ctx None)"
proof -
  have "is_Inr (fst (issueTokens demo_env demo_ctx demo_user False None demo_state))"
    by code_simp
  then obtain res s' where h: "issueTokens demo_env demo_ctx demo_user False None demo_state = (Inr res, s')"
    using is_Inr_outcome by blast
  have "c_now demo_ctx < res_refreshTokenExpiresAt res"
    using issueTokens_Inr(5) [OF h] refreshTokenTtlMs_pos [of demo_env False demo_state] by simp
  moreover have "c_token demo_ctx \<noteq> []" by (simp add: demo_ctx_def)
  ultimately show ?thesis
    using issueTokens_findActiveToken [OF h, of "c_now demo_ctx"] h by blast
qed

end
