(* ===== verification/Session_Lookup.thy ===== *)
theory Session_Lookup
  imports Runtime
begin

text \<open>
  The session gate of \<^verbatim>\<open>core/\<close>: the interface \<^verbatim>\<open>core/session-lookup.ts\<close> declares, the global
  guards built on it (\<^verbatim>\<open>core/jwt.guard.ts\<close>, \<^verbatim>\<open>core/admin.guard.ts\<close>) and the secret-key list
  (\<^verbatim>\<open>core/secret-keys.ts\<close>).  The gate knows the Auth module only through the interface, so it
  is verified here against the contract alone; \<^verbatim>\<open>Session_Service\<close> discharges the contract.

  The JWT library is a parameter: \<open>verify secret token\<close> is the payload, or \<^term>\<open>None\<close> when it
  throws; the secret \<^term>\<open>None\<close> stands for the module's own (current) secret.
\<close>

section \<open>UUIDs\<close>

definition is_hex :: "char \<Rightarrow> bool" where
  "is_hex c = (let n = (of_char c :: nat)
     in (48 \<le> n \<and> n \<le> 57) \<or> (65 \<le> n \<and> n \<le> 70) \<or> (97 \<le> n \<and> n \<le> 102))"

text \<open>\<^verbatim>\<open>UUID_PATTERN\<close>: five groups of hexadecimal digits, of 8, 4, 4, 4 and 12 digits.\<close>

fun hex_groups :: "nat list \<Rightarrow> string \<Rightarrow> bool" where
  "hex_groups [] s = (s = [])"
| "hex_groups [n] s = (length s = n \<and> list_all is_hex s)"
| "hex_groups (n # ns) s = (length s > n \<and> list_all is_hex (take n s) \<and> s ! n = CHR ''-''
     \<and> hex_groups ns (drop (Suc n) s))"

definition is_uuid :: "string \<Rightarrow> bool" where
  "is_uuid s = hex_groups [8, 4, 4, 4, 12] s"

section \<open>Secret keys\<close>

record secret_keys =
  sk_current :: string
  sk_previous :: "string list"
  sk_all :: "string list"

text \<open>The distinct, trimmed, non-blank entries other than the current key, first ones kept.\<close>

definition parsePreviousKeys :: "string \<Rightarrow> string \<Rightarrow> string list" where
  "parsePreviousKeys raw current =
     rev (remdups (rev (filter (\<lambda>k. k \<noteq> [] \<and> k \<noteq> current)
       (map js_trim (js_split (CHR '','') raw)))))"

definition buildSecretKeys :: "env \<Rightarrow> secret_keys" where
  "buildSecretKeys e =
     (let current = config_string e ''KERGHAN_SECRET_KEY'';
          previous = parsePreviousKeys (config_string e ''KERGHAN_PREVIOUS_SECRET_KEYS'') current
      in \<lparr>sk_current = current, sk_previous = previous, sk_all = current # previous\<rparr>)"

lemma remdups_set_first:
  "set (rev (remdups (rev xs))) = set xs" "distinct (rev (remdups (rev xs)))"
  by simp_all

section \<open>The interface\<close>

record session_user =
  su_id :: nat
  su_username :: string
  su_isAdmin :: bool

section \<open>JwtGuard\<close>

datatype claim = ClaimAbsent | ClaimString string | ClaimInteger int | ClaimOther

record verified_payload =
  vp_sub :: claim
  vp_sid :: claim

definition INVALID_TOKEN_MESSAGE :: string where
  "INVALID_TOKEN_MESSAGE = ''Invalid or expired access token''"

definition extractToken :: "string option \<Rightarrow> exn + string" where
  "extractToken cookie =
     (if truthy cookie then Inr (the cookie) else Inl (Unauthorized ''Missing access token''))"

fun verifyWithPreviousKeys ::
  "(string option \<Rightarrow> string \<Rightarrow> verified_payload option) \<Rightarrow> string list \<Rightarrow> string
     \<Rightarrow> verified_payload option" where
  "verifyWithPreviousKeys vrf [] token = None"
| "verifyWithPreviousKeys vrf (secret # rest) token =
     (case vrf (Some secret) token of
        Some p \<Rightarrow> Some p
      | None \<Rightarrow> verifyWithPreviousKeys vrf rest token)"

definition verify ::
  "(string option \<Rightarrow> string \<Rightarrow> verified_payload option) \<Rightarrow> string list \<Rightarrow> string
     \<Rightarrow> exn + verified_payload" where
  "verify vrf previousKeys token =
     (case (case vrf None token of
              Some p \<Rightarrow> Some p
            | None \<Rightarrow> verifyWithPreviousKeys vrf previousKeys token) of
        None \<Rightarrow> Inl (Unauthorized INVALID_TOKEN_MESSAGE)
      | Some p \<Rightarrow> Inr p)"

definition validateClaims :: "verified_payload \<Rightarrow> exn + (int \<times> string)" where
  "validateClaims p =
     (case (vp_sid p, vp_sub p) of
        (ClaimString sid, ClaimInteger sub) \<Rightarrow>
          if is_uuid sid then Inr (sub, sid) else Inl (Unauthorized INVALID_TOKEN_MESSAGE)
      | _ \<Rightarrow> Inl (Unauthorized INVALID_TOKEN_MESSAGE))"

text \<open>
  \<^verbatim>\<open>JwtGuard#canActivate\<close>: \<open>Inr None\<close> lets a public route through, \<open>Inr (Some user)\<close> sets
  \<^verbatim>\<open>request.user\<close>.
\<close>

definition jwt_canActivate ::
  "(string option \<Rightarrow> string \<Rightarrow> verified_payload option) \<Rightarrow> string list
     \<Rightarrow> (string \<Rightarrow> session_user option) \<Rightarrow> bool \<Rightarrow> string option
     \<Rightarrow> exn + access_token_payload option" where
  "jwt_canActivate vrf previousKeys findActiveSessionUser isPublic cookie =
     (if isPublic then Inr None
      else case extractToken cookie of
        Inl x \<Rightarrow> Inl x
      | Inr token \<Rightarrow>
          (case verify vrf previousKeys token of
             Inl x \<Rightarrow> Inl x
           | Inr payload \<Rightarrow>
               (case validateClaims payload of
                  Inl x \<Rightarrow> Inl x
                | Inr (sub, sid) \<Rightarrow>
                    (case findActiveSessionUser sid of
                       None \<Rightarrow> Inl (Unauthorized INVALID_TOKEN_MESSAGE)
                     | Some u \<Rightarrow>
                         if int (su_id u) \<noteq> sub then Inl (Unauthorized INVALID_TOKEN_MESSAGE)
                         else Inr (Some \<lparr>pl_sub = su_id u, pl_sid = sid,
                                pl_username = su_username u, pl_isAdmin = su_isAdmin u\<rparr>)))))"

section \<open>AdminGuard\<close>

definition admin_canActivate :: "bool \<Rightarrow> access_token_payload option \<Rightarrow> exn + bool" where
  "admin_canActivate isAdminOnly user =
     (if \<not> isAdminOnly then Inr True
      else case user of
        Some p \<Rightarrow> if pl_isAdmin p then Inr True else Inl (Forbidden ''Admin access required'')
      | None \<Rightarrow> Inl (Forbidden ''Admin access required''))"

section \<open>The gate against the contract\<close>

lemma verifyWithPreviousKeys_Some:
  "verifyWithPreviousKeys vrf ks token = Some p \<Longrightarrow> \<exists>k \<in> set ks. vrf (Some k) token = Some p"
  by (induction ks) (auto split: option.splits)

lemma verify_Inr:
  assumes "verify vrf ks token = Inr p"
  shows "vrf None token = Some p \<or> (\<exists>k \<in> set ks. vrf (Some k) token = Some p)"
  using assms verifyWithPreviousKeys_Some
  by (fastforce simp: verify_def split: option.splits)

lemma jwt_canActivate_Some:
  assumes "jwt_canActivate vrf ks lookup isPublic cookie = Inr (Some p)"
  shows "\<not> isPublic \<and> (\<exists>token payload. cookie = Some token \<and> verify vrf ks token = Inr payload
           \<and> vp_sub payload = ClaimInteger (int (pl_sub p)) \<and> vp_sid payload = ClaimString (pl_sid p))
         \<and> (\<exists>u. lookup (pl_sid p) = Some u \<and> su_id u = pl_sub p \<and> su_username u = pl_username p
                \<and> su_isAdmin u = pl_isAdmin p)"
  using assms
  by (auto simp: jwt_canActivate_def extractToken_def validateClaims_def truthy_def
      split: if_splits sum.splits option.splits claim.splits)

text \<open>
  The law a \<^verbatim>\<open>SessionLookup\<close> promises: it answers exactly the user of an active session, and
  that user is approved.
\<close>

locale session_lookup =
  fixes lookup :: "int \<Rightarrow> string \<Rightarrow> 's \<Rightarrow> session_user option"
    and active :: "int \<Rightarrow> string \<Rightarrow> nat \<Rightarrow> 's \<Rightarrow> bool"
    and approved :: "session_user \<Rightarrow> 's \<Rightarrow> bool"
  assumes lookup_sound:
      "lookup now sid s = Some u \<Longrightarrow> active now sid (su_id u) s \<and> approved u s"
    and lookup_complete:
      "lookup now sid s = None \<Longrightarrow> approved u s \<Longrightarrow> \<not> active now sid (su_id u) s"
begin

lemma gate_sound:
  assumes "jwt_canActivate vrf ks (\<lambda>sid. lookup now sid s) isPublic cookie = Inr (Some p)"
  shows "active now (pl_sid p) (pl_sub p) s \<and>
         approved \<lparr>su_id = pl_sub p, su_username = pl_username p, su_isAdmin = pl_isAdmin p\<rparr> s"
proof -
  from jwt_canActivate_Some [OF assms] obtain u where
    "lookup now (pl_sid p) s = Some u" and "su_id u = pl_sub p"
    and "su_username u = pl_username p" and "su_isAdmin u = pl_isAdmin p" by blast
  with lookup_sound [of now "pl_sid p" s u] show ?thesis by (cases u) auto
qed

lemma gate_closed:
  assumes "\<And>i. \<not> active now sid i s" and "vp_sid payload = ClaimString sid"
    and "verify vrf ks token = Inr payload"
  shows "\<exists>x. jwt_canActivate vrf ks (\<lambda>sid. lookup now sid s) False (Some token) = Inl x"
proof (cases "jwt_canActivate vrf ks (\<lambda>sid. lookup now sid s) False (Some token)")
  case (Inl x)
  then show ?thesis by blast
next
  case (Inr r)
  then obtain p where p: "jwt_canActivate vrf ks (\<lambda>sid. lookup now sid s) False (Some token)
      = Inr (Some p)"
    by (cases r) (auto simp: jwt_canActivate_def split: sum.splits option.splits if_splits)
  with jwt_canActivate_Some [OF p] assms(2,3) have "pl_sid p = sid" by auto
  with gate_sound [OF p] assms(1) show ?thesis by auto
qed

end

end
