(* ===== verification/Session_Service.thy ===== *)
theory Session_Service
  imports Token_Service Session_Lookup
begin

text \<open>
  \<^verbatim>\<open>auth/session.service.ts\<close>: listing and revoking a user's own sessions, and the Auth
  module's implementation of the \<^verbatim>\<open>SessionLookup\<close> interface, which interprets the contract of
  \<^verbatim>\<open>Session_Lookup\<close>.
\<close>

section \<open>Operations\<close>

record active_session =
  as_id :: string
  as_startedAt :: int
  as_lastUsedAt :: int
  as_keepSignedIn :: bool
  as_current :: bool

definition findActiveSessionUser :: "int \<Rightarrow> string \<Rightarrow> auth_state \<Rightarrow> session_user option" where
  "findActiveSessionUser now sid s =
     map_option (\<lambda>u. \<lparr>su_id = u_id u, su_username = u_username u, su_isAdmin = u_isAdmin u\<rparr>)
       (find_one (\<lambda>u. u_status u = APPROVED \<and>
            exists_where (\<lambda>r. rt_userId r = u_id u \<and> rt_sessionUuid r = sid \<and> rt_revokedAt r = None
               \<and> rt_expiresAt r > now) (refresh_tokens s))
          (users s))"

definition listActive :: "env \<Rightarrow> int \<Rightarrow> nat \<Rightarrow> string option \<Rightarrow> auth_state \<Rightarrow> active_session list" where
  "listActive e now userId refreshToken s =
     (let rws = order_desc rt_issuedAt
            (select_where (\<lambda>r. rt_userId r = userId \<and> rt_revokedAt r = None \<and> rt_expiresAt r > now)
              (refresh_tokens s));
          currentHash = (if truthy refreshToken then Some (env_hashToken e (the refreshToken)) else None)
      in map (\<lambda>r. \<lparr>as_id = rt_sessionUuid r, as_startedAt = rt_startedAt r,
             as_lastUsedAt = rt_issuedAt r, as_keepSignedIn = rt_keepSignedIn r,
             as_current = (Some (rt_tokenHash r) = currentHash)\<rparr>) rws)"

definition session_revoke :: "int \<Rightarrow> nat \<Rightarrow> string \<Rightarrow> auth_state \<Rightarrow> (unit, auth_state) outcome" where
  "session_revoke now userId sessionUuid s =
     (let p = (\<lambda>r. rt_userId r = userId \<and> rt_sessionUuid r = sessionUuid);
          affected = revoke_affected p s;
          s' = revoke_matching now USER_REVOKED p s
      in if affected = 0 then (Inl (NotFound ''Session not found''), s') else (Inr (), s'))"

definition isActiveOwnToken :: "int \<Rightarrow> refresh_token option \<Rightarrow> nat \<Rightarrow> bool" where
  "isActiveOwnToken now row userId =
     (case row of
        None \<Rightarrow> False
      | Some r \<Rightarrow> rt_userId r = userId \<and> rt_revokedAt r = None \<and> rt_expiresAt r > now)"

definition revokeOthers :: "env \<Rightarrow> int \<Rightarrow> nat \<Rightarrow> string option \<Rightarrow> auth_state \<Rightarrow> (unit, auth_state) outcome" where
  "revokeOthers e now userId refreshToken s =
     (let row = (if truthy refreshToken
            then find_one (\<lambda>r. rt_tokenHash r = env_hashToken e (the refreshToken)) (refresh_tokens s)
            else None)
      in if \<not> isActiveOwnToken now row userId
         then (Inl (Unauthorized ''Invalid or expired refresh token''), s)
         else (Inr (), revoke_matching now USER_REVOKED
                 (\<lambda>r. rt_userId r = userId \<and> rt_sessionUuid r \<noteq> rt_sessionUuid (the row)) s))"

section \<open>The contract of the session gate\<close>

text \<open>A session is active for a user when it has an unrevoked, unexpired row of that user.\<close>

definition session_active :: "int \<Rightarrow> string \<Rightarrow> nat \<Rightarrow> auth_state \<Rightarrow> bool" where
  "session_active now sid i s \<longleftrightarrow>
     (\<exists>r \<in> set (rows (refresh_tokens s)). rt_userId r = i \<and> rt_sessionUuid r = sid \<and> token_active now r)"

definition approved_as :: "session_user \<Rightarrow> auth_state \<Rightarrow> bool" where
  "approved_as u s \<longleftrightarrow>
     (\<exists>x \<in> set (rows (users s)). u_status x = APPROVED \<and> u_id x = su_id u
        \<and> u_username x = su_username u \<and> u_isAdmin x = su_isAdmin u)"

lemma findActiveSessionUser_Some:
  assumes "findActiveSessionUser now sid s = Some u"
  shows "session_active now sid (su_id u) s \<and> approved_as u s"
proof -
  from assms obtain x where x: "x \<in> set (rows (users s))" "u_status x = APPROVED"
    and r: "exists_where (\<lambda>r. rt_userId r = u_id x \<and> rt_sessionUuid r = sid
        \<and> rt_revokedAt r = None \<and> rt_expiresAt r > now) (refresh_tokens s)"
    and u: "u = \<lparr>su_id = u_id x, su_username = u_username x, su_isAdmin = u_isAdmin x\<rparr>"
    by (auto simp: findActiveSessionUser_def dest!: find_one_Some)
  from r have "session_active now sid (u_id x) s"
    by (auto simp: exists_where_iff session_active_def token_active_def)
  moreover from x have "approved_as u s"
    by (auto simp: approved_as_def u)
  ultimately show ?thesis by (simp add: u)
qed

lemma findActiveSessionUser_None:
  assumes "findActiveSessionUser now sid s = None" and "approved_as u s"
  shows "\<not> session_active now sid (su_id u) s"
proof
  assume "session_active now sid (su_id u) s"
  with assms(2) show False
    using assms(1) unfolding findActiveSessionUser_def find_one_None exists_where_iff
      session_active_def approved_as_def token_active_def option.map_disc_iff by metis
qed

interpretation auth_lookup: session_lookup findActiveSessionUser session_active approved_as
  by unfold_locales (rule findActiveSessionUser_Some findActiveSessionUser_None; assumption)+

section \<open>Revocations close sessions\<close>

lemma session_active_revoked:
  "session_active now sid i (revoke_matching t why p s) \<longleftrightarrow>
   (\<exists>r \<in> set (rows (refresh_tokens s)). rt_userId r = i \<and> rt_sessionUuid r = sid
      \<and> token_active now r \<and> \<not> p r)"
  by (auto simp: session_active_def rows_revoke_matching token_active_def)

lemma session_revoke_Inr:
  assumes "session_revoke now userId sid s = (Inr x, s')"
  shows "s' = revoke_matching now USER_REVOKED (\<lambda>r. rt_userId r = userId \<and> rt_sessionUuid r = sid) s"
    and "\<exists>r \<in> set (rows (refresh_tokens s)). rt_userId r = userId \<and> rt_sessionUuid r = sid
           \<and> rt_revokedAt r = None"
  using assms
  by (auto simp: session_revoke_def Let_def revoke_affected_def count_where_def filter_empty_conv
      split: if_splits)

lemma revokeOthers_Inr:
  assumes "revokeOthers e now userId tok s = (Inr x, s')"
  obtains r where "r \<in> set (rows (refresh_tokens s))" and "rt_userId r = userId"
    and "token_active now r" and "tok \<noteq> None" and "rt_tokenHash r = env_hashToken e (the tok)"
    and "s' = revoke_matching now USER_REVOKED
           (\<lambda>q. rt_userId q = userId \<and> rt_sessionUuid q \<noteq> rt_sessionUuid r) s"
proof -
  from assms have tok: "truthy tok" by (auto simp: revokeOthers_def isActiveOwnToken_def split: if_splits)
  with assms obtain r where
    r: "find_one (\<lambda>r. rt_tokenHash r = env_hashToken e (the tok)) (refresh_tokens s) = Some r"
    by (cases "find_one (\<lambda>r. rt_tokenHash r = env_hashToken e (the tok)) (refresh_tokens s)")
      (auto simp: revokeOthers_def isActiveOwnToken_def)
  from find_one_Some [OF r] assms r tok that show thesis
    by (cases tok) (auto simp: revokeOthers_def isActiveOwnToken_def token_active_def split: if_splits)
qed

end
