(* ===== verification/Default_User_Config.thy ===== *)
theory Default_User_Config
  imports Runtime
begin

text \<open>
  \<^verbatim>\<open>auth/default-user-allowlist.ts\<close>, \<^verbatim>\<open>auth/default-user.config.ts\<close> and
  \<^verbatim>\<open>auth/user-approval.config.ts\<close>: the environment-defined user and the addresses that may
  log in as it without a password.

  Node's \<^verbatim>\<open>isIP\<close> and \<^verbatim>\<open>BlockList\<close> and the \<^verbatim>\<open>isEmail\<close> validator are the parameter
  \<^verbatim>\<open>net\<close>: the family of an address (0 when it is none), the rules a block list takes without
  throwing, and whether a rule covers an address.  A block list is the list of its rules.
\<close>

section \<open>The allowlist\<close>

datatype family = Ipv4 | Ipv6

record allowlist_rule =
  al_address :: string
  al_family :: family
  al_prefix :: "nat option"

record net =
  net_isIP :: "string \<Rightarrow> nat"
  net_accepts :: "allowlist_rule \<Rightarrow> bool"
  net_covers :: "allowlist_rule \<Rightarrow> string \<Rightarrow> family \<Rightarrow> bool"
  net_isEmail :: "string \<Rightarrow> bool"

definition MAX_PREFIX :: "nat \<Rightarrow> nat" where
  "MAX_PREFIX fam = (if fam = 4 then 32 else 128)"

definition is_prefix_number :: "string \<Rightarrow> bool" where
  "is_prefix_number s = (1 \<le> length s \<and> length s \<le> 3 \<and> list_all is_digit s)"

definition family_of :: "nat \<Rightarrow> family" where
  "family_of n = (if n = 4 then Ipv4 else Ipv6)"

definition parseRule :: "net \<Rightarrow> string \<Rightarrow> allowlist_rule option" where
  "parseRule n entry =
     (let parts = js_split (CHR ''/'') entry;
          address = hd parts;
          familyNumber = (if CHR ''%'' \<in> set address then 0 else net_isIP n address)
      in if familyNumber = 0 \<or> length parts > 2 then None
         else case tl parts of
           [] \<Rightarrow> Some \<lparr>al_address = address, al_family = family_of familyNumber, al_prefix = None\<rparr>
         | prefixRaw # _ \<Rightarrow>
             if \<not> is_prefix_number prefixRaw \<or> digits_value prefixRaw > MAX_PREFIX familyNumber
             then None
             else Some \<lparr>al_address = address, al_family = family_of familyNumber,
                    al_prefix = Some (digits_value prefixRaw)\<rparr>)"

text \<open>\<^verbatim>\<open>addRule\<close> answers the extended list, or \<^term>\<open>None\<close> when the block list threw.\<close>

definition addRule :: "net \<Rightarrow> allowlist_rule list \<Rightarrow> allowlist_rule \<Rightarrow> allowlist_rule list option" where
  "addRule n bl r = (if net_accepts n r then Some (bl @ [r]) else None)"

definition parseAllowlistEntry :: "net \<Rightarrow> string \<Rightarrow> allowlist_rule option" where
  "parseAllowlistEntry n entry =
     (case parseRule n entry of
        None \<Rightarrow> None
      | Some r \<Rightarrow> if addRule n [] r \<noteq> None then Some r else None)"

definition LOOPBACK_ADDRESSES :: "string list" where
  "LOOPBACK_ADDRESSES = [''127.0.0.1'', ''::1'']"

definition effectiveAllowlistEntries :: "net \<Rightarrow> string list \<Rightarrow> string list" where
  "effectiveAllowlistEntries n entries =
     (let wellFormed = filter (\<lambda>x. parseAllowlistEntry n x \<noteq> None) entries
      in if wellFormed = [] then LOOPBACK_ADDRESSES else wellFormed)"

definition loopback_rules :: "allowlist_rule list" where
  "loopback_rules =
     [\<lparr>al_address = ''127.0.0.1'', al_family = Ipv4, al_prefix = None\<rparr>,
      \<lparr>al_address = ''::1'', al_family = Ipv6, al_prefix = None\<rparr>]"

definition buildAllowlist :: "net \<Rightarrow> string list \<Rightarrow> allowlist_rule list" where
  "buildAllowlist n entries =
     (let rules = List.map_filter (parseAllowlistEntry n) entries
      in if rules = [] then loopback_rules
         else foldl (\<lambda>bl r. case addRule n bl r of Some bl' \<Rightarrow> bl' | None \<Rightarrow> bl) [] rules)"

text \<open>\<^verbatim>\<open>IPV4_MAPPED_PATTERN\<close>: \<open>::ffff:\<close> in any case, then four groups of one to three digits.\<close>

definition is_dotted_quad :: "string \<Rightarrow> bool" where
  "is_dotted_quad s =
     (let parts = js_split (CHR ''.'') s in length parts = 4 \<and> list_all is_prefix_number parts)"

definition normalizeIp :: "net \<Rightarrow> string \<Rightarrow> string" where
  "normalizeIp n ip =
     (let tail = drop 7 ip
      in if js_lower (take 7 ip) = ''::ffff:'' \<and> is_dotted_quad tail \<and> net_isIP n tail = 4
         then tail else ip)"

definition isInAllowlist :: "net \<Rightarrow> allowlist_rule list \<Rightarrow> string \<Rightarrow> bool" where
  "isInAllowlist n bl ip =
     (let address = normalizeIp n (js_trim ip); fam = net_isIP n address
      in if fam = 0 then False else list_ex (\<lambda>r. net_covers n r address (family_of fam)) bl)"

section \<open>The configuration\<close>

record default_user_settings =
  ds_enabled :: bool
  ds_alwaysAuthenticated :: bool
  ds_username :: string
  ds_email :: string
  ds_password :: string
  ds_admin :: bool
  ds_allowedIps :: "string list"
  ds_allowInProduction :: bool
  ds_stage :: string

record default_user_config =
  du_settings :: default_user_settings
  du_blockList :: "allowlist_rule list"

definition config_read :: "env \<Rightarrow> string \<Rightarrow> string" where
  "config_read e name = (case env_config e name of JString v \<Rightarrow> v | _ \<Rightarrow> [])"

definition config_flag :: "env \<Rightarrow> string \<Rightarrow> bool" where
  "config_flag e name = (env_config e name = JString ''true'')"

definition readSettings :: "env \<Rightarrow> default_user_settings" where
  "readSettings e =
     \<lparr>ds_enabled = config_flag e ''KERGHAN_DEFAULT_USER_ENABLED'',
      ds_alwaysAuthenticated = config_flag e ''KERGHAN_DEFAULT_USER_ALWAYS_AUTHENTICATED'',
      ds_username = js_trim (config_read e ''KERGHAN_DEFAULT_USER_USERNAME''),
      ds_email = js_trim (config_read e ''KERGHAN_DEFAULT_USER_EMAIL''),
      ds_password = config_read e ''KERGHAN_DEFAULT_USER_PASSWORD'',
      ds_admin = config_flag e ''KERGHAN_DEFAULT_USER_ADMIN'',
      ds_allowedIps = filter (\<lambda>x. x \<noteq> [])
        (map js_trim (js_split (CHR '','') (config_read e ''KERGHAN_DEFAULT_USER_ALLOWED_IPS''))),
      ds_allowInProduction = config_flag e ''KERGHAN_DEFAULT_USER_ALLOW_IN_PRODUCTION'',
      ds_stage = config_read e ''STAGE''\<rparr>"

definition PASSWORD_MIN_LENGTH :: nat where
  "PASSWORD_MIN_LENGTH = 8"

definition collectCredentialsInvalid :: "net \<Rightarrow> default_user_settings \<Rightarrow> string list" where
  "collectCredentialsInvalid n st =
     (if ds_username st = [] then [''KERGHAN_DEFAULT_USER_USERNAME''] else [])
     @ (if ds_email st = [] then [''KERGHAN_DEFAULT_USER_EMAIL'']
        else if \<not> net_isEmail n (ds_email st)
        then [''KERGHAN_DEFAULT_USER_EMAIL (not a valid email)''] else [])
     @ (if ds_password st = [] then [''KERGHAN_DEFAULT_USER_PASSWORD'']
        else if length (ds_password st) < PASSWORD_MIN_LENGTH
        then [''KERGHAN_DEFAULT_USER_PASSWORD (shorter than '' @ nat_to_string PASSWORD_MIN_LENGTH
          @ '' characters)''] else [])"

definition collectProductionInvalid :: "default_user_settings \<Rightarrow> string list" where
  "collectProductionInvalid st =
     (if ds_stage st = ''production'' \<and> ds_alwaysAuthenticated st \<and> \<not> ds_allowInProduction st
      then [''KERGHAN_DEFAULT_USER_ALLOW_IN_PRODUCTION (must be true for '' @
        ''KERGHAN_DEFAULT_USER_ALWAYS_AUTHENTICATED when STAGE=production)'']
      else [])"

definition collectInvalid :: "net \<Rightarrow> default_user_settings \<Rightarrow> string list" where
  "collectInvalid n st =
     collectCredentialsInvalid n st
     @ map (\<lambda>x. ''KERGHAN_DEFAULT_USER_ALLOWED_IPS (malformed entry \"'' @ x @ ''\")'')
         (filter (\<lambda>x. parseAllowlistEntry n x = None) (ds_allowedIps st))
     @ collectProductionInvalid st"

definition settings_enabled :: "default_user_settings \<Rightarrow> bool" where
  "settings_enabled st \<longleftrightarrow> ds_enabled st \<or> ds_alwaysAuthenticated st"

text \<open>The constructor, with \<^verbatim>\<open>throwIfInvalid\<close>: the boot error, or the validated configuration.\<close>

definition newDefaultUserConfig :: "net \<Rightarrow> default_user_settings \<Rightarrow> exn + default_user_config" where
  "newDefaultUserConfig n st =
     (let invalid = (if settings_enabled st then collectInvalid n st else [])
      in if invalid = []
         then Inr \<lparr>du_settings = st, du_blockList = buildAllowlist n (ds_allowedIps st)\<rparr>
         else Inl (ErrorExn (''default-user: the default user is enabled but the following are '' @
                ''missing/invalid: '' @ js_join '', '' invalid)))"

definition fromConfigService :: "net \<Rightarrow> env \<Rightarrow> exn + default_user_config" where
  "fromConfigService n e = newDefaultUserConfig n (readSettings e)"

definition du_isEnabled :: "default_user_config \<Rightarrow> bool" where
  "du_isEnabled cfg = settings_enabled (du_settings cfg)"

definition du_isIpAllowed :: "net \<Rightarrow> default_user_config \<Rightarrow> string \<Rightarrow> bool" where
  "du_isIpAllowed n cfg ip = isInAllowlist n (du_blockList cfg) ip"

definition du_allowedIps :: "net \<Rightarrow> default_user_config \<Rightarrow> string list" where
  "du_allowedIps n cfg = effectiveAllowlistEntries n (ds_allowedIps (du_settings cfg))"

section \<open>Approval of new registrations\<close>

definition isApprovalRequired :: "env \<Rightarrow> bool" where
  "isApprovalRequired e = config_flag e ''KERGHAN_USER_APPROVAL_REQUIRED''"

end
