(* ===== verification/Default_User.thy ===== *)
theory Default_User
  imports Token_Service Default_User_Config
begin

text \<open>
  \<^verbatim>\<open>auth/default-user.service.ts\<close>: boot synchronisation of the environment-defined user, the
  automatic login and the edit block.

  Two processes may boot at once.  The insert of \<^verbatim>\<open>#createOrUpdate\<close> can then hit the unique
  index although the lookup found no row.  The parameter \<open>race\<close> of the model is what other
  processes committed between the lookups and the insert (the identity when nothing did).
\<close>

section \<open>Operations\<close>

definition DEFAULT_USER_MANAGED_MESSAGE :: string where
  "DEFAULT_USER_MANAGED_MESSAGE =
     ''This user is managed by environment configuration and cannot be edited''"

definition isDefaultUser :: "default_user_config \<Rightarrow> nat \<Rightarrow> auth_state \<Rightarrow> bool" where
  "isDefaultUser cfg userId s \<longleftrightarrow> du_isEnabled cfg \<and> defaultUserId s = Some userId"

definition assertNotDefaultUser :: "default_user_config \<Rightarrow> nat \<Rightarrow> auth_state \<Rightarrow> exn + unit" where
  "assertNotDefaultUser cfg userId s =
     (if isDefaultUser cfg userId s
      then Inl (ConflictCode ''DEFAULT_USER_MANAGED'' DEFAULT_USER_MANAGED_MESSAGE)
      else Inr ())"

definition canAutoLogin :: "net \<Rightarrow> default_user_config \<Rightarrow> string \<Rightarrow> auth_state \<Rightarrow> bool" where
  "canAutoLogin n cfg clientIp s \<longleftrightarrow>
     ds_alwaysAuthenticated (du_settings cfg) \<and> defaultUserId s \<noteq> None \<and> clientIp \<noteq> []
     \<and> du_isIpAllowed n cfg clientIp"

definition autoLogin ::
  "env \<Rightarrow> ctx \<Rightarrow> net \<Rightarrow> default_user_config \<Rightarrow> string \<Rightarrow> auth_state
     \<Rightarrow> (auth_result option, auth_state) outcome" where
  "autoLogin e c n cfg clientIp s =
     (if \<not> canAutoLogin n cfg clientIp s then (Inr None, s)
      else case find_user (the (defaultUserId s)) s of
        None \<Rightarrow> (Inr None, s)
      | Some u \<Rightarrow>
          (case issueTokens e c u False None s of
             (Inl x, s') \<Rightarrow> (Inl x, s')
           | (Inr r, s') \<Rightarrow> (Inr (Some r), s')))"

definition assertEmailAvailable ::
  "env \<Rightarrow> default_user_config \<Rightarrow> user option \<Rightarrow> auth_state \<Rightarrow> exn + unit" where
  "assertEmailAvailable e cfg matched s =
     (case find_user_by_email e (ds_email (du_settings cfg)) s of
        Some owner \<Rightarrow>
          if Some (u_id owner) \<noteq> map_option u_id matched
          then Inl (ErrorExn (''default-user: the default user email already belongs to another user ''
            @ ''(configured username \"'' @ ds_username (du_settings cfg) @ ''\", owner id ''
            @ nat_to_string (u_id owner) @ '')''))
          else Inr ()
      | None \<Rightarrow> Inr ())"

definition du_update ::
  "env \<Rightarrow> ctx \<Rightarrow> default_user_config \<Rightarrow> user \<Rightarrow> auth_state \<Rightarrow> (user, auth_state) outcome" where
  "du_update e c cfg u s =
     (let st = du_settings cfg;
          passwordChanged = (\<not> env_bcrypt_compare e (ds_password st) (u_passwordDigest u));
          u1 = u\<lparr>u_email := ds_email st, u_isAdmin := ds_admin st, u_status := APPROVED\<rparr>;
          u2 = (if passwordChanged
                then u1\<lparr>u_passwordDigest := env_bcrypt_hash e (c_salt c) (ds_password st)\<rparr> else u1)
      in case save_user e u2 s of
           (Inl x, s1) \<Rightarrow> (Inl x, s1)
         | (Inr _, s1) \<Rightarrow>
             (Inr u2,
              if passwordChanged
              then revokeUserTokens e (c_now c) (u_id u2) ADMIN_PASSWORD_CHANGE None s1 else s1))"

definition recoverFromInsertRace ::
  "env \<Rightarrow> ctx \<Rightarrow> default_user_config \<Rightarrow> exn \<Rightarrow> auth_state \<Rightarrow> (user, auth_state) outcome" where
  "recoverFromInsertRace e c cfg error s =
     (if error \<noteq> DupEntryExn then (Inl error, s)
      else case find_user_by_username e (ds_username (du_settings cfg)) s of
        None \<Rightarrow> (Inl error, s)
      | Some existing \<Rightarrow>
          (case assertEmailAvailable e cfg (Some existing) s of
             Inl x \<Rightarrow> (Inl x, s)
           | Inr _ \<Rightarrow> du_update e c cfg existing s))"

definition createOrUpdate ::
  "env \<Rightarrow> ctx \<Rightarrow> default_user_config \<Rightarrow> auth_state \<Rightarrow> (user, auth_state) outcome" where
  "createOrUpdate e c cfg s =
     (let st = du_settings cfg
      in case insert_user e (\<lambda>i. \<lparr>u_id = i, u_username = ds_username st, u_email = ds_email st,
             u_passwordDigest = env_bcrypt_hash e (c_salt c) (ds_password st),
             u_isAdmin = ds_admin st, u_status = APPROVED, u_createdAt = c_now c\<rparr>) s of
           (Inr u, s1) \<Rightarrow> (Inr u, s1)
         | (Inl error, s1) \<Rightarrow> recoverFromInsertRace e c cfg error s1)"

definition du_sync ::
  "env \<Rightarrow> ctx \<Rightarrow> default_user_config \<Rightarrow> (auth_state \<Rightarrow> auth_state) \<Rightarrow> auth_state
     \<Rightarrow> (user, auth_state) outcome" where
  "du_sync e c cfg race s =
     (let existing = find_user_by_username e (ds_username (du_settings cfg)) s
      in case assertEmailAvailable e cfg existing s of
           Inl x \<Rightarrow> (Inl x, s)
         | Inr _ \<Rightarrow>
             (case existing of
                Some u \<Rightarrow> du_update e c cfg u s
              | None \<Rightarrow> createOrUpdate e c cfg (race s)))"

definition onApplicationBootstrap ::
  "env \<Rightarrow> ctx \<Rightarrow> default_user_config \<Rightarrow> (auth_state \<Rightarrow> auth_state) \<Rightarrow> auth_state
     \<Rightarrow> (unit, auth_state) outcome" where
  "onApplicationBootstrap e c cfg race s =
     (if \<not> du_isEnabled cfg then (Inr (), s)
      else case du_sync e c cfg race s of
        (Inl x, s1) \<Rightarrow> (Inl x, s1)
      | (Inr u, s1) \<Rightarrow> (Inr (), s1\<lparr>defaultUserId := Some (u_id u)\<rparr>))"

section \<open>Facts the other services use\<close>

lemma assertNotDefaultUser_Inr [simp]:
  "assertNotDefaultUser cfg i s = Inr x \<longleftrightarrow> \<not> isDefaultUser cfg i s"
  by (simp add: assertNotDefaultUser_def)

lemma autoLogin_tokens:
  assumes "autoLogin e c n cfg ip s = (res, s')"
  shows "s' = s \<or> (\<exists>u r. issueTokens e c u False None s = (r, s'))"
  using assms by (auto simp: autoLogin_def split: if_splits option.splits prod.splits sum.splits)

lemma autoLogin_Some:
  assumes "autoLogin e c n cfg ip s = (Inr (Some r), s')"
  shows "canAutoLogin n cfg ip s \<and> defaultUserId s = Some (u_id (res_user r))
         \<and> res_user r \<in> set (rows (users s))"
  using assms find_user_Some
  by (fastforce simp: autoLogin_def canAutoLogin_def dest: issueTokens_Inr(3)
      split: if_splits option.splits prod.splits sum.splits)

end
