(* ===== verification/Password_Reset.thy ===== *)
theory Password_Reset
  imports Default_User
begin

text \<open>
  \<^verbatim>\<open>auth/password-reset.service.ts\<close>: self-service recovery and the single-use reset token.

  The lifetime of a reset token is read without conversion, so a value that comes from the
  process environment is a string and JavaScript's \<^verbatim>\<open>+\<close> concatenates it to the current time.
  The model keeps that: \<open>js_date_after\<close> is \<^verbatim>\<open>new Date(Date.now() + v)\<close>, with \<^term>\<open>None\<close> for an
  invalid date, which the non-null \<^verbatim>\<open>expires_at\<close> column cannot store.
\<close>

section \<open>Operations\<close>

definition DEFAULT_PASSWORD_RESET_TOKEN_TTL_MS :: int where
  "DEFAULT_PASSWORD_RESET_TOKEN_TTL_MS = 30 * 60 * 1000"

definition int_to_string :: "int \<Rightarrow> string" where
  "int_to_string n = (if n < 0 then CHR ''-'' # nat_to_string (nat (- n)) else nat_to_string (nat n))"

definition js_date_after :: "env \<Rightarrow> int \<Rightarrow> js_value \<Rightarrow> int option" where
  "js_date_after e now v = (case v of
       JString t \<Rightarrow> env_parse_date e (int_to_string now @ t)
     | JNumber (Finite n) \<Rightarrow> Some (now + n)
     | JNumber NaN \<Rightarrow> None
     | JNull \<Rightarrow> Some now
     | JUndefined \<Rightarrow> None)"

definition config_get_default :: "env \<Rightarrow> string \<Rightarrow> int \<Rightarrow> js_value" where
  "config_get_default e key d =
     (case env_config e key of JUndefined \<Rightarrow> JNumber (Finite d) | v \<Rightarrow> v)"

definition js_interpolate :: "js_value \<Rightarrow> string" where
  "js_interpolate v = (case v of
       JUndefined \<Rightarrow> ''undefined''
     | JNull \<Rightarrow> ''null''
     | JString s \<Rightarrow> s
     | JNumber NaN \<Rightarrow> ''NaN''
     | JNumber (Finite n) \<Rightarrow> int_to_string n)"

definition pruneSpentTokens :: "int \<Rightarrow> nat \<Rightarrow> auth_state \<Rightarrow> auth_state" where
  "pruneSpentTokens now userId s = s\<lparr>reset_tokens :=
     delete_where (\<lambda>r. pr_userId r = userId \<and> pr_usedAt r \<noteq> None)
       (delete_where (\<lambda>r. pr_userId r = userId \<and> pr_expiresAt r < now) (reset_tokens s))\<rparr>"

definition issueToken ::
  "env \<Rightarrow> ctx \<Rightarrow> user \<Rightarrow> auth_state \<Rightarrow> (string \<times> string, auth_state) outcome" where
  "issueToken e c u s =
     (let token = c_token c;
          ttlMs = config_get_default e ''KERGHAN_PASSWORD_RESET_TOKEN_TTL_MS''
            DEFAULT_PASSWORD_RESET_TOKEN_TTL_MS;
          s1 = pruneSpentTokens (c_now c) (u_id u) s;
          resetUrl = js_interpolate (env_config e ''FRONTEND_BASE_URL'')
            @ ''/#/recover-password?token='' @ token
      in case js_date_after e (c_now c) ttlMs of
           None \<Rightarrow> (Inl (ErrorExn ''QueryFailedError''), s1)
         | Some expiresAt \<Rightarrow>
             if exists_where (\<lambda>r. pr_tokenHash r = env_hashToken e token) (reset_tokens s1)
             then (Inl DupEntryExn, s1)
             else (Inr (token, resetUrl), s1\<lparr>reset_tokens :=
                    insert_row (\<lambda>i. \<lparr>pr_id = i, pr_tokenHash = env_hashToken e token,
                      pr_userId = u_id u, pr_expiresAt = expiresAt, pr_createdAt = c_now c,
                      pr_usedAt = None\<rparr>) (reset_tokens s1)\<rparr>))"

definition pr_recover ::
  "env \<Rightarrow> ctx \<Rightarrow> default_user_config \<Rightarrow> string \<Rightarrow> auth_state \<Rightarrow> (unit, auth_state) outcome" where
  "pr_recover e c cfg email s =
     (case find_user_by_email e email s of
        None \<Rightarrow> (Inr (), s)
      | Some u \<Rightarrow>
          if u_status u = DENIED then (Inr (), s)
          else if isDefaultUser cfg (u_id u) s then (Inr (), s)
          else case issueToken e c u s of
            (Inl x, s1) \<Rightarrow> (Inl x, s1)
          | (Inr (token, resetUrl), s1) \<Rightarrow>
              (Inr (), emit (PasswordRecoveryRequestedEvent (u_id u) token resetUrl (u_email u)) s1))"

definition pr_findActiveToken :: "env \<Rightarrow> int \<Rightarrow> string \<Rightarrow> auth_state \<Rightarrow> exn + password_reset_token" where
  "pr_findActiveToken e now token s =
     (case find_one (\<lambda>r. pr_tokenHash r = env_hashToken e token) (reset_tokens s) of
        None \<Rightarrow> Inl (BadRequest ''Invalid or expired token'')
      | Some r \<Rightarrow>
          if pr_usedAt r \<noteq> None \<or> pr_expiresAt r < now
          then Inl (BadRequest ''Invalid or expired token'') else Inr r)"

definition pr_resetPassword ::
  "env \<Rightarrow> ctx \<Rightarrow> default_user_config \<Rightarrow> string \<Rightarrow> string \<Rightarrow> auth_state \<Rightarrow> (nat, auth_state) outcome" where
  "pr_resetPassword e c cfg token password s =
     (case pr_findActiveToken e (c_now c) token s of
        Inl x \<Rightarrow> (Inl x, s)
      | Inr row \<Rightarrow>
          (case assertNotDefaultUser cfg (pr_userId row) s of
             Inl x \<Rightarrow> (Inl x, s)
           | Inr _ \<Rightarrow>
               if map_option u_status (find_user (pr_userId row) s) = Some DENIED
               then (Inl (BadRequest ''Invalid or expired token''), s)
               else (Inr (pr_userId row),
                 s\<lparr>users := update_where (\<lambda>u. u_id u = pr_userId row)
                      (\<lambda>u. u\<lparr>u_passwordDigest := env_bcrypt_hash e (c_salt c) password\<rparr>) (users s),
                   reset_tokens := update_where (\<lambda>r. pr_id r = pr_id row)
                      (\<lambda>r. r\<lparr>pr_usedAt := Some (c_now c)\<rparr>) (reset_tokens s)\<rparr>)))"

section \<open>The reset-token table\<close>

definition resets_ok :: "password_reset_token table \<Rightarrow> bool" where
  "resets_ok t \<longleftrightarrow> distinct (map pr_id (rows t)) \<and> (\<forall>r \<in> set (rows t). pr_id r < next_id t)
     \<and> distinct (map pr_tokenHash (rows t))"

lemma resets_ok_delete: "resets_ok t \<Longrightarrow> resets_ok (delete_where p t)"
  by (auto simp: resets_ok_def table_simps distinct_map_filter)

lemma resets_ok_issueToken:
  assumes "resets_ok (reset_tokens s)" and "issueToken e c u s = (res, s')"
  shows "resets_ok (reset_tokens s')"
proof -
  have "resets_ok (reset_tokens (pruneSpentTokens (c_now c) (u_id u) s))"
    using assms(1) by (simp add: pruneSpentTokens_def resets_ok_delete)
  with assms(2) show ?thesis
    by (fastforce simp: issueToken_def Let_def exists_where_iff resets_ok_def table_simps
        split: option.splits if_splits)
qed

lemma pr_findActiveToken_Inr:
  assumes "pr_findActiveToken e now token s = Inr r"
  shows "r \<in> set (rows (reset_tokens s)) \<and> pr_tokenHash r = env_hashToken e token
         \<and> pr_usedAt r = None \<and> now \<le> pr_expiresAt r"
  using assms find_one_Some
  by (fastforce simp: pr_findActiveToken_def split: option.splits if_splits)

lemma pr_resetPassword_Inr:
  assumes "pr_resetPassword e c cfg token password s = (Inr i, s')"
  obtains row where "pr_findActiveToken e (c_now c) token s = Inr row" and "i = pr_userId row"
    and "\<not> isDefaultUser cfg i s" and "map_option u_status (find_user i s) \<noteq> Some DENIED"
    and "users s' = update_where (\<lambda>u. u_id u = i)
           (\<lambda>u. u\<lparr>u_passwordDigest := env_bcrypt_hash e (c_salt c) password\<rparr>) (users s)"
    and "reset_tokens s' = update_where (\<lambda>r. pr_id r = pr_id row)
           (\<lambda>r. r\<lparr>pr_usedAt := Some (c_now c)\<rparr>) (reset_tokens s)"
    and "refresh_tokens s' = refresh_tokens s"
  using assms
  by (auto simp: pr_resetPassword_def assertNotDefaultUser_def split: sum.splits if_splits)

text \<open>A consumed token is refused for good.\<close>

lemma used_token_refused:
  assumes "resets_ok (reset_tokens s)" and "pr_resetPassword e c cfg token password s = (Inr i, s')"
  shows "pr_findActiveToken e now token s' = Inl (BadRequest ''Invalid or expired token'')"
proof -
  from assms(2) obtain row where row: "pr_findActiveToken e (c_now c) token s = Inr row"
    and rt: "reset_tokens s' = update_where (\<lambda>r. pr_id r = pr_id row)
           (\<lambda>r. r\<lparr>pr_usedAt := Some (c_now c)\<rparr>) (reset_tokens s)"
    by (rule pr_resetPassword_Inr)
  note r = pr_findActiveToken_Inr [OF row]
  have "pr_usedAt q \<noteq> None"
    if q: "q \<in> set (rows (reset_tokens s'))" "pr_tokenHash q = env_hashToken e token" for q
  proof -
    from q(1) obtain q0 where q0: "q0 \<in> set (rows (reset_tokens s))"
      and q_eq: "q = (if pr_id q0 = pr_id row then q0\<lparr>pr_usedAt := Some (c_now c)\<rparr> else q0)"
      by (auto simp: rt rows_update_where)
    with q(2) r have "pr_tokenHash q0 = pr_tokenHash row" by (auto split: if_splits)
    with assms(1) q0 r have "q0 = row"
      by (auto simp: resets_ok_def intro: distinct_map_inj)
    with q_eq show ?thesis by simp
  qed
  then show ?thesis
    by (fastforce simp: pr_findActiveToken_def dest: find_one_Some split: option.splits)
qed

end
