(* ===== verification/Auth_Service.thy ===== *)
theory Auth_Service
  imports Session_Service Password_Reset
begin

text \<open>
  \<^verbatim>\<open>auth/auth.service.ts\<close> with \<^verbatim>\<open>auth/user-availability.ts\<close> and \<^verbatim>\<open>auth/dummy-digest.ts\<close>:
  registration, login, rotation of refresh tokens with replay detection, logout, password reset
  and the status check.

  \<^verbatim>\<open>refresh\<close> issues three separate statements that other requests may interleave with: the
  lookups (\<open>refresh_load\<close>), the conditional rotation \<^verbatim>\<open>UPDATE\<close> (\<open>refresh_rotate\<close>) and the mint
  (\<open>issueTokens\<close>).  They are three definitions, \<open>refresh\<close> runs them in a row, and
  \<^verbatim>\<open>Session_System\<close> interleaves them.
\<close>

section \<open>Availability of usernames and emails\<close>

definition assertAvailable :: "env \<Rightarrow> string \<Rightarrow> string \<Rightarrow> auth_state \<Rightarrow> exn + unit" where
  "assertAvailable e username email s =
     (case find_one (\<lambda>u. env_collate e (u_username u) username \<or> env_collate e (u_email u) email)
             (users s) of
        None \<Rightarrow> Inr ()
      | Some existing \<Rightarrow>
          if u_username existing = username
          then Inl (ConflictCode ''USERNAME_TAKEN'' ''username is not available'')
          else Inl (ConflictCode ''EMAIL_TAKEN'' ''email is not available''))"

definition assertFieldAvailable ::
  "env \<Rightarrow> (user \<Rightarrow> string) \<Rightarrow> string \<Rightarrow> string \<Rightarrow> nat \<Rightarrow> string \<Rightarrow> auth_state \<Rightarrow> exn + unit" where
  "assertFieldAvailable e field code val excludeUserId message s =
     (case find_one (\<lambda>u. env_collate e (field u) val \<and> u_id u \<noteq> excludeUserId) (users s) of
        None \<Rightarrow> Inr ()
      | Some existing \<Rightarrow> Inl (ConflictCode code message))"

definition assertAvailableForUpdate ::
  "env \<Rightarrow> nat \<Rightarrow> string option \<Rightarrow> string option \<Rightarrow> auth_state \<Rightarrow> exn + unit" where
  "assertAvailableForUpdate e excludeUserId username email s =
     (case (if truthy username
            then assertFieldAvailable e u_username ''USERNAME_TAKEN'' (the username) excludeUserId
                   ''Username already in use'' s
            else Inr ()) of
        Inl x \<Rightarrow> Inl x
      | Inr _ \<Rightarrow>
          if truthy email
          then assertFieldAvailable e u_email ''EMAIL_TAKEN'' (the email) excludeUserId
                 ''Email already in use'' s
          else Inr ())"

section \<open>Credentials\<close>

definition DUMMY_DIGEST :: string where
  "DUMMY_DIGEST = ''$2a$10$CwTycUXWue0Thq9StjUM0uJ8Q1eLXfPJvXQF4RUOgtnJhmiQq6Zsy''"

definition compareOrDummy :: "env \<Rightarrow> string \<Rightarrow> string option \<Rightarrow> bool" where
  "compareOrDummy e password digest =
     env_bcrypt_compare e password (case digest of Some d \<Rightarrow> d | None \<Rightarrow> DUMMY_DIGEST)"

definition validateCredentials :: "env \<Rightarrow> string \<Rightarrow> string \<Rightarrow> auth_state \<Rightarrow> exn + user" where
  "validateCredentials e username password s =
     (let user = find_user_by_username e username s;
          valid = compareOrDummy e password (map_option u_passwordDigest user)
      in case user of
           Some u \<Rightarrow> if valid then Inr u else Inl (Unauthorized ''Invalid username or password'')
         | None \<Rightarrow> Inl (Unauthorized ''Invalid username or password''))"

section \<open>Registration, login, logout\<close>

definition registrationStatus :: "env \<Rightarrow> user_status" where
  "registrationStatus e = (if isApprovalRequired e then PENDING else APPROVED)"

definition register ::
  "env \<Rightarrow> ctx \<Rightarrow> string \<Rightarrow> string \<Rightarrow> string \<Rightarrow> auth_state \<Rightarrow> (auth_result, auth_state) outcome" where
  "register e c username email password s =
     (case assertAvailable e username email s of
        Inl x \<Rightarrow> (Inl x, s)
      | Inr _ \<Rightarrow>
          (case insert_user e (\<lambda>i. \<lparr>u_id = i, u_username = username, u_email = email,
                  u_passwordDigest = env_bcrypt_hash e (c_salt c) password, u_isAdmin = False,
                  u_status = registrationStatus e, u_createdAt = c_now c\<rparr>) s of
             (Inl x, s1) \<Rightarrow> (Inl x, s1)
           | (Inr u, s1) \<Rightarrow>
               issueTokens e c u False None
                 (emit (UserRegisteredEvent (u_id u) (u_username u) (u_email u)) s1)))"

definition login ::
  "env \<Rightarrow> ctx \<Rightarrow> string \<Rightarrow> string \<Rightarrow> bool option \<Rightarrow> auth_state \<Rightarrow> (auth_result, auth_state) outcome" where
  "login e c username password keepSignedIn s =
     (case validateCredentials e username password s of
        Inl x \<Rightarrow> (Inl x, s)
      | Inr u \<Rightarrow>
          if u_status u = DENIED
          then (Inl (ForbiddenCode ''USER_DENIED'' ''This account has been denied access''), s)
          else issueTokens e c u (case keepSignedIn of Some k \<Rightarrow> k | None \<Rightarrow> False) None s)"

definition logout :: "env \<Rightarrow> int \<Rightarrow> string \<Rightarrow> auth_state \<Rightarrow> auth_state" where
  "logout e now refreshToken s =
     revoke_matching now LOGOUT (\<lambda>r. rt_tokenHash r = env_hashToken e refreshToken) s"

section \<open>Rotation\<close>

abbreviation invalid_refresh_token :: exn where
  "invalid_refresh_token \<equiv> Unauthorized ''Invalid or expired refresh token''"

definition findActiveRefreshToken ::
  "env \<Rightarrow> int \<Rightarrow> string \<Rightarrow> auth_state \<Rightarrow> (refresh_token, auth_state) outcome" where
  "findActiveRefreshToken e now refreshToken s =
     (case find_one (\<lambda>r. rt_tokenHash r = env_hashToken e refreshToken) (refresh_tokens s) of
        None \<Rightarrow> (Inl invalid_refresh_token, s)
      | Some r \<Rightarrow>
          if rt_expiresAt r < now then (Inl invalid_refresh_token, s)
          else if rt_revokedAt r \<noteq> None then
            (Inl invalid_refresh_token,
             if rt_revokedReason r = Some ROTATED
             then revokeUserTokens e now (rt_userId r) REPLAY_DETECTED None s else s)
          else (Inr r, s))"

definition refresh_load ::
  "env \<Rightarrow> int \<Rightarrow> string \<Rightarrow> auth_state \<Rightarrow> (refresh_token \<times> user, auth_state) outcome" where
  "refresh_load e now refreshToken s =
     (case findActiveRefreshToken e now refreshToken s of
        (Inl x, s1) \<Rightarrow> (Inl x, s1)
      | (Inr row, s1) \<Rightarrow>
          (case find_user (rt_userId row) s1 of
             None \<Rightarrow> (Inl (Unauthorized ''Invalid refresh token''), s1)
           | Some u \<Rightarrow>
               if u_status u = DENIED
               then (Inl invalid_refresh_token, revokeToken now (rt_id row) ADMIN_DENIED s1)
               else (Inr (row, u), s1)))"

definition refresh_rotate :: "int \<Rightarrow> refresh_token \<Rightarrow> auth_state \<Rightarrow> (unit, auth_state) outcome" where
  "refresh_rotate now row s =
     (let p = (\<lambda>r. rt_id r = rt_id row);
          affected = revoke_affected p s;
          s' = revoke_matching now ROTATED p s
      in if affected \<noteq> 1 then (Inl invalid_refresh_token, s') else (Inr (), s'))"

definition rotation_identity :: "refresh_token \<Rightarrow> session_identity" where
  "rotation_identity row = \<lparr>si_sessionUuid = rt_sessionUuid row, si_startedAt = rt_startedAt row\<rparr>"

definition refresh :: "env \<Rightarrow> ctx \<Rightarrow> string \<Rightarrow> auth_state \<Rightarrow> (auth_result, auth_state) outcome" where
  "refresh e c refreshToken s =
     (case refresh_load e (c_now c) refreshToken s of
        (Inl x, s1) \<Rightarrow> (Inl x, s1)
      | (Inr (row, u), s1) \<Rightarrow>
          (case refresh_rotate (c_now c) row s1 of
             (Inl x, s2) \<Rightarrow> (Inl x, s2)
           | (Inr _, s2) \<Rightarrow>
               issueTokens e c u (rt_keepSignedIn row) (Some (rotation_identity row)) s2))"

section \<open>Password reset and status\<close>

definition resetPassword ::
  "env \<Rightarrow> ctx \<Rightarrow> default_user_config \<Rightarrow> string \<Rightarrow> string \<Rightarrow> auth_state \<Rightarrow> (unit, auth_state) outcome" where
  "resetPassword e c cfg token password s =
     (case pr_resetPassword e c cfg token password s of
        (Inl x, s1) \<Rightarrow> (Inl x, s1)
      | (Inr userId, s1) \<Rightarrow> (Inr (), revokeUserTokens e (c_now c) userId PASSWORD_RESET None s1))"

record status_result =
  sr_loggedIn :: bool
  sr_isAdmin :: bool
  sr_session :: "auth_result option"
  sr_status :: "user_status option"

definition status ::
  "env \<Rightarrow> ctx \<Rightarrow> net \<Rightarrow> default_user_config \<Rightarrow> string option \<Rightarrow> string \<Rightarrow> auth_state
     \<Rightarrow> (status_result, auth_state) outcome" where
  "status e c n cfg refreshToken clientIp s =
     (let tokenRow = findActiveToken e (c_now c) refreshToken s;
          user = (case tokenRow of None \<Rightarrow> None | Some r \<Rightarrow> find_user (rt_userId r) s);
          denied = (tokenRow \<noteq> None \<and> map_option u_status user = Some DENIED)
      in if \<not> denied \<and> tokenRow \<noteq> None \<and> map_option u_status user = Some PENDING
         then (Inr \<lparr>sr_loggedIn = False, sr_isAdmin = False, sr_session = None,
                 sr_status = Some PENDING\<rparr>, s)
         else if \<not> denied \<and> tokenRow \<noteq> None
         then (Inr \<lparr>sr_loggedIn = True,
                 sr_isAdmin = (case user of Some u \<Rightarrow> u_isAdmin u | None \<Rightarrow> False),
                 sr_session = None, sr_status = None\<rparr>, s)
         else
           (let s1 = (if denied then revokeToken (c_now c) (rt_id (the tokenRow)) ADMIN_DENIED s else s)
            in case autoLogin e c n cfg clientIp s1 of
                 (Inl x, s2) \<Rightarrow> (Inl x, s2)
               | (Inr (Some r), s2) \<Rightarrow>
                   (Inr \<lparr>sr_loggedIn = True, sr_isAdmin = u_isAdmin (res_user r),
                      sr_session = Some r, sr_status = None\<rparr>, s2)
               | (Inr None, s2) \<Rightarrow>
                   (Inr \<lparr>sr_loggedIn = False, sr_isAdmin = False, sr_session = None,
                      sr_status = None\<rparr>, s2)))"

end
