(* ===== verification/Rotation.thy ===== *)
theory Rotation
  imports Auth_Service
begin

text \<open>
  What \<^verbatim>\<open>AuthService#refresh\<close> guarantees: rotation, replay detection and the plain rejections.
\<close>

section \<open>The three statements of a refresh\<close>

lemma findActiveRefreshToken_Inr:
  assumes "findActiveRefreshToken e now tok s = (Inr row, s')"
  shows "s' = s \<and> row \<in> set (rows (refresh_tokens s)) \<and> rt_tokenHash row = env_hashToken e tok
         \<and> now \<le> rt_expiresAt row \<and> rt_revokedAt row = None"
  using assms find_one_Some
  by (fastforce simp: findActiveRefreshToken_def split: option.splits if_splits)

lemma refresh_load_Inr:
  assumes "refresh_load e now tok s = (Inr (row, u), s')"
  shows "s' = s \<and> findActiveRefreshToken e now tok s = (Inr row, s)
         \<and> find_user (rt_userId row) s = Some u \<and> u_status u \<noteq> DENIED"
  using assms
  by (auto simp: refresh_load_def dest: findActiveRefreshToken_Inr
      split: prod.splits sum.splits option.splits if_splits)

text \<open>Whatever a load does to the tokens, it is a revocation (or nothing).\<close>

lemma refresh_load_state:
  assumes "refresh_load e now tok s = (res, s')"
  shows "s' = s \<or> (\<exists>why p. s' = revoke_matching now why p s)"
  using assms
  by (auto simp: refresh_load_def findActiveRefreshToken_def revokeUserTokens_def revokeToken_def
      split: prod.splits sum.splits option.splits if_splits)

lemma refresh_rotate_state:
  assumes "refresh_rotate now row s = (res, s')"
  shows "s' = revoke_matching now ROTATED (\<lambda>r. rt_id r = rt_id row) s"
  using assms by (auto simp: refresh_rotate_def Let_def split: if_splits)

lemma refresh_rotate_Inr:
  assumes "refresh_rotate now row s = (Inr x, s')"
  shows "\<exists>r \<in> set (rows (refresh_tokens s)). rt_id r = rt_id row \<and> rt_revokedAt r = None"
proof -
  from assms have "revoke_affected (\<lambda>r. rt_id r = rt_id row) s = 1"
    by (auto simp: refresh_rotate_def Let_def split: if_splits)
  then have "filter (\<lambda>r. rt_id r = rt_id row \<and> rt_revokedAt r = None) (rows (refresh_tokens s)) \<noteq> []"
    by (auto simp: revoke_affected_def count_where_def)
  then show ?thesis by (auto simp: filter_empty_conv)
qed

lemma find_by_hash:
  assumes "tokens_ok t" and "r \<in> set (rows t)"
  shows "find_one (\<lambda>q. rt_tokenHash q = rt_tokenHash r) t = Some r"
  using assms by (intro find_one_unique) (auto simp: tokens_ok_def dest: distinct_map_inj)

lemma refresh_Inr:
  assumes "refresh e c tok s = (Inr res, s')"
  obtains row u s1 where "refresh_load e (c_now c) tok s = (Inr (row, u), s)"
    and "s1 = revoke_matching (c_now c) ROTATED (\<lambda>r. rt_id r = rt_id row) s"
    and "issueTokens e c u (rt_keepSignedIn row) (Some (rotation_identity row)) s1 = (Inr res, s')"
proof -
  from assms obtain row u where load: "refresh_load e (c_now c) tok s = (Inr (row, u), s)"
    by (auto simp: refresh_def dest: refresh_load_Inr split: prod.splits sum.splits)
  with assms obtain x s1 where rot: "refresh_rotate (c_now c) row s = (Inr x, s1)"
    and iss: "issueTokens e c u (rt_keepSignedIn row) (Some (rotation_identity row)) s1 = (Inr res, s')"
    by (auto simp: refresh_def split: prod.splits sum.splits)
  show thesis
    by (rule that [OF load refresh_rotate_state [OF rot] iss])
qed

section \<open>Properties\<close>

text \<open>
  The row a refresh was made with: still stored, still carrying its hash, owner and expiry, and
  revoked as rotated.
\<close>

lemma refresh_rotated_row:
  assumes "tokens_ok (refresh_tokens s)" and "refresh e c tok s = (Inr res, s')"
    and "findActiveRefreshToken e (c_now c) tok s = (Inr row, s)"
  shows "row\<lparr>rt_revokedAt := Some (c_now c), rt_revokedReason := Some ROTATED\<rparr>
           \<in> set (rows (refresh_tokens s'))" (is "?old \<in> _")
proof -
  from assms(2) obtain row' u s1 where
    load: "refresh_load e (c_now c) tok s = (Inr (row', u), s)"
    and s1: "s1 = revoke_matching (c_now c) ROTATED (\<lambda>r. rt_id r = rt_id row') s"
    and iss: "issueTokens e c u (rt_keepSignedIn row') (Some (rotation_identity row')) s1 = (Inr res, s')"
    by (rule refresh_Inr)
  from refresh_load_Inr [OF load] assms(3) have row': "row' = row" by simp
  have in_s: "row \<in> set (rows (refresh_tokens s))" "c_now c \<le> rt_expiresAt row"
      "rt_revokedAt row = None"
    using findActiveRefreshToken_Inr [OF assms(3)] by auto
  then have "?old \<in> set (rows (refresh_tokens s1))"
    unfolding s1 row' rows_revoke_matching by (auto intro!: image_eqI [of _ _ row])
  then have "?old \<in> set (rows (pruned_tokens c u s1))"
    using in_s by (simp add: pruned_tokens_def table_simps)
  then show ?thesis
    by (simp add: issueTokens_Inr(1) [OF iss] rows_insert_row)
qed

text \<open>
  C1. Replay detection.  After a successful refresh, presenting the rotated-out token again
  before its expiry is answered 401 and leaves the user without a single active session: the
  session the refresh continued and every other one are closed, at any later time.
\<close>

theorem refresh_replay_closes_every_session:
  assumes "tokens_ok (refresh_tokens s)" and "refresh e c tok s = (Inr res, s')"
    and "findActiveRefreshToken e (c_now c) tok s = (Inr row, s)" and "c_now c' \<le> rt_expiresAt row"
  shows "\<exists>s''. refresh e c' tok s' = (Inl invalid_refresh_token, s'') \<and>
           (\<forall>now sid. \<not> session_active now sid (rt_userId row) s'')"
proof -
  let ?old = "row\<lparr>rt_revokedAt := Some (c_now c), rt_revokedReason := Some ROTATED\<rparr>"
  let ?s'' = "revokeUserTokens e (c_now c') (rt_userId row) REPLAY_DETECTED None s'"
  have old: "?old \<in> set (rows (refresh_tokens s'))"
    using assms(1-3) by (rule refresh_rotated_row)
  have "tokens_ok (refresh_tokens s')"
    using assms(1,2) by (auto elim!: refresh_Inr intro: tokens_ok_issueTokens tokens_ok_revoke_matching)
  from find_by_hash [OF this old]
  have "find_one (\<lambda>r. rt_tokenHash r = env_hashToken e tok) (refresh_tokens s') = Some ?old"
    using findActiveRefreshToken_Inr [OF assms(3)] by simp
  with assms(4) have "refresh e c' tok s' = (Inl invalid_refresh_token, ?s'')"
    by (simp add: refresh_def refresh_load_def findActiveRefreshToken_def)
  moreover have "\<not> session_active now sid (rt_userId row) ?s''" for now sid
    by (simp add: revokeUserTokens_def session_active_revoked)
  ultimately show ?thesis by blast
qed

text \<open>
  Every other rejection is plain: a token that is unknown, expired, or revoked for a reason
  other than rotation is answered 401 and changes nothing, so a logged-out or revoked device
  cannot end the user's other sessions.
\<close>

theorem refresh_plain_rejection:
  assumes "\<And>r. find_one (\<lambda>r. rt_tokenHash r = env_hashToken e tok) (refresh_tokens s) = Some r \<Longrightarrow>
      rt_expiresAt r < c_now c \<or> rt_revokedAt r \<noteq> None \<and> rt_revokedReason r \<noteq> Some ROTATED"
  shows "refresh e c tok s = (Inl invalid_refresh_token, s)"
  using assms
  by (auto simp: refresh_def refresh_load_def findActiveRefreshToken_def split: option.splits)

text \<open>
  A successful refresh keeps the session's identity: the presented token stops being
  active, and the new one is active until its own expiry, for the same user, in the same
  session (UUID and start time) and with the same persistence.
\<close>

theorem refresh_continues_session:
  assumes "tokens_ok (refresh_tokens s)" and "refresh e c tok s = (Inr res, s')"
    and "findActiveRefreshToken e (c_now c) tok s = (Inr row, s)" and "c_token c \<noteq> []"
    and "t < res_refreshTokenExpiresAt res"
  shows "findActiveToken e t (Some tok) s' = None \<and>
         (\<exists>r. findActiveToken e t (Some (res_refreshToken res)) s' = Some r \<and>
              rt_userId r = rt_userId row \<and> rt_sessionUuid r = rt_sessionUuid row \<and>
              rt_startedAt r = rt_startedAt row \<and> rt_keepSignedIn r = rt_keepSignedIn row)"
proof -
  let ?old = "row\<lparr>rt_revokedAt := Some (c_now c), rt_revokedReason := Some ROTATED\<rparr>"
  from assms(2) obtain row' u s1 where
    load: "refresh_load e (c_now c) tok s = (Inr (row', u), s)"
    and s1: "s1 = revoke_matching (c_now c) ROTATED (\<lambda>r. rt_id r = rt_id row') s"
    and iss: "issueTokens e c u (rt_keepSignedIn row') (Some (rotation_identity row')) s1 = (Inr res, s')"
    by (rule refresh_Inr)
  from refresh_load_Inr [OF load] assms(3) have row': "row' = row" and u: "u_id u = rt_userId row"
    by (auto dest: find_user_Some)
  have ok: "tokens_ok (refresh_tokens s')"
    using iss unfolding s1 by (rule tokens_ok_issueTokens [OF tokens_ok_revoke_matching [OF assms(1)]])
  have "find_one (\<lambda>r. rt_tokenHash r = env_hashToken e tok) (refresh_tokens s') = Some ?old"
    using find_by_hash [OF ok refresh_rotated_row [OF assms(1-3)]]
      findActiveRefreshToken_Inr [OF assms(3)] by simp
  then have gone: "findActiveToken e t (Some tok) s' = None"
    by (simp add: findActiveToken_def token_active_def)
  let ?r = "minted_row e c u (rt_keepSignedIn row) (Some (rotation_identity row)) s1
      (next_id (pruned_tokens c u s1))"
  have new: "?r \<in> set (rows (refresh_tokens s'))"
    using issueTokens_Inr(1) [OF iss] by (simp add: row' rows_insert_row)
  have "findActiveToken e t (Some (res_refreshToken res)) s' = Some ?r"
    using find_by_hash [OF ok new] assms(4,5) issueTokens_Inr(4,5) [OF iss] row'
    by (simp add: findActiveToken_def token_active_def)
  with gone u show ?thesis
    by (auto simp: minted_session_def rotation_identity_def)
qed

section \<open>Witnesses\<close>

definition demo_login :: auth_state where
  "demo_login = snd (issueTokens demo_env demo_ctx demo_user False None demo_state)"

definition demo_refreshed :: auth_state where
  "demo_refreshed = snd (refresh demo_env demo_ctx2 ''t1'' demo_login)"

definition demo_row :: refresh_token where
  "demo_row = hd (rows (refresh_tokens demo_login))"

lemma demo_login_ok: "tokens_ok (refresh_tokens demo_login)"
  by code_simp

lemma demo_row_active:
  "findActiveRefreshToken demo_env (c_now demo_ctx2) ''t1'' demo_login = (Inr demo_row, demo_login)"
  by code_simp

lemma demo_refresh: "\<exists>res. refresh demo_env demo_ctx2 ''t1'' demo_login = (Inr res, demo_refreshed)"
proof -
  have "is_Inr (fst (refresh demo_env demo_ctx2 ''t1'' demo_login))" by code_simp
  from is_Inr_outcome [OF this] show ?thesis by (simp add: demo_refreshed_def)
qed

theorem refresh_replay_closes_every_session_witness:
  "\<exists>s''. refresh demo_env demo_ctx2 ''t1'' demo_refreshed = (Inl invalid_refresh_token, s'') \<and>
     (\<forall>now sid. \<not> session_active now sid (rt_userId demo_row) s'')"
proof -
  from demo_refresh obtain res where
    "refresh demo_env demo_ctx2 ''t1'' demo_login = (Inr res, demo_refreshed)" by blast
  moreover have "c_now demo_ctx2 \<le> rt_expiresAt demo_row" by code_simp
  ultimately show ?thesis
    using refresh_replay_closes_every_session [OF demo_login_ok _ demo_row_active] by blast
qed

theorem refresh_plain_rejection_witness:
  "refresh demo_env demo_ctx2 ''unknown'' demo_login = (Inl invalid_refresh_token, demo_login)"
proof (rule refresh_plain_rejection)
  have none: "find_one (\<lambda>r. rt_tokenHash r = env_hashToken demo_env ''unknown'')
      (refresh_tokens demo_login) = None" by code_simp
  show "rt_expiresAt r < c_now demo_ctx2 \<or> rt_revokedAt r \<noteq> None \<and> rt_revokedReason r \<noteq> Some ROTATED"
    if "find_one (\<lambda>r. rt_tokenHash r = env_hashToken demo_env ''unknown'')
      (refresh_tokens demo_login) = Some r" for r
    using that none by simp
qed

theorem refresh_continues_session_witness:
  "\<exists>r res. refresh demo_env demo_ctx2 ''t1'' demo_login = (Inr res, demo_refreshed) \<and>
     findActiveToken demo_env 3000 (Some ''t1'') demo_refreshed = None \<and>
     findActiveToken demo_env 3000 (Some (res_refreshToken res)) demo_refreshed = Some r \<and>
     rt_sessionUuid r = rt_sessionUuid demo_row"
proof -
  from demo_refresh obtain res where
    h: "refresh demo_env demo_ctx2 ''t1'' demo_login = (Inr res, demo_refreshed)" by blast
  have "(case fst (refresh demo_env demo_ctx2 ''t1'' demo_login) of
      Inr r \<Rightarrow> 3000 < res_refreshTokenExpiresAt r | Inl _ \<Rightarrow> False)" by code_simp
  with h have "3000 < res_refreshTokenExpiresAt res" by simp
  moreover have "c_token demo_ctx2 \<noteq> []" by (simp add: demo_ctx2_def)
  ultimately show ?thesis
    using refresh_continues_session [OF demo_login_ok h demo_row_active, of 3000] h by blast
qed

end
