(* ===== verification/Session_System.thy ===== *)
theory Session_System
  imports Rotation
begin

text \<open>
  The session store under concurrent requests.  A state holds the Auth tables and the refreshes
  in flight: a request that has loaded its row and user, or one whose rotation \<^verbatim>\<open>UPDATE\<close> has
  already won and that has still to insert the replacement.  Each SQL statement is one step,
  and steps of different requests interleave freely.
\<close>

section \<open>The step relation\<close>

datatype flight = Loaded refresh_token user | Rotated refresh_token user

fun flight_row :: "flight \<Rightarrow> refresh_token" where
  "flight_row (Loaded row u) = row"
| "flight_row (Rotated row u) = row"

fun is_rotated :: "flight \<Rightarrow> bool" where
  "is_rotated (Loaded row u) = False"
| "is_rotated (Rotated row u) = True"

record sys =
  sy_auth :: auth_state
  sy_flights :: "flight list"

definition used_sessions :: "sys \<Rightarrow> string set" where
  "used_sessions \<sigma> = rt_sessionUuid ` set (rows (refresh_tokens (sy_auth \<sigma>)))
     \<union> (rt_sessionUuid \<circ> flight_row) ` set (sy_flights \<sigma>)"

text \<open>
  \<open>load\<close>, \<open>refuse\<close>, \<open>win\<close>, \<open>lose\<close> and \<open>renew\<close> are the statements of \<^verbatim>\<open>refresh\<close>; \<open>start\<close> is
  the mint of a new session (login, registration, automatic login, device claim), whose random
  UUID no stored or pending session has; \<open>revoke\<close> is any revocation; \<open>other\<close> is any statement
  on the other tables.
\<close>

inductive sys_step :: "env \<Rightarrow> sys \<Rightarrow> sys \<Rightarrow> bool" for e where
  load: "refresh_load e now tok (sy_auth \<sigma>) = (Inr (row, u), a) \<Longrightarrow>
     sys_step e \<sigma> \<lparr>sy_auth = a, sy_flights = sy_flights \<sigma> @ [Loaded row u]\<rparr>"
| refuse: "refresh_load e now tok (sy_auth \<sigma>) = (Inl x, a) \<Longrightarrow> sys_step e \<sigma> (\<sigma>\<lparr>sy_auth := a\<rparr>)"
| win: "sy_flights \<sigma> = xs @ Loaded row u # ys \<Longrightarrow>
     refresh_rotate now row (sy_auth \<sigma>) = (Inr z, a) \<Longrightarrow>
     sys_step e \<sigma> \<lparr>sy_auth = a, sy_flights = xs @ Rotated row u # ys\<rparr>"
| lose: "sy_flights \<sigma> = xs @ Loaded row u # ys \<Longrightarrow>
     refresh_rotate now row (sy_auth \<sigma>) = (Inl x, a) \<Longrightarrow>
     sys_step e \<sigma> \<lparr>sy_auth = a, sy_flights = xs @ ys\<rparr>"
| renew: "sy_flights \<sigma> = xs @ Rotated row u # ys \<Longrightarrow>
     issueTokens e c u (rt_keepSignedIn row) (Some (rotation_identity row)) (sy_auth \<sigma>) = (res, a) \<Longrightarrow>
     sys_step e \<sigma> \<lparr>sy_auth = a, sy_flights = xs @ ys\<rparr>"
| start: "issueTokens e c u k None (sy_auth \<sigma>) = (res, a) \<Longrightarrow> c_uuid c \<notin> used_sessions \<sigma> \<Longrightarrow>
     sys_step e \<sigma> (\<sigma>\<lparr>sy_auth := a\<rparr>)"
| revoke: "sys_step e \<sigma> (\<sigma>\<lparr>sy_auth := revoke_matching now why p (sy_auth \<sigma>)\<rparr>)"
| other: "refresh_tokens a = refresh_tokens (sy_auth \<sigma>) \<Longrightarrow> sys_step e \<sigma> (\<sigma>\<lparr>sy_auth := a\<rparr>)"

inductive sys_reach :: "env \<Rightarrow> sys \<Rightarrow> bool" for e where
  init: "sys_reach e \<lparr>sy_auth = init_auth_state, sy_flights = []\<rparr>"
| step: "sys_reach e \<sigma> \<Longrightarrow> sys_step e \<sigma> \<sigma>' \<Longrightarrow> sys_reach e \<sigma>'"

section \<open>The inductive invariant\<close>

definition live_sessions :: "refresh_token table \<Rightarrow> string list" where
  "live_sessions t = map rt_sessionUuid (filter unrevoked (rows t))"

definition rotated_sessions :: "flight list \<Rightarrow> string list" where
  "rotated_sessions fs = map (rt_sessionUuid \<circ> flight_row) (filter is_rotated fs)"

text \<open>
  A session is either live in the table, or between its rotation and the insert of its
  replacement, never both and never twice; and the row a request holds is the row its id
  still names.
\<close>

definition sys_inv :: "sys \<Rightarrow> bool" where
  "sys_inv \<sigma> \<longleftrightarrow> tokens_ok (refresh_tokens (sy_auth \<sigma>))
     \<and> distinct (live_sessions (refresh_tokens (sy_auth \<sigma>)) @ rotated_sessions (sy_flights \<sigma>))
     \<and> (\<forall>f \<in> set (sy_flights \<sigma>). rt_id (flight_row f) < next_id (refresh_tokens (sy_auth \<sigma>))
          \<and> (\<forall>r \<in> set (rows (refresh_tokens (sy_auth \<sigma>))). rt_id r = rt_id (flight_row f)
               \<longrightarrow> rt_sessionUuid r = rt_sessionUuid (flight_row f)))"

lemma rotated_sessions_simps [simp]:
  "rotated_sessions [] = []"
  "rotated_sessions (Loaded row u # fs) = rotated_sessions fs"
  "rotated_sessions (Rotated row u # fs) = rt_sessionUuid row # rotated_sessions fs"
  "rotated_sessions (fs @ gs) = rotated_sessions fs @ rotated_sessions gs"
  by (simp_all add: rotated_sessions_def)

text \<open>A table whose rows are old rows, up to revocation, with fewer of them live.\<close>

definition token_shrink :: "refresh_token table \<Rightarrow> refresh_token table \<Rightarrow> bool" where
  "token_shrink t t' \<longleftrightarrow> tokens_ok t' \<and> next_id t' = next_id t
     \<and> subseq (live_sessions t') (live_sessions t)
     \<and> (\<forall>r \<in> set (rows t'). \<exists>r0 \<in> set (rows t). rt_id r0 = rt_id r \<and> rt_sessionUuid r0 = rt_sessionUuid r)"

lemma subseq_map_filter_weaken:
  assumes "\<And>x. Q x \<Longrightarrow> P x"
  shows "subseq (map k (filter Q xs)) (map k (filter P xs))"
proof -
  have "filter Q xs = filter Q (filter P xs)"
    using assms by (induction xs) auto
  then show ?thesis by (metis subseq_filter_left subseq_map)
qed

lemma token_shrink_refl: "tokens_ok t \<Longrightarrow> token_shrink t t"
  by (auto simp: token_shrink_def)

lemma token_shrink_revoke:
  assumes "tokens_ok (refresh_tokens a)"
  shows "token_shrink (refresh_tokens a) (refresh_tokens (revoke_matching now why p a))"
proof -
  have "subseq (live_sessions (refresh_tokens (revoke_matching now why p a)))
      (live_sessions (refresh_tokens a))"
    unfolding live_sessions_def unrevoked_revoke_matching
    by (rule subseq_map_filter_weaken) simp
  with assms show ?thesis
    by (auto simp: token_shrink_def tokens_ok_revoke_matching next_id_revoke_matching
        rows_revoke_matching)
qed

lemma token_shrink_delete:
  assumes "tokens_ok t"
  shows "token_shrink t (delete_where p t)"
proof -
  have "subseq (live_sessions (delete_where p t)) (live_sessions t)"
    unfolding live_sessions_def rows_delete_where filter_filter
    by (rule subseq_map_filter_weaken) simp
  with assms show ?thesis
    by (auto simp: token_shrink_def tokens_ok_delete next_id_table_ops rows_delete_where)
qed

lemma distinct_append_subseq:
  assumes "distinct (xs @ zs)" and "subseq ys xs"
  shows "distinct (ys @ zs)"
proof -
  from assms(2) obtain zs' where "ys = nths xs zs'" by (auto simp: subseq_conv_nths)
  with assms(1) show ?thesis by (auto dest: in_set_nthsD simp: distinct_nthsI)
qed

text \<open>Shrinking the table keeps the invariant.\<close>

lemma sys_inv_shrink:
  assumes "sys_inv \<sigma>" and "token_shrink (refresh_tokens (sy_auth \<sigma>)) (refresh_tokens a)"
  shows "sys_inv (\<sigma>\<lparr>sy_auth := a\<rparr>)"
  using assms distinct_append_subseq
  unfolding sys_inv_def token_shrink_def by (fastforce simp del: distinct_append)

lemma live_sessions_minted:
  "live_sessions (insert_row (minted_row e c u k si s) t) = live_sessions t @ [minted_session c si]"
  unfolding live_sessions_def unrevoked_insert_minted by simp

lemma pruned_shrink:
  "tokens_ok (refresh_tokens a) \<Longrightarrow> token_shrink (refresh_tokens a) (pruned_tokens c u a)"
  unfolding pruned_tokens_def by (rule token_shrink_delete)

lemma sys_inv_mint:
  assumes "sys_inv \<sigma>" and "issueTokens e c u k si (sy_auth \<sigma>) = (res, a)"
    and "minted_session c si \<notin> set (live_sessions (refresh_tokens (sy_auth \<sigma>)))"
    and "minted_session c si \<notin> set (rotated_sessions (sy_flights \<sigma>))"
  shows "sys_inv (\<sigma>\<lparr>sy_auth := a\<rparr>)"
proof -
  let ?t = "pruned_tokens c u (sy_auth \<sigma>)"
  have ok: "tokens_ok (refresh_tokens (sy_auth \<sigma>))"
    using assms(1) by (simp add: sys_inv_def)
  then have shr: "token_shrink (refresh_tokens (sy_auth \<sigma>)) ?t" by (rule pruned_shrink)
  have inv: "sys_inv (\<sigma>\<lparr>sy_auth := (sy_auth \<sigma>)\<lparr>refresh_tokens := ?t\<rparr>\<rparr>)"
    using assms(1) shr by (intro sys_inv_shrink) simp_all
  have new: "minted_session c si \<notin> set (live_sessions ?t)"
    using assms(3) shr by (auto simp: token_shrink_def subseq_conv_nths dest: in_set_nthsD)
  from issueTokens_tokens [OF assms(2)] show ?thesis
  proof
    assume "refresh_tokens a = ?t"
    with inv show ?thesis by (simp add: sys_inv_def)
  next
    assume a: "refresh_tokens a = insert_row (minted_row e c u k si (sy_auth \<sigma>)) ?t
      \<and> (\<forall>r \<in> set (rows ?t). rt_tokenHash r \<noteq> env_hashToken e (c_token c))"
    have "tokens_ok (refresh_tokens a)"
      using ok assms(2) by (rule tokens_ok_issueTokens)
    with a inv new assms(4) show ?thesis
      by (fastforce simp: sys_inv_def live_sessions_minted table_simps)
  qed
qed

lemma sys_inv_revoke:
  assumes "sys_inv \<sigma>"
  shows "sys_inv (\<sigma>\<lparr>sy_auth := revoke_matching now why p (sy_auth \<sigma>)\<rparr>)"
proof -
  from assms have "tokens_ok (refresh_tokens (sy_auth \<sigma>))" by (simp add: sys_inv_def)
  from sys_inv_shrink [OF assms token_shrink_revoke [OF this]] show ?thesis .
qed

text \<open>The winning rotation moves one session from the table to the requests in flight.\<close>

lemma sys_inv_win:
  assumes "sys_inv \<sigma>" and fl: "sy_flights \<sigma> = xs @ Loaded row u # ys"
    and rot: "refresh_rotate now row (sy_auth \<sigma>) = (Inr z, a)"
  shows "sys_inv \<lparr>sy_auth = a, sy_flights = xs @ Rotated row u # ys\<rparr>"
proof -
  let ?t = "refresh_tokens (sy_auth \<sigma>)" and ?p = "\<lambda>r. rt_id r = rt_id row"
  have ok: "tokens_ok ?t" and dist: "distinct (live_sessions ?t @ rotated_sessions (xs @ ys))"
    using assms(1) fl by (simp_all add: sys_inv_def)
  have a: "a = revoke_matching now ROTATED ?p (sy_auth \<sigma>)" by (rule refresh_rotate_state [OF rot])
  from refresh_rotate_Inr [OF rot] obtain r0 where r0: "r0 \<in> set (rows ?t)" "?p r0" "unrevoked r0"
    by (auto simp: unrevoked_def)
  with assms(1) fl have uuid: "rt_sessionUuid r0 = rt_sessionUuid row" by (simp add: sys_inv_def)
  have live: "rt_sessionUuid row \<in> set (live_sessions ?t)"
    using r0 uuid by (auto simp: live_sessions_def intro!: image_eqI [of _ _ r0])
  have "rt_sessionUuid row \<notin> set (live_sessions (refresh_tokens a))"
  proof
    assume "rt_sessionUuid row \<in> set (live_sessions (refresh_tokens a))"
    then obtain r where r: "r \<in> set (filter unrevoked (rows ?t))" "\<not> ?p r"
        "rt_sessionUuid r = rt_sessionUuid r0"
      by (auto simp: a live_sessions_def unrevoked_revoke_matching uuid)
    have "distinct (map rt_sessionUuid (filter unrevoked (rows ?t)))"
      using dist by (simp add: live_sessions_def)
    from distinct_map_inj [OF this r(1) _ r(3)] r0 have "r = r0" by simp
    with r(2) r0(2) show False by simp
  qed
  moreover have "sys_inv (\<sigma>\<lparr>sy_auth := a\<rparr>)"
    unfolding a using assms(1) by (rule sys_inv_revoke)
  ultimately show ?thesis
    using dist live fl by (auto simp: sys_inv_def)
qed

lemma sys_inv_drop:
  "sys_inv \<sigma> \<Longrightarrow> sy_flights \<sigma> = xs @ f # ys \<Longrightarrow> sys_inv (\<sigma>\<lparr>sy_flights := xs @ ys\<rparr>)"
  by (cases f) (auto simp: sys_inv_def)

lemma sys_inv_load:
  assumes "sys_inv \<sigma>" and "refresh_load e now tok (sy_auth \<sigma>) = (Inr (row, u), a)"
  shows "sys_inv \<lparr>sy_auth = a, sy_flights = sy_flights \<sigma> @ [Loaded row u]\<rparr>"
proof -
  from refresh_load_Inr [OF assms(2)] have "a = sy_auth \<sigma>"
    and "row \<in> set (rows (refresh_tokens (sy_auth \<sigma>)))"
    by (auto dest: findActiveRefreshToken_Inr)
  with assms(1) show ?thesis
    by (auto simp: sys_inv_def tokens_ok_def dest: distinct_map_inj)
qed

lemma sys_step_inv: "sys_step e \<sigma> \<sigma>' \<Longrightarrow> sys_inv \<sigma> \<Longrightarrow> sys_inv \<sigma>'"
proof (induction rule: sys_step.induct)
  case (load now tok \<sigma> row u a)
  then show ?case by (intro sys_inv_load)
next
  case (refuse now tok \<sigma> x a)
  from refresh_load_state [OF refuse(1)] refuse(2) show ?case
    using sys_inv_revoke [OF refuse(2)] by (cases \<sigma>) auto
next
  case (win \<sigma> xs row u ys now z a)
  then show ?case by (intro sys_inv_win)
next
  case (lose \<sigma> xs row u ys now x a)
  have "sys_inv (\<sigma>\<lparr>sy_auth := a\<rparr>)"
    using sys_inv_revoke [OF lose(3)] refresh_rotate_state [OF lose(2)] by simp
  from sys_inv_drop [OF this, of xs] lose(1) show ?case by (cases \<sigma>) simp
next
  case (renew \<sigma> xs row u ys c res a)
  let ?\<tau> = "\<sigma>\<lparr>sy_flights := xs @ ys\<rparr>"
  have "sys_inv ?\<tau>" using renew(3,1) by (rule sys_inv_drop)
  moreover have "rt_sessionUuid row \<notin> set (live_sessions (refresh_tokens (sy_auth \<sigma>)))"
      "rt_sessionUuid row \<notin> set (rotated_sessions (xs @ ys))"
    using renew(1,3) by (auto simp: sys_inv_def)
  ultimately have "sys_inv (?\<tau>\<lparr>sy_auth := a\<rparr>)"
    using renew(2)
    by (intro sys_inv_mint) (auto simp: minted_session_def rotation_identity_def)
  then show ?case by (cases \<sigma>) simp
next
  case (start c u k \<sigma> res a)
  then show ?case
    by (intro sys_inv_mint)
      (auto simp: minted_session_def used_sessions_def live_sessions_def rotated_sessions_def)
next
  case (revoke \<sigma> now why p)
  then show ?case by (rule sys_inv_revoke)
next
  case (other a \<sigma>)
  then show ?case by (simp add: sys_inv_def)
qed

lemma sys_reach_inv: "sys_reach e \<sigma> \<Longrightarrow> sys_inv \<sigma>"
proof (induction rule: sys_reach.induct)
  case init
  show ?case
    by (simp add: sys_inv_def init_auth_state_def empty_table_def tokens_ok_def live_sessions_def)
next
  case (step \<sigma> \<sigma>')
  then show ?case by (blast intro: sys_step_inv)
qed

section \<open>Properties\<close>

text \<open>
  C5. However the statements of concurrent logins, refreshes and revocations interleave, a
  session never has two unrevoked rows: two refreshes racing with one token cannot both end in
  a live token.
\<close>

theorem reachable_one_live_row_per_session:
  assumes "sys_reach e \<sigma>"
  shows "one_live_row_per_session (refresh_tokens (sy_auth \<sigma>))"
  using sys_reach_inv [OF assms] by (simp add: sys_inv_def one_live_row_per_session_def live_sessions_def)

text \<open>An id that names no unrevoked row never names one again.\<close>

definition spent_id :: "nat \<Rightarrow> sys \<Rightarrow> bool" where
  "spent_id i \<sigma> \<longleftrightarrow> i < next_id (refresh_tokens (sy_auth \<sigma>))
     \<and> (\<forall>r \<in> set (rows (refresh_tokens (sy_auth \<sigma>))). rt_id r = i \<longrightarrow> rt_revokedAt r \<noteq> None)"

lemma spent_id_revoke:
  "spent_id i \<sigma> \<Longrightarrow> spent_id i \<lparr>sy_auth = revoke_matching now why p (sy_auth \<sigma>), sy_flights = fs\<rparr>"
  by (auto simp: spent_id_def rows_revoke_matching next_id_revoke_matching)

lemma spent_id_mint:
  assumes "spent_id i \<sigma>" and "issueTokens e c u k si (sy_auth \<sigma>) = (res, a)"
  shows "spent_id i \<lparr>sy_auth = a, sy_flights = fs\<rparr>"
  using assms(1) issueTokens_tokens [OF assms(2)]
  by (auto simp: spent_id_def pruned_tokens_def table_simps)

lemma spent_id_step: "sys_step e \<sigma> \<sigma>' \<Longrightarrow> spent_id i \<sigma> \<Longrightarrow> spent_id i \<sigma>'"
proof (induction rule: sys_step.induct)
  case (load now tok \<sigma> row u a)
  then show ?case by (auto simp: spent_id_def dest: refresh_load_Inr)
next
  case (refuse now tok \<sigma> x a)
  from refresh_load_state [OF refuse(1)] refuse(2) spent_id_revoke [of i \<sigma> _ _ _ "sy_flights \<sigma>"]
  show ?case by (cases \<sigma>) (auto simp: spent_id_def)
next
  case (win \<sigma> xs row u ys now z a)
  then show ?case using refresh_rotate_state [OF win(2)] by (simp add: spent_id_revoke)
next
  case (lose \<sigma> xs row u ys now x a)
  then show ?case using refresh_rotate_state [OF lose(2)] by (simp add: spent_id_revoke)
next
  case (renew \<sigma> xs row u ys c res a)
  then show ?case by (intro spent_id_mint)
next
  case (start c u k \<sigma> res a)
  then show ?case using spent_id_mint [of i \<sigma> e c u k None res a "sy_flights \<sigma>"] by (cases \<sigma>) simp
next
  case (revoke \<sigma> now why p)
  then show ?case using spent_id_revoke [of i \<sigma> now why p "sy_flights \<sigma>"] by (cases \<sigma>) simp
next
  case (other a \<sigma>)
  then show ?case by (simp add: spent_id_def)
qed

lemma spent_id_loses:
  assumes "spent_id (rt_id row) \<sigma>"
  shows "\<exists>a. refresh_rotate now row (sy_auth \<sigma>) = (Inl invalid_refresh_token, a)"
proof -
  from assms have "revoke_affected (\<lambda>r. rt_id r = rt_id row) (sy_auth \<sigma>) = 0"
    by (auto simp: spent_id_def revoke_affected_def count_where_zero)
  then show ?thesis by (simp add: refresh_rotate_def)
qed

text \<open>
  C6. A rotation has one winner.  Once the rotation of a row has succeeded, no request that
  loaded the same row can rotate it again, whatever steps lie in between; it is answered 401
  and mints nothing.
\<close>

theorem rotation_has_one_winner:
  assumes "sys_reach e \<sigma>" and "refresh_rotate now row (sy_auth \<sigma>) = (Inr z, a)"
    and "(sys_step e)\<^sup>*\<^sup>* (\<sigma>\<lparr>sy_auth := a\<rparr>) \<sigma>'" and "rt_id row' = rt_id row"
  shows "\<exists>a'. refresh_rotate now' row' (sy_auth \<sigma>') = (Inl invalid_refresh_token, a')"
proof -
  have "spent_id (rt_id row) (\<sigma>\<lparr>sy_auth := a\<rparr>)"
    using refresh_rotate_Inr [OF assms(2)] sys_reach_inv [OF assms(1)]
    by (auto simp: refresh_rotate_state [OF assms(2)] spent_id_def rows_revoke_matching
        next_id_revoke_matching sys_inv_def tokens_ok_def)
  with assms(3) have "spent_id (rt_id row) \<sigma>'"
    by (induction rule: rtranclp_induct) (auto intro: spent_id_step)
  with assms(4) spent_id_loses [of row' \<sigma>' now'] show ?thesis by simp
qed

section \<open>Witnesses\<close>

text \<open>A reachable state with one live session, and the same state with its refresh loaded.\<close>

definition demo_sys :: sys where
  "demo_sys = \<lparr>sy_auth = demo_login, sy_flights = []\<rparr>"

lemma demo_sys_reach: "sys_reach demo_env demo_sys"
proof -
  have "sys_reach demo_env \<lparr>sy_auth = demo_state, sy_flights = []\<rparr>"
    using sys_reach.step [OF sys_reach.init sys_step.other [of demo_state]]
    by (simp add: demo_state_def)
  moreover have "sys_step demo_env \<lparr>sy_auth = demo_state, sy_flights = []\<rparr> demo_sys"
    using sys_step.start [of demo_env demo_ctx demo_user False "\<lparr>sy_auth = demo_state, sy_flights = []\<rparr>"
        "fst (issueTokens demo_env demo_ctx demo_user False None demo_state)" demo_login]
    by (simp add: demo_login_def used_sessions_def demo_state_def init_auth_state_def
        empty_table_def demo_sys_def)
  ultimately show ?thesis by (rule sys_reach.step)
qed

theorem reachable_one_live_row_per_session_witness:
  "sys_reach demo_env demo_sys \<and> rows (refresh_tokens (sy_auth demo_sys)) \<noteq> [] \<and>
   one_live_row_per_session (refresh_tokens (sy_auth demo_sys))"
proof -
  have "rows (refresh_tokens (sy_auth demo_sys)) \<noteq> []" by code_simp
  with reachable_one_live_row_per_session [OF demo_sys_reach] demo_sys_reach show ?thesis by blast
qed

theorem rotation_has_one_winner_witness:
  "\<exists>a a'. refresh_rotate 2000 demo_row (sy_auth demo_sys) = (Inr (), a) \<and>
     refresh_rotate 2001 demo_row a = (Inl invalid_refresh_token, a')"
proof -
  have "is_Inr (fst (refresh_rotate 2000 demo_row (sy_auth demo_sys)))" by code_simp
  then obtain z a where h: "refresh_rotate 2000 demo_row (sy_auth demo_sys) = (Inr z, a)"
    using is_Inr_outcome by blast
  with rotation_has_one_winner [OF demo_sys_reach h rtranclp.rtrancl_refl, of demo_row 2001]
  show ?thesis by auto
qed

end
