(* ===== verification/Lockout.thy ===== *)
theory Lockout
  imports Runtime
begin

text \<open>
  The cool-off arithmetic of \<^verbatim>\<open>core/lockout-state.ts\<close> and the contract its clients share.

  Three guards of the backend count failures and lock: the account-edit guard (one row per
  user), the device-authorization guard (one counter per request row) and the integration
  credential guard.  The locale \<^verbatim>\<open>cool_off\<close> states what each promises of a counter, a lock
  test, a failure and a reset; the brute-force bound is proved once inside it and reaches each
  guard through its interpretation.
\<close>

section \<open>computeLockoutState\<close>

record lockout_state =
  attempts :: int
  lockedUntil :: "int option"

definition computeLockoutState :: "int \<Rightarrow> int \<Rightarrow> int \<Rightarrow> int \<Rightarrow> lockout_state" where
  "computeLockoutState now currentAttempts maxAttempts lockMs =
     (let n = currentAttempts + 1
      in \<lparr>attempts = n, lockedUntil = (if n \<ge> maxAttempts then Some (now + lockMs) else None)\<rparr>)"

lemma computeLockoutState_simps [simp]:
  "attempts (computeLockoutState now a m l) = a + 1"
  "lockedUntil (computeLockoutState now a m l) = (if a + 1 \<ge> m then Some (now + l) else None)"
  by (simp_all add: computeLockoutState_def Let_def)

text \<open>A lock is active while its end lies in the future.\<close>

definition lock_active :: "int \<Rightarrow> int option \<Rightarrow> bool" where
  "lock_active now u = (case u of None \<Rightarrow> False | Some t \<Rightarrow> t > now)"

lemma lock_active_simps [simp]:
  "\<not> lock_active now None"
  "lock_active now (Some t) \<longleftrightarrow> now < t"
  by (simp_all add: lock_active_def)

section \<open>The guessing adversary\<close>

text \<open>
  A run of failing attempts at the given times: an attempt during a lock is refused and leaves
  the counter alone, any other is tried and registered.  The result lists the tried ones.
\<close>

fun tried :: "(int \<Rightarrow> 's \<Rightarrow> bool) \<Rightarrow> (int \<Rightarrow> 's \<Rightarrow> 's) \<Rightarrow> int list \<Rightarrow> 's \<Rightarrow> int list" where
  "tried locked fail [] s = []"
| "tried locked fail (t # ts) s =
     (if locked t s then tried locked fail ts s
      else t # tried locked fail ts (fail t s))"

lemma tried_subset: "set (tried locked fail ts s) \<subseteq> set ts"
  by (induction ts arbitrary: s) auto

lemma spaced_length:
  assumes "successively (\<lambda>x y. x + d \<le> y) xs" and "xs \<noteq> []"
    and "\<And>x. x \<in> set xs \<Longrightarrow> x \<le> hi" and "0 \<le> d"
  shows "hd xs + int (length xs - 1) * d \<le> (hi :: int)"
  using assms
proof (induction xs)
  case Nil
  then show ?case by simp
next
  case (Cons x xs)
  show ?case
  proof (cases xs)
    case Nil
    with Cons.prems show ?thesis by simp
  next
    case (Cons y ys)
    with Cons.prems Cons.IH have "y + int (length ys) * d \<le> hi" and "x + d \<le> y"
      by auto
    with Cons show ?thesis by (simp add: algebra_simps)
  qed
qed

section \<open>The contract of a cool-off guard\<close>

locale cool_off =
  fixes invar :: "'s \<Rightarrow> bool"
    and count :: "'s \<Rightarrow> int"
    and locked :: "int \<Rightarrow> 's \<Rightarrow> bool"
    and fail :: "int \<Rightarrow> 's \<Rightarrow> 's"
    and reset :: "'s \<Rightarrow> 's"
    and maxAttempts :: int
    and lockMs :: int
  assumes invar_fail: "invar s \<Longrightarrow> invar (fail now s)"
    and invar_reset: "invar s \<Longrightarrow> invar (reset s)"
    and count_fail: "invar s \<Longrightarrow> \<not> locked now s \<Longrightarrow> count (fail now s) = count s + 1"
    and locked_fail: "invar s \<Longrightarrow> \<not> locked now s \<Longrightarrow>
          locked t (fail now s) \<longleftrightarrow> maxAttempts \<le> count s + 1 \<and> t < now + lockMs"
    and count_reset: "invar s \<Longrightarrow> count (reset s) = 0"
    and locked_reset: "invar s \<Longrightarrow> \<not> locked t (reset s)"
begin

lemma tried_after_threshold:
  assumes "invar s" and "maxAttempts \<le> count s" and "\<And>t. locked t s \<longleftrightarrow> t < L"
  shows "successively (\<lambda>x y. x + lockMs \<le> y) (tried locked fail ts s)
         \<and> (tried locked fail ts s \<noteq> [] \<longrightarrow> L \<le> hd (tried locked fail ts s))"
  using assms
proof (induction ts arbitrary: s L)
  case Nil
  then show ?case by simp
next
  case (Cons t ts)
  show ?case
  proof (cases "locked t s")
    case True
    with Cons show ?thesis by simp
  next
    case False
    let ?s = "fail t s"
    have "invar ?s" and "maxAttempts \<le> count ?s" and "\<And>t'. locked t' ?s \<longleftrightarrow> t' < t + lockMs"
      using Cons.prems False by (simp_all add: invar_fail count_fail locked_fail)
    from Cons.IH [OF this] False Cons.prems(3) show ?thesis
      by (auto simp add: successively_Cons)
  qed
qed

lemma tried_spaced:
  assumes "invar s"
  shows "successively (\<lambda>x y. x + lockMs \<le> y)
           (drop (nat (maxAttempts - 1 - count s)) (tried locked fail ts s))"
  using assms
proof (induction ts arbitrary: s)
  case Nil
  then show ?case by simp
next
  case (Cons t ts)
  show ?case
  proof (cases "locked t s")
    case True
    with Cons show ?thesis by simp
  next
    case free: False
    let ?s = "fail t s"
    have inv: "invar ?s" and cnt: "count ?s = count s + 1"
      using Cons.prems free by (simp_all add: invar_fail count_fail)
    show ?thesis
    proof (cases "maxAttempts \<le> count s + 1")
      case True
      then have "\<And>t'. locked t' ?s \<longleftrightarrow> t' < t + lockMs"
        using Cons.prems free by (simp add: locked_fail)
      with tried_after_threshold [OF inv, of "t + lockMs" ts] True cnt free show ?thesis
        by (auto simp add: successively_Cons)
    next
      case False
      then have "nat (maxAttempts - 1 - count s) = Suc (nat (maxAttempts - 1 - count ?s))"
        using cnt by simp
      with Cons.IH [OF inv] free show ?thesis by simp
    qed
  qed
qed

lemma brute_force_bound:
  assumes "invar s" and "0 < lockMs" and "\<And>t. t \<in> set ts \<Longrightarrow> lo \<le> t \<and> t \<le> hi" and "lo \<le> hi"
  shows "int (length (tried locked fail ts s))
         \<le> max 0 (maxAttempts - 1 - count s) + 1 + (hi - lo) div lockMs"
proof -
  let ?k = "nat (maxAttempts - 1 - count s)" and ?xs = "tried locked fail ts s"
  let ?ys = "drop ?k ?xs"
  have range: "lo \<le> x \<and> x \<le> hi" if "x \<in> set ?ys" for x
    using that assms(3) tried_subset [of locked fail ts s] by (meson in_set_dropD subsetD)
  have "int (length ?ys) \<le> 1 + (hi - lo) div lockMs"
  proof (cases "?ys = []")
    case True
    with assms(2,4) show ?thesis by (simp add: pos_imp_zdiv_nonneg_iff)
  next
    case False
    with range have "hd ?ys \<in> set ?ys" and "lo \<le> hd ?ys" by (simp_all add: hd_in_set)
    with spaced_length [OF tried_spaced [OF assms(1)] False, of hi] range assms(2)
    have "int (length ?ys - 1) * lockMs \<le> hi - lo" by fastforce
    then have "int (length ?ys - 1) \<le> (hi - lo) div lockMs"
      using assms(2) zdiv_mono1 [of "int (length ?ys - 1) * lockMs" "hi - lo" lockMs] by simp
    with False show ?thesis by (cases ?ys) auto
  qed
  moreover have "length ?xs \<le> ?k + length ?ys" by simp
  moreover have "int ?k = max 0 (maxAttempts - 1 - count s)" by simp
  ultimately show ?thesis by linarith
qed

end

end
