(* ===== verification/Account_Service.thy ===== *)
theory Account_Service
  imports Auth_Service Lockout
begin

text \<open>
  \<^verbatim>\<open>auth/account.service.ts\<close>, \<^verbatim>\<open>auth/account-edit-abuse-guard.service.ts\<close>,
  \<^verbatim>\<open>auth/user-update.service.ts\<close> and \<^verbatim>\<open>auth/assert-any-field-present.ts\<close>: the self-service
  account update behind a per-user cool-off.

  As in \<^verbatim>\<open>Default_User\<close>, the parameter \<open>race\<close> is what other requests committed between the
  lookup that found no lockout row and the insert of the first one.
\<close>

section \<open>Requested changes\<close>

record user_field_changes =
  ch_username :: "string option"
  ch_email :: "string option"
  ch_newPassword :: "string option"

record update_account_dto = user_field_changes +
  ch_currentPassword :: string

record account_summary =
  acs_username :: string
  acs_email :: string

definition assertAnyFieldPresent :: "'a user_field_changes_scheme \<Rightarrow> exn + unit" where
  "assertAnyFieldPresent dto =
     (if \<not> truthy (ch_username dto) \<and> \<not> truthy (ch_email dto) \<and> \<not> truthy (ch_newPassword dto)
      then Inl (BadRequest ''At least one of username, email, or newPassword is required'')
      else Inr ())"

definition hasManagedField :: "'a user_field_changes_scheme \<Rightarrow> bool" where
  "hasManagedField dto \<longleftrightarrow> ch_username dto \<noteq> None \<or> ch_email dto \<noteq> None \<or> ch_newPassword dto \<noteq> None"

section \<open>UserUpdateService\<close>

definition updated_user :: "env \<Rightarrow> ctx \<Rightarrow> 'a user_field_changes_scheme \<Rightarrow> user \<Rightarrow> user" where
  "updated_user e c dto u =
     (let u1 = (if truthy (ch_username dto) then u\<lparr>u_username := the (ch_username dto)\<rparr> else u);
          u2 = (if truthy (ch_email dto) then u1\<lparr>u_email := the (ch_email dto)\<rparr> else u1)
      in if truthy (ch_newPassword dto)
         then u2\<lparr>u_passwordDigest := env_bcrypt_hash e (c_salt c) (the (ch_newPassword dto))\<rparr> else u2)"

definition applyUserUpdate ::
  "env \<Rightarrow> ctx \<Rightarrow> user \<Rightarrow> 'a user_field_changes_scheme \<Rightarrow> auth_state \<Rightarrow> (account_summary, auth_state) outcome" where
  "applyUserUpdate e c u dto s =
     (let v = updated_user e c dto u
      in case save_user e v s of
           (Inl x, s1) \<Rightarrow> (Inl x, s1)
         | (Inr _, s1) \<Rightarrow> (Inr \<lparr>acs_username = u_username v, acs_email = u_email v\<rparr>, s1))"

section \<open>The cool-off of account edits\<close>

definition DEFAULT_ACCOUNT_EDIT_MAX_ATTEMPTS :: int where "DEFAULT_ACCOUNT_EDIT_MAX_ATTEMPTS = 5"

definition DEFAULT_ACCOUNT_EDIT_LOCK_MS :: int where "DEFAULT_ACCOUNT_EDIT_LOCK_MS = 300000"

definition edit_maxAttempts :: "env \<Rightarrow> int" where
  "edit_maxAttempts e =
     getNumberConfig e ''KERGHAN_ACCOUNT_EDIT_MAX_ATTEMPTS'' DEFAULT_ACCOUNT_EDIT_MAX_ATTEMPTS"

definition edit_lockMs :: "env \<Rightarrow> int" where
  "edit_lockMs e = getNumberConfig e ''KERGHAN_ACCOUNT_EDIT_LOCK_MS'' DEFAULT_ACCOUNT_EDIT_LOCK_MS"

definition nextAttemptState :: "env \<Rightarrow> int \<Rightarrow> int \<Rightarrow> lockout_state" where
  "nextAttemptState e now currentAttempts =
     computeLockoutState now currentAttempts (edit_maxAttempts e) (edit_lockMs e)"

definition find_lockout :: "nat \<Rightarrow> auth_state \<Rightarrow> account_edit_lockout option" where
  "find_lockout userId s = find_one (\<lambda>l. al_userId l = userId) (edit_lockouts s)"

definition edit_isLockedOut :: "int \<Rightarrow> nat \<Rightarrow> auth_state \<Rightarrow> bool" where
  "edit_isLockedOut now userId s =
     (case find_lockout userId s of None \<Rightarrow> False | Some l \<Rightarrow> lock_active now (al_lockedUntil l))"

definition applyFailure :: "env \<Rightarrow> int \<Rightarrow> nat \<Rightarrow> int \<Rightarrow> auth_state \<Rightarrow> auth_state" where
  "applyFailure e now i currentAttempts s =
     (let l = nextAttemptState e now currentAttempts
      in s\<lparr>edit_lockouts := update_where (\<lambda>r. al_id r = i)
           (\<lambda>r. r\<lparr>al_failedAttempts := attempts l, al_lockedUntil := lockedUntil l\<rparr>) (edit_lockouts s)\<rparr>)"

definition edit_recoverFromInsertRace ::
  "env \<Rightarrow> int \<Rightarrow> nat \<Rightarrow> exn \<Rightarrow> auth_state \<Rightarrow> (unit, auth_state) outcome" where
  "edit_recoverFromInsertRace e now userId error s =
     (if error \<noteq> DupEntryExn then (Inl error, s)
      else (Inr (), case find_lockout userId s of
              Some l \<Rightarrow> applyFailure e now (al_id l) (al_failedAttempts l) s
            | None \<Rightarrow> s))"

definition insertFirstFailure :: "env \<Rightarrow> int \<Rightarrow> nat \<Rightarrow> auth_state \<Rightarrow> (unit, auth_state) outcome" where
  "insertFirstFailure e now userId s =
     (let l = nextAttemptState e now 0
      in if exists_where (\<lambda>r. al_userId r = userId) (edit_lockouts s)
         then edit_recoverFromInsertRace e now userId DupEntryExn s
         else (Inr (), s\<lparr>edit_lockouts := insert_row (\<lambda>i. \<lparr>al_id = i, al_userId = userId,
                 al_failedAttempts = attempts l, al_lockedUntil = lockedUntil l\<rparr>) (edit_lockouts s)\<rparr>))"

definition registerFailure ::
  "env \<Rightarrow> int \<Rightarrow> nat \<Rightarrow> (auth_state \<Rightarrow> auth_state) \<Rightarrow> auth_state \<Rightarrow> (unit, auth_state) outcome" where
  "registerFailure e now userId race s =
     (case find_lockout userId s of
        Some l \<Rightarrow> (Inr (), applyFailure e now (al_id l) (al_failedAttempts l) s)
      | None \<Rightarrow> insertFirstFailure e now userId (race s))"

definition edit_reset :: "nat \<Rightarrow> auth_state \<Rightarrow> auth_state" where
  "edit_reset userId s =
     (case find_lockout userId s of
        None \<Rightarrow> s
      | Some l \<Rightarrow> s\<lparr>edit_lockouts := update_where (\<lambda>r. al_id r = al_id l)
           (\<lambda>r. r\<lparr>al_failedAttempts := 0, al_lockedUntil := None\<rparr>) (edit_lockouts s)\<rparr>)"

section \<open>AccountService\<close>

definition assertNotManaged ::
  "default_user_config \<Rightarrow> nat \<Rightarrow> 'a user_field_changes_scheme \<Rightarrow> auth_state \<Rightarrow> exn + unit" where
  "assertNotManaged cfg userId dto s =
     (if hasManagedField dto then assertNotDefaultUser cfg userId s else Inr ())"

definition verifyCurrentPassword :: "env \<Rightarrow> user \<Rightarrow> string \<Rightarrow> exn + unit" where
  "verifyCurrentPassword e u currentPassword =
     (if env_bcrypt_compare e currentPassword (u_passwordDigest u) then Inr ()
      else Inl (BadRequest ''Invalid current password''))"

definition changed_value :: "string option \<Rightarrow> string \<Rightarrow> string option" where
  "changed_value v old = (if truthy v \<and> v \<noteq> Some old then v else None)"

definition assertNewValuesAvailable ::
  "env \<Rightarrow> user \<Rightarrow> 'a user_field_changes_scheme \<Rightarrow> auth_state \<Rightarrow> exn + unit" where
  "assertNewValuesAvailable e u dto s =
     assertAvailableForUpdate e (u_id u) (changed_value (ch_username dto) (u_username u))
       (changed_value (ch_email dto) (u_email u)) s"

definition applyGuardedChecks ::
  "env \<Rightarrow> int \<Rightarrow> (auth_state \<Rightarrow> auth_state) \<Rightarrow> user \<Rightarrow> update_account_dto \<Rightarrow> auth_state
     \<Rightarrow> (unit, auth_state) outcome" where
  "applyGuardedChecks e now race u dto s =
     (case (case verifyCurrentPassword e u (ch_currentPassword dto) of
              Inl x \<Rightarrow> Inl x
            | Inr _ \<Rightarrow> assertNewValuesAvailable e u dto s) of
        Inr _ \<Rightarrow> (Inr (), s)
      | Inl x \<Rightarrow>
          (case registerFailure e now (u_id u) race s of
             (Inl y, s1) \<Rightarrow> (Inl y, s1)
           | (Inr _, s1) \<Rightarrow> (Inl x, s1)))"

definition updateAccount ::
  "env \<Rightarrow> ctx \<Rightarrow> default_user_config \<Rightarrow> (auth_state \<Rightarrow> auth_state) \<Rightarrow> nat \<Rightarrow> update_account_dto
     \<Rightarrow> string option \<Rightarrow> auth_state \<Rightarrow> (account_summary, auth_state) outcome" where
  "updateAccount e c cfg race userId dto currentRefreshToken s =
     (case assertAnyFieldPresent dto of
        Inl x \<Rightarrow> (Inl x, s)
      | Inr _ \<Rightarrow>
     (case assertNotManaged cfg userId dto s of
        Inl x \<Rightarrow> (Inl x, s)
      | Inr _ \<Rightarrow>
     if edit_isLockedOut (c_now c) userId s
     then (Inl (Locked ''Account temporarily locked due to too many failed attempts''), s)
     else (case find_user userId s of
        None \<Rightarrow> (Inl (Unauthorized ''Invalid session''), s)
      | Some u \<Rightarrow>
     (case applyGuardedChecks e (c_now c) race u dto s of
        (Inl x, s1) \<Rightarrow> (Inl x, s1)
      | (Inr _, s1) \<Rightarrow>
     (case applyUserUpdate e c u dto s1 of
        (Inl x, s2) \<Rightarrow> (Inl x, s2)
      | (Inr r, s2) \<Rightarrow>
          (let s3 = edit_reset userId s2
           in (Inr r,
               if truthy (ch_newPassword dto)
               then revokeUserTokens e (c_now c) userId PASSWORD_CHANGE currentRefreshToken s3
               else s3)))))))"

section \<open>The lockout table\<close>

definition lockouts_ok :: "auth_state \<Rightarrow> bool" where
  "lockouts_ok s \<longleftrightarrow> distinct (map al_id (rows (edit_lockouts s)))
     \<and> (\<forall>l \<in> set (rows (edit_lockouts s)). al_id l < next_id (edit_lockouts s))
     \<and> distinct (map al_userId (rows (edit_lockouts s)))"

definition edit_count :: "nat \<Rightarrow> auth_state \<Rightarrow> int" where
  "edit_count userId s = (case find_lockout userId s of None \<Rightarrow> 0 | Some l \<Rightarrow> al_failedAttempts l)"

lemma find_lockout_Some:
  "find_lockout i s = Some l \<Longrightarrow> l \<in> set (rows (edit_lockouts s)) \<and> al_userId l = i"
  using find_one_Some by (fastforce simp: find_lockout_def)

lemma find_lockout_in:
  assumes "lockouts_ok s" and "l \<in> set (rows (edit_lockouts s))" and "al_userId l = i"
  shows "find_lockout i s = Some l"
  unfolding find_lockout_def
proof (rule find_one_unique)
  show "l \<in> set (rows (edit_lockouts s))" and "al_userId l = i" by fact+
  fix l' assume "l' \<in> set (rows (edit_lockouts s))" and "al_userId l' = i"
  with assms show "l' = l" by (auto simp: lockouts_ok_def intro: distinct_map_inj)
qed

text \<open>A write to the lockout row of a user: found again, with the written columns.\<close>

lemma update_lockout:
  assumes ok: "lockouts_ok s" and l: "find_lockout i s = Some l"
    and keep: "\<And>r. al_id (f r) = al_id r \<and> al_userId (f r) = al_userId r"
    and s': "s' = s\<lparr>edit_lockouts := update_where (\<lambda>r. al_id r = al_id l) f (edit_lockouts s)\<rparr>"
  shows "lockouts_ok s'" and "find_lockout i s' = Some (f l)"
proof -
  note m = find_lockout_Some [OF l]
  have ids: "map al_id (rows (edit_lockouts s')) = map al_id (rows (edit_lockouts s))"
    and us: "map al_userId (rows (edit_lockouts s')) = map al_userId (rows (edit_lockouts s))"
    unfolding s' using keep by (auto simp: table_simps)
  have "al_id ` set (rows (edit_lockouts s')) = al_id ` set (rows (edit_lockouts s))"
    using ids by (metis list.set_map)
  moreover have "next_id (edit_lockouts s') = next_id (edit_lockouts s)"
    by (simp add: s' table_simps)
  ultimately show ok': "lockouts_ok s'"
    using ok unfolding lockouts_ok_def ids us by (metis (no_types) imageE imageI)
  have "f l \<in> set (rows (edit_lockouts s'))"
    using m by (force simp: s' table_simps)
  with find_lockout_in [OF ok', of "f l" i] keep m show "find_lockout i s' = Some (f l)" by simp
qed

lemma registerFailure_row:
  assumes "lockouts_ok s"
  shows "lockouts_ok (snd (registerFailure e now i id s))"
    and "\<exists>l. find_lockout i (snd (registerFailure e now i id s)) = Some l
           \<and> al_failedAttempts l = edit_count i s + 1
           \<and> al_lockedUntil l = lockedUntil (nextAttemptState e now (edit_count i s))"
proof -
  have "lockouts_ok (snd (registerFailure e now i id s)) \<and>
      (\<exists>l. find_lockout i (snd (registerFailure e now i id s)) = Some l
           \<and> al_failedAttempts l = edit_count i s + 1
           \<and> al_lockedUntil l = lockedUntil (nextAttemptState e now (edit_count i s)))"
  proof (cases "find_lockout i s")
    case (Some l)
    let ?n = "nextAttemptState e now (al_failedAttempts l)"
    from update_lockout [OF assms Some, where f = "\<lambda>r. r\<lparr>al_failedAttempts := attempts ?n,
          al_lockedUntil := lockedUntil ?n\<rparr>" and s' = "applyFailure e now (al_id l) (al_failedAttempts l) s"]
    show ?thesis
      by (simp add: registerFailure_def applyFailure_def edit_count_def Some nextAttemptState_def Let_def)
  next
    case None
    then have none: "\<forall>l \<in> set (rows (edit_lockouts s)). al_userId l \<noteq> i"
      by (simp add: find_lockout_def find_one_None)
    let ?n = "nextAttemptState e now 0"
    let ?mk = "\<lambda>k. \<lparr>al_id = k, al_userId = i, al_failedAttempts = attempts ?n, al_lockedUntil = lockedUntil ?n\<rparr>"
    let ?s = "s\<lparr>edit_lockouts := insert_row ?mk (edit_lockouts s)\<rparr>"
    have s': "snd (registerFailure e now i id s) = ?s"
      using none by (simp add: registerFailure_def None insertFirstFailure_def exists_where_iff Let_def)
    have ok: "lockouts_ok ?s"
      using assms none by (fastforce simp: lockouts_ok_def table_simps)
    have "find_lockout i ?s = Some (?mk (next_id (edit_lockouts s)))"
      by (rule find_lockout_in [OF ok]) (simp_all add: table_simps)
    with ok show ?thesis unfolding s' by (simp add: edit_count_def None nextAttemptState_def)
  qed
  then show "lockouts_ok (snd (registerFailure e now i id s))"
    and "\<exists>l. find_lockout i (snd (registerFailure e now i id s)) = Some l
           \<and> al_failedAttempts l = edit_count i s + 1
           \<and> al_lockedUntil l = lockedUntil (nextAttemptState e now (edit_count i s))" by auto
qed

lemma edit_reset_row:
  assumes "lockouts_ok s"
  shows "lockouts_ok (edit_reset i s)" and "edit_count i (edit_reset i s) = 0"
    and "\<not> edit_isLockedOut t i (edit_reset i s)"
proof -
  have "lockouts_ok (edit_reset i s) \<and> edit_count i (edit_reset i s) = 0
      \<and> \<not> edit_isLockedOut t i (edit_reset i s)"
  proof (cases "find_lockout i s")
    case None
    with assms show ?thesis by (simp add: edit_reset_def edit_count_def edit_isLockedOut_def)
  next
    case (Some l)
    from update_lockout [OF assms Some, where f = "\<lambda>r. r\<lparr>al_failedAttempts := 0, al_lockedUntil := None\<rparr>"
        and s' = "edit_reset i s"]
    show ?thesis by (simp add: edit_reset_def Some edit_count_def edit_isLockedOut_def)
  qed
  then show "lockouts_ok (edit_reset i s)" and "edit_count i (edit_reset i s) = 0"
    and "\<not> edit_isLockedOut t i (edit_reset i s)" by auto
qed

interpretation edit_guard: cool_off lockouts_ok "edit_count i" "\<lambda>now. edit_isLockedOut now i"
  "\<lambda>now s. snd (registerFailure e now i id s)" "edit_reset i" "edit_maxAttempts e" "edit_lockMs e"
  for i e
proof unfold_locales
  fix s now t assume "lockouts_ok s"
  from registerFailure_row(2) [OF this, of i e now] obtain l
    where l: "find_lockout i (snd (registerFailure e now i id s)) = Some l"
      "al_failedAttempts l = edit_count i s + 1"
      "al_lockedUntil l = lockedUntil (nextAttemptState e now (edit_count i s))" by auto
  show "edit_count i (snd (registerFailure e now i id s)) = edit_count i s + 1"
    by (simp add: edit_count_def [of i "snd (registerFailure e now i id s)"] l(1,2))
  show "edit_isLockedOut t i (snd (registerFailure e now i id s)) \<longleftrightarrow>
      edit_maxAttempts e \<le> edit_count i s + 1 \<and> t < now + edit_lockMs e"
    by (simp add: edit_isLockedOut_def l(1,3) nextAttemptState_def)
qed (simp_all add: registerFailure_row edit_reset_row)

section \<open>Guessing the current password\<close>

lemma registerFailure_frame:
  assumes "registerFailure e now i id s = (res, s')"
  shows "res = Inr ()" and "users s' = users s" and "refresh_tokens s' = refresh_tokens s"
    and "defaultUserId s' = defaultUserId s"
  using assms
  by (auto simp: registerFailure_def applyFailure_def insertFirstFailure_def edit_recoverFromInsertRace_def
      Let_def split: option.splits if_splits)

text \<open>The times at which a call with a wrong password got as far as the password check.\<close>

fun account_guesses ::
  "env \<Rightarrow> default_user_config \<Rightarrow> nat \<Rightarrow> (ctx \<times> update_account_dto) list \<Rightarrow> auth_state \<Rightarrow> int list" where
  "account_guesses e cfg i [] s = []"
| "account_guesses e cfg i ((c, dto) # gs) s =
     (if edit_isLockedOut (c_now c) i s then [] else [c_now c])
     @ account_guesses e cfg i gs (snd (updateAccount e c cfg id i dto None s))"

definition wrong_guess :: "env \<Rightarrow> user \<Rightarrow> update_account_dto \<Rightarrow> bool" where
  "wrong_guess e u dto \<longleftrightarrow> assertAnyFieldPresent dto = Inr ()
     \<and> \<not> env_bcrypt_compare e (ch_currentPassword dto) (u_passwordDigest u)"

lemma updateAccount_wrong:
  assumes "find_user i s = Some u" and "\<not> isDefaultUser cfg i s" and "wrong_guess e u dto"
  shows "snd (updateAccount e c cfg id i dto tok s) =
         (if edit_isLockedOut (c_now c) i s then s else snd (registerFailure e (c_now c) i id s))"
proof -
  have u: "u_id u = i" using find_user_Some [OF assms(1)] by simp
  obtain s1 where s1: "registerFailure e (c_now c) i id s = (Inr (), s1)"
    by (metis registerFailure_frame(1) surj_pair)
  with assms u show ?thesis
    by (simp add: updateAccount_def wrong_guess_def assertNotManaged_def assertNotDefaultUser_def
        applyGuardedChecks_def verifyCurrentPassword_def)
qed

lemma account_guesses_tried:
  assumes "find_user i s = Some u" and "\<not> isDefaultUser cfg i s"
    and "\<And>g. g \<in> set gs \<Longrightarrow> wrong_guess e u (snd g)"
  shows "account_guesses e cfg i gs s =
         tried (\<lambda>now. edit_isLockedOut now i) (\<lambda>now s. snd (registerFailure e now i id s))
           (map (c_now \<circ> fst) gs) s"
  using assms
proof (induction gs arbitrary: s)
  case Nil
  then show ?case by simp
next
  case (Cons g gs)
  obtain c dto where g: "g = (c, dto)" by (cases g)
  let ?s = "snd (registerFailure e (c_now c) i id s)"
  have step: "snd (updateAccount e c cfg id i dto None s) = (if edit_isLockedOut (c_now c) i s then s else ?s)"
    using Cons.prems(1,2) Cons.prems(3) [of g] by (intro updateAccount_wrong) (simp_all add: g)
  have "registerFailure e (c_now c) i id s = (fst (registerFailure e (c_now c) i id s), ?s)" by simp
  note f = registerFailure_frame [OF this]
  have "find_user i ?s = Some u" and "\<not> isDefaultUser cfg i ?s"
    using Cons.prems find_user_cong [OF f(2)] f(4) by (simp_all add: isDefaultUser_def)
  then have "account_guesses e cfg i gs ?s = tried (\<lambda>now. edit_isLockedOut now i)
      (\<lambda>now s. snd (registerFailure e now i id s)) (map (c_now \<circ> fst) gs) ?s"
    using Cons.prems(3) by (intro Cons.IH) auto
  moreover have "account_guesses e cfg i gs s = tried (\<lambda>now. edit_isLockedOut now i)
      (\<lambda>now s. snd (registerFailure e now i id s)) (map (c_now \<circ> fst) gs) s"
    using Cons.prems by (intro Cons.IH) auto
  ultimately show ?case using step by (simp add: g id_def comp_def)
qed

text \<open>
  Guessing the current password through the account form is rate limited: in a window
  \<open>lo .. hi\<close> at most the configured number of attempts plus one per elapsed cool-off period get
  as far as the password check, however many calls are made.
\<close>

theorem account_brute_force_bound:
  assumes "lockouts_ok s" and "find_user i s = Some u" and "\<not> isDefaultUser cfg i s"
    and "\<And>g. g \<in> set gs \<Longrightarrow> wrong_guess e u (snd g) \<and> lo \<le> c_now (fst g) \<and> c_now (fst g) \<le> hi"
    and "lo \<le> hi" and "0 < edit_lockMs e"
  shows "int (length (account_guesses e cfg i gs s))
         \<le> max 0 (edit_maxAttempts e - 1 - edit_count i s) + 1 + (hi - lo) div edit_lockMs e"
proof -
  have eq: "account_guesses e cfg i gs s = tried (\<lambda>now. edit_isLockedOut now i)
      (\<lambda>now s. snd (registerFailure e now i id s)) (map (c_now \<circ> fst) gs) s"
    using assms(2-4) by (intro account_guesses_tried) auto
  show ?thesis
    unfolding eq by (rule edit_guard.brute_force_bound [OF assms(1,6)]) (use assms(4,5) in auto)
qed

definition demo_default_off :: default_user_config where
  "demo_default_off = \<lparr>du_settings = \<lparr>ds_enabled = False, ds_alwaysAuthenticated = False, ds_username = [],
     ds_email = [], ds_password = [], ds_admin = False, ds_allowedIps = [], ds_allowInProduction = False,
     ds_stage = ''development''\<rparr>, du_blockList = []\<rparr>"

definition demo_edit :: "string \<Rightarrow> update_account_dto" where
  "demo_edit pw = \<lparr>ch_username = None, ch_email = None, ch_newPassword = Some ''n3w'', ch_currentPassword = pw\<rparr>"

definition demo_edits :: "(ctx \<times> update_account_dto) list" where
  "demo_edits = map (\<lambda>pw. (demo_ctx2, demo_edit pw)) [''a'', ''b'', ''c'', ''d'', ''e'', ''f'', ''g'']"

theorem account_brute_force_bound_witness:
  "length demo_edits = 7 \<and>
   int (length (account_guesses demo_env demo_default_off 1 demo_edits demo_state)) \<le> 5"
proof -
  have "lockouts_ok demo_state" and "find_user 1 demo_state = Some demo_user"
    and "\<not> isDefaultUser demo_default_off 1 demo_state"
    and m: "edit_maxAttempts demo_env = 5" and l: "edit_lockMs demo_env = 300000"
    and n: "edit_count 1 demo_state = 0"
    by code_simp+
  moreover have "list_all (\<lambda>g. wrong_guess demo_env demo_user (snd g) \<and> 2000 \<le> c_now (fst g)
      \<and> c_now (fst g) \<le> 2000) demo_edits"
    by code_simp
  ultimately show ?thesis
    using account_brute_force_bound [of demo_state 1 demo_user demo_default_off demo_edits demo_env 2000 2000]
    by (auto simp: list_all_iff m l n) (simp add: demo_edits_def)
qed

section \<open>Changing the password\<close>

lemma edit_reset_frame [simp]:
  "users (edit_reset i s) = users s" "refresh_tokens (edit_reset i s) = refresh_tokens s"
  "defaultUserId (edit_reset i s) = defaultUserId s"
  by (auto simp: edit_reset_def split: option.split)

lemma updateAccount_Inr:
  assumes "updateAccount e c cfg race i dto tok s = (Inr r, s')"
  obtains u where "find_user i s = Some u" and "\<not> edit_isLockedOut (c_now c) i s"
    and "hasManagedField dto \<Longrightarrow> \<not> isDefaultUser cfg i s"
    and "env_bcrypt_compare e (ch_currentPassword dto) (u_passwordDigest u)"
    and "\<not> exists_where (user_clash e (updated_user e c dto u)) (users s)"
    and "users s' = update_where (\<lambda>v. u_id v = i) (\<lambda>_. updated_user e c dto u) (users s)"
    and "refresh_tokens s' = (if truthy (ch_newPassword dto)
           then refresh_tokens (revokeUserTokens e (c_now c) i PASSWORD_CHANGE tok s) else refresh_tokens s)"
proof -
  from assms obtain u where u: "find_user i s = Some u" and l: "\<not> edit_isLockedOut (c_now c) i s"
    and m: "assertNotManaged cfg i dto s = Inr ()"
    by (auto simp: updateAccount_def split: sum.splits if_splits option.splits)
  have any: "assertAnyFieldPresent dto = Inr ()"
    using assms by (auto simp: updateAccount_def split: sum.splits)
  have id: "u_id (updated_user e c dto u) = i"
    using find_user_Some [OF u] by (simp add: updated_user_def Let_def)
  have checks: "applyGuardedChecks e (c_now c) race u dto s = (Inr (), s)"
    and pw: "env_bcrypt_compare e (ch_currentPassword dto) (u_passwordDigest u)"
    using assms u l m any
    by (auto simp: updateAccount_def applyGuardedChecks_def verifyCurrentPassword_def
        split: sum.splits prod.splits if_splits)
  have save: "\<not> exists_where (user_clash e (updated_user e c dto u)) (users s)"
    using assms u l m any checks
    by (auto simp: updateAccount_def applyUserUpdate_def save_user_def Let_def split: if_splits)
  have tok_cong: "refresh_tokens (revokeUserTokens e now i why tok a) = refresh_tokens (revokeUserTokens e now i why tok b)"
    if "refresh_tokens a = refresh_tokens b" for a b now why
    using that by (simp add: revokeUserTokens_def revoke_matching_def)
  have s': "s' = (let s3 = edit_reset i (s\<lparr>users := update_where (\<lambda>v. u_id v = i)
        (\<lambda>_. updated_user e c dto u) (users s)\<rparr>)
      in if truthy (ch_newPassword dto) then revokeUserTokens e (c_now c) i PASSWORD_CHANGE tok s3 else s3)"
    using assms u l m any checks save id
    by (auto simp: updateAccount_def applyUserUpdate_def save_user_def Let_def split: if_splits)
  show thesis
  proof (rule that [OF u l _ pw save])
    show "\<not> isDefaultUser cfg i s" if "hasManagedField dto"
      using m that by (simp add: assertNotManaged_def)
    show "users s' = update_where (\<lambda>v. u_id v = i) (\<lambda>_. updated_user e c dto u) (users s)"
      by (simp add: s' Let_def)
    show "refresh_tokens s' = (if truthy (ch_newPassword dto)
           then refresh_tokens (revokeUserTokens e (c_now c) i PASSWORD_CHANGE tok s) else refresh_tokens s)"
      by (auto simp: s' Let_def intro: tok_cong)
  qed
qed

lemma revoke_matching_survivors:
  assumes "r \<in> set (rows (refresh_tokens (revoke_matching now why p s)))" and "token_active t r"
  shows "r \<in> set (rows (refresh_tokens s)) \<and> \<not> p r"
proof -
  from assms have "r \<in> set (filter unrevoked (rows (refresh_tokens (revoke_matching now why p s))))"
    by (simp add: unrevoked_def token_active_def)
  then show ?thesis unfolding unrevoked_revoke_matching by simp
qed

lemma revokeUserTokens_survivors:
  assumes "r \<in> set (rows (refresh_tokens (revokeUserTokens e now i why tok s)))"
    and "rt_userId r = i" and "token_active t r"
  shows "truthy tok \<and> rt_tokenHash r = env_hashToken e (the tok) \<and> r \<in> set (rows (refresh_tokens s))"
proof (cases "truthy tok")
  case True
  with revoke_matching_survivors [OF assms(1) [unfolded revokeUserTokens_def if_P [OF True]] assms(3)] assms(2)
  show ?thesis by simp
next
  case False
  with revoke_matching_survivors [OF assms(1) [unfolded revokeUserTokens_def if_not_P [OF False]] assms(3)] assms(2)
  show ?thesis by simp
qed

lemma find_user_update:
  assumes "find_user i s = Some u" and "u_id v = i"
    and "users s' = update_where (\<lambda>x. u_id x = i) (\<lambda>_. v) (users s)"
  shows "find_user i s' = Some v"
proof -
  have "List.find (\<lambda>x. u_id x = i) (map (\<lambda>x. if u_id x = i then v else x) xs) = Some v"
    if "List.find (\<lambda>x. u_id x = i) xs = Some u" for xs
    using that assms(2) by (induction xs) (auto split: if_splits)
  with assms show ?thesis by (simp add: find_user_def find_one_def rows_update_where)
qed



end
