(* ===== verification/Mail_Template.thy ===== *)
theory Mail_Template
  imports Runtime
begin

text \<open>
  \<^verbatim>\<open>mail/render-template.ts\<close> and \<^verbatim>\<open>mail/template-registry.ts\<close>: reading the templates and
  substituting their placeholders, verbatim in subject and text, HTML-escaped in the HTML body.

  \<open>replace(PLACEHOLDER, ...)\<close> is split into the scan of the template (\<open>parse_template\<close>, a list of
  literal characters and slots) and the substitution (\<open>fill\<close>).
\<close>

section \<open>Scanning placeholders\<close>

datatype segment = Lit char | Slot string

definition is_word :: "char \<Rightarrow> bool" where
  "is_word c = (let n = (of_char c :: nat)
     in (48 \<le> n \<and> n \<le> 57) \<or> (65 \<le> n \<and> n \<le> 90) \<or> (97 \<le> n \<and> n \<le> 122) \<or> n = 95)"

text \<open>
  The expression \<^verbatim>\<open>PLACEHOLDER\<close> at the current position: two opening braces, a name between
  optional blanks, two closing braces; the name and the rest of the text when it matches.
\<close>

definition match_placeholder :: "string \<Rightarrow> (string \<times> string) option" where
  "match_placeholder s =
     (if take 2 s \<noteq> ''{{'' then None
      else let body = dropWhile js_space (drop 2 s);
               key = takeWhile is_word body;
               rest = dropWhile js_space (dropWhile is_word body)
           in if key \<noteq> [] \<and> take 2 rest = ''}}'' then Some (key, drop 2 rest) else None)"

lemma match_placeholder_shorter:
  assumes "match_placeholder s = Some (k, rest)"
  shows "length rest < length s"
proof -
  let ?b = "dropWhile js_space (drop 2 s)"
  let ?r = "dropWhile js_space (dropWhile is_word ?b)"
  from assms have "take 2 s = ''{{''" and rest: "rest = drop 2 ?r"
    by (auto simp: match_placeholder_def Let_def split: if_splits)
  then have "2 \<le> length s" by (metis length_take length_Cons list.size(3) min.cobounded1 numeral_2_eq_2)
  have "length ?r \<le> length ?b" by (meson length_dropWhile_le order.trans)
  also have "\<dots> \<le> length s - 2" using length_dropWhile_le [of js_space "drop 2 s"] by simp
  finally show ?thesis using \<open>2 \<le> length s\<close> rest by simp
qed

function (sequential) parse_template :: "string \<Rightarrow> segment list" where
  "parse_template [] = []"
| "parse_template (c # cs) =
     (case match_placeholder (c # cs) of
        Some (key, rest) \<Rightarrow> Slot key # parse_template rest
      | None \<Rightarrow> Lit c # parse_template cs)"
  by pat_completeness auto
termination
  by (relation "measure length") (auto dest: match_placeholder_shorter)

definition slots :: "segment list \<Rightarrow> string list" where
  "slots segs = List.map_filter (\<lambda>g. case g of Slot k \<Rightarrow> Some k | Lit _ \<Rightarrow> None) segs"

definition literals :: "segment list \<Rightarrow> string" where
  "literals segs = List.map_filter (\<lambda>g. case g of Lit c \<Rightarrow> Some c | Slot _ \<Rightarrow> None) segs"

lemma segment_simps [simp]:
  "slots [] = []" "slots (Lit c # gs) = slots gs" "slots (Slot k # gs) = k # slots gs"
  "literals [] = []" "literals (Lit c # gs) = c # literals gs" "literals (Slot k # gs) = literals gs"
  by (simp_all add: slots_def literals_def List.map_filter_simps)

section \<open>Rendering\<close>

definition HTML_ESCAPES :: "(char \<times> string) list" where
  "HTML_ESCAPES = [(CHR ''&'', ''&amp;''), (CHR ''<'', ''&lt;''), (CHR ''>'', ''&gt;''),
     (CHR 0x22, ''&quot;''), (CHR 0x27, ''&#39;'')]"

definition escape_char :: "char \<Rightarrow> string" where
  "escape_char c = (case map_of HTML_ESCAPES c of Some entity \<Rightarrow> entity | None \<Rightarrow> [c])"

definition escapeHtml :: "string \<Rightarrow> string" where
  "escapeHtml v = concat (map escape_char v)"

definition missing_variable :: "string \<Rightarrow> string \<Rightarrow> exn" where
  "missing_variable templateName key =
     ErrorExn (''mail: template '' @ [CHR 0x27] @ templateName @ [CHR 0x27]
       @ '' is missing variable '' @ [CHR 0x27] @ key @ [CHR 0x27])"

fun fill :: "segment list \<Rightarrow> (string \<times> string) list \<Rightarrow> bool \<Rightarrow> string \<Rightarrow> exn + string" where
  "fill [] vars esc templateName = Inr []"
| "fill (Lit c # gs) vars esc templateName =
     (case fill gs vars esc templateName of Inl x \<Rightarrow> Inl x | Inr out \<Rightarrow> Inr (c # out))"
| "fill (Slot key # gs) vars esc templateName =
     (case map_of vars key of
        None \<Rightarrow> Inl (missing_variable templateName key)
      | Some v \<Rightarrow>
          (case fill gs vars esc templateName of
             Inl x \<Rightarrow> Inl x
           | Inr out \<Rightarrow> Inr ((if esc then escapeHtml v else v) @ out)))"

definition interpolate ::
  "string \<Rightarrow> (string \<times> string) list \<Rightarrow> bool \<Rightarrow> string \<Rightarrow> exn + string" where
  "interpolate txt vars esc templateName = fill (parse_template txt) vars esc templateName"

record raw_template =
  rw_subject :: string
  rw_text :: string
  rw_html :: "string option"

record rendered_template =
  rd_subject :: string
  rd_text :: string
  rd_html :: "string option"

type_synonym template_registry = "string \<Rightarrow> raw_template option"

definition renderTemplate ::
  "template_registry \<Rightarrow> string \<Rightarrow> (string \<times> string) list \<Rightarrow> exn + rendered_template" where
  "renderTemplate registry templateName vars =
     (case registry templateName of
        None \<Rightarrow> Inl (ErrorExn (''mail: unknown template: '' @ templateName))
      | Some raw \<Rightarrow>
          (case interpolate (rw_subject raw) vars False templateName of
             Inl x \<Rightarrow> Inl x
           | Inr subject \<Rightarrow>
               (case interpolate (rw_text raw) vars False templateName of
                  Inl x \<Rightarrow> Inl x
                | Inr txt \<Rightarrow>
                    (case rw_html raw of
                       None \<Rightarrow> Inr \<lparr>rd_subject = subject, rd_text = txt, rd_html = None\<rparr>
                     | Some h \<Rightarrow>
                         (case interpolate h vars True templateName of
                            Inl x \<Rightarrow> Inl x
                          | Inr html \<Rightarrow>
                              Inr \<lparr>rd_subject = subject, rd_text = txt, rd_html = Some html\<rparr>)))))"

section \<open>The registry\<close>

text \<open>
  The file system is a parameter: the entries of the templates directory (\<^term>\<open>None\<close> when it
  does not exist), each with its name, whether it is a directory, and its files by name.
\<close>

record dir_entry =
  de_name :: string
  de_isDirectory :: bool
  de_files :: "string \<Rightarrow> string option"

definition strip_newline :: "string \<Rightarrow> string" where
  "strip_newline s =
     (if s \<noteq> [] \<and> last s = CHR 0x0A
      then (let b = butlast s in if b \<noteq> [] \<and> last b = CHR 0x0D then butlast b else b)
      else s)"

definition readTemplateDir :: "(string \<Rightarrow> string option) \<Rightarrow> string \<Rightarrow> exn + raw_template" where
  "readTemplateDir files name =
     (case files ''subject.txt'' of
        None \<Rightarrow> Inl (ErrorExn (''mail: template '' @ [CHR 0x27] @ name @ [CHR 0x27]
                    @ '' is missing subject.txt''))
      | Some subject \<Rightarrow>
          (case files ''body.txt'' of
             None \<Rightarrow> Inl (ErrorExn (''mail: template '' @ [CHR 0x27] @ name @ [CHR 0x27]
                         @ '' is missing body.txt''))
           | Some txt \<Rightarrow> Inr \<lparr>rw_subject = strip_newline subject, rw_text = txt,
                                rw_html = files ''body.html''\<rparr>))"

fun read_entries :: "dir_entry list \<Rightarrow> template_registry \<Rightarrow> exn + template_registry" where
  "read_entries [] registry = Inr registry"
| "read_entries (en # es) registry =
     (if de_isDirectory en
      then (case readTemplateDir (de_files en) (de_name en) of
              Inl x \<Rightarrow> Inl x
            | Inr t \<Rightarrow> read_entries es (registry(de_name en \<mapsto> t)))
      else read_entries es registry)"

definition buildTemplateRegistry :: "dir_entry list option \<Rightarrow> exn + template_registry" where
  "buildTemplateRegistry dir = (case dir of None \<Rightarrow> Inr Map.empty | Some es \<Rightarrow> read_entries es Map.empty)"

section \<open>What rendering guarantees\<close>

definition markup_char :: "char \<Rightarrow> bool" where
  "markup_char c \<longleftrightarrow> c \<in> {CHR ''<'', CHR ''>'', CHR 0x22, CHR 0x27}"

lemma escapeHtml_simps [simp]:
  "escapeHtml [] = []" "escapeHtml (c # cs) = escape_char c @ escapeHtml cs"
  by (simp_all add: escapeHtml_def)

lemma escape_char_no_markup: "c \<in> set (escape_char d) \<Longrightarrow> \<not> markup_char c"
  by (auto simp: escape_char_def HTML_ESCAPES_def markup_char_def split: if_splits option.splits)

lemma filter_markup_escapeHtml [simp]: "filter markup_char (escapeHtml v) = []"
  by (induction v) (auto simp: filter_empty_conv dest: escape_char_no_markup)

text \<open>An unescaper for the five entities, to state that escaping loses nothing.\<close>

function (sequential) unescapeHtml :: "string \<Rightarrow> string" where
  "unescapeHtml [] = []"
| "unescapeHtml (c # cs) =
     (case List.find (\<lambda>(d, entity). prefix entity (c # cs)) HTML_ESCAPES of
        Some (d, entity) \<Rightarrow> d # unescapeHtml (drop (length entity - 1) cs)
      | None \<Rightarrow> c # unescapeHtml cs)"
  by pat_completeness auto
termination
  by (relation "measure length") auto

lemma unescape_escape_char: "unescapeHtml (escape_char c @ s) = c # unescapeHtml s"
proof (cases "c \<in> {CHR ''&'', CHR ''<'', CHR ''>'', CHR 0x22, CHR 0x27}")
  case True
  then show ?thesis by (auto simp: escape_char_def HTML_ESCAPES_def)
next
  case False
  then have "escape_char c = [c]" by (simp add: escape_char_def HTML_ESCAPES_def)
  with False show ?thesis by (auto simp: HTML_ESCAPES_def)
qed

lemma unescape_escapeHtml [simp]: "unescapeHtml (escapeHtml v) = v"
  by (induction v) (simp_all add: unescape_escape_char)

lemma fill_Inr_iff: "(\<exists>out. fill gs vars esc n = Inr out) \<longleftrightarrow> set (slots gs) \<subseteq> dom (map_of vars)"
proof (induction gs)
  case Nil
  then show ?case by simp
next
  case (Cons g gs)
  show ?case
  proof (cases g)
    case (Lit c)
    with Cons.IH show ?thesis by (cases "fill gs vars esc n") auto
  next
    case (Slot k)
    with Cons.IH show ?thesis
      by (cases "fill gs vars esc n"; cases "map_of vars k") (auto simp: dom_def)
  qed
qed

lemma fill_Inl:
  "fill gs vars esc n = Inl x \<Longrightarrow>
     \<exists>k. List.find (\<lambda>k. map_of vars k = None) (slots gs) = Some k \<and> x = missing_variable n k"
  by (induction gs vars esc n rule: fill.induct) (auto split: sum.splits option.splits)

lemma fill_markup:
  "fill gs vars True n = Inr out \<Longrightarrow> filter markup_char out = filter markup_char (literals gs)"
  by (induction gs vars True n arbitrary: out rule: fill.induct) (auto split: sum.splits option.splits)

text \<open>
  C13. A value substituted into an HTML body cannot inject markup: the tag and quote characters
  of the rendered body are exactly those of the template's own text, in their order; and no
  information is lost, since the escaped value reads back as the value.
\<close>

theorem html_body_is_injection_free:
  assumes "renderTemplate registry name vars = Inr r" and "rd_html r = Some out"
  shows "(\<exists>raw html. registry name = Some raw \<and> rw_html raw = Some html \<and>
            filter markup_char out = filter markup_char (literals (parse_template html)))
         \<and> unescapeHtml (escapeHtml v) = v"
  using assms fill_markup
  by (fastforce simp: renderTemplate_def interpolate_def split: option.splits sum.splits)

definition demo_template :: raw_template where
  "demo_template = \<lparr>rw_subject = ''Reset'', rw_text = ''go to {{ resetUrl }} now'',
     rw_html = Some ''<a>{{resetUrl}}</a>''\<rparr>"

theorem html_body_is_injection_free_witness:
  "\<exists>r out. renderTemplate [''password-recovery'' \<mapsto> demo_template] ''password-recovery''
       [(''resetUrl'', ''<script>'')] = Inr r \<and> rd_html r = Some out
     \<and> out = ''<a>&lt;script&gt;</a>'' \<and> rd_text r = ''go to <script> now''
     \<and> filter markup_char out = ''<><>'' \<and> unescapeHtml (escapeHtml ''<script>'') = ''<script>''"
proof -
  let ?r = "\<lparr>rd_subject = ''Reset'', rd_text = ''go to <script> now'',
      rd_html = Some ''<a>&lt;script&gt;</a>''\<rparr>"
  have r: "renderTemplate [''password-recovery'' \<mapsto> demo_template] ''password-recovery''
       [(''resetUrl'', ''<script>'')] = Inr ?r" by code_simp
  have l: "filter markup_char (literals (parse_template ''<a>{{resetUrl}}</a>'')) = ''<><>''" by code_simp
  from html_body_is_injection_free [OF r, of "''<a>&lt;script&gt;</a>''" "''<script>''"] r l show ?thesis
    by (simp add: demo_template_def)
qed

text \<open>
  Interpolation succeeds exactly when every placeholder of the template has a variable, and
  otherwise reports the first placeholder, in reading order, that has none.
\<close>

theorem interpolate_total:
  "((\<exists>out. interpolate txt vars esc name = Inr out) \<longleftrightarrow>
      set (slots (parse_template txt)) \<subseteq> dom (map_of vars))
   \<and> (case interpolate txt vars esc name of
        Inr out \<Rightarrow> True
      | Inl x \<Rightarrow> \<exists>k. List.find (\<lambda>k. map_of vars k = None) (slots (parse_template txt)) = Some k
                    \<and> x = missing_variable name k)"
  unfolding interpolate_def using fill_Inr_iff fill_Inl by (auto split: sum.split)

end
