(* ===== verification/Mail_Service.thy ===== *)
theory Mail_Service
  imports Mail_Template
begin

text \<open>
  \<^verbatim>\<open>mail/mail.config.ts\<close>, \<^verbatim>\<open>mail/mail.method.ts\<close>, the providers of \<^verbatim>\<open>mail/mail.module.ts\<close>
  and \<^verbatim>\<open>mail/mail.service.ts\<close>.  Nodemailer's \<^verbatim>\<open>sendMail\<close> is a parameter.  The state of a
  send is the outbox: the messages handed to a delivery method so far.
\<close>

section \<open>Configuration\<close>

definition DEFAULT_EMAIL_PORT :: int where "DEFAULT_EMAIL_PORT = 587"

definition DEFAULT_EMAIL_TIMEOUT_MS :: int where "DEFAULT_EMAIL_TIMEOUT_MS = 10000"

definition MAIL_METHOD_NAMES :: "string list" where "MAIL_METHOD_NAMES = [''native'']"

definition DEFAULT_EMAIL_METHOD :: string where "DEFAULT_EMAIL_METHOD = hd MAIL_METHOD_NAMES"

record transport_options =
  to_host :: string
  to_port :: int
  to_secure :: bool
  to_requireTLS :: bool
  to_auth :: "(string \<times> string) option"
  to_connectionTimeout :: int
  to_greetingTimeout :: int
  to_socketTimeout :: int

record mail_config =
  mc_enabled :: bool
  mc_from :: string
  mc_transport :: "transport_options option"
  mc_method :: string

definition readTrimmed :: "env \<Rightarrow> string \<Rightarrow> string" where
  "readTrimmed e name = js_trim (config_string e name)"

definition resolveMethod :: "env \<Rightarrow> string" where
  "resolveMethod e = (let raw = readTrimmed e ''KERGHAN_EMAIL_METHOD''
     in if raw = [] then DEFAULT_EMAIL_METHOD else raw)"

definition isKnownMethod :: "string \<Rightarrow> bool" where
  "isKnownMethod method \<longleftrightarrow> method \<in> set MAIL_METHOD_NAMES"

definition collectMethodInvalid :: "string \<Rightarrow> string list" where
  "collectMethodInvalid method = (if isKnownMethod method then [] else [''KERGHAN_EMAIL_METHOD''])"

definition throwIfInvalid :: "bool \<Rightarrow> string list \<Rightarrow> exn + unit" where
  "throwIfInvalid enabled invalid =
     (if invalid = [] then Inr ()
      else Inl (ErrorExn ((if enabled
             then ''mail: KERGHAN_EMAILS_ENABLED is true but the following are missing/invalid: ''
             else ''mail: the following are missing/invalid: '') @ js_join '', '' invalid)))"

definition parseOptionalNumber :: "env \<Rightarrow> string \<Rightarrow> int \<Rightarrow> js_number" where
  "parseOptionalNumber e raw fallback = (if raw = [] then Finite fallback else env_parse_number e raw)"

definition isPositiveFinite :: "js_number \<Rightarrow> bool" where
  "isPositiveFinite n = (case n of NaN \<Rightarrow> False | Finite k \<Rightarrow> k > 0)"

definition collectInvalid ::
  "string \<Rightarrow> string \<Rightarrow> string \<Rightarrow> js_number \<Rightarrow> string \<Rightarrow> js_number \<Rightarrow> string \<Rightarrow> string list" where
  "collectInvalid host from portRaw port timeoutRaw timeoutMs method =
     (if host = [] then [''KERGHAN_EMAIL_HOST''] else [])
     @ (if from = [] then [''KERGHAN_EMAIL_FROM''] else [])
     @ (if portRaw \<noteq> [] \<and> \<not> isPositiveFinite port then [''KERGHAN_EMAIL_PORT''] else [])
     @ (if timeoutRaw \<noteq> [] \<and> \<not> isPositiveFinite timeoutMs then [''KERGHAN_EMAIL_TIMEOUT_MS''] else [])
     @ collectMethodInvalid method"

definition js_int :: "js_number \<Rightarrow> int" where
  "js_int n = (case n of Finite k \<Rightarrow> k | NaN \<Rightarrow> 0)"

definition buildTransportOptions ::
  "string \<Rightarrow> int \<Rightarrow> string \<Rightarrow> string \<Rightarrow> bool \<Rightarrow> int \<Rightarrow> transport_options" where
  "buildTransportOptions host port user pass useTls timeoutMs =
     (let hasAuth = (user \<noteq> [] \<and> pass \<noteq> [])
      in \<lparr>to_host = host, to_port = port, to_secure = (port = 465),
          to_requireTLS = ((useTls \<or> hasAuth) \<and> port \<noteq> 465),
          to_auth = (if hasAuth then Some (user, pass) else None),
          to_connectionTimeout = timeoutMs, to_greetingTimeout = timeoutMs,
          to_socketTimeout = timeoutMs\<rparr>)"

text \<open>Past \<open>throwIfInvalid\<close> port and timeout are numbers, so \<open>js_int\<close> reads them.\<close>

definition buildMailConfig :: "env \<Rightarrow> exn + mail_config" where
  "buildMailConfig e =
     (let enabled = (env_config e ''KERGHAN_EMAILS_ENABLED'' = JString ''true'');
          method = resolveMethod e
      in if \<not> enabled
         then (case throwIfInvalid False (collectMethodInvalid method) of
                 Inl x \<Rightarrow> Inl x
               | Inr _ \<Rightarrow> Inr \<lparr>mc_enabled = False, mc_from = [], mc_transport = None, mc_method = method\<rparr>)
         else
           (let host = readTrimmed e ''KERGHAN_EMAIL_HOST'';
                from = readTrimmed e ''KERGHAN_EMAIL_FROM'';
                portRaw = readTrimmed e ''KERGHAN_EMAIL_PORT'';
                timeoutRaw = readTrimmed e ''KERGHAN_EMAIL_TIMEOUT_MS'';
                port = parseOptionalNumber e portRaw DEFAULT_EMAIL_PORT;
                timeoutMs = parseOptionalNumber e timeoutRaw DEFAULT_EMAIL_TIMEOUT_MS
            in case throwIfInvalid True
                      (collectInvalid host from portRaw port timeoutRaw timeoutMs method) of
                 Inl x \<Rightarrow> Inl x
               | Inr _ \<Rightarrow>
                   (let user = readTrimmed e ''KERGHAN_EMAIL_USER'';
                        pass = readTrimmed e ''KERGHAN_EMAIL_PASSWORD'';
                        useTls = (env_config e ''KERGHAN_EMAIL_USE_TLS'' \<noteq> JString ''false'')
                    in Inr \<lparr>mc_enabled = True, mc_from = from,
                         mc_transport = Some (buildTransportOptions host (js_int port) user pass
                           useTls (js_int timeoutMs)),
                         mc_method = method\<rparr>)))"

section \<open>Delivery methods\<close>

record email_message =
  em_from :: string
  em_to :: string
  em_subject :: string
  em_text :: string
  em_html :: "string option"

record sent_message_info =
  smi_accepted :: "string list"
  smi_rejected :: "string list"
  smi_messageId :: "string option"

type_synonym email_method = "email_message \<Rightarrow> exn + string option"

definition native_deliver :: "(email_message \<Rightarrow> exn + sent_message_info) \<Rightarrow> email_method" where
  "native_deliver sendMail m =
     (case sendMail m of
        Inl x \<Rightarrow> Inl x
      | Inr info \<Rightarrow>
          if smi_rejected info \<noteq> [] \<and> smi_accepted info = []
          then Inl (ErrorExn (''mail: recipient rejected: '' @ js_join '', '' (smi_rejected info)))
          else Inr (smi_messageId info))"

definition createMailMethods ::
  "(email_message \<Rightarrow> exn + sent_message_info) \<Rightarrow> string \<Rightarrow> email_method option" where
  "createMailMethods sendMail = [''native'' \<mapsto> native_deliver sendMail]"

section \<open>MailService\<close>

record send_email_params =
  sp_to :: string
  sp_subject :: string
  sp_body :: string
  sp_html :: "string option"
  sp_from :: "string option"
  sp_method :: "string option"

record send_template_params =
  st_to :: string
  st_template :: string
  st_variables :: "(string \<times> string) list"
  st_from :: "string option"
  st_method :: "string option"

datatype send_status = Sent | Skipped

record send_email_result =
  se_status :: send_status
  se_method :: string
  se_messageId :: "string option"

datatype send_plan = Proceed string | SkippedPlan send_email_result

definition assertKnownMethod :: "(string \<Rightarrow> email_method option) \<Rightarrow> string \<Rightarrow> exn + email_method" where
  "assertKnownMethod methods method =
     (case methods method of
        None \<Rightarrow> Inl (ErrorExn (''mail: unknown method: '' @ method))
      | Some m \<Rightarrow> Inr m)"

definition resolveSendPlan ::
  "mail_config \<Rightarrow> (string \<Rightarrow> email_method option) \<Rightarrow> string option \<Rightarrow> exn + send_plan" where
  "resolveSendPlan cfg methods method =
     (let resolved = (case method of Some m \<Rightarrow> m | None \<Rightarrow> mc_method cfg)
      in case assertKnownMethod methods resolved of
           Inl x \<Rightarrow> Inl x
         | Inr _ \<Rightarrow>
             if \<not> mc_enabled cfg
             then Inr (SkippedPlan \<lparr>se_status = Skipped, se_method = resolved, se_messageId = None\<rparr>)
             else Inr (Proceed resolved))"

definition hasNewline :: "string \<Rightarrow> bool" where
  "hasNewline v \<longleftrightarrow> CHR 0x0D \<in> set v \<or> CHR 0x0A \<in> set v"

definition assertSendable :: "send_email_params \<Rightarrow> string \<Rightarrow> exn + unit" where
  "assertSendable p from =
     (if js_trim (sp_to p) = []
      then Inl (ErrorExn (''mail: '' @ [CHR 0x27] @ ''to'' @ [CHR 0x27] @ '' is required''))
      else if hasNewline (sp_to p) \<or> hasNewline (sp_subject p) \<or> hasNewline from
      then Inl (ErrorExn ''mail: header field contains a newline'')
      else Inr ())"

definition mail_deliver ::
  "(string \<Rightarrow> email_method option) \<Rightarrow> send_email_params \<Rightarrow> string \<Rightarrow> string \<Rightarrow> email_message list
     \<Rightarrow> (send_email_result, email_message list) outcome" where
  "mail_deliver methods p from method box =
     (case assertKnownMethod methods method of
        Inl x \<Rightarrow> (Inl x, box)
      | Inr deliver \<Rightarrow>
          (let m = \<lparr>em_from = from, em_to = sp_to p, em_subject = sp_subject p, em_text = sp_body p,
                 em_html = sp_html p\<rparr>
           in case deliver m of
                Inl x \<Rightarrow> (Inl x, box @ [m])
              | Inr messageId \<Rightarrow>
                  (Inr \<lparr>se_status = Sent, se_method = method, se_messageId = messageId\<rparr>, box @ [m])))"

definition mail_send ::
  "mail_config \<Rightarrow> (string \<Rightarrow> email_method option) \<Rightarrow> send_email_params \<Rightarrow> string \<Rightarrow> email_message list
     \<Rightarrow> (send_email_result, email_message list) outcome" where
  "mail_send cfg methods p method box =
     (let from = (case sp_from p of Some f \<Rightarrow> f | None \<Rightarrow> mc_from cfg)
      in case assertSendable p from of
           Inl x \<Rightarrow> (Inl x, box)
         | Inr _ \<Rightarrow> mail_deliver methods p from method box)"

definition sendEmail ::
  "mail_config \<Rightarrow> (string \<Rightarrow> email_method option) \<Rightarrow> send_email_params \<Rightarrow> email_message list
     \<Rightarrow> (send_email_result, email_message list) outcome" where
  "sendEmail cfg methods p box =
     (case resolveSendPlan cfg methods (sp_method p) of
        Inl x \<Rightarrow> (Inl x, box)
      | Inr (SkippedPlan r) \<Rightarrow> (Inr r, box)
      | Inr (Proceed method) \<Rightarrow> mail_send cfg methods p method box)"

definition sendEmailTemplate ::
  "mail_config \<Rightarrow> (string \<Rightarrow> email_method option) \<Rightarrow> template_registry \<Rightarrow> send_template_params
     \<Rightarrow> email_message list \<Rightarrow> (send_email_result, email_message list) outcome" where
  "sendEmailTemplate cfg methods templates p box =
     (case resolveSendPlan cfg methods (st_method p) of
        Inl x \<Rightarrow> (Inl x, box)
      | Inr (SkippedPlan r) \<Rightarrow> (Inr r, box)
      | Inr (Proceed method) \<Rightarrow>
          (case renderTemplate templates (st_template p) (st_variables p) of
             Inl x \<Rightarrow> (Inl x, box)
           | Inr t \<Rightarrow>
               mail_send cfg methods \<lparr>sp_to = st_to p, sp_subject = rd_subject t, sp_body = rd_text t,
                 sp_html = rd_html t, sp_from = st_from p, sp_method = st_method p\<rparr> method box))"

section \<open>What the facade guarantees\<close>

definition header_safe :: "email_message \<Rightarrow> bool" where
  "header_safe m \<longleftrightarrow> js_trim (em_to m) \<noteq> []
     \<and> (\<forall>c \<in> set (em_to m @ em_subject m @ em_from m). c \<noteq> CHR 0x0D \<and> c \<noteq> CHR 0x0A)"

lemma header_safe_iff:
  "header_safe m \<longleftrightarrow> js_trim (em_to m) \<noteq> [] \<and> \<not> hasNewline (em_to m) \<and> \<not> hasNewline (em_subject m)
     \<and> \<not> hasNewline (em_from m)"
  by (auto simp: header_safe_def hasNewline_def)

lemma mail_send_outbox:
  assumes "mail_send cfg methods p method box = (res, box')"
  shows "box' = box \<or> (\<exists>m. box' = box @ [m] \<and> header_safe m \<and> methods method \<noteq> None)"
  using assms
  by (auto simp: mail_send_def mail_deliver_def assertSendable_def assertKnownMethod_def header_safe_iff
      Let_def split: sum.splits option.splits if_splits)

lemma resolveSendPlan_Inr:
  assumes "resolveSendPlan cfg methods method = Inr (Proceed m)"
  shows "mc_enabled cfg"
  using assms by (auto simp: resolveSendPlan_def Let_def split: sum.splits if_splits)

lemma sendEmail_outbox:
  assumes "sendEmail cfg methods q box = (res, box')"
  shows "box' = box \<or> (\<exists>m. box' = box @ [m] \<and> header_safe m \<and> mc_enabled cfg)"
proof (cases "resolveSendPlan cfg methods (sp_method q)")
  case (Inl x)
  with assms show ?thesis by (simp add: sendEmail_def)
next
  case (Inr plan)
  with assms mail_send_outbox [of cfg methods q _ box res box'] resolveSendPlan_Inr [of cfg methods "sp_method q"]
  show ?thesis by (cases plan) (auto simp: sendEmail_def)
qed

lemma sendEmailTemplate_outbox:
  assumes "sendEmailTemplate cfg methods templates p box = (res, box')"
  shows "box' = box \<or> (\<exists>m. box' = box @ [m] \<and> header_safe m \<and> mc_enabled cfg)"
proof (cases "resolveSendPlan cfg methods (st_method p)")
  case (Inl x)
  with assms show ?thesis by (simp add: sendEmailTemplate_def)
next
  case (Inr plan)
  with assms show ?thesis
    using mail_send_outbox [of cfg methods _ _ box res box'] resolveSendPlan_Inr [of cfg methods "st_method p"]
    by (cases plan) (auto simp: sendEmailTemplate_def split: sum.splits)
qed

lemma unknown_method_refused:
  assumes "methods (case method of Some m \<Rightarrow> m | None \<Rightarrow> mc_method cfg) = None"
  shows "\<exists>x. resolveSendPlan cfg methods method = Inl x"
  using assms by (auto simp: resolveSendPlan_def assertKnownMethod_def Let_def)

text \<open>
  C15. No message with a line break in a header field or without a recipient ever reaches a
  delivery method, not even through a variable substituted into a template's subject; nothing
  is handed over while email is disabled or when the method is unknown.
\<close>

theorem mail_headers_are_injection_free:
  "(\<exists>ms. snd (sendEmailTemplate cfg methods templates p box) = box @ ms \<and> length ms \<le> 1 \<and>
      (\<forall>m. m \<in> set ms \<longrightarrow> header_safe m \<and> mc_enabled cfg))
   \<and> (\<exists>ms. snd (sendEmail cfg methods q box) = box @ ms \<and> length ms \<le> 1 \<and>
      (\<forall>m. m \<in> set ms \<longrightarrow> header_safe m \<and> mc_enabled cfg))"
  using sendEmailTemplate_outbox [of cfg methods templates p box, OF prod.collapse [symmetric]]
    sendEmail_outbox [of cfg methods q box, OF prod.collapse [symmetric]]
  by (intro conjI) (elim disjE exE conjE; fastforce)+

definition demo_mail_config :: mail_config where
  "demo_mail_config = \<lparr>mc_enabled = True, mc_from = ''kerghan@x'', mc_transport = None,
     mc_method = ''native''\<rparr>"

definition demo_methods :: "string \<Rightarrow> email_method option" where
  "demo_methods = createMailMethods
     (\<lambda>m. Inr \<lparr>smi_accepted = [em_to m], smi_rejected = [], smi_messageId = Some ''id''\<rparr>)"

theorem mail_headers_are_injection_free_witness:
  "\<exists>m. snd (sendEmail demo_mail_config demo_methods \<lparr>sp_to = ''a@b'', sp_subject = ''hi'', sp_body = ''x'',
       sp_html = None, sp_from = None, sp_method = None\<rparr> []) = [m] \<and> header_safe m"
proof -
  let ?q = "\<lparr>sp_to = ''a@b'', sp_subject = ''hi'', sp_body = ''x'',
       sp_html = None, sp_from = None, sp_method = None\<rparr>"
  let ?m = "\<lparr>em_from = ''kerghan@x'', em_to = ''a@b'', em_subject = ''hi'', em_text = ''x'', em_html = None\<rparr>"
  have "snd (sendEmail demo_mail_config demo_methods ?q []) = [?m]" by code_simp
  then show ?thesis
    using mail_headers_are_injection_free [of demo_mail_config demo_methods Map.empty undefined "[]" ?q]
    by simp
qed

text \<open>
  A configuration that passes the checks names a known method, and when it enables email it
  has a host, a sender, a positive port and positive timeouts, and never offers credentials
  without TLS.
\<close>

theorem mail_config_is_safe:
  assumes "buildMailConfig e = Inr cfg"
  shows "isKnownMethod (mc_method cfg) \<and>
         (case mc_transport cfg of
            None \<Rightarrow> \<not> mc_enabled cfg
          | Some t \<Rightarrow> mc_enabled cfg \<and> mc_from cfg \<noteq> [] \<and> to_host t \<noteq> [] \<and> 0 < to_port t
              \<and> 0 < to_connectionTimeout t \<and> (to_auth t = None \<or> to_secure t \<or> to_requireTLS t))"
proof -
  have num: "0 < js_int (parseOptionalNumber e raw d)"
    if "raw = [] \<or> isPositiveFinite (parseOptionalNumber e raw d)" "0 < d" for raw d
    using that by (auto simp: parseOptionalNumber_def isPositiveFinite_def js_int_def split: js_number.splits if_splits)
  have port: "0 < DEFAULT_EMAIL_PORT" and tmo: "0 < DEFAULT_EMAIL_TIMEOUT_MS"
    by (simp_all add: DEFAULT_EMAIL_PORT_def DEFAULT_EMAIL_TIMEOUT_MS_def)
  show ?thesis
  proof (cases "env_config e ''KERGHAN_EMAILS_ENABLED'' = JString ''true''")
    case False
    with assms show ?thesis
      by (auto simp: buildMailConfig_def throwIfInvalid_def collectMethodInvalid_def Let_def split: if_splits)
  next
    case True
    let ?host = "readTrimmed e ''KERGHAN_EMAIL_HOST''" and ?from = "readTrimmed e ''KERGHAN_EMAIL_FROM''"
    let ?praw = "readTrimmed e ''KERGHAN_EMAIL_PORT''" and ?traw = "readTrimmed e ''KERGHAN_EMAIL_TIMEOUT_MS''"
    let ?port = "parseOptionalNumber e ?praw DEFAULT_EMAIL_PORT"
    let ?tmo = "parseOptionalNumber e ?traw DEFAULT_EMAIL_TIMEOUT_MS"
    let ?user = "readTrimmed e ''KERGHAN_EMAIL_USER''" and ?pass = "readTrimmed e ''KERGHAN_EMAIL_PASSWORD''"
    let ?tls = "env_config e ''KERGHAN_EMAIL_USE_TLS'' \<noteq> JString ''false''"
    from assms True have ok: "collectInvalid ?host ?from ?praw ?port ?traw ?tmo (resolveMethod e) = []"
      and cfg: "cfg = \<lparr>mc_enabled = True, mc_from = ?from, mc_transport = Some (buildTransportOptions ?host
          (js_int ?port) ?user ?pass ?tls (js_int ?tmo)), mc_method = resolveMethod e\<rparr>"
      by (simp_all add: buildMailConfig_def throwIfInvalid_def Let_def split: if_splits)
    from ok have "?host \<noteq> []" and "?from \<noteq> []" and "isKnownMethod (resolveMethod e)"
      and "?praw = [] \<or> isPositiveFinite ?port" and "?traw = [] \<or> isPositiveFinite ?tmo"
      by (simp_all add: collectInvalid_def collectMethodInvalid_def split: if_splits)
    with num [OF _ port] num [OF _ tmo] show ?thesis
      by (simp add: cfg buildTransportOptions_def Let_def)
  qed
qed

definition demo_mail_env :: env where
  "demo_mail_env = \<lparr>env_hashToken = (\<lambda>x. x), env_bcrypt_hash = (\<lambda>salt p. p),
     env_bcrypt_compare = (\<lambda>p d. d = p), env_jwt_sign = (\<lambda>p. []), env_collate = (=),
     env_config = (\<lambda>k. case map_of [(''KERGHAN_EMAILS_ENABLED'', ''true''), (''KERGHAN_EMAIL_HOST'', ''mx''),
        (''KERGHAN_EMAIL_FROM'', ''k@x''), (''KERGHAN_EMAIL_USER'', ''u''), (''KERGHAN_EMAIL_PASSWORD'', ''p''),
        (''KERGHAN_EMAIL_USE_TLS'', ''false'')] k of Some v \<Rightarrow> JString v | None \<Rightarrow> JUndefined),
     env_parse_number = (\<lambda>_. NaN), env_parse_date = (\<lambda>_. None)\<rparr>"

theorem mail_config_is_safe_witness:
  "\<exists>cfg t. buildMailConfig demo_mail_env = Inr cfg \<and> mc_transport cfg = Some t
     \<and> to_auth t = Some (''u'', ''p'') \<and> (to_secure t \<or> to_requireTLS t)"
proof -
  let ?t = "\<lparr>to_host = ''mx'', to_port = 587, to_secure = False, to_requireTLS = True,
      to_auth = Some (''u'', ''p''), to_connectionTimeout = 10000, to_greetingTimeout = 10000,
      to_socketTimeout = 10000\<rparr>"
  let ?cfg = "\<lparr>mc_enabled = True, mc_from = ''k@x'', mc_transport = Some ?t, mc_method = ''native''\<rparr>"
  have "buildMailConfig demo_mail_env = Inr ?cfg" by code_simp
  from mail_config_is_safe [OF this] this show ?thesis by simp
qed

end
