(* ===== verification/Admin_Service.thy ===== *)
theory Admin_Service
  imports Account_Service Mail_Service
begin

text \<open>
  \<^verbatim>\<open>auth/admin.service.ts\<close> and the recovery-mail listener
  \<^verbatim>\<open>auth/events/password-recovery-requested.listener.ts\<close>.  The database's \<^verbatim>\<open>LIKE\<close> operator is a
  parameter of the search; the mail facade works on the outbox, so the two operations that send
  mail return the next Auth state and the next outbox.
\<close>

section \<open>Operations\<close>

definition USER_NOT_PENDING_MESSAGE :: string where
  "USER_NOT_PENDING_MESSAGE = ''Only pending users can be approved''"

definition CANNOT_DENY_SELF_MESSAGE :: string where
  "CANNOT_DENY_SELF_MESSAGE = ''You cannot deny your own account''"

definition searchUsers ::
  "(string \<Rightarrow> string \<Rightarrow> bool) \<Rightarrow> string option \<Rightarrow> user_status option \<Rightarrow> auth_state \<Rightarrow> user list" where
  "searchUsers like q want s =
     (let statusCondition = (\<lambda>u. case want of None \<Rightarrow> True | Some st \<Rightarrow> u_status u = st)
      in if \<not> truthy q then select_where statusCondition (users s)
         else let pat = ''%'' @ the q @ ''%''
              in select_where (\<lambda>u. (like (js_upper (u_username u)) (js_upper pat) \<and> statusCondition u)
                   \<or> (like (js_upper (u_email u)) (js_upper pat) \<and> statusCondition u)) (users s))"

definition findUserOrThrow :: "nat \<Rightarrow> auth_state \<Rightarrow> exn + user" where
  "findUserOrThrow i s =
     (case find_user i s of None \<Rightarrow> Inl (NotFound ''User not found'') | Some u \<Rightarrow> Inr u)"

definition generateRecoveryLink ::
  "env \<Rightarrow> ctx \<Rightarrow> default_user_config \<Rightarrow> nat \<Rightarrow> auth_state \<Rightarrow> (string, auth_state) outcome" where
  "generateRecoveryLink e c cfg userId s =
     (case findUserOrThrow userId s of
        Inl x \<Rightarrow> (Inl x, s)
      | Inr u \<Rightarrow>
          (case assertNotDefaultUser cfg (u_id u) s of
             Inl x \<Rightarrow> (Inl x, s)
           | Inr _ \<Rightarrow>
               (case issueToken e c u s of
                  (Inl x, s1) \<Rightarrow> (Inl x, s1)
                | (Inr (token, resetUrl), s1) \<Rightarrow> (Inr resetUrl, s1))))"

definition recovery_mail :: "string \<Rightarrow> string \<Rightarrow> send_template_params" where
  "recovery_mail to resetUrl = \<lparr>st_to = to, st_template = ''password-recovery'',
     st_variables = [(''resetUrl'', resetUrl)], st_from = None, st_method = None\<rparr>"

definition sendRecoveryEmail ::
  "env \<Rightarrow> ctx \<Rightarrow> default_user_config \<Rightarrow> mail_config \<Rightarrow> (string \<Rightarrow> email_method option)
     \<Rightarrow> template_registry \<Rightarrow> nat \<Rightarrow> auth_state \<times> email_message list
     \<Rightarrow> (bool, auth_state \<times> email_message list) outcome" where
  "sendRecoveryEmail e c cfg mcfg methods templates userId st =
     (case st of (s, box) \<Rightarrow>
       (case findUserOrThrow userId s of
          Inl x \<Rightarrow> (Inl x, st)
        | Inr u \<Rightarrow>
            (case assertNotDefaultUser cfg (u_id u) s of
               Inl x \<Rightarrow> (Inl x, st)
             | Inr _ \<Rightarrow>
                 (case issueToken e c u s of
                    (Inl x, s1) \<Rightarrow> (Inl x, (s1, box))
                  | (Inr (token, resetUrl), s1) \<Rightarrow>
                      (case sendEmailTemplate mcfg methods templates
                              (recovery_mail (u_email u) resetUrl) box of
                         (Inl _, box1) \<Rightarrow> (Inr False, (s1, box1))
                       | (Inr r, box1) \<Rightarrow> (Inr (se_status r = Sent), (s1, box1)))))))"

definition editUser ::
  "env \<Rightarrow> ctx \<Rightarrow> default_user_config \<Rightarrow> nat \<Rightarrow> user_field_changes \<Rightarrow> auth_state
     \<Rightarrow> (user, auth_state) outcome" where
  "editUser e c cfg userId dto s =
     (case assertAnyFieldPresent dto of
        Inl x \<Rightarrow> (Inl x, s)
      | Inr _ \<Rightarrow>
     (case findUserOrThrow userId s of
        Inl x \<Rightarrow> (Inl x, s)
      | Inr u \<Rightarrow>
     (case (if hasManagedField dto then assertNotDefaultUser cfg (u_id u) s else Inr ()) of
        Inl x \<Rightarrow> (Inl x, s)
      | Inr _ \<Rightarrow>
     (case assertAvailableForUpdate e (u_id u) (changed_value (ch_username dto) (u_username u))
             (changed_value (ch_email dto) (u_email u)) s of
        Inl x \<Rightarrow> (Inl x, s)
      | Inr _ \<Rightarrow>
     (case applyUserUpdate e c u dto s of
        (Inl x, s1) \<Rightarrow> (Inl x, s1)
      | (Inr _, s1) \<Rightarrow>
          (let s2 = (if truthy (ch_newPassword dto)
                     then revokeUserTokens e (c_now c) (u_id u) ADMIN_PASSWORD_CHANGE None s1 else s1)
           in (findUserOrThrow userId s2, s2)))))))"

definition approveUser :: "nat \<Rightarrow> auth_state \<Rightarrow> (user, auth_state) outcome" where
  "approveUser userId s =
     (case findUserOrThrow userId s of
        Inl x \<Rightarrow> (Inl x, s)
      | Inr u \<Rightarrow>
          (let p = (\<lambda>v. u_id v = u_id u \<and> u_status v = PENDING);
               affected = count_where p (users s);
               s1 = s\<lparr>users := update_where p (\<lambda>v. v\<lparr>u_status := APPROVED\<rparr>) (users s)\<rparr>
           in if affected = 0
              then (Inl (UnprocessableCode ''USER_NOT_PENDING'' USER_NOT_PENDING_MESSAGE), s1)
              else (findUserOrThrow userId s1, s1)))"

definition denyUser ::
  "env \<Rightarrow> int \<Rightarrow> default_user_config \<Rightarrow> nat \<Rightarrow> nat \<Rightarrow> auth_state \<Rightarrow> (user, auth_state) outcome" where
  "denyUser e now cfg userId callerId s =
     (case findUserOrThrow userId s of
        Inl x \<Rightarrow> (Inl x, s)
      | Inr u \<Rightarrow>
          (case assertNotDefaultUser cfg (u_id u) s of
             Inl x \<Rightarrow> (Inl x, s)
           | Inr _ \<Rightarrow>
               if u_id u = callerId
               then (Inl (UnprocessableCode ''CANNOT_DENY_SELF'' CANNOT_DENY_SELF_MESSAGE), s)
               else
                 (let s1 = s\<lparr>users := update_where (\<lambda>v. u_id v = u_id u)
                        (\<lambda>v. v\<lparr>u_status := DENIED\<rparr>) (users s)\<rparr>;
                      s2 = revokeUserTokens e now (u_id u) ADMIN_DENIED None s1
                  in (findUserOrThrow userId s2, s2))))"

section \<open>The recovery-mail listener\<close>

definition handlePasswordRecoveryRequested ::
  "mail_config \<Rightarrow> (string \<Rightarrow> email_method option) \<Rightarrow> template_registry \<Rightarrow> string \<Rightarrow> string
     \<Rightarrow> email_message list \<Rightarrow> email_message list" where
  "handlePasswordRecoveryRequested mcfg methods templates email resetUrl box =
     (case sendEmailTemplate mcfg methods templates (recovery_mail email resetUrl) box of
        (_, box1) \<Rightarrow> box1)"

section \<open>Denying a user\<close>

definition denied :: "nat \<Rightarrow> auth_state \<Rightarrow> bool" where
  "denied i s \<longleftrightarrow> (\<forall>u \<in> set (rows (users s)). u_id u = i \<longrightarrow> u_status u = DENIED)"

lemma login_not_denied:
  assumes "login e c name pw k s = (Inr r, s')" and "denied i s"
  shows "u_id (res_user r) \<noteq> i"
proof -
  from assms(1) obtain u where u: "validateCredentials e name pw s = Inr u" and nd: "u_status u \<noteq> DENIED"
    and it: "issueTokens e c u (case k of Some x \<Rightarrow> x | None \<Rightarrow> False) None s = (Inr r, s')"
    by (auto simp: login_def split: sum.splits if_splits)
  from u have "find_user_by_username e name s = Some u"
    by (auto simp: validateCredentials_def Let_def split: option.splits if_splits)
  then have "u \<in> set (rows (users s))" using find_one_Some by (fastforce simp: find_user_by_username_def)
  with nd assms(2) issueTokens_Inr(3) [OF it] show ?thesis by (auto simp: denied_def)
qed

lemma refresh_not_denied:
  assumes "refresh e c tok s = (Inr r, s')" and "denied i s"
  shows "u_id (res_user r) \<noteq> i"
proof -
  from assms(1) obtain row u s1 s2 where l: "refresh_load e (c_now c) tok s = (Inr (row, u), s1)"
    and it: "issueTokens e c u (rt_keepSignedIn row) (Some (rotation_identity row)) s2 = (Inr r, s')"
    by (auto simp: refresh_def split: sum.splits prod.splits)
  from l have fu: "find_user (rt_userId row) s = Some u" and "u_status u \<noteq> DENIED"
    by (auto simp: refresh_load_def findActiveRefreshToken_def split: sum.splits prod.splits option.splits if_splits)
  with find_user_Some [OF fu] assms(2) issueTokens_Inr(3) [OF it] show ?thesis by (auto simp: denied_def)
qed

lemma gate_not_denied:
  assumes "jwt_canActivate vrf ks (\<lambda>sid. findActiveSessionUser now sid s) isPublic cookie = Inr (Some p)"
    and "denied i s"
  shows "pl_sub p \<noteq> i"
  using auth_lookup.gate_sound [OF assms(1)] assms(2) by (auto simp: approved_as_def denied_def)

lemma denyUser_Inr:
  assumes "denyUser e now cfg i caller s = (Inr u, s')"
  shows "i \<noteq> caller" and "\<not> isDefaultUser cfg i s"
    and "s' = revokeUserTokens e now i ADMIN_DENIED None (s\<lparr>users :=
           update_where (\<lambda>v. u_id v = i) (\<lambda>v. v\<lparr>u_status := DENIED\<rparr>) (users s)\<rparr>)"
proof -
  from assms obtain v where v: "find_user i s = Some v"
    by (cases "find_user i s") (simp_all add: denyUser_def findUserOrThrow_def)
  have id: "u_id v = i" using find_user_Some [OF v] by simp
  have load: "findUserOrThrow i s = Inr v" by (simp add: findUserOrThrow_def v)
  show nd: "\<not> isDefaultUser cfg i s"
  proof
    assume "isDefaultUser cfg i s"
    with assms show False by (simp add: denyUser_def load id assertNotDefaultUser_def)
  qed
  then have free: "assertNotDefaultUser cfg i s = Inr ()" by simp
  show nc: "i \<noteq> caller"
  proof
    assume "i = caller"
    then have "denyUser e now cfg i caller s =
        (Inl (UnprocessableCode ''CANNOT_DENY_SELF'' CANNOT_DENY_SELF_MESSAGE), s)"
      using load id nd by (simp add: denyUser_def assertNotDefaultUser_def)
    with assms show False by simp
  qed
  from assms show "s' = revokeUserTokens e now i ADMIN_DENIED None (s\<lparr>users :=
           update_where (\<lambda>v. u_id v = i) (\<lambda>v. v\<lparr>u_status := DENIED\<rparr>) (users s)\<rparr>)"
    by (simp add: denyUser_def load id free nc Let_def)
qed

lemma denyUser_closes:
  assumes "denyUser e now cfg i caller s = (Inr u, s')"
  shows "denied i s'" and "\<not> session_active t sid i s'"
proof -
  note d = denyUser_Inr [OF assms]
  have "users s' = update_where (\<lambda>v. u_id v = i) (\<lambda>v. v\<lparr>u_status := DENIED\<rparr>) (users s)"
    unfolding d(3) by simp
  then show "denied i s'" by (simp add: denied_def rows_update_where ball_Un)
  show "\<not> session_active t sid i s'"
  proof
    assume "session_active t sid i s'"
    then obtain r where r: "r \<in> set (rows (refresh_tokens s'))" "rt_userId r = i" "token_active t r"
      by (auto simp: session_active_def)
    from revokeUserTokens_survivors [OF r(1) [unfolded d(3)] r(2,3)] show False by simp
  qed
qed

text \<open>
  C19. Denying a user shuts that user out at once: no session of theirs stays active, no request
  carrying one of their access tokens passes the gate, and neither a login, even with the right
  password, nor a refresh yields a session for them.  The caller and the default user cannot be
  denied.
\<close>

theorem denyUser_shuts_out:
  assumes "denyUser e now cfg i caller s = (Inr u, s')"
  shows "i \<noteq> caller \<and> \<not> isDefaultUser cfg i s \<and> (\<forall>t sid. \<not> session_active t sid i s')
    \<and> (\<forall>vrf ks t pub cookie p.
         jwt_canActivate vrf ks (\<lambda>sid. findActiveSessionUser t sid s') pub cookie = Inr (Some p)
           \<longrightarrow> pl_sub p \<noteq> i)
    \<and> (\<forall>c name pw k r s2. login e c name pw k s' = (Inr r, s2) \<longrightarrow> u_id (res_user r) \<noteq> i)
    \<and> (\<forall>c tok r s2. refresh e c tok s' = (Inr r, s2) \<longrightarrow> u_id (res_user r) \<noteq> i)"
  using denyUser_Inr(1,2) [OF assms] denyUser_closes [OF assms]
  by (blast dest: gate_not_denied login_not_denied refresh_not_denied)

definition demo_denied :: auth_state where
  "demo_denied = snd (denyUser demo_env 3000 demo_default_off 1 2
     (snd (login demo_env demo_ctx ''demo'' ''secret'' None demo_state)))"

theorem denyUser_shuts_out_witness:
  "\<not> session_active 3000 demo_uuid 1 demo_denied
   \<and> fst (login demo_env demo_ctx2 ''demo'' ''secret'' None demo_denied)
       = Inl (ForbiddenCode ''USER_DENIED'' ''This account has been denied access'')"
proof -
  let ?s = "snd (login demo_env demo_ctx ''demo'' ''secret'' None demo_state)"
  have "is_Inr (fst (denyUser demo_env 3000 demo_default_off 1 2 ?s))" by code_simp
  then obtain u where h: "denyUser demo_env 3000 demo_default_off 1 2 ?s = (Inr u, demo_denied)"
    using is_Inr_outcome unfolding demo_denied_def by blast
  have "fst (login demo_env demo_ctx2 ''demo'' ''secret'' None demo_denied)
       = Inl (ForbiddenCode ''USER_DENIED'' ''This account has been denied access'')" by code_simp
  with denyUser_shuts_out [OF h] show ?thesis by blast
qed

end
