(* ===== verification/Session_Properties.thy ===== *)
theory Session_Properties
  imports User_System
begin

text \<open>
  Properties that span registration, login, the session gate, session revocation and password
  reset.
\<close>

section \<open>The gate\<close>

text \<open>
  C22. The gate lets a request through as a user only on an access token signed with one of the
  accepted keys that names a session which is active at that moment, and with the username and
  administrator flag that the approved user has in the database at that moment, whatever the
  token says.
\<close>

theorem gate_admits_active_sessions:
  assumes "jwt_canActivate vrf ks (\<lambda>sid. findActiveSessionUser now sid s) isPublic cookie = Inr (Some p)"
  shows "session_active now (pl_sid p) (pl_sub p) s
    \<and> (\<exists>u \<in> set (rows (users s)). u_status u = APPROVED \<and> u_id u = pl_sub p
         \<and> u_username u = pl_username p \<and> u_isAdmin u = pl_isAdmin p)
    \<and> (\<exists>token payload. cookie = Some token
         \<and> (vrf None token = Some payload \<or> (\<exists>k \<in> set ks. vrf (Some k) token = Some payload))
         \<and> vp_sub payload = ClaimInteger (int (pl_sub p)) \<and> vp_sid payload = ClaimString (pl_sid p))"
proof -
  from jwt_canActivate_Some [OF assms] obtain token payload where "cookie = Some token"
    and v: "verify vrf ks token = Inr payload" and "vp_sub payload = ClaimInteger (int (pl_sub p))"
    and "vp_sid payload = ClaimString (pl_sid p)" by blast
  with verify_Inr [OF v] auth_lookup.gate_sound [OF assms] show ?thesis
    by (auto simp: approved_as_def)
qed

definition demo_logged_in :: auth_state where
  "demo_logged_in = snd (login demo_env demo_ctx ''demo'' ''secret'' None demo_state)"

definition demo_verify :: "string option \<Rightarrow> string \<Rightarrow> verified_payload option" where
  "demo_verify secret token =
     (if secret = None \<and> take 4 token = ''jwt:''
      then Some \<lparr>vp_sub = ClaimInteger 1, vp_sid = ClaimString (drop 4 token)\<rparr> else None)"

theorem gate_admits_active_sessions_witness:
  "\<exists>p. jwt_canActivate demo_verify [] (\<lambda>sid. findActiveSessionUser 1500 sid demo_logged_in) False
       (Some (''jwt:'' @ demo_uuid)) = Inr (Some p)
     \<and> pl_username p = ''demo'' \<and> session_active 1500 (pl_sid p) (pl_sub p) demo_logged_in"
proof -
  let ?p = "\<lparr>pl_sub = 1, pl_sid = demo_uuid, pl_username = ''demo'', pl_isAdmin = False\<rparr>"
  have h: "jwt_canActivate demo_verify [] (\<lambda>sid. findActiveSessionUser 1500 sid demo_logged_in) False
       (Some (''jwt:'' @ demo_uuid)) = Inr (Some ?p)" by code_simp
  from gate_admits_active_sessions [OF h] h show ?thesis by auto
qed

section \<open>Registration and login\<close>

lemma register_Inr:
  assumes "register e c name email pw s = (Inr r, s')"
  obtains u where "assertAvailable e name email s = Inr ()"
    and "users s' = insert_row (\<lambda>i. \<lparr>u_id = i, u_username = name, u_email = email,
           u_passwordDigest = env_bcrypt_hash e (c_salt c) pw, u_isAdmin = False,
           u_status = registrationStatus e, u_createdAt = c_now c\<rparr>) (users s)"
    and "res_user r = u" and "u = \<lparr>u_id = next_id (users s), u_username = name, u_email = email,
           u_passwordDigest = env_bcrypt_hash e (c_salt c) pw, u_isAdmin = False,
           u_status = registrationStatus e, u_createdAt = c_now c\<rparr>"
proof -
  let ?mk = "\<lambda>i. \<lparr>u_id = i, u_username = name, u_email = email,
           u_passwordDigest = env_bcrypt_hash e (c_salt c) pw, u_isAdmin = False,
           u_status = registrationStatus e, u_createdAt = c_now c\<rparr>"
  from assms have av: "assertAvailable e name email s = Inr ()"
    by (auto simp: register_def split: sum.splits)
  from assms av obtain u s1 where ins: "insert_user e ?mk s = (Inr u, s1)"
    and it: "issueTokens e c u False None (emit (UserRegisteredEvent (u_id u) (u_username u) (u_email u)) s1)
        = (Inr r, s')"
    by (auto simp: register_def split: sum.splits prod.splits)
  from ins have "u = ?mk (next_id (users s))" and "users s1 = insert_row ?mk (users s)"
    by (auto simp: insert_user_def Let_def split: if_splits)
  with that [OF av _ issueTokens_Inr(3) [OF it]] issueTokens_frame(1) [OF it] show thesis by simp
qed

lemma assertAvailable_Inr:
  assumes "assertAvailable e name email s = Inr ()" and "u \<in> set (rows (users s))"
  shows "\<not> env_collate e (u_username u) name" and "\<not> env_collate e (u_email u) email"
proof -
  from assms(1) have "find_one (\<lambda>u. env_collate e (u_username u) name \<or> env_collate e (u_email u) email)
      (users s) = None"
    by (auto simp: assertAvailable_def split: option.splits if_splits)
  with assms(2) show "\<not> env_collate e (u_username u) name" and "\<not> env_collate e (u_email u) email"
    by (simp_all add: find_one_None)
qed

lemma registrationStatus_not_denied: "registrationStatus e \<noteq> DENIED"
  by (simp add: registrationStatus_def)

text \<open>
  Whoever registers can log in: right after a successful registration the chosen username
  and password open a session for the new account (whenever the random token drawn is new).
\<close>

theorem register_then_login:
  assumes "register e c name email pw s = (Inr r, s')" and "bcrypt_ok e" and "collate_ok e"
    and "\<And>q. q \<in> set (rows (refresh_tokens s')) \<Longrightarrow> rt_tokenHash q \<noteq> env_hashToken e (c_token c2)"
  shows "\<exists>r2 s2. login e c2 name pw k s' = (Inr r2, s2) \<and> res_user r2 = res_user r"
proof -
  from assms(1) obtain u where av: "assertAvailable e name email s = Inr ()"
    and us: "users s' = insert_row (\<lambda>i. \<lparr>u_id = i, u_username = name, u_email = email,
           u_passwordDigest = env_bcrypt_hash e (c_salt c) pw, u_isAdmin = False,
           u_status = registrationStatus e, u_createdAt = c_now c\<rparr>) (users s)"
    and ru: "res_user r = u" and u: "u = \<lparr>u_id = next_id (users s), u_username = name, u_email = email,
           u_passwordDigest = env_bcrypt_hash e (c_salt c) pw, u_isAdmin = False,
           u_status = registrationStatus e, u_createdAt = c_now c\<rparr>"
    by (rule register_Inr)
  have refl: "env_collate e name name" using assms(3) by (simp add: collate_ok_def equivp_reflp)
  have "find_user_by_username e name s' = Some u"
    unfolding find_user_by_username_def us u
    by (rule find_one_unique) (use refl assertAvailable_Inr(1) [OF av] in \<open>auto simp: rows_insert_row\<close>)
  then have v: "validateCredentials e name pw s' = Inr u"
    using assms(2) by (simp add: validateCredentials_def compareOrDummy_def bcrypt_ok_def u)
  have fresh: "\<not> exists_where (\<lambda>q. rt_tokenHash q = env_hashToken e (c_token c2)) (pruned_tokens c2 u s')"
    using assms(4) by (auto simp: exists_where_iff pruned_tokens_def table_simps)
  have "u_status u \<noteq> DENIED" by (simp add: u registrationStatus_not_denied)
  with v fresh ru show ?thesis by (auto simp: login_def issueTokens_eq)
qed

theorem register_then_login_witness:
  "\<exists>r2 s2. login demo_env demo_ctx2 ''ann'' ''pw'' None demo_registered = (Inr r2, s2)
     \<and> u_username (res_user r2) = ''ann''"
proof -
  have "is_Inr (fst (register demo_env demo_ctx ''ann'' ''ann@x'' ''pw'' init_auth_state))" by code_simp
  then obtain r where h: "register demo_env demo_ctx ''ann'' ''ann@x'' ''pw'' init_auth_state
      = (Inr r, demo_registered)"
    using is_Inr_outcome unfolding demo_registered_def by blast
  have "list_all (\<lambda>q. rt_tokenHash q \<noteq> env_hashToken demo_env (c_token demo_ctx2))
      (rows (refresh_tokens demo_registered))" by code_simp
  then obtain r2 s2 where l: "login demo_env demo_ctx2 ''ann'' ''pw'' None demo_registered = (Inr r2, s2)"
    and e: "res_user r2 = res_user r"
    using register_then_login [OF h demo_bcrypt_ok demo_collate_ok, of demo_ctx2 None]
    by (auto simp: list_all_iff)
  have "u_username (res_user r) = ''ann''" by (rule register_Inr [OF h]) simp
  with l e show ?thesis by auto
qed

text \<open>
  A failed login reveals nothing about which half was wrong: an unknown username and a wrong
  password get the same answer, and a login changes nothing unless it succeeds as the account
  that owns the username and the password.
\<close>

theorem login_outcomes:
  "(\<forall>x s'. login e c name pw k s = (Inl x, s') \<longrightarrow>
      (x = Unauthorized ''Invalid username or password'' \<and> s' = s)
      \<or> (x = ForbiddenCode ''USER_DENIED'' ''This account has been denied access'' \<and> s' = s
          \<and> (\<exists>u. validateCredentials e name pw s = Inr u \<and> u_status u = DENIED))
      \<or> x = DupEntryExn)
   \<and> (\<forall>r s'. login e c name pw k s = (Inr r, s') \<longrightarrow>
      find_user_by_username e name s = Some (res_user r)
      \<and> env_bcrypt_compare e pw (u_passwordDigest (res_user r)) \<and> u_status (res_user r) \<noteq> DENIED)"
proof (cases "validateCredentials e name pw s")
  case (Inl x)
  then have "x = Unauthorized ''Invalid username or password''"
    by (auto simp: validateCredentials_def Let_def split: option.splits if_splits)
  with Inl show ?thesis by (simp add: login_def)
next
  case (Inr u)
  then have "find_user_by_username e name s = Some u" and "env_bcrypt_compare e pw (u_passwordDigest u)"
    by (auto simp: validateCredentials_def compareOrDummy_def Let_def split: option.splits if_splits)
  with Inr show ?thesis by (auto simp: login_def issueTokens_eq split: if_splits)
qed

theorem login_outcomes_witness:
  "fst (login demo_env demo_ctx2 ''nobody'' ''secret'' None demo_state)
     = fst (login demo_env demo_ctx2 ''demo'' ''wrong'' None demo_state)
   \<and> fst (login demo_env demo_ctx2 ''demo'' ''wrong'' None demo_state)
     = Inl (Unauthorized ''Invalid username or password'')"
proof -
  have a: "fst (login demo_env demo_ctx2 ''nobody'' ''secret'' None demo_state)
      = Inl (Unauthorized ''Invalid username or password'')" by code_simp
  have "\<not> is_Inr (fst (login demo_env demo_ctx2 ''demo'' ''wrong'' None demo_state))"
    and nd: "\<not> is_Inr (validateCredentials demo_env ''demo'' ''wrong'' demo_state)"
    and dup: "fst (login demo_env demo_ctx2 ''demo'' ''wrong'' None demo_state) \<noteq> Inl DupEntryExn"
    by code_simp+
  then obtain x s' where h: "login demo_env demo_ctx2 ''demo'' ''wrong'' None demo_state = (Inl x, s')"
    using not_Inr_outcome by blast
  from login_outcomes [of demo_env demo_ctx2 "''demo''" "''wrong''" None demo_state] h nd dup
  have "x = Unauthorized ''Invalid username or password''" by (auto simp: is_Inr_def)
  with a h show ?thesis by simp
qed

section \<open>Password reset\<close>


definition demo_recovering :: auth_state where
  "demo_recovering = snd (pr_recover demo_env demo_ctx demo_default_off ''demo@x'' demo_logged_in)"


section \<open>Revoking the other sessions\<close>

text \<open>
  Revoking the other sessions keeps exactly the caller's current one: the presented token's
  session stays active, every other session of the user is closed, and no other user's session
  is touched.
\<close>

theorem revokeOthers_keeps_current:
  assumes "revokeOthers e now i tok s = (Inr x, s')" and "tokens_ok (refresh_tokens s)"
  shows "(\<exists>r \<in> set (rows (refresh_tokens s)). rt_userId r = i \<and> token_active now r
            \<and> rt_tokenHash r = env_hashToken e (the tok)
            \<and> (\<forall>t sid. session_active t sid i s' \<longleftrightarrow> session_active t sid i s \<and> sid = rt_sessionUuid r))
         \<and> (\<forall>t sid j. j \<noteq> i \<longrightarrow> session_active t sid j s' = session_active t sid j s)"
proof -
  from assms(1) obtain r where r: "r \<in> set (rows (refresh_tokens s))" "rt_userId r = i" "token_active now r"
    "rt_tokenHash r = env_hashToken e (the tok)"
    and s': "s' = revoke_matching now USER_REVOKED
           (\<lambda>q. rt_userId q = i \<and> rt_sessionUuid q \<noteq> rt_sessionUuid r) s"
    by (rule revokeOthers_Inr)
  have own: "session_active t sid i s' \<longleftrightarrow> session_active t sid i s \<and> sid = rt_sessionUuid r" for t sid
    unfolding s' session_active_revoked by (simp add: session_active_def cong: conj_cong) fast
  have others: "session_active t sid j s' = session_active t sid j s" if "j \<noteq> i" for t sid j
    unfolding s' session_active_revoked using that by (simp add: session_active_def cong: conj_cong)
  from r own others show ?thesis by blast
qed

definition demo_two_sessions :: auth_state where
  "demo_two_sessions = snd (login demo_env demo_ctx2 ''demo'' ''secret'' None demo_logged_in)"

theorem revokeOthers_keeps_current_witness:
  "\<exists>s'. revokeOthers demo_env 2500 1 (Some ''t2'') demo_two_sessions = (Inr (), s')
     \<and> session_active 2500 demo_uuid 1 demo_two_sessions \<and> \<not> session_active 2500 demo_uuid 1 s'"
proof -
  have "is_Inr (fst (revokeOthers demo_env 2500 1 (Some ''t2'') demo_two_sessions))" by code_simp
  then obtain s' where h: "revokeOthers demo_env 2500 1 (Some ''t2'') demo_two_sessions = (Inr (), s')"
    using is_Inr_outcome by fastforce
  have ok: "tokens_ok (refresh_tokens demo_two_sessions)"
    and act: "session_active 2500 demo_uuid 1 demo_two_sessions"
    and u: "list_all (\<lambda>r. rt_tokenHash r = env_hashToken demo_env ''t2'' \<longrightarrow> rt_sessionUuid r \<noteq> demo_uuid)
        (rows (refresh_tokens demo_two_sessions))"
    by code_simp+
  from revokeOthers_keeps_current [OF h ok] u have "\<not> session_active 2500 demo_uuid 1 s'"
    by (auto simp: list_all_iff)
  with h act show ?thesis by blast
qed

section \<open>Two observations\<close>

text \<open>
  The availability check of registrations compares the found username exactly, while the lookup
  that found it is case-insensitive: a taken username in another case is reported as a taken
  email.
\<close>

lemma taken_username_reported_as_email:
  "fst (register demo_env demo_ctx ''DEMO'' ''new@x'' ''pw'' demo_state)
     = Inl (ConflictCode ''EMAIL_TAKEN'' ''email is not available'')"
  by code_simp

text \<open>
  A reset-token lifetime set in the process environment is a string, so it is appended to the
  current time instead of added: unless the digits happen to form a date, recovery fails for
  every existing account, and for no other address.
\<close>

lemma configured_reset_ttl_breaks_recovery:
  "let e = demo_env\<lparr>env_config := (\<lambda>k. if k = ''KERGHAN_PASSWORD_RESET_TOKEN_TTL_MS''
             then JString ''1800000'' else JUndefined)\<rparr>
   in fst (pr_recover e demo_ctx demo_default_off ''demo@x'' demo_state) = Inl (ErrorExn ''QueryFailedError'')
      \<and> fst (pr_recover e demo_ctx demo_default_off ''nobody@x'' demo_state) = Inr ()"
  by code_simp

end
