(* ===== verification/Request_Security.thy ===== *)
theory Request_Security
  imports Session_Lookup
begin

text \<open>
  What every request passes before and after its handler: \<^verbatim>\<open>core/cors-config.ts\<close>,
  \<^verbatim>\<open>core/origin.guard.ts\<close>, the order of the global guards (\<^verbatim>\<open>app.module.ts\<close>),
  \<^verbatim>\<open>core/client-request.ts\<close>, \<^verbatim>\<open>core/cache-policy.interceptor.ts\<close> and
  \<^verbatim>\<open>core/http-exception.filter.ts\<close>.  The platform's URL parser is a parameter.
\<close>

section \<open>CORS configuration\<close>

record url =
  url_protocol :: string
  url_origin :: string
  url_host :: string

type_synonym url_parser = "string \<Rightarrow> url option"

datatype trusted_origins = AnyOrigin | Origins "string list"

definition ALLOWED_PROTOCOLS :: "string list" where
  "ALLOWED_PROTOCOLS = [''http:'', ''https:'']"

definition cors_readTrimmed :: "env \<Rightarrow> string \<Rightarrow> string" where
  "cors_readTrimmed e name = js_trim (config_string e name)"

definition cors_error :: "string \<Rightarrow> string \<Rightarrow> exn" where
  "cors_error entry why =
     ErrorExn (''Invalid KERGHAN_ALLOWED_ORIGINS entry \"'' @ entry @ ''\": '' @ why)"

definition assertWildcardAllowed :: "string list \<Rightarrow> bool \<Rightarrow> exn + trusted_origins" where
  "assertWildcardAllowed entries isProduction =
     (if isProduction then Inl (cors_error ''*'' ''wildcard is not allowed when NODE_ENV=production'')
      else if length entries \<noteq> 1 then Inl (cors_error ''*'' ''wildcard must be the sole entry'')
      else Inr AnyOrigin)"

definition assertBareOrigin :: "url_parser \<Rightarrow> string \<Rightarrow> exn + unit" where
  "assertBareOrigin parseUrl entry =
     (if entry = [] then Inl (cors_error entry ''empty entries are not allowed'')
      else case parseUrl entry of
        None \<Rightarrow> Inl (cors_error entry ''must be a bare origin (scheme://host[:port])'')
      | Some url \<Rightarrow>
          if url_protocol url \<notin> set ALLOWED_PROTOCOLS \<or> url_origin url \<noteq> entry
          then Inl (cors_error entry ''must be a bare origin (scheme://host[:port])'')
          else Inr ())"

fun assert_all :: "('a \<Rightarrow> exn + unit) \<Rightarrow> 'a list \<Rightarrow> exn + unit" where
  "assert_all f [] = Inr ()"
| "assert_all f (x # xs) = (case f x of Inl y \<Rightarrow> Inl y | Inr _ \<Rightarrow> assert_all f xs)"

definition parseAllowedOrigins :: "url_parser \<Rightarrow> string \<Rightarrow> bool \<Rightarrow> exn + trusted_origins" where
  "parseAllowedOrigins parseUrl raw isProduction =
     (let entries = map js_trim (js_split (CHR '','') raw)
      in if ''*'' \<in> set entries then assertWildcardAllowed entries isProduction
         else case assert_all (assertBareOrigin parseUrl) entries of
           Inl x \<Rightarrow> Inl x
         | Inr _ \<Rightarrow> Inr (Origins entries))"

definition originFromFrontendBaseUrl :: "url_parser \<Rightarrow> string \<Rightarrow> exn + string" where
  "originFromFrontendBaseUrl parseUrl raw =
     (case parseUrl raw of
        None \<Rightarrow> Inl (ErrorExn (''Invalid FRONTEND_BASE_URL \"'' @ raw @ ''\": must be an http(s) URL''))
      | Some url \<Rightarrow>
          if url_protocol url \<notin> set ALLOWED_PROTOCOLS
          then Inl (ErrorExn (''Invalid FRONTEND_BASE_URL \"'' @ raw @ ''\": must be an http(s) URL''))
          else Inr (url_origin url))"

definition buildCorsOptions :: "url_parser \<Rightarrow> env \<Rightarrow> exn + trusted_origins option" where
  "buildCorsOptions parseUrl e =
     (let allowed = cors_readTrimmed e ''KERGHAN_ALLOWED_ORIGINS''
      in if allowed \<noteq> [] then
           (let isProduction = (cors_readTrimmed e ''NODE_ENV'' = ''production'')
            in case parseAllowedOrigins parseUrl allowed isProduction of
                 Inl x \<Rightarrow> Inl x
               | Inr os \<Rightarrow> Inr (Some os))
         else
           (let frontendBaseUrl = cors_readTrimmed e ''FRONTEND_BASE_URL''
            in if frontendBaseUrl \<noteq> [] then
                 (case originFromFrontendBaseUrl parseUrl frontendBaseUrl of
                    Inl x \<Rightarrow> Inl x
                  | Inr origin \<Rightarrow> Inr (Some (Origins [origin])))
               else Inr None))"

section \<open>OriginGuard\<close>

definition STATE_CHANGING_METHODS :: "string list" where
  "STATE_CHANGING_METHODS = [''POST'', ''PUT'', ''PATCH'', ''DELETE'']"

definition SAFE_FETCH_SITES :: "string list" where
  "SAFE_FETCH_SITES = [''same-origin'', ''none'']"

record origin_check_request =
  oc_method :: string
  oc_secFetchSite :: "string option"
  oc_origin :: "string option"
  oc_host :: "string option"

definition isTrustedOrigin :: "url_parser \<Rightarrow> string option \<Rightarrow> trusted_origins \<Rightarrow> bool" where
  "isTrustedOrigin parseUrl origin trusted =
     (case origin of
        None \<Rightarrow> False
      | Some orig \<Rightarrow>
          if parseUrl orig = None then False
          else (case trusted of AnyOrigin \<Rightarrow> True | Origins os \<Rightarrow> orig \<in> set os))"

definition isSameHost :: "url_parser \<Rightarrow> string \<Rightarrow> string option \<Rightarrow> bool" where
  "isSameHost parseUrl origin host =
     (case parseUrl origin of None \<Rightarrow> False | Some url \<Rightarrow> host = Some (url_host url))"

definition isCrossSiteRequestAllowed ::
  "url_parser \<Rightarrow> origin_check_request \<Rightarrow> trusted_origins \<Rightarrow> bool" where
  "isCrossSiteRequestAllowed parseUrl r trusted =
     (if js_upper (oc_method r) \<notin> set STATE_CHANGING_METHODS then True
      else case oc_secFetchSite r of
        Some site \<Rightarrow> site \<in> set SAFE_FETCH_SITES \<or> isTrustedOrigin parseUrl (oc_origin r) trusted
      | None \<Rightarrow>
          (case oc_origin r of
             None \<Rightarrow> True
           | Some origin \<Rightarrow>
               isTrustedOrigin parseUrl (oc_origin r) trusted \<or> isSameHost parseUrl origin (oc_host r)))"

definition guard_trustedOrigins :: "trusted_origins option \<Rightarrow> trusted_origins" where
  "guard_trustedOrigins cors = (case cors of Some os \<Rightarrow> os | None \<Rightarrow> Origins [])"

definition origin_canActivate ::
  "url_parser \<Rightarrow> trusted_origins option \<Rightarrow> origin_check_request \<Rightarrow> exn + bool" where
  "origin_canActivate parseUrl cors r =
     (if isCrossSiteRequestAllowed parseUrl r (guard_trustedOrigins cors) then Inr True
      else Inl (Forbidden ''Cross-site request rejected''))"

section \<open>The chain of global guards\<close>

text \<open>\<^verbatim>\<open>OriginGuard\<close>, then \<^verbatim>\<open>JwtGuard\<close>, then \<^verbatim>\<open>AdminGuard\<close>; the first one to throw answers.\<close>

definition guard_chain ::
  "url_parser \<Rightarrow> trusted_origins option \<Rightarrow> (string option \<Rightarrow> string \<Rightarrow> verified_payload option)
     \<Rightarrow> string list \<Rightarrow> (string \<Rightarrow> session_user option) \<Rightarrow> bool \<Rightarrow> bool \<Rightarrow> origin_check_request
     \<Rightarrow> string option \<Rightarrow> exn + access_token_payload option" where
  "guard_chain parseUrl cors vrf previousKeys lookup isPublic isAdminOnly r cookie =
     (case origin_canActivate parseUrl cors r of
        Inl x \<Rightarrow> Inl x
      | Inr _ \<Rightarrow>
          (case jwt_canActivate vrf previousKeys lookup isPublic cookie of
             Inl x \<Rightarrow> Inl x
           | Inr user \<Rightarrow>
               (case admin_canActivate isAdminOnly user of
                  Inl x \<Rightarrow> Inl x
                | Inr _ \<Rightarrow> Inr user)))"

section \<open>The client's address\<close>

definition DEFAULT_TRUSTED_PROXY_HOPS :: int where
  "DEFAULT_TRUSTED_PROXY_HOPS = 1"

definition MAX_SAFE_INTEGER :: int where
  "MAX_SAFE_INTEGER = 2 ^ 53 - 1"

definition isValidHops :: "js_number \<Rightarrow> bool" where
  "isValidHops n = (case n of NaN \<Rightarrow> False | Finite k \<Rightarrow> \<bar>k\<bar> \<le> MAX_SAFE_INTEGER \<and> k \<ge> 0)"

definition valid_hops_or_default :: "js_number \<Rightarrow> int" where
  "valid_hops_or_default n =
     (case n of Finite k \<Rightarrow> if isValidHops n then k else DEFAULT_TRUSTED_PROXY_HOPS
              | NaN \<Rightarrow> DEFAULT_TRUSTED_PROXY_HOPS)"

definition parseTrustedProxyHops :: "js_value \<Rightarrow> int" where
  "parseTrustedProxyHops raw =
     (case raw of
        JNumber n \<Rightarrow> valid_hops_or_default n
      | JString s \<Rightarrow>
          (let t = js_trim s
           in if t = [] \<or> \<not> list_all is_digit t then DEFAULT_TRUSTED_PROXY_HOPS
              else valid_hops_or_default (Finite (int (digits_value t))))
      | JNull \<Rightarrow> DEFAULT_TRUSTED_PROXY_HOPS
      | JUndefined \<Rightarrow> DEFAULT_TRUSTED_PROXY_HOPS)"

definition forwarded_hops :: "string \<Rightarrow> string list" where
  "forwarded_hops v = filter (\<lambda>hop. hop \<noteq> []) (map js_trim (js_split (CHR '','') v))"

text \<open>The result is \<^term>\<open>None\<close> when no hop is selected (JavaScript's \<^verbatim>\<open>undefined\<close>).\<close>

definition extractIp :: "string option \<Rightarrow> string option \<Rightarrow> js_number \<Rightarrow> string option" where
  "extractIp forwardedFor fallback trustedProxyHops =
     (let socket = Some (case fallback of Some a \<Rightarrow> a | None \<Rightarrow> [])
      in if \<not> truthy forwardedFor then socket
         else let hops = forwarded_hops (the forwardedFor)
              in if hops = [] then socket
                 else let safeHops = valid_hops_or_default trustedProxyHops;
                          trustedIndex = nat (max 0 (int (length hops) - safeHops))
                      in if trustedIndex < length hops then Some (hops ! trustedIndex) else None)"

section \<open>Cache headers\<close>

datatype cache_class = PublicClass | UserScoped | NeverClass

definition PUBLIC_MAX_AGE_SECONDS :: nat where "PUBLIC_MAX_AGE_SECONDS = 10"

definition CACHE_CONTROL_BY_CLASS :: "cache_class \<Rightarrow> string" where
  "CACHE_CONTROL_BY_CLASS c = (case c of
       PublicClass \<Rightarrow> ''public, max-age='' @ nat_to_string PUBLIC_MAX_AGE_SECONDS
     | UserScoped \<Rightarrow> ''private, no-store''
     | NeverClass \<Rightarrow> ''no-store'')"

definition effectiveClass :: "cache_class \<Rightarrow> string \<Rightarrow> cache_class" where
  "effectiveClass declared method =
     (if js_upper method \<in> {''GET'', ''HEAD''} then declared else NeverClass)"

definition cache_intercept :: "cache_class option \<Rightarrow> string \<Rightarrow> (string \<times> string) list" where
  "cache_intercept declared method =
     (case declared of
        None \<Rightarrow> []
      | Some d \<Rightarrow>
          (let c = effectiveClass d method
           in (if c \<noteq> PublicClass then [(''X-Skip-Cache'', ''true'')] else [])
              @ [(''Cache-Control'', CACHE_CONTROL_BY_CLASS c)]))"

section \<open>Error responses\<close>

record error_payload =
  ep_code :: string
  ep_message :: string
  ep_details :: "string list option"

definition INTERNAL_ERROR_MESSAGE :: string where
  "INTERNAL_ERROR_MESSAGE = ''Internal server error''"

definition clientErrorStatusOf :: "exn \<Rightarrow> nat option" where
  "clientErrorStatusOf x = (case x of
       StatusExn n \<Rightarrow> if n \<ge> 400 \<and> n < 500 then Some (nat n) else None
     | _ \<Rightarrow> None)"

definition buildHttpPayload :: "http_exception \<Rightarrow> error_payload" where
  "buildHttpPayload h =
     (case ex_message h of
        Msgs details \<Rightarrow>
          \<lparr>ep_code = (case ex_code h of Some c \<Rightarrow> c | None \<Rightarrow> ''VALIDATION_FAILED''),
           ep_message = js_join ''; '' details, ep_details = Some details\<rparr>
      | Msg m \<Rightarrow>
          \<lparr>ep_code = (case ex_code h of Some c \<Rightarrow> c | None \<Rightarrow> categoryCodeFor (ex_status h)),
           ep_message = m, ep_details = None\<rparr>)"

definition buildClientErrorPayload :: "(nat \<Rightarrow> string option) \<Rightarrow> nat \<Rightarrow> error_payload" where
  "buildClientErrorPayload statusCodes st =
     \<lparr>ep_code = categoryCodeFor st,
      ep_message = (case statusCodes st of Some m \<Rightarrow> m | None \<Rightarrow> ''HTTP '' @ nat_to_string st),
      ep_details = None\<rparr>"

definition buildInternalPayload :: error_payload where
  "buildInternalPayload =
     \<lparr>ep_code = ''INTERNAL_ERROR'', ep_message = INTERNAL_ERROR_MESSAGE, ep_details = None\<rparr>"

definition filter_resolve :: "(nat \<Rightarrow> string option) \<Rightarrow> exn \<Rightarrow> nat \<times> error_payload" where
  "filter_resolve statusCodes x =
     (case x of
        HttpExn h \<Rightarrow> (ex_status h, buildHttpPayload h)
      | _ \<Rightarrow>
          (case clientErrorStatusOf x of
             Some st \<Rightarrow> (st, buildClientErrorPayload statusCodes st)
           | None \<Rightarrow> (500, buildInternalPayload)))"

definition retryAfterSecondsOf :: "exn \<Rightarrow> int option" where
  "retryAfterSecondsOf x = (case x of
       HttpExn h \<Rightarrow>
         (case ex_retryAfterSeconds h of
            Some n \<Rightarrow> if n < 0 then None else Some n
          | None \<Rightarrow> None)
     | _ \<Rightarrow> None)"

section \<open>Cross-site requests\<close>

lemma assert_all_Inr: "assert_all f xs = Inr u \<Longrightarrow> x \<in> set xs \<Longrightarrow> f x = Inr ()"
  by (induction xs) (auto split: sum.splits)

text \<open>A configured origin is the origin of an http(s) URL.\<close>

definition configured_origin :: "url_parser \<Rightarrow> env \<Rightarrow> string \<Rightarrow> bool" where
  "configured_origin parseUrl e orig \<longleftrightarrow>
     (\<exists>raw url. raw \<in> insert (cors_readTrimmed e ''FRONTEND_BASE_URL'')
          (js_trim ` set (js_split (CHR '','') (cors_readTrimmed e ''KERGHAN_ALLOWED_ORIGINS'')))
        \<and> parseUrl raw = Some url \<and> url_protocol url \<in> {''http:'', ''https:''} \<and> url_origin url = orig)"

lemma buildCorsOptions_production:
  assumes "buildCorsOptions parseUrl e = Inr cors" and "cors_readTrimmed e ''NODE_ENV'' = ''production''"
  shows "\<exists>os. guard_trustedOrigins cors = Origins os \<and> (\<forall>orig \<in> set os. configured_origin parseUrl e orig)"
proof (cases "cors_readTrimmed e ''KERGHAN_ALLOWED_ORIGINS'' = []")
  case True
  with assms(1) show ?thesis
    by (auto simp: buildCorsOptions_def Let_def originFromFrontendBaseUrl_def guard_trustedOrigins_def
        configured_origin_def ALLOWED_PROTOCOLS_def split: if_splits option.splits sum.splits
        intro!: exI [of _ "cors_readTrimmed e ''FRONTEND_BASE_URL''"])
next
  case False
  let ?es = "map js_trim (js_split (CHR '','') (cors_readTrimmed e ''KERGHAN_ALLOWED_ORIGINS''))"
  from assms False have cors: "cors = Some (Origins ?es)"
    and all: "assert_all (assertBareOrigin parseUrl) ?es = Inr ()"
    by (auto simp: buildCorsOptions_def parseAllowedOrigins_def assertWildcardAllowed_def Let_def
        split: if_splits sum.splits)
  have "configured_origin parseUrl e orig" if "orig \<in> set ?es" for orig
    using assert_all_Inr [OF all that] that
    by (auto simp: assertBareOrigin_def configured_origin_def ALLOWED_PROTOCOLS_def
        split: if_splits option.splits)
  then show ?thesis by (simp add: cors guard_trustedOrigins_def)
qed

text \<open>
  C27. In production no other site can make a browser change state: a request with a
  state-changing method that the browser marks as coming from another site passes the guard only
  with an \<^verbatim>\<open>Origin\<close> that is the origin of an http(s) address in the configuration; a wildcard
  never applies.
\<close>

theorem cross_site_needs_configured_origin:
  assumes "buildCorsOptions parseUrl e = Inr cors" and "cors_readTrimmed e ''NODE_ENV'' = ''production''"
    and "origin_canActivate parseUrl cors r = Inr ok"
    and "js_upper (oc_method r) \<in> {''POST'', ''PUT'', ''PATCH'', ''DELETE''}"
    and "oc_secFetchSite r = Some site" and "site \<notin> {''same-origin'', ''none''}"
  shows "\<exists>orig. oc_origin r = Some orig \<and> configured_origin parseUrl e orig"
proof -
  obtain os where t: "guard_trustedOrigins cors = Origins os"
    and c: "\<forall>orig \<in> set os. configured_origin parseUrl e orig"
    using buildCorsOptions_production [OF assms(1,2)] by blast
  from assms(3-6) have "isTrustedOrigin parseUrl (oc_origin r) (Origins os)"
    by (auto simp: origin_canActivate_def isCrossSiteRequestAllowed_def STATE_CHANGING_METHODS_def
        SAFE_FETCH_SITES_def t split: if_splits)
  with c show ?thesis by (auto simp: isTrustedOrigin_def split: option.splits if_splits)
qed

definition demo_parse_url :: url_parser where
  "demo_parse_url raw =
     (if take 8 raw = ''https://''
      then Some \<lparr>url_protocol = ''https:'', url_origin = raw, url_host = drop 8 raw\<rparr> else None)"

definition demo_web_env :: env where
  "demo_web_env = \<lparr>env_hashToken = (\<lambda>x. x), env_bcrypt_hash = (\<lambda>salt p. p),
     env_bcrypt_compare = (\<lambda>p d. d = p), env_jwt_sign = (\<lambda>p. []), env_collate = (=),
     env_config = (\<lambda>k. case map_of [(''NODE_ENV'', ''production''),
        (''KERGHAN_ALLOWED_ORIGINS'', ''https://a.x, https://b.x'')] k of Some v \<Rightarrow> JString v | None \<Rightarrow> JUndefined),
     env_parse_number = (\<lambda>_. NaN), env_parse_date = (\<lambda>_. None)\<rparr>"

theorem cross_site_needs_configured_origin_witness:
  "configured_origin demo_parse_url demo_web_env ''https://b.x''
   \<and> origin_canActivate demo_parse_url (Some (Origins [''https://a.x'', ''https://b.x'']))
       \<lparr>oc_method = ''post'', oc_secFetchSite = Some ''cross-site'', oc_origin = Some ''https://evil'',
        oc_host = None\<rparr> = Inl (Forbidden ''Cross-site request rejected'')"
proof -
  let ?cors = "Some (Origins [''https://a.x'', ''https://b.x''])"
  let ?r = "\<lparr>oc_method = ''post'', oc_secFetchSite = Some ''cross-site'', oc_origin = Some ''https://b.x'',
      oc_host = None\<rparr>"
  have "buildCorsOptions demo_parse_url demo_web_env = Inr ?cors"
    and "cors_readTrimmed demo_web_env ''NODE_ENV'' = ''production''"
    and "origin_canActivate demo_parse_url ?cors ?r = Inr True"
    and "js_upper (oc_method ?r) = ''POST''"
    by code_simp+
  from cross_site_needs_configured_origin [OF this(1-3)] this(4)
  have "configured_origin demo_parse_url demo_web_env ''https://b.x''" by simp
  moreover have "origin_canActivate demo_parse_url ?cors
       \<lparr>oc_method = ''post'', oc_secFetchSite = Some ''cross-site'', oc_origin = Some ''https://evil'',
        oc_host = None\<rparr> = Inl (Forbidden ''Cross-site request rejected'')" by code_simp
  ultimately show ?thesis by blast
qed

section \<open>Forged addresses\<close>

lemma forwarded_hops_append:
  "forwarded_hops (xs @ CHR '','' # ys) = forwarded_hops xs @ forwarded_hops ys"
  by (simp add: forwarded_hops_def js_split_append)

lemma valid_hops_or_default_nonneg: "0 \<le> valid_hops_or_default n"
  by (auto simp: valid_hops_or_default_def isValidHops_def DEFAULT_TRUSTED_PROXY_HOPS_def
      split: js_number.split)

lemma extractIp_hops:
  assumes "v \<noteq> []" and "forwarded_hops v \<noteq> []"
  shows "extractIp (Some v) fb n =
    (let hs = forwarded_hops v; i = nat (max 0 (int (length hs) - valid_hops_or_default n))
     in if i < length hs then Some (hs ! i) else None)"
  using assms by (simp add: extractIp_def Let_def)

text \<open>
  C28. A client cannot forge its address: whatever it sends itself in the forwarding header, once
  the trusted proxies have appended at least as many addresses as are trusted, the resolved
  address is the one they appended.  No configured value, however malformed, selects an address
  further to the left than that.
\<close>

theorem forwarded_address_unforgeable:
  assumes "valid_hops_or_default n \<le> int (length (forwarded_hops proxied))"
    and "forwarded_hops proxied \<noteq> []"
  shows "extractIp (Some (forged @ CHR '','' # proxied)) fb n = extractIp (Some proxied) fb n
    \<and> (\<forall>ip. extractIp (Some (forged @ CHR '','' # proxied)) fb n = Some ip
         \<longrightarrow> ip \<in> set (forwarded_hops proxied))"
proof -
  let ?a = "forwarded_hops forged" and ?b = "forwarded_hops proxied" and ?k = "valid_hops_or_default n"
  have p: "proxied \<noteq> []" using assms(2) by (auto simp: forwarded_hops_def js_trim_def)
  have i: "nat (max 0 (int (length (?a @ ?b)) - ?k)) = length ?a + nat (int (length ?b) - ?k)"
    using assms(1) by (simp add: nat_add_distrib)
  have "extractIp (Some (forged @ CHR '','' # proxied)) fb n =
      (let j = nat (int (length ?b) - ?k) in if j < length ?b then Some (?b ! j) else None)"
    using assms(2) i by (simp add: extractIp_hops forwarded_hops_append Let_def nth_append)
  moreover have "extractIp (Some proxied) fb n =
      (let j = nat (int (length ?b) - ?k) in if j < length ?b then Some (?b ! j) else None)"
    using assms p by (simp add: extractIp_hops Let_def)
  ultimately show ?thesis by (auto simp: Let_def split: if_splits)
qed

theorem forwarded_address_unforgeable_witness:
  "extractIp (Some (''6.6.6.6'' @ CHR '','' # ''10.1.1.1'')) None (Finite 1) = Some ''10.1.1.1''"
proof -
  have "valid_hops_or_default (Finite 1) \<le> int (length (forwarded_hops ''10.1.1.1''))"
    and "forwarded_hops ''10.1.1.1'' \<noteq> []" by code_simp+
  from forwarded_address_unforgeable [OF this, of "''6.6.6.6''" None]
  have "extractIp (Some (''6.6.6.6'' @ CHR '','' # ''10.1.1.1'')) None (Finite 1)
      = extractIp (Some ''10.1.1.1'') None (Finite 1)" by blast
  also have "\<dots> = Some ''10.1.1.1''" by code_simp
  finally show ?thesis .
qed

end
