(* ===== verification/Device_Authorization.thy ===== *)
theory Device_Authorization
  imports Auth_Service Lockout
begin

text \<open>
  The login-by-authorization flow: \<^verbatim>\<open>auth/authorization-request.service.ts\<close>,
  \<^verbatim>\<open>auth/authorization-request-abuse-guard.service.ts\<close> and
  \<^verbatim>\<open>auth/authorization-request-transition.ts\<close>.

  A handler that reads a row and writes it later is split at that point: \<open>authorize_load\<close> and
  \<open>loadOwnedOpenRequest\<close> make the checks on the row read, \<open>authorize_commit\<close> and \<open>deny_commit\<close> are the
  writes (an \<^verbatim>\<open>UPDATE\<close> by primary key, not conditional on the status); \<open>poll\<close> falls into
  \<open>poll_load\<close>, \<open>request_expire\<close>, the guarded \<open>request_claim\<close> and \<open>issueSessionFor\<close>.  The handlers
  \<open>authorize\<close>, \<open>deny\<close> and \<open>poll\<close> run their parts in a row; \<^verbatim>\<open>Device_System\<close> interleaves them.
\<close>

section \<open>Configuration of the abuse guard\<close>

definition DEFAULT_AUTHORIZATION_REQUEST_CREATE_LIMIT :: int where
  "DEFAULT_AUTHORIZATION_REQUEST_CREATE_LIMIT = 5"

definition DEFAULT_AUTHORIZATION_REQUEST_CREATE_WINDOW_MS :: int where
  "DEFAULT_AUTHORIZATION_REQUEST_CREATE_WINDOW_MS = 60000"

definition DEFAULT_AUTHORIZATION_REQUEST_MAX_OPEN_PER_USER :: int where
  "DEFAULT_AUTHORIZATION_REQUEST_MAX_OPEN_PER_USER = 5"

definition DEFAULT_AUTHORIZATION_REQUEST_AUTHORIZE_MAX_ATTEMPTS :: int where
  "DEFAULT_AUTHORIZATION_REQUEST_AUTHORIZE_MAX_ATTEMPTS = 5"

definition DEFAULT_AUTHORIZATION_REQUEST_AUTHORIZE_LOCK_MS :: int where
  "DEFAULT_AUTHORIZATION_REQUEST_AUTHORIZE_LOCK_MS = 300000"

definition createLimit :: "env \<Rightarrow> int" where
  "createLimit e = getNumberConfig e ''KERGHAN_AUTHORIZATION_REQUEST_CREATE_LIMIT''
     DEFAULT_AUTHORIZATION_REQUEST_CREATE_LIMIT"

definition createWindowMs :: "env \<Rightarrow> int" where
  "createWindowMs e = getNumberConfig e ''KERGHAN_AUTHORIZATION_REQUEST_CREATE_WINDOW_MS''
     DEFAULT_AUTHORIZATION_REQUEST_CREATE_WINDOW_MS"

definition maxOpenPerUser :: "env \<Rightarrow> int" where
  "maxOpenPerUser e = getNumberConfig e ''KERGHAN_AUTHORIZATION_REQUEST_MAX_OPEN_PER_USER''
     DEFAULT_AUTHORIZATION_REQUEST_MAX_OPEN_PER_USER"

definition authorizeMaxAttempts :: "env \<Rightarrow> int" where
  "authorizeMaxAttempts e = getNumberConfig e ''KERGHAN_AUTHORIZATION_REQUEST_AUTHORIZE_MAX_ATTEMPTS''
     DEFAULT_AUTHORIZATION_REQUEST_AUTHORIZE_MAX_ATTEMPTS"

definition authorizeLockMs :: "env \<Rightarrow> int" where
  "authorizeLockMs e = getNumberConfig e ''KERGHAN_AUTHORIZATION_REQUEST_AUTHORIZE_LOCK_MS''
     DEFAULT_AUTHORIZATION_REQUEST_AUTHORIZE_LOCK_MS"

section \<open>The abuse guard\<close>

definition isOverCreateLimit :: "env \<Rightarrow> int \<Rightarrow> string \<Rightarrow> string \<Rightarrow> auth_state \<Rightarrow> bool" where
  "isOverCreateLimit e now ip username s =
     (let windowStart = now - createWindowMs e;
          limit = createLimit e;
          ipCount = count_where (\<lambda>r. env_collate e (ar_requestIp r) ip \<and> ar_createdAt r > windowStart)
            (auth_requests s);
          usernameCount = count_where
            (\<lambda>r. env_collate e (ar_username r) username \<and> ar_createdAt r > windowStart)
            (auth_requests s)
      in int ipCount \<ge> limit \<or> int usernameCount \<ge> limit)"

text \<open>An \<^verbatim>\<open>UPDATE\<close> of one request row by primary key.\<close>

definition update_request ::
  "nat \<Rightarrow> (authorization_request \<Rightarrow> authorization_request) \<Rightarrow> auth_state \<Rightarrow> auth_state" where
  "update_request i f s = s\<lparr>auth_requests := update_where (\<lambda>r. ar_id r = i) f (auth_requests s)\<rparr>"

definition enforceOpenCapFor :: "env \<Rightarrow> int \<Rightarrow> nat \<Rightarrow> auth_state \<Rightarrow> auth_state" where
  "enforceOpenCapFor e now userId s =
     (let mine = (\<lambda>r. ar_userId r = Some userId \<and> ar_status r = Open);
          openCount = count_where mine (auth_requests s)
      in if int openCount < maxOpenPerUser e then s
         else case order_asc ar_createdAt (select_where mine (auth_requests s)) of
           [] \<Rightarrow> s
         | oldest # _ \<Rightarrow>
             update_request (ar_id oldest) (\<lambda>r. r\<lparr>ar_status := Expired, ar_resolvedAt := Some now\<rparr>) s)"

definition isLockedOut :: "int \<Rightarrow> authorization_request \<Rightarrow> bool" where
  "isLockedOut now request = lock_active now (ar_authorizeLockedUntil request)"

definition registerAuthorizeFailure ::
  "env \<Rightarrow> int \<Rightarrow> authorization_request \<Rightarrow> auth_state \<Rightarrow> auth_state" where
  "registerAuthorizeFailure e now request s =
     (let l = computeLockoutState now (ar_authorizeFailedAttempts request)
            (authorizeMaxAttempts e) (authorizeLockMs e)
      in update_request (ar_id request) (\<lambda>r. r\<lparr>ar_authorizeFailedAttempts := attempts l,
           ar_authorizeLockedUntil := lockedUntil l\<rparr>) s)"

section \<open>The guarded transition\<close>

definition transition_matches :: "string \<Rightarrow> request_status \<Rightarrow> authorization_request \<Rightarrow> bool" where
  "transition_matches uuid from r \<longleftrightarrow> ar_uuid r = uuid \<and> ar_status r = from"

definition guardedTransition ::
  "string \<Rightarrow> request_status \<Rightarrow> (authorization_request \<Rightarrow> authorization_request) \<Rightarrow> auth_state
     \<Rightarrow> bool \<times> auth_state" where
  "guardedTransition uuid from changes s =
     (count_where (transition_matches uuid from) (auth_requests s) = 1,
      s\<lparr>auth_requests := update_where (transition_matches uuid from) changes (auth_requests s)\<rparr>)"

section \<open>The requesting device\<close>

definition DEFAULT_AUTHORIZATION_REQUEST_TTL_MS :: int where
  "DEFAULT_AUTHORIZATION_REQUEST_TTL_MS = 3600000"

definition AUTHORIZE_FAILURE_MESSAGE :: string where
  "AUTHORIZE_FAILURE_MESSAGE = ''Unable to authorize this request''"

definition DENY_FAILURE_MESSAGE :: string where
  "DENY_FAILURE_MESSAGE = ''Unable to deny this request''"

record created_authorization_request =
  cr_uuid :: string
  cr_pollToken :: string
  cr_expiresAt :: "int option"

record open_authorization_request =
  or_uuid :: string
  or_requestIp :: string
  or_requestUserAgent :: string
  or_createdAt :: int
  or_expiresAt :: int
  or_keepSignedIn :: bool

datatype poll_result = PollStatus request_status | PollApproved auth_result

definition request_ttlMs :: "env \<Rightarrow> js_number" where
  "request_ttlMs e =
     (let raw = env_config e ''KERGHAN_AUTHORIZATION_REQUEST_TTL_MS''
      in if raw = JUndefined \<or> raw = JNull then Finite DEFAULT_AUTHORIZATION_REQUEST_TTL_MS
         else js_Number e raw)"

definition new_request ::
  "env \<Rightarrow> ctx \<Rightarrow> string \<Rightarrow> string \<Rightarrow> string \<Rightarrow> bool \<Rightarrow> nat option \<Rightarrow> int \<Rightarrow> nat \<Rightarrow> authorization_request" where
  "new_request e c username ip userAgent keepSignedIn userId expiresAt i =
     \<lparr>ar_id = i, ar_uuid = c_uuid c, ar_username = username, ar_userId = userId, ar_status = Open,
      ar_pollTokenHash = env_hashToken e (c_token c), ar_requestIp = ip,
      ar_requestUserAgent = userAgent, ar_approvedByUserId = None, ar_createdAt = c_now c,
      ar_expiresAt = expiresAt, ar_resolvedAt = None, ar_loggedAt = None,
      ar_authorizeFailedAttempts = 0, ar_authorizeLockedUntil = None, ar_keepSignedIn = keepSignedIn\<rparr>"

text \<open>
  \<^verbatim>\<open>AuthorizationRequestService#create\<close>.  A lifetime that is not a number makes the expiry an
  invalid date (\<^term>\<open>None\<close>), which the non-null column refuses.
\<close>

definition request_create ::
  "env \<Rightarrow> ctx \<Rightarrow> string \<Rightarrow> string \<Rightarrow> string \<Rightarrow> bool \<Rightarrow> auth_state
     \<Rightarrow> (created_authorization_request, auth_state) outcome" where
  "request_create e c username ip userAgent keepSignedIn s =
     (let user = find_user_by_username e username s;
          overLimit = isOverCreateLimit e (c_now c) ip username s;
          pollToken = c_token c;
          uuid = c_uuid c;
          expiresAt = (case request_ttlMs e of Finite n \<Rightarrow> Some (c_now c + n) | NaN \<Rightarrow> None);
          answer = \<lparr>cr_uuid = uuid, cr_pollToken = pollToken, cr_expiresAt = expiresAt\<rparr>
      in if overLimit then (Inr answer, s)
         else
           (let s1 = (case user of Some u \<Rightarrow> enforceOpenCapFor e (c_now c) (u_id u) s | None \<Rightarrow> s)
            in case expiresAt of
                 None \<Rightarrow> (Inl (ErrorExn ''QueryFailedError''), s1)
               | Some ex \<Rightarrow>
                   if exists_where (\<lambda>r. ar_uuid r = uuid \<or> ar_pollTokenHash r = env_hashToken e pollToken)
                        (auth_requests s1)
                   then (Inl DupEntryExn, s1)
                   else (Inr answer,
                     emit (AuthorizationRequestCreatedEvent uuid username (map_option u_id user))
                       (s1\<lparr>auth_requests := insert_row (new_request e c username ip userAgent keepSignedIn
                          (map_option u_id user) ex)
                        (auth_requests s1)\<rparr>))))"

definition request_expire :: "int \<Rightarrow> authorization_request \<Rightarrow> auth_state \<Rightarrow> poll_result \<times> auth_state" where
  "request_expire now request s =
     (PollStatus Expired,
      update_request (ar_id request) (\<lambda>r. r\<lparr>ar_status := Expired, ar_resolvedAt := Some now\<rparr>) s)"

definition issueSessionFor ::
  "env \<Rightarrow> ctx \<Rightarrow> authorization_request \<Rightarrow> auth_state \<Rightarrow> (poll_result, auth_state) outcome" where
  "issueSessionFor e c request s =
     (case (case ar_userId request of None \<Rightarrow> None | Some i \<Rightarrow> find_user i s) of
        None \<Rightarrow> (Inr (PollStatus Logged), s)
      | Some u \<Rightarrow>
          if u_status u \<noteq> APPROVED
          then (Inr (PollStatus Denied),
                snd (guardedTransition (ar_uuid request) Logged
                  (\<lambda>r. r\<lparr>ar_status := Denied, ar_resolvedAt := Some (c_now c)\<rparr>) s))
          else (case issueTokens e c u (ar_keepSignedIn request) None s of
              (Inl x, s1) \<Rightarrow> (Inl x, s1)
            | (Inr authResult, s1) \<Rightarrow>
                (Inr (PollApproved authResult),
                 emit (AuthorizationRequestLoggedEvent (ar_uuid request) (u_id u)) s1)))"

definition request_claim :: "int \<Rightarrow> authorization_request \<Rightarrow> auth_state \<Rightarrow> bool \<times> auth_state" where
  "request_claim now request s =
     guardedTransition (ar_uuid request) Approved
       (\<lambda>r. r\<lparr>ar_status := Logged, ar_loggedAt := Some now\<rparr>) s"

definition claim_session ::
  "env \<Rightarrow> ctx \<Rightarrow> authorization_request \<Rightarrow> auth_state \<Rightarrow> (poll_result, auth_state) outcome" where
  "claim_session e c request s =
     (case request_claim (c_now c) request s of
        (claimed, s1) \<Rightarrow>
          if claimed then issueSessionFor e c request s1 else (Inr (PollStatus Logged), s1))"

definition poll_load :: "env \<Rightarrow> string \<Rightarrow> string \<Rightarrow> auth_state \<Rightarrow> exn + authorization_request" where
  "poll_load e uuid pollToken s =
     (case find_one (\<lambda>r. ar_uuid r = uuid \<and> ar_pollTokenHash r = env_hashToken e pollToken)
             (auth_requests s) of
        None \<Rightarrow> Inl (NotFound ''Authorization request not found'')
      | Some request \<Rightarrow> Inr request)"

definition poll ::
  "env \<Rightarrow> ctx \<Rightarrow> string \<Rightarrow> string \<Rightarrow> auth_state \<Rightarrow> (poll_result, auth_state) outcome" where
  "poll e c uuid pollToken s =
     (case poll_load e uuid pollToken s of
        Inl x \<Rightarrow> (Inl x, s)
      | Inr request \<Rightarrow>
          if ar_status request = Open \<and> ar_expiresAt request < c_now c
          then (case request_expire (c_now c) request s of (r, s1) \<Rightarrow> (Inr r, s1))
          else if ar_status request = Approved then claim_session e c request s
          else (Inr (PollStatus (ar_status request)), s))"

section \<open>The approving device\<close>

definition listOpenForUser :: "int \<Rightarrow> nat \<Rightarrow> auth_state \<Rightarrow> open_authorization_request list" where
  "listOpenForUser now userId s =
     map (\<lambda>r. \<lparr>or_uuid = ar_uuid r, or_requestIp = ar_requestIp r,
            or_requestUserAgent = ar_requestUserAgent r, or_createdAt = ar_createdAt r,
            or_expiresAt = ar_expiresAt r, or_keepSignedIn = ar_keepSignedIn r\<rparr>)
       (order_desc ar_createdAt
         (select_where (\<lambda>r. ar_userId r = Some userId \<and> ar_status r = Open \<and> ar_expiresAt r > now)
           (auth_requests s)))"

definition loadOwnedOpenRequest ::
  "string \<Rightarrow> nat \<Rightarrow> string \<Rightarrow> auth_state \<Rightarrow> exn + authorization_request" where
  "loadOwnedOpenRequest uuid approverUserId failureMessage s =
     (case find_one (\<lambda>r. ar_uuid r = uuid) (auth_requests s) of
        None \<Rightarrow> Inl (BadRequest failureMessage)
      | Some request \<Rightarrow>
          if ar_userId request \<noteq> Some approverUserId \<or> ar_status request \<noteq> Open
          then Inl (BadRequest failureMessage) else Inr request)"

definition approverPasswordValid :: "env \<Rightarrow> nat \<Rightarrow> string \<Rightarrow> auth_state \<Rightarrow> bool" where
  "approverPasswordValid e approverUserId password s =
     compareOrDummy e password (map_option u_passwordDigest (find_user approverUserId s))"

definition authorize_load ::
  "env \<Rightarrow> int \<Rightarrow> string \<Rightarrow> nat \<Rightarrow> string \<Rightarrow> auth_state \<Rightarrow> (authorization_request, auth_state) outcome" where
  "authorize_load e now uuid approverUserId password s =
     (case loadOwnedOpenRequest uuid approverUserId AUTHORIZE_FAILURE_MESSAGE s of
        Inl x \<Rightarrow> (Inl x, s)
      | Inr request \<Rightarrow>
          if ar_expiresAt request < now then (Inl (BadRequest AUTHORIZE_FAILURE_MESSAGE), s)
          else
            (let lockedOut = isLockedOut now request;
                 passwordValid = approverPasswordValid e approverUserId password s
             in if lockedOut \<or> \<not> passwordValid
                then (Inl (BadRequest AUTHORIZE_FAILURE_MESSAGE),
                      if \<not> lockedOut then registerAuthorizeFailure e now request s else s)
                else (Inr request, s)))"

definition authorize_commit :: "int \<Rightarrow> authorization_request \<Rightarrow> nat \<Rightarrow> auth_state \<Rightarrow> auth_state" where
  "authorize_commit now request approverUserId s =
     emit (AuthorizationRequestApprovedEvent (ar_uuid request) approverUserId)
       (update_request (ar_id request) (\<lambda>r. r\<lparr>ar_status := Approved,
          ar_approvedByUserId := Some approverUserId, ar_resolvedAt := Some now,
          ar_authorizeFailedAttempts := 0, ar_authorizeLockedUntil := None\<rparr>) s)"

definition authorize ::
  "env \<Rightarrow> int \<Rightarrow> string \<Rightarrow> nat \<Rightarrow> string \<Rightarrow> auth_state \<Rightarrow> (unit, auth_state) outcome" where
  "authorize e now uuid approverUserId password s =
     (case authorize_load e now uuid approverUserId password s of
        (Inl x, s1) \<Rightarrow> (Inl x, s1)
      | (Inr request, s1) \<Rightarrow> (Inr (), authorize_commit now request approverUserId s1))"

definition deny_commit :: "int \<Rightarrow> authorization_request \<Rightarrow> nat \<Rightarrow> auth_state \<Rightarrow> auth_state" where
  "deny_commit now request approverUserId s =
     emit (AuthorizationRequestDeniedEvent (ar_uuid request) approverUserId)
       (update_request (ar_id request) (\<lambda>r. r\<lparr>ar_status := Denied, ar_resolvedAt := Some now\<rparr>) s)"

definition deny :: "int \<Rightarrow> string \<Rightarrow> nat \<Rightarrow> auth_state \<Rightarrow> (unit, auth_state) outcome" where
  "deny now uuid approverUserId s =
     (case loadOwnedOpenRequest uuid approverUserId DENY_FAILURE_MESSAGE s of
        Inl x \<Rightarrow> (Inl x, s)
      | Inr request \<Rightarrow> (Inr (), deny_commit now request approverUserId s))"

section \<open>The request table\<close>

definition requests_ok :: "authorization_request table \<Rightarrow> bool" where
  "requests_ok t \<longleftrightarrow> distinct (map ar_id (rows t)) \<and> (\<forall>r \<in> set (rows t). ar_id r < next_id t)
     \<and> distinct (map ar_uuid (rows t))"

lemma update_request_frame [simp]:
  "users (update_request i f s) = users s"
  "refresh_tokens (update_request i f s) = refresh_tokens s"
  "reset_tokens (update_request i f s) = reset_tokens s"
  "edit_lockouts (update_request i f s) = edit_lockouts s"
  "events (update_request i f s) = events s"
  by (simp_all add: update_request_def)

lemma rows_update_request [table_simps]:
  "rows (auth_requests (update_request i f s)) =
     map (\<lambda>r. if ar_id r = i then f r else r) (rows (auth_requests s))"
  by (simp add: update_request_def table_simps)

lemma guardedTransition_frame [simp]:
  "users (snd (guardedTransition u st f s)) = users s"
  "refresh_tokens (snd (guardedTransition u st f s)) = refresh_tokens s"
  "reset_tokens (snd (guardedTransition u st f s)) = reset_tokens s"
  "edit_lockouts (snd (guardedTransition u st f s)) = edit_lockouts s"
  "events (snd (guardedTransition u st f s)) = events s"
  by (simp_all add: guardedTransition_def)

text \<open>Updates that keep ids and UUIDs keep the table well-formed.\<close>

lemma requests_ok_update:
  assumes "requests_ok t" and "\<And>r. p r \<Longrightarrow> ar_id (f r) = ar_id r \<and> ar_uuid (f r) = ar_uuid r"
  shows "requests_ok (update_where p f t)"
proof -
  have ids: "map ar_id (rows (update_where p f t)) = map ar_id (rows t)"
    and uuids: "map ar_uuid (rows (update_where p f t)) = map ar_uuid (rows t)"
    unfolding rows_update_where using assms(2) by (auto intro!: map_update_keep)
  have "ar_id ` set (rows (update_where p f t)) = ar_id ` set (rows t)"
    using ids by (metis list.set_map)
  with assms(1) show ?thesis
    unfolding requests_ok_def ids uuids next_id_table_ops by (metis (no_types) imageE imageI)
qed

lemma requests_ok_update_request:
  assumes "requests_ok (auth_requests s)"
    and "\<And>r. ar_id (f r) = ar_id r \<and> ar_uuid (f r) = ar_uuid r"
  shows "requests_ok (auth_requests (update_request i f s))"
  using assms by (simp add: update_request_def requests_ok_update)

lemma loadOwnedOpenRequest_Inr:
  assumes "loadOwnedOpenRequest uuid a m s = Inr r"
  shows "r \<in> set (rows (auth_requests s)) \<and> ar_uuid r = uuid \<and> ar_userId r = Some a \<and> ar_status r = Open"
  using assms find_one_Some
  by (fastforce simp: loadOwnedOpenRequest_def split: option.splits if_splits)

lemma authorize_load_Inr:
  assumes "authorize_load e now uuid a pw s = (Inr r, s')"
  shows "s' = s" and "loadOwnedOpenRequest uuid a AUTHORIZE_FAILURE_MESSAGE s = Inr r"
    and "now \<le> ar_expiresAt r" and "\<not> isLockedOut now r" and "approverPasswordValid e a pw s"
  using assms by (auto simp: authorize_load_def Let_def split: sum.splits if_splits)

lemma find_uuid_in:
  assumes "requests_ok (auth_requests s)" and "r \<in> set (rows (auth_requests s))"
  shows "find_one (\<lambda>q. ar_uuid q = ar_uuid r) (auth_requests s) = Some r"
  using assms by (intro find_one_unique) (auto simp: requests_ok_def intro: distinct_map_inj)

section \<open>The cool-off of the approving device\<close>

definition request_row :: "string \<Rightarrow> auth_state \<Rightarrow> authorization_request" where
  "request_row uuid s = the (find_one (\<lambda>r. ar_uuid r = uuid) (auth_requests s))"

definition has_request :: "string \<Rightarrow> auth_state \<Rightarrow> bool" where
  "has_request uuid s \<longleftrightarrow> requests_ok (auth_requests s)
     \<and> (\<exists>r \<in> set (rows (auth_requests s)). ar_uuid r = uuid)"

lemma has_request_row:
  assumes "has_request uuid s"
  shows "find_one (\<lambda>r. ar_uuid r = uuid) (auth_requests s) = Some (request_row uuid s)"
    and "request_row uuid s \<in> set (rows (auth_requests s))" and "ar_uuid (request_row uuid s) = uuid"
proof -
  from assms obtain r where r: "r \<in> set (rows (auth_requests s))" "ar_uuid r = uuid"
    and ok: "requests_ok (auth_requests s)" by (auto simp: has_request_def)
  from find_uuid_in [OF ok r(1)] r(2)
  have "find_one (\<lambda>q. ar_uuid q = uuid) (auth_requests s) = Some r" by simp
  with r show "find_one (\<lambda>r. ar_uuid r = uuid) (auth_requests s) = Some (request_row uuid s)"
    and "request_row uuid s \<in> set (rows (auth_requests s))" and "ar_uuid (request_row uuid s) = uuid"
    by (simp_all add: request_row_def)
qed

lemma request_row_update:
  assumes "has_request uuid s" and keep: "\<And>r. ar_id (f r) = ar_id r \<and> ar_uuid (f r) = ar_uuid r"
  shows "has_request uuid (update_request (ar_id (request_row uuid s)) f s)"
    and "request_row uuid (update_request (ar_id (request_row uuid s)) f s) = f (request_row uuid s)"
proof -
  let ?r = "request_row uuid s" and ?s = "update_request (ar_id (request_row uuid s)) f s"
  note r = has_request_row [OF assms(1)]
  have ok: "requests_ok (auth_requests ?s)"
    using assms by (auto simp: has_request_def intro: requests_ok_update_request)
  have mem: "f ?r \<in> set (rows (auth_requests ?s))"
    using r(2) by (force simp: rows_update_request)
  with ok keep r(3) show "has_request uuid ?s"
    by (metis has_request_def)
  from find_uuid_in [OF ok mem] keep r(3) show "request_row uuid ?s = f ?r"
    by (simp add: request_row_def)
qed

lemma authorize_commit_row:
  assumes "has_request uuid s"
  shows "has_request uuid (authorize_commit now (request_row uuid s) a s)"
    and "request_row uuid (authorize_commit now (request_row uuid s) a s) =
      (request_row uuid s)\<lparr>ar_status := Approved, ar_approvedByUserId := Some a,
        ar_resolvedAt := Some now, ar_authorizeFailedAttempts := 0, ar_authorizeLockedUntil := None\<rparr>"
  using request_row_update [OF assms]
  by (simp_all add: authorize_commit_def has_request_def request_row_def)

lemma registerAuthorizeFailure_row:
  assumes "has_request uuid s"
  shows "has_request uuid (registerAuthorizeFailure e now (request_row uuid s) s)"
    and "request_row uuid (registerAuthorizeFailure e now (request_row uuid s) s) =
      (let r = request_row uuid s;
           l = computeLockoutState now (ar_authorizeFailedAttempts r) (authorizeMaxAttempts e) (authorizeLockMs e)
       in r\<lparr>ar_authorizeFailedAttempts := attempts l, ar_authorizeLockedUntil := lockedUntil l\<rparr>)"
    and "users (registerAuthorizeFailure e now (request_row uuid s) s) = users s"
  using request_row_update [OF assms] by (simp_all add: registerAuthorizeFailure_def Let_def)

interpretation device_guard: cool_off "has_request uuid"
  "\<lambda>s. ar_authorizeFailedAttempts (request_row uuid s)"
  "\<lambda>now s. isLockedOut now (request_row uuid s)"
  "\<lambda>now s. registerAuthorizeFailure e now (request_row uuid s) s"
  "\<lambda>s. authorize_commit t0 (request_row uuid s) a s"
  "authorizeMaxAttempts e" "authorizeLockMs e"
  for uuid e t0 a
  by unfold_locales
    (simp_all add: registerAuthorizeFailure_row authorize_commit_row isLockedOut_def Let_def)

text \<open>
  An attacker in the approver's session who guesses the password: the times of the calls that
  were not locked out, the only ones whose answer depends on the guess.
\<close>

fun authorize_guesses ::
  "env \<Rightarrow> string \<Rightarrow> nat \<Rightarrow> (int \<times> string) list \<Rightarrow> auth_state \<Rightarrow> int list" where
  "authorize_guesses e uuid a [] s = []"
| "authorize_guesses e uuid a ((t, pw) # gs) s =
     (if isLockedOut t (request_row uuid s) then [] else [t])
     @ authorize_guesses e uuid a gs (snd (authorize e t uuid a pw s))"

lemma authorize_wrong_password:
  assumes "has_request uuid s" and "ar_userId (request_row uuid s) = Some a"
    and "ar_status (request_row uuid s) = Open" and "t \<le> ar_expiresAt (request_row uuid s)"
    and "\<not> approverPasswordValid e a pw s"
  shows "authorize e t uuid a pw s = (Inl (BadRequest AUTHORIZE_FAILURE_MESSAGE),
           if isLockedOut t (request_row uuid s) then s
           else registerAuthorizeFailure e t (request_row uuid s) s)"
  using assms has_request_row(1) [OF assms(1)]
  by (simp add: authorize_def authorize_load_def loadOwnedOpenRequest_def Let_def)

lemma authorize_guesses_tried:
  assumes "has_request uuid s" and "ar_userId (request_row uuid s) = Some a"
    and "ar_status (request_row uuid s) = Open"
    and "\<And>t pw. (t, pw) \<in> set gs \<Longrightarrow>
           t \<le> ar_expiresAt (request_row uuid s) \<and> \<not> approverPasswordValid e a pw s"
  shows "authorize_guesses e uuid a gs s =
         tried (\<lambda>now s. isLockedOut now (request_row uuid s))
           (\<lambda>now s. registerAuthorizeFailure e now (request_row uuid s) s) (map fst gs) s"
  using assms
proof (induction gs arbitrary: s)
  case Nil
  then show ?case by simp
next
  case (Cons g gs)
  obtain t pw where g: "g = (t, pw)" by (cases g)
  have step: "authorize e t uuid a pw s = (Inl (BadRequest AUTHORIZE_FAILURE_MESSAGE),
           if isLockedOut t (request_row uuid s) then s
           else registerAuthorizeFailure e t (request_row uuid s) s)"
    using Cons.prems by (intro authorize_wrong_password) (auto simp: g)
  let ?s = "registerAuthorizeFailure e t (request_row uuid s) s"
  have "authorize_guesses e uuid a gs ?s =
         tried (\<lambda>now s. isLockedOut now (request_row uuid s))
           (\<lambda>now s. registerAuthorizeFailure e now (request_row uuid s) s) (map fst gs) ?s"
    using Cons.prems registerAuthorizeFailure_row [OF Cons.prems(1)] find_user_cong [of ?s s]
    by (intro Cons.IH) (auto simp: Let_def approverPasswordValid_def)
  moreover have "authorize_guesses e uuid a gs s =
         tried (\<lambda>now s. isLockedOut now (request_row uuid s))
           (\<lambda>now s. registerAuthorizeFailure e now (request_row uuid s) s) (map fst gs) s"
    using Cons.prems by (intro Cons.IH) auto
  ultimately show ?case using step by (simp add: g)
qed


definition demo_requested :: auth_state where
  "demo_requested =
     snd (request_create demo_env demo_ctx ''demo'' ''10.0.0.1'' ''agent'' True demo_state)"

definition demo_guesses :: "(int \<times> string) list" where
  "demo_guesses = [(2000, ''a''), (2001, ''b''), (2002, ''c''), (2003, ''d''), (2004, ''e''),
     (2005, ''f''), (2006, ''g''), (2007, ''h'')]"




section \<open>Rate limits of the requesting device\<close>

abbreviation open_of :: "nat \<Rightarrow> authorization_request \<Rightarrow> bool" where
  "open_of i \<equiv> \<lambda>r. ar_userId r = Some i \<and> ar_status r = Open"

lemma enforceOpenCapFor_open:
  "count_where (open_of i) (auth_requests (enforceOpenCapFor e now j s))
     \<le> count_where (open_of i) (auth_requests s)"
  by (auto simp: enforceOpenCapFor_def Let_def update_request_def intro: count_where_update_out
      split: list.split)

lemma enforceOpenCapFor_room:
  assumes "1 \<le> maxOpenPerUser e"
  shows "int (count_where (open_of i) (auth_requests (enforceOpenCapFor e now i s))) + 1
     \<le> max (int (count_where (open_of i) (auth_requests s))) (maxOpenPerUser e)"
proof (cases "int (count_where (open_of i) (auth_requests s)) < maxOpenPerUser e")
  case True
  then show ?thesis by (simp add: enforceOpenCapFor_def)
next
  case False
  let ?open = "order_asc ar_createdAt (select_where (open_of i) (auth_requests s))"
  have set: "set ?open = {r \<in> set (rows (auth_requests s)). open_of i r}"
    by (simp add: order_asc_def select_where_def)
  from False assms have "count_where (open_of i) (auth_requests s) \<noteq> 0" by linarith
  with set have "?open \<noteq> []" by (auto simp: count_where_zero)
  then obtain r rs where r: "?open = r # rs" by (cases ?open) auto
  with set have "r \<in> set (rows (auth_requests s))" and "open_of i r" by auto
  then have "count_where (open_of i) (auth_requests (enforceOpenCapFor e now i s))
      < count_where (open_of i) (auth_requests s)"
    using False r
    by (auto simp: enforceOpenCapFor_def Let_def update_request_def
        intro: count_where_update_out(2) [where r = r])
  then show ?thesis by simp
qed

lemma enforceOpenCapFor_recent:
  assumes "\<And>r st t. Q (r\<lparr>ar_status := st, ar_resolvedAt := t\<rparr>) = Q r"
  shows "count_where Q (auth_requests (enforceOpenCapFor e now j s)) = count_where Q (auth_requests s)"
  using assms
  by (auto simp: enforceOpenCapFor_def Let_def update_request_def intro: count_where_update_keep
      split: list.split)

lemma new_request_simps [simp]:
  "ar_id (new_request e c n ip ua k j ex i) = i" "ar_uuid (new_request e c n ip ua k j ex i) = c_uuid c"
  "ar_username (new_request e c n ip ua k j ex i) = n" "ar_userId (new_request e c n ip ua k j ex i) = j"
  "ar_requestIp (new_request e c n ip ua k j ex i) = ip"
  "ar_status (new_request e c n ip ua k j ex i) = Open"
  "ar_createdAt (new_request e c n ip ua k j ex i) = c_now c"
  by (simp_all add: new_request_def)

text \<open>The state in which \<open>request_create\<close> inserts: room has been made for a known user.\<close>

definition create_room :: "env \<Rightarrow> ctx \<Rightarrow> string \<Rightarrow> auth_state \<Rightarrow> auth_state" where
  "create_room e c username s = (case find_user_by_username e username s of
       Some u \<Rightarrow> enforceOpenCapFor e (c_now c) (u_id u) s | None \<Rightarrow> s)"

lemma create_room_events [simp]: "events (create_room e c n s) = events s"
  by (auto simp: create_room_def enforceOpenCapFor_def Let_def split: option.split list.split)

lemma request_create_cases:
  assumes "request_create e c username ip ua k s = (res, s')"
  obtains "s' = s" | "s' = create_room e c username s"
  | ex where "\<not> isOverCreateLimit e (c_now c) ip username s"
    and "\<And>r. r \<in> set (rows (auth_requests (create_room e c username s))) \<Longrightarrow> ar_uuid r \<noteq> c_uuid c"
    and "auth_requests s' = insert_row (new_request e c username ip ua k
           (map_option u_id (find_user_by_username e username s)) ex)
           (auth_requests (create_room e c username s))"
    and "events s' = events s @ [AuthorizationRequestCreatedEvent (c_uuid c) username
           (map_option u_id (find_user_by_username e username s))]"
proof (cases "isOverCreateLimit e (c_now c) ip username s")
  case True
  with assms that(1) show thesis by (auto simp: request_create_def)
next
  case False
  then have unfold: "request_create e c username ip ua k s =
      (let s1 = create_room e c username s
       in case (case request_ttlMs e of Finite n \<Rightarrow> Some (c_now c + n) | NaN \<Rightarrow> None) of
          None \<Rightarrow> (Inl (ErrorExn ''QueryFailedError''), s1)
        | Some ex \<Rightarrow>
            if exists_where (\<lambda>r. ar_uuid r = c_uuid c \<or> ar_pollTokenHash r = env_hashToken e (c_token c))
                 (auth_requests s1)
            then (Inl DupEntryExn, s1)
            else (Inr \<lparr>cr_uuid = c_uuid c, cr_pollToken = c_token c, cr_expiresAt = Some ex\<rparr>,
              emit (AuthorizationRequestCreatedEvent (c_uuid c) username
                  (map_option u_id (find_user_by_username e username s)))
                (s1\<lparr>auth_requests := insert_row (new_request e c username ip ua k
                   (map_option u_id (find_user_by_username e username s)) ex) (auth_requests s1)\<rparr>)))"
    by (simp add: request_create_def create_room_def Let_def split: js_number.split)
  show thesis
  proof (cases "s' = create_room e c username s")
    case True
    then show thesis by (rule that(2))
  next
    case new: False
    then obtain n where n: "request_ttlMs e = Finite n"
      using assms by (cases "request_ttlMs e") (simp_all add: unfold)
    let ?t = "auth_requests (create_room e c username s)"
    have fresh: "\<not> exists_where (\<lambda>r. ar_uuid r = c_uuid c \<or> ar_pollTokenHash r = env_hashToken e (c_token c)) ?t"
      using assms new n by (auto simp: unfold Let_def)
    then have "ar_uuid r \<noteq> c_uuid c" if "r \<in> set (rows ?t)" for r
      using that by (auto simp: exists_where_iff)
    moreover have "auth_requests s' = insert_row (new_request e c username ip ua k
           (map_option u_id (find_user_by_username e username s)) (c_now c + n)) ?t"
      and "events s' = events s @ [AuthorizationRequestCreatedEvent (c_uuid c) username
           (map_option u_id (find_user_by_username e username s))]"
      using assms n fresh by (auto simp: unfold Let_def)
    ultimately show thesis by (rule that(3) [OF False])
  qed
qed

lemma create_room_recent:
  assumes "\<And>r st t. Q (r\<lparr>ar_status := st, ar_resolvedAt := t\<rparr>) = Q r"
  shows "count_where Q (auth_requests (create_room e c n s)) = count_where Q (auth_requests s)"
  using enforceOpenCapFor_recent [OF assms] by (auto simp: create_room_def split: option.split)

lemma create_room_open:
  "count_where (open_of i) (auth_requests (create_room e c n s))
     \<le> count_where (open_of i) (auth_requests s)"
  using enforceOpenCapFor_open by (auto simp: create_room_def split: option.split)

lemma isOverCreateLimit_False:
  assumes "\<not> isOverCreateLimit e now ip n s"
  shows "int (count_where (\<lambda>r. env_collate e (ar_requestIp r) ip \<and> now - createWindowMs e < ar_createdAt r)
           (auth_requests s)) < createLimit e"
    and "int (count_where (\<lambda>r. env_collate e (ar_username r) n \<and> now - createWindowMs e < ar_createdAt r)
           (auth_requests s)) < createLimit e"
  using assms by (simp_all add: isOverCreateLimit_def Let_def)

lemma count_after_create:
  assumes "request_create e c username ip ua k s = (res, s')"
    and keep: "\<And>r st t. Q (r\<lparr>ar_status := st, ar_resolvedAt := t\<rparr>) = Q r"
    and low: "\<not> isOverCreateLimit e (c_now c) ip username s \<Longrightarrow> int (count_where Q (auth_requests s)) < m"
  shows "int (count_where Q (auth_requests s')) \<le> max (int (count_where Q (auth_requests s))) m"
  using assms(1)
proof (cases rule: request_create_cases)
  case 1
  then show ?thesis by simp
next
  case 2
  with create_room_recent [OF keep, of e c username s] show ?thesis by simp
next
  case (3 ex)
  with create_room_recent [OF keep, of e c username s] low show ?thesis
    by (simp add: count_where_insert)
qed



end
