(* ===== verification/Device_System.thy ===== *)
theory Device_System
  imports Device_Authorization
begin

text \<open>
  The device-authorization status machine: as it runs when each request of the flow is
  processed alone (\<open>dev_step\<close>), and with the statements of concurrent calls interleaved
  (\<open>dev_race\<close>).
\<close>

section \<open>Sessions granted through a request\<close>

definition logged_count :: "string \<Rightarrow> auth_state \<Rightarrow> nat" where
  "logged_count u s = length (filter (\<lambda>ev. case ev of
     AuthorizationRequestLoggedEvent v i \<Rightarrow> v = u | _ \<Rightarrow> False) (events s))"

definition approved_count :: "string \<Rightarrow> auth_state \<Rightarrow> nat" where
  "approved_count u s = length (filter (\<lambda>ev. case ev of
     AuthorizationRequestApprovedEvent v i \<Rightarrow> v = u | _ \<Rightarrow> False) (events s))"

lemma event_counts_emit [simp]:
  "logged_count u (emit (AuthorizationRequestLoggedEvent v i) s)
     = (if v = u then Suc (logged_count u s) else logged_count u s)"
  "approved_count u (emit (AuthorizationRequestLoggedEvent v i) s) = approved_count u s"
  "logged_count u (emit (AuthorizationRequestApprovedEvent v i) s) = logged_count u s"
  "approved_count u (emit (AuthorizationRequestApprovedEvent v i) s)
     = (if v = u then Suc (approved_count u s) else approved_count u s)"
  "logged_count u (emit (AuthorizationRequestDeniedEvent v i) s) = logged_count u s"
  "approved_count u (emit (AuthorizationRequestDeniedEvent v i) s) = approved_count u s"
  by (simp_all add: logged_count_def approved_count_def)

lemma event_counts_cong:
  "events s = events s' \<Longrightarrow> logged_count u s = logged_count u s'"
  "events s = events s' \<Longrightarrow> approved_count u s = approved_count u s'"
  by (simp_all add: logged_count_def approved_count_def)

section \<open>One handler at a time\<close>

inductive dev_step :: "env \<Rightarrow> auth_state \<Rightarrow> auth_state \<Rightarrow> bool" for e where
  create: "request_create e c username ip ua k s = (res, s') \<Longrightarrow> dev_step e s s'"
| poll: "poll e c uuid pollToken s = (res, s') \<Longrightarrow> dev_step e s s'"
| authorize: "authorize e now uuid a pw s = (res, s') \<Longrightarrow> dev_step e s s'"
| deny: "deny now uuid a s = (res, s') \<Longrightarrow> dev_step e s s'"
| other: "auth_requests s' = auth_requests s \<Longrightarrow>
     (\<And>u. logged_count u s' = logged_count u s) \<Longrightarrow> dev_step e s s'"

inductive dev_reach :: "env \<Rightarrow> auth_state \<Rightarrow> bool" for e where
  init: "dev_reach e init_auth_state"
| step: "dev_reach e s \<Longrightarrow> dev_step e s s' \<Longrightarrow> dev_reach e s'"

text \<open>The edges of the status machine.\<close>

inductive status_next :: "request_status \<Rightarrow> request_status \<Rightarrow> bool" where
  "status_next Open Approved"
| "status_next Open Denied"
| "status_next Open Expired"
| "status_next Approved Logged"
| "status_next Logged Denied"

definition evolves :: "authorization_request table \<Rightarrow> authorization_request table \<Rightarrow> bool" where
  "evolves t t' \<longleftrightarrow> (\<forall>r \<in> set (rows t). \<exists>r' \<in> set (rows t'). ar_id r' = ar_id r
     \<and> ar_uuid r' = ar_uuid r \<and> ar_userId r' = ar_userId r
     \<and> status_next\<^sup>*\<^sup>* (ar_status r) (ar_status r'))"

definition live_status :: "request_status \<Rightarrow> bool" where
  "live_status st \<longleftrightarrow> st = Open \<or> st = Approved"

definition live_request :: "string \<Rightarrow> auth_state \<Rightarrow> bool" where
  "live_request u s \<longleftrightarrow> (\<exists>r \<in> set (rows (auth_requests s)). ar_uuid r = u \<and> live_status (ar_status r))"

definition known_request :: "string \<Rightarrow> auth_state \<Rightarrow> bool" where
  "known_request u s \<longleftrightarrow> (\<exists>r \<in> set (rows (auth_requests s)). ar_uuid r = u)"

text \<open>A request that can still yield a session has yielded none, and rows are never dropped.\<close>

definition dev_inv :: "auth_state \<Rightarrow> bool" where
  "dev_inv s \<longleftrightarrow> requests_ok (auth_requests s)
     \<and> (\<forall>u. logged_count u s \<le> 1) \<and> (\<forall>u. live_request u s \<longrightarrow> logged_count u s = 0)
     \<and> (\<forall>u. 0 < logged_count u s \<longrightarrow> known_request u s)"

text \<open>A step that revives no request and grants no session keeps the invariant.\<close>

lemma dev_inv_mono:
  assumes "dev_inv s" and "requests_ok (auth_requests s')"
    and "\<And>u. logged_count u s' = logged_count u s"
    and "\<And>u. live_request u s' \<Longrightarrow> live_request u s"
    and "\<And>u. known_request u s \<Longrightarrow> known_request u s'"
  shows "dev_inv s'"
  using assms by (auto simp: dev_inv_def)

lemma update_request_inv:
  assumes "dev_inv s" and keep: "\<And>r. ar_id (f r) = ar_id r \<and> ar_uuid (f r) = ar_uuid r"
    and live: "\<And>r. r \<in> set (rows (auth_requests s)) \<Longrightarrow> ar_id r = i \<Longrightarrow>
        live_status (ar_status (f r)) \<Longrightarrow> live_status (ar_status r)"
  shows "dev_inv (update_request i f s)"
proof (rule dev_inv_mono [OF assms(1)])
  show "requests_ok (auth_requests (update_request i f s))"
    using assms by (simp add: dev_inv_def requests_ok_update_request)
  show "logged_count u (update_request i f s) = logged_count u s" for u
    by (rule event_counts_cong) simp
  show "live_request u s" if "live_request u (update_request i f s)" for u
    using that live keep
    by (auto simp: live_request_def rows_update_request split: if_splits)
  show "known_request u (update_request i f s)" if "known_request u s" for u
    using that keep by (auto simp: known_request_def rows_update_request)
qed

lemma emit_inv:
  assumes "dev_inv s" and "\<And>u. logged_count u (emit ev s) = logged_count u s"
  shows "dev_inv (emit ev s)"
  using assms by (simp add: dev_inv_def live_request_def known_request_def)

lemma row_by_id:
  assumes "requests_ok (auth_requests s)" and "r \<in> set (rows (auth_requests s))"
    and "q \<in> set (rows (auth_requests s))" and "ar_id q = ar_id r"
  shows "q = r"
  using assms by (auto simp: requests_ok_def intro: distinct_map_inj)

lemma authorize_inv:
  assumes "dev_inv s" and "authorize e now uuid a pw s = (res, s')"
  shows "dev_inv s'"
proof (cases "authorize_load e now uuid a pw s")
  case (Pair x s1)
  show ?thesis
  proof (cases x)
    case (Inl ex)
    have "s1 = s \<or> (\<exists>r. s1 = registerAuthorizeFailure e now r s)"
      using Pair by (auto simp: authorize_load_def Let_def split: sum.splits if_splits)
    moreover have "dev_inv (registerAuthorizeFailure e now r s)" for r
      unfolding registerAuthorizeFailure_def Let_def
      by (rule update_request_inv [OF assms(1)]) simp_all
    ultimately show ?thesis using assms Pair Inl by (auto simp: authorize_def)
  next
    case (Inr r)
    note l = authorize_load_Inr [OF Pair [unfolded Inr]]
    note r = loadOwnedOpenRequest_Inr [OF l(2)]
    have "s' = authorize_commit now r a s"
      using assms(2) Pair Inr l(1) by (simp add: authorize_def)
    moreover have "requests_ok (auth_requests s)" using assms(1) by (simp add: dev_inv_def)
    ultimately show ?thesis
      unfolding authorize_commit_def
      by (auto intro!: emit_inv update_request_inv [OF assms(1)] dest: row_by_id [of s r]
          simp: r live_status_def)
  qed
qed

lemma deny_inv:
  assumes "dev_inv s" and "deny now uuid a s = (res, s')"
  shows "dev_inv s'"
  using assms
  by (auto simp: deny_def deny_commit_def live_status_def
      intro!: emit_inv update_request_inv split: sum.splits)

lemma enforceOpenCapFor_inv: "dev_inv s \<Longrightarrow> dev_inv (enforceOpenCapFor e now i s)"
  by (auto simp: enforceOpenCapFor_def Let_def live_status_def intro!: update_request_inv
      split: list.split)

lemma create_room_inv: "dev_inv s \<Longrightarrow> dev_inv (create_room e c n s)"
  by (simp add: create_room_def enforceOpenCapFor_inv split: option.split)

lemma requests_ok_insert:
  assumes "requests_ok t" and "\<And>r. r \<in> set (rows t) \<Longrightarrow> ar_uuid r \<noteq> c_uuid c"
  shows "requests_ok (insert_row (new_request e c n ip ua k j ex) t)"
  using assms by (fastforce simp: requests_ok_def table_simps)

lemma create_inv:
  assumes "dev_inv s" and "request_create e c username ip ua k s = (res, s')"
  shows "dev_inv s'"
  using assms(2)
proof (cases rule: request_create_cases)
  case 1
  with assms show ?thesis by simp
next
  case 2
  with assms show ?thesis by (simp add: create_room_inv)
next
  case (3 ex)
  let ?s = "create_room e c username s"
  have inv: "dev_inv ?s" using assms(1) by (rule create_room_inv)
  have cnt: "logged_count u s' = logged_count u ?s" for u
    by (simp add: 3(4) logged_count_def)
  have live: "live_request u s' \<longleftrightarrow> live_request u ?s \<or> u = c_uuid c" for u
    by (auto simp: live_request_def 3(3) table_simps live_status_def)
  have known: "known_request u s' \<longleftrightarrow> known_request u ?s \<or> u = c_uuid c" for u
    by (auto simp: known_request_def 3(3) table_simps)
  have "\<not> known_request (c_uuid c) ?s" using 3(2) by (auto simp: known_request_def)
  with inv have new: "logged_count (c_uuid c) ?s = 0" by (auto simp: dev_inv_def)
  have "requests_ok (auth_requests s')"
    using inv 3(2) by (simp add: 3(3) dev_inv_def requests_ok_insert)
  with inv new show ?thesis
    by (auto simp: dev_inv_def cnt known live)
qed

text \<open>The claim takes a request out of the live ones for good.\<close>

lemma rows_guardedTransition [table_simps]:
  "rows (auth_requests (snd (guardedTransition u st f s))) =
     map (\<lambda>r. if transition_matches u st r then f r else r) (rows (auth_requests s))"
  by (simp add: guardedTransition_def table_simps)

lemma known_guardedTransition:
  assumes "known_request v s" and "\<And>r. ar_uuid (f r) = ar_uuid r"
  shows "known_request v (snd (guardedTransition u st f s))"
  using assms by (auto simp: known_request_def table_simps)

lemma guardedTransition_inv:
  assumes "dev_inv s" and keep: "\<And>r. ar_id (f r) = ar_id r \<and> ar_uuid (f r) = ar_uuid r"
    and dead: "\<And>r. \<not> live_status (ar_status (f r))"
  shows "dev_inv (snd (guardedTransition u st f s))"
proof (rule dev_inv_mono [OF assms(1)])
  show "requests_ok (auth_requests (snd (guardedTransition u st f s)))"
    using assms by (simp add: dev_inv_def guardedTransition_def requests_ok_update)
  show "logged_count v (snd (guardedTransition u st f s)) = logged_count v s" for v
    by (rule event_counts_cong) simp
  show "live_request v s" if "live_request v (snd (guardedTransition u st f s))" for v
    using that dead by (auto simp: live_request_def table_simps split: if_splits)
  show "known_request v (snd (guardedTransition u st f s))" if "known_request v s" for v
    using that keep by (auto intro: known_guardedTransition)
qed

lemma issueSessionFor_inv:
  assumes "dev_inv s" and "issueSessionFor e c r s = (res, s')"
    and "\<not> live_request (ar_uuid r) s" and "logged_count (ar_uuid r) s = 0"
    and "known_request (ar_uuid r) s"
  shows "dev_inv s'"
proof -
  consider (same) "s' = s"
    | (denied) "s' = snd (guardedTransition (ar_uuid r) Logged
           (\<lambda>q. q\<lparr>ar_status := Denied, ar_resolvedAt := Some (c_now c)\<rparr>) s)"
    | (failed) u x where "issueTokens e c u (ar_keepSignedIn r) None s = (Inl x, s')"
    | (minted) u x s1 where "issueTokens e c u (ar_keepSignedIn r) None s = (Inr x, s1)"
        and "s' = emit (AuthorizationRequestLoggedEvent (ar_uuid r) (u_id u)) s1"
    using assms(2)
    by (auto simp: issueSessionFor_def split: option.splits if_splits prod.splits sum.splits)
  then show ?thesis
  proof cases
    case same
    with assms show ?thesis by simp
  next
    case denied
    then show ?thesis using assms(1) by (auto intro!: guardedTransition_inv simp: live_status_def)
  next
    case failed
    from issueTokens_frame [OF failed] assms(1) show ?thesis
      by (auto simp: dev_inv_def live_request_def known_request_def logged_count_def)
  next
    case minted
    note f = issueTokens_frame [OF minted(1)]
    have "logged_count v s1 = logged_count v s" for v
      by (rule event_counts_cong) (simp add: f)
    then show ?thesis
      using assms f(3)
      by (auto simp: minted(2) dev_inv_def live_request_def known_request_def)
  qed
qed

lemma poll_load_Inr:
  assumes "poll_load e uuid tok s = Inr r"
  shows "r \<in> set (rows (auth_requests s)) \<and> ar_uuid r = uuid
         \<and> ar_pollTokenHash r = env_hashToken e tok"
  using assms find_one_Some by (fastforce simp: poll_load_def split: option.splits)

lemma claim_session_inv:
  assumes "dev_inv s" and r: "r \<in> set (rows (auth_requests s))" "ar_status r = Approved"
    and "claim_session e c r s = (res, s')"
  shows "dev_inv s'"
proof -
  let ?s = "snd (request_claim (c_now c) r s)"
  have inv: "dev_inv ?s"
    unfolding request_claim_def
    by (rule guardedTransition_inv [OF assms(1)]) (simp_all add: live_status_def)
  have ok: "requests_ok (auth_requests s)" using assms(1) by (simp add: dev_inv_def)
  then have uniq: "q = r" if "q \<in> set (rows (auth_requests s))" "ar_uuid q = ar_uuid r" for q
    using that r by (auto simp: requests_ok_def intro: distinct_map_inj)
  have "live_request (ar_uuid r) s" using r by (auto simp: live_request_def live_status_def)
  then have "logged_count (ar_uuid r) s = 0"
    using assms(1) by (simp add: dev_inv_def)
  then have none: "logged_count (ar_uuid r) ?s = 0"
    using event_counts_cong(1) [of ?s s] by (simp add: request_claim_def)
  have dead: "\<not> live_request (ar_uuid r) ?s"
  proof
    assume "live_request (ar_uuid r) ?s"
    then obtain q where "q \<in> set (rows (auth_requests s))" and "ar_uuid q = ar_uuid r"
      and "ar_status q \<noteq> Approved"
      by (auto simp: request_claim_def live_request_def table_simps live_status_def
          transition_matches_def split: if_splits)
    with uniq r(2) show False by blast
  qed
  have known: "known_request (ar_uuid r) ?s"
    unfolding request_claim_def
    by (rule known_guardedTransition) (use r in \<open>auto simp: known_request_def\<close>)
  from assms(4) have "s' = ?s \<or> issueSessionFor e c r ?s = (res, s')"
    by (auto simp: claim_session_def split: prod.splits if_splits)
  with inv issueSessionFor_inv [OF inv _ dead none known] show ?thesis by auto
qed

lemma poll_inv:
  assumes "dev_inv s" and "poll e c uuid tok s = (res, s')"
  shows "dev_inv s'"
proof (cases "poll_load e uuid tok s")
  case (Inl x)
  with assms show ?thesis by (simp add: poll_def)
next
  case (Inr r)
  note r = poll_load_Inr [OF Inr]
  have expire: "dev_inv (snd (request_expire (c_now c) r s))"
    unfolding request_expire_def snd_conv
    by (rule update_request_inv [OF assms(1)]) (simp_all add: live_status_def)
  from assms(2) Inr consider "s' = snd (request_expire (c_now c) r s)"
    | "ar_status r = Approved" "claim_session e c r s = (res, s')" | "s' = s"
    by (auto simp: poll_def split: if_splits prod.splits)
  then show ?thesis
    using assms(1) r expire claim_session_inv [OF assms(1), of r e c res s'] by cases auto
qed

lemma dev_step_inv: "dev_step e s s' \<Longrightarrow> dev_inv s \<Longrightarrow> dev_inv s'"
proof (induction rule: dev_step.induct)
  case (other s' s)
  then show ?case by (auto simp: dev_inv_def live_request_def known_request_def)
qed (blast intro: create_inv poll_inv authorize_inv deny_inv)+

lemma dev_reach_inv: "dev_reach e s \<Longrightarrow> dev_inv s"
proof (induction rule: dev_reach.induct)
  case init
  then show ?case
    by (simp add: dev_inv_def init_auth_state_def empty_table_def requests_ok_def logged_count_def
        live_request_def)
next
  case (step s s')
  then show ?case by (simp add: dev_step_inv)
qed

text \<open>
  C10. A device request yields at most one session, whatever sequence of calls the two devices
  make, and none at all while it is still open or approved.
\<close>

theorem device_request_yields_one_session:
  assumes "dev_reach e s"
  shows "logged_count u s \<le> 1 \<and> (live_request u s \<longrightarrow> logged_count u s = 0)"
  using dev_reach_inv [OF assms] by (simp add: dev_inv_def)

definition demo_authorized :: auth_state where
  "demo_authorized = snd (authorize demo_env 2000 demo_uuid 1 ''secret'' demo_requested)"

definition demo_polled :: auth_state where
  "demo_polled = snd (poll demo_env demo_ctx2 demo_uuid ''t1'' demo_authorized)"

lemma demo_reach: "dev_reach demo_env demo_requested" "dev_reach demo_env demo_authorized"
  "dev_reach demo_env demo_polled"
proof -
  have "dev_step demo_env init_auth_state demo_state"
    by (rule dev_step.other) (simp_all add: demo_state_def logged_count_def)
  with dev_reach.init have "dev_reach demo_env demo_state" by (rule dev_reach.step)
  then show r: "dev_reach demo_env demo_requested"
    unfolding demo_requested_def by (rule dev_reach.step) (rule dev_step.create [OF prod.collapse [symmetric]])
  then show a: "dev_reach demo_env demo_authorized"
    unfolding demo_authorized_def by (rule dev_reach.step) (rule dev_step.authorize [OF prod.collapse [symmetric]])
  then show "dev_reach demo_env demo_polled"
    unfolding demo_polled_def by (rule dev_reach.step) (rule dev_step.poll [OF prod.collapse [symmetric]])
qed

theorem device_request_yields_one_session_witness:
  "logged_count demo_uuid demo_polled = 1 \<and> \<not> live_request demo_uuid demo_polled"
proof -
  have "logged_count demo_uuid demo_polled = 1" by code_simp
  with device_request_yields_one_session [OF demo_reach(3), of demo_uuid] show ?thesis by auto
qed

section \<open>The edges a handler takes\<close>

lemma evolves_refl [simp]: "evolves t t"
  by (auto simp: evolves_def)

lemma evolves_trans:
  assumes "evolves t1 t2" and "evolves t2 t3"
  shows "evolves t1 t3"
  unfolding evolves_def
proof
  fix r assume "r \<in> set (rows t1)"
  with assms(1) obtain r2 where 2: "r2 \<in> set (rows t2)" "ar_id r2 = ar_id r" "ar_uuid r2 = ar_uuid r"
    "ar_userId r2 = ar_userId r" "status_next\<^sup>*\<^sup>* (ar_status r) (ar_status r2)"
    by (auto simp: evolves_def)
  from assms(2) 2(1) obtain r3 where 3: "r3 \<in> set (rows t3)" "ar_id r3 = ar_id r2"
    "ar_uuid r3 = ar_uuid r2" "ar_userId r3 = ar_userId r2"
    "status_next\<^sup>*\<^sup>* (ar_status r2) (ar_status r3)"
    by (auto simp: evolves_def)
  from 2(5) 3(5) have "status_next\<^sup>*\<^sup>* (ar_status r) (ar_status r3)" by (rule rtranclp_trans)
  with 2 3 show "\<exists>r' \<in> set (rows t3). ar_id r' = ar_id r \<and> ar_uuid r' = ar_uuid r
      \<and> ar_userId r' = ar_userId r \<and> status_next\<^sup>*\<^sup>* (ar_status r) (ar_status r')" by auto
qed

lemma evolves_update:
  assumes "\<And>r. r \<in> set (rows t) \<Longrightarrow> p r \<Longrightarrow> ar_id (f r) = ar_id r \<and> ar_uuid (f r) = ar_uuid r
      \<and> ar_userId (f r) = ar_userId r \<and> status_next\<^sup>*\<^sup>* (ar_status r) (ar_status (f r))"
  shows "evolves t (update_where p f t)"
  unfolding evolves_def
proof
  fix r assume r: "r \<in> set (rows t)"
  let ?r = "if p r then f r else r"
  have "?r \<in> set (rows (update_where p f t))" using r by (simp only: rows_update_where set_map) (rule imageI)
  moreover have "ar_id ?r = ar_id r \<and> ar_uuid ?r = ar_uuid r \<and> ar_userId ?r = ar_userId r
      \<and> status_next\<^sup>*\<^sup>* (ar_status r) (ar_status ?r)"
    using assms [OF r] by auto
  ultimately show "\<exists>r' \<in> set (rows (update_where p f t)). ar_id r' = ar_id r \<and> ar_uuid r' = ar_uuid r
      \<and> ar_userId r' = ar_userId r \<and> status_next\<^sup>*\<^sup>* (ar_status r) (ar_status r')" by blast
qed

lemma evolves_insert: "evolves t (insert_row mk t)"
  by (auto simp: evolves_def table_simps)

lemma status_edges [simp, intro]:
  "status_next\<^sup>*\<^sup>* Open Approved" "status_next\<^sup>*\<^sup>* Open Denied" "status_next\<^sup>*\<^sup>* Open Expired"
  "status_next\<^sup>*\<^sup>* Approved Logged" "status_next\<^sup>*\<^sup>* Logged Denied"
  by (auto intro: status_next.intros)

lemma evolves_update_request:
  assumes "requests_ok (auth_requests s)" and "r \<in> set (rows (auth_requests s))"
    and "ar_id (f r) = ar_id r \<and> ar_uuid (f r) = ar_uuid r \<and> ar_userId (f r) = ar_userId r"
    and "status_next\<^sup>*\<^sup>* (ar_status r) (ar_status (f r))"
  shows "evolves (auth_requests s) (auth_requests (update_request (ar_id r) f s))"
  using assms by (auto simp: update_request_def intro!: evolves_update dest: row_by_id)

lemma evolves_guarded:
  assumes "\<And>r. ar_id (f r) = ar_id r \<and> ar_uuid (f r) = ar_uuid r \<and> ar_userId (f r) = ar_userId r"
    and "\<And>r. status_next\<^sup>*\<^sup>* st (ar_status (f r))"
  shows "evolves (auth_requests s) (auth_requests (snd (guardedTransition u st f s)))"
  using assms by (auto simp: guardedTransition_def transition_matches_def intro!: evolves_update)

lemma create_room_evolves:
  assumes "requests_ok (auth_requests s)"
  shows "evolves (auth_requests s) (auth_requests (create_room e c n s))"
proof -
  have "evolves (auth_requests s) (auth_requests (enforceOpenCapFor e now i s))" for now i
  proof (cases "order_asc ar_createdAt (select_where (open_of i) (auth_requests s))")
    case Nil
    then show ?thesis by (simp add: enforceOpenCapFor_def Let_def)
  next
    case (Cons r rs)
    have "r \<in> set (order_asc ar_createdAt (select_where (open_of i) (auth_requests s)))"
      by (simp add: Cons)
    then have "r \<in> set (rows (auth_requests s))" and "ar_status r = Open"
      by (auto simp: order_asc_def select_where_def)
    with assms Cons show ?thesis
      by (auto simp: enforceOpenCapFor_def Let_def intro!: evolves_update_request)
  qed
  then show ?thesis by (simp add: create_room_def split: option.split)
qed

lemma create_evolves:
  assumes "requests_ok (auth_requests s)" and "request_create e c n ip ua k s = (res, s')"
  shows "evolves (auth_requests s) (auth_requests s')"
  using assms(2)
proof (cases rule: request_create_cases)
  case (3 ex)
  from create_room_evolves [OF assms(1)] evolves_insert show ?thesis
    unfolding 3(3) by (rule evolves_trans)
qed (simp_all add: create_room_evolves [OF assms(1)])

lemma authorize_evolves:
  assumes "requests_ok (auth_requests s)" and "authorize e now uuid a pw s = (res, s')"
  shows "evolves (auth_requests s) (auth_requests s')"
proof (cases "loadOwnedOpenRequest uuid a AUTHORIZE_FAILURE_MESSAGE s")
  case (Inl x)
  with assms(2) show ?thesis by (auto simp: authorize_def authorize_load_def)
next
  case (Inr r)
  note r = loadOwnedOpenRequest_Inr [OF Inr]
  from assms(2) Inr have "s' = s \<or> s' = registerAuthorizeFailure e now r s \<or> s' = authorize_commit now r a s"
    by (auto simp: authorize_def authorize_load_def Let_def split: if_splits)
  with r assms(1) show ?thesis
    by (auto simp: registerAuthorizeFailure_def authorize_commit_def Let_def
        intro!: evolves_update_request)
qed

lemma deny_evolves:
  assumes "requests_ok (auth_requests s)" and "deny now uuid a s = (res, s')"
  shows "evolves (auth_requests s) (auth_requests s')"
proof (cases "loadOwnedOpenRequest uuid a DENY_FAILURE_MESSAGE s")
  case (Inr r)
  with assms loadOwnedOpenRequest_Inr [OF Inr] show ?thesis
    by (auto simp: deny_def deny_commit_def intro!: evolves_update_request)
qed (use assms in \<open>simp add: deny_def\<close>)

lemma issueSessionFor_evolves:
  assumes "issueSessionFor e c r s = (res, s')"
  shows "evolves (auth_requests s) (auth_requests s')"
  using assms
  by (auto simp: issueSessionFor_def intro!: evolves_guarded dest!: issueTokens_frame(3)
      split: option.splits if_splits prod.splits sum.splits)

lemma poll_evolves:
  assumes "requests_ok (auth_requests s)" and "poll e c uuid tok s = (res, s')"
  shows "evolves (auth_requests s) (auth_requests s')"
proof (cases "poll_load e uuid tok s")
  case (Inl x)
  with assms show ?thesis by (simp add: poll_def)
next
  case (Inr r)
  note r = poll_load_Inr [OF Inr]
  let ?claimed = "snd (request_claim (c_now c) r s)"
  have claim: "evolves (auth_requests s) (auth_requests ?claimed)"
    unfolding request_claim_def by (rule evolves_guarded) simp_all
  from assms(2) Inr consider "ar_status r = Open" "s' = snd (request_expire (c_now c) r s)"
    | "s' = ?claimed" | "issueSessionFor e c r ?claimed = (res, s')" | "s' = s"
    by (auto simp: poll_def claim_session_def split: if_splits prod.splits)
  then show ?thesis
  proof cases
    case 1
    with r assms(1) show ?thesis
      by (auto simp: request_expire_def intro!: evolves_update_request)
  next
    case 3
    from claim issueSessionFor_evolves [OF 3] show ?thesis by (rule evolves_trans)
  qed (simp_all add: claim)
qed

text \<open>
  C11. A call processed alone moves every request only along the edges of the status machine
  (open to approved, denied or expired; approved to logged; logged to denied when the user is
  no longer approved) and drops none: a denied or expired request stays so.
\<close>

theorem device_status_machine:
  assumes "dev_reach e s" and "dev_step e s s'"
  shows "evolves (auth_requests s) (auth_requests s')"
proof -
  have ok: "requests_ok (auth_requests s)" using dev_reach_inv [OF assms(1)] by (simp add: dev_inv_def)
  from assms(2) show ?thesis
    by cases (simp_all add: create_evolves [OF ok] poll_evolves [OF ok] authorize_evolves [OF ok]
        deny_evolves [OF ok])
qed

theorem device_status_machine_witness:
  "evolves (auth_requests demo_requested) (auth_requests demo_authorized) \<and>
   map ar_status (rows (auth_requests demo_requested)) = [Open] \<and>
   map ar_status (rows (auth_requests demo_authorized)) = [Approved]"
proof -
  have "dev_step demo_env demo_requested demo_authorized"
    unfolding demo_authorized_def by (rule dev_step.authorize [OF prod.collapse [symmetric]])
  from device_status_machine [OF demo_reach(1) this]
  have "evolves (auth_requests demo_requested) (auth_requests demo_authorized)" .
  moreover have "map ar_status (rows (auth_requests demo_requested)) = [Open]"
    and "map ar_status (rows (auth_requests demo_authorized)) = [Approved]"
    by code_simp+
  ultimately show ?thesis by blast
qed

section \<open>Interleaved statements\<close>

text \<open>
  A call between its read and its write: an approval or a denial whose checks have passed, an
  expiry found by a poll, a poll about to claim, and a poll whose claim has won and that has
  still to mint the session.
\<close>

datatype device_flight =
    Approving authorization_request nat
  | Denying authorization_request nat
  | Expiring authorization_request
  | Claiming authorization_request
  | Minting authorization_request

fun flight_request :: "device_flight \<Rightarrow> authorization_request" where
  "flight_request (Approving r a) = r"
| "flight_request (Denying r a) = r"
| "flight_request (Expiring r) = r"
| "flight_request (Claiming r) = r"
| "flight_request (Minting r) = r"

fun is_minting :: "string \<Rightarrow> device_flight \<Rightarrow> bool" where
  "is_minting u (Minting r) = (ar_uuid r = u)"
| "is_minting u f = False"

record dev_sys =
  dy_auth :: auth_state
  dy_flights :: "device_flight list"

inductive dev_race :: "env \<Rightarrow> dev_sys \<Rightarrow> dev_sys \<Rightarrow> bool" for e where
  create: "request_create e c username ip ua k (dy_auth \<sigma>) = (res, a) \<Longrightarrow>
     dev_race e \<sigma> (\<sigma>\<lparr>dy_auth := a\<rparr>)"
| approve_load: "authorize_load e now uuid i pw (dy_auth \<sigma>) = (Inr r, a) \<Longrightarrow>
     dev_race e \<sigma> \<lparr>dy_auth = a, dy_flights = Approving r i # dy_flights \<sigma>\<rparr>"
| approve_refuse: "authorize_load e now uuid i pw (dy_auth \<sigma>) = (Inl x, a) \<Longrightarrow>
     dev_race e \<sigma> (\<sigma>\<lparr>dy_auth := a\<rparr>)"
| approve: "dy_flights \<sigma> = xs @ Approving r i # ys \<Longrightarrow>
     dev_race e \<sigma> \<lparr>dy_auth = authorize_commit now r i (dy_auth \<sigma>), dy_flights = xs @ ys\<rparr>"
| deny_load: "loadOwnedOpenRequest uuid i DENY_FAILURE_MESSAGE (dy_auth \<sigma>) = Inr r \<Longrightarrow>
     dev_race e \<sigma> (\<sigma>\<lparr>dy_flights := Denying r i # dy_flights \<sigma>\<rparr>)"
| deny: "dy_flights \<sigma> = xs @ Denying r i # ys \<Longrightarrow>
     dev_race e \<sigma> \<lparr>dy_auth = deny_commit now r i (dy_auth \<sigma>), dy_flights = xs @ ys\<rparr>"
| expire_load: "poll_load e uuid tok (dy_auth \<sigma>) = Inr r \<Longrightarrow> ar_status r = Open \<Longrightarrow>
     dev_race e \<sigma> (\<sigma>\<lparr>dy_flights := Expiring r # dy_flights \<sigma>\<rparr>)"
| expire: "dy_flights \<sigma> = xs @ Expiring r # ys \<Longrightarrow>
     dev_race e \<sigma> \<lparr>dy_auth = snd (request_expire now r (dy_auth \<sigma>)), dy_flights = xs @ ys\<rparr>"
| claim_load: "poll_load e uuid tok (dy_auth \<sigma>) = Inr r \<Longrightarrow> ar_status r = Approved \<Longrightarrow>
     dev_race e \<sigma> (\<sigma>\<lparr>dy_flights := Claiming r # dy_flights \<sigma>\<rparr>)"
| claim: "dy_flights \<sigma> = xs @ Claiming r # ys \<Longrightarrow> request_claim now r (dy_auth \<sigma>) = (won, a) \<Longrightarrow>
     dev_race e \<sigma> \<lparr>dy_auth = a, dy_flights = xs @ (if won then [Minting r] else []) @ ys\<rparr>"
| mint: "dy_flights \<sigma> = xs @ Minting r # ys \<Longrightarrow> issueSessionFor e c r (dy_auth \<sigma>) = (res, a) \<Longrightarrow>
     dev_race e \<sigma> \<lparr>dy_auth = a, dy_flights = xs @ ys\<rparr>"
| other: "auth_requests a = auth_requests (dy_auth \<sigma>) \<Longrightarrow>
     (\<And>u. logged_count u a = logged_count u (dy_auth \<sigma>)) \<Longrightarrow>
     (\<And>u. approved_count u a = approved_count u (dy_auth \<sigma>)) \<Longrightarrow>
     dev_race e \<sigma> (\<sigma>\<lparr>dy_auth := a\<rparr>)"

inductive race_reach :: "env \<Rightarrow> dev_sys \<Rightarrow> bool" for e where
  init: "race_reach e \<lparr>dy_auth = init_auth_state, dy_flights = []\<rparr>"
| step: "race_reach e \<sigma> \<Longrightarrow> dev_race e \<sigma> \<sigma>' \<Longrightarrow> race_reach e \<sigma>'"

text \<open>
  The sessions a request has granted or is about to grant, the claimable approval included,
  never exceed the approvals recorded for it.
\<close>

definition has_approval :: "string \<Rightarrow> auth_state \<Rightarrow> bool" where
  "has_approval u s \<longleftrightarrow> exists_where (transition_matches u Approved) (auth_requests s)"

definition race_debt :: "string \<Rightarrow> dev_sys \<Rightarrow> nat" where
  "race_debt u \<sigma> = logged_count u (dy_auth \<sigma>) + length (filter (is_minting u) (dy_flights \<sigma>))
     + (if has_approval u (dy_auth \<sigma>) then 1 else 0)"

definition flight_ok :: "auth_state \<Rightarrow> device_flight \<Rightarrow> bool" where
  "flight_ok s f \<longleftrightarrow> ar_id (flight_request f) < next_id (auth_requests s)
     \<and> (\<forall>r \<in> set (rows (auth_requests s)). ar_id r = ar_id (flight_request f)
          \<longrightarrow> ar_uuid r = ar_uuid (flight_request f))"

definition race_inv :: "dev_sys \<Rightarrow> bool" where
  "race_inv \<sigma> \<longleftrightarrow> requests_ok (auth_requests (dy_auth \<sigma>))
     \<and> (\<forall>f \<in> set (dy_flights \<sigma>). flight_ok (dy_auth \<sigma>) f)
     \<and> (\<forall>u. race_debt u \<sigma> \<le> approved_count u (dy_auth \<sigma>))"

text \<open>Tables whose rows are old rows, by id and UUID, or newly numbered ones.\<close>

definition grows :: "auth_state \<Rightarrow> auth_state \<Rightarrow> bool" where
  "grows s s' \<longleftrightarrow> requests_ok (auth_requests s') \<and> next_id (auth_requests s) \<le> next_id (auth_requests s')
     \<and> (\<forall>r' \<in> set (rows (auth_requests s')). next_id (auth_requests s) \<le> ar_id r'
          \<or> (\<exists>r \<in> set (rows (auth_requests s)). ar_id r = ar_id r' \<and> ar_uuid r = ar_uuid r'))"

text \<open>A change that grants nothing and makes no request claimable.\<close>

definition calm :: "auth_state \<Rightarrow> auth_state \<Rightarrow> bool" where
  "calm s s' \<longleftrightarrow> grows s s' \<and> (\<forall>u. logged_count u s' = logged_count u s)
     \<and> (\<forall>u. approved_count u s' = approved_count u s) \<and> (\<forall>u. has_approval u s' \<longrightarrow> has_approval u s)"

lemma flight_ok_grows: "grows s s' \<Longrightarrow> flight_ok s f \<Longrightarrow> flight_ok s' f"
  by (fastforce simp: grows_def flight_ok_def)

lemma grows_same: "requests_ok (auth_requests s) \<Longrightarrow> auth_requests s' = auth_requests s \<Longrightarrow> grows s s'"
  by (auto simp: grows_def)

lemma calm_trans:
  assumes "calm s1 s2" and "calm s2 s3"
  shows "calm s1 s3"
proof -
  have "grows s1 s2" and g: "grows s2 s3" using assms by (simp_all add: calm_def)
  then have "next_id (auth_requests s1) \<le> ar_id r
      \<or> (\<exists>q \<in> set (rows (auth_requests s1)). ar_id q = ar_id r \<and> ar_uuid q = ar_uuid r)"
    if "r \<in> set (rows (auth_requests s3))" for r
    using that unfolding grows_def by (metis order.trans)
  with assms have "grows s1 s3" by (auto simp: calm_def grows_def)
  with assms show ?thesis by (simp add: calm_def)
qed

lemma grows_update:
  assumes "requests_ok (auth_requests s)" and "\<And>r. ar_id (f r) = ar_id r \<and> ar_uuid (f r) = ar_uuid r"
  shows "grows s (s\<lparr>auth_requests := update_where p f (auth_requests s)\<rparr>)"
  using assms by (auto simp: grows_def requests_ok_update table_simps)

lemma calm_update:
  assumes "requests_ok (auth_requests s)" and keep: "\<And>r. ar_id (f r) = ar_id r \<and> ar_uuid (f r) = ar_uuid r"
    and "\<And>r. ar_status (f r) = Approved \<Longrightarrow> ar_status r = Approved"
  shows "calm s (s\<lparr>auth_requests := update_where p f (auth_requests s)\<rparr>)"
proof -
  have "has_approval u s" if "has_approval u (s\<lparr>auth_requests := update_where p f (auth_requests s)\<rparr>)" for u
    using that keep assms(3)
    by (auto simp: has_approval_def exists_where_iff table_simps transition_matches_def split: if_splits)
  with grows_update [OF assms(1) keep] show ?thesis
    by (auto simp: calm_def logged_count_def approved_count_def)
qed

lemma grows_emit: "grows s (emit ev s') = grows s s'"
  by (simp add: grows_def)

lemma calm_emit:
  assumes "calm s s'" and "\<And>u. logged_count u (emit ev s') = logged_count u s'"
    and "\<And>u. approved_count u (emit ev s') = approved_count u s'"
  shows "calm s (emit ev s')"
  using assms by (simp add: calm_def grows_def has_approval_def)

lemma calm_refl: "requests_ok (auth_requests s) \<Longrightarrow> calm s s"
  by (simp add: calm_def grows_same)

lemma calm_create:
  assumes ok: "requests_ok (auth_requests s)" and "request_create e c n ip ua k s = (res, s')"
  shows "calm s s'"
proof -
  have "calm s (enforceOpenCapFor e now i s)" for now i
    using ok
    by (auto simp: enforceOpenCapFor_def Let_def update_request_def intro!: calm_refl calm_update
        split: list.split)
  then have room: "calm s (create_room e c n s)"
    using calm_refl [OF ok] by (simp add: create_room_def split: option.split)
  from assms(2) show ?thesis
  proof (cases rule: request_create_cases)
    case (3 ex)
    let ?s = "create_room e c n s"
    have "requests_ok (auth_requests ?s)" using room by (simp add: calm_def grows_def)
    then have "requests_ok (auth_requests s')" unfolding 3(3) using 3(2) by (rule requests_ok_insert)
    then have "grows ?s s'" by (auto simp: grows_def 3(3) table_simps)
    moreover have "has_approval u ?s" if "has_approval u s'" for u
      using that by (auto simp: has_approval_def exists_where_iff 3(3) table_simps transition_matches_def)
    ultimately have "calm ?s s'"
      by (simp add: calm_def logged_count_def approved_count_def 3(4))
    with room show ?thesis by (rule calm_trans)
  qed (use room calm_refl [OF ok] in simp_all)
qed

lemma calm_authorize_load:
  assumes "requests_ok (auth_requests s)" and "authorize_load e now uuid i pw s = (res, s')"
  shows "calm s s'"
  using assms
  by (auto simp: authorize_load_def registerAuthorizeFailure_def update_request_def Let_def
      intro!: calm_refl calm_update split: sum.splits if_splits)

lemma race_inv_calm:
  assumes "race_inv \<sigma>" and "calm (dy_auth \<sigma>) a"
    and "\<And>u. length (filter (is_minting u) fs) \<le> length (filter (is_minting u) (dy_flights \<sigma>))"
    and "\<And>f. f \<in> set fs \<Longrightarrow> f \<in> set (dy_flights \<sigma>) \<or> flight_ok a f"
  shows "race_inv \<lparr>dy_auth = a, dy_flights = fs\<rparr>"
proof -
  have "race_debt u \<lparr>dy_auth = a, dy_flights = fs\<rparr> \<le> race_debt u \<sigma>" for u
    using assms(2) assms(3) [of u] by (auto simp: race_debt_def calm_def)
  with assms(1,2) have "race_debt u \<lparr>dy_auth = a, dy_flights = fs\<rparr> \<le> approved_count u a" for u
    by (metis calm_def order.trans race_inv_def)
  moreover have "flight_ok a f" if "f \<in> set fs" for f
    using assms(1,2) assms(4) [OF that] flight_ok_grows by (auto simp: race_inv_def calm_def)
  ultimately show ?thesis
    using assms(2) by (simp add: race_inv_def calm_def grows_def)
qed

lemma flight_ok_loaded:
  assumes "requests_ok (auth_requests s)" and "flight_request f \<in> set (rows (auth_requests s))"
  shows "flight_ok s f"
  using assms row_by_id [OF assms] by (auto simp: flight_ok_def requests_ok_def)

lemma race_inv_approve:
  assumes inv: "race_inv \<sigma>" and fl: "dy_flights \<sigma> = xs @ Approving r i # ys"
  shows "race_inv \<lparr>dy_auth = authorize_commit now r i (dy_auth \<sigma>), dy_flights = xs @ ys\<rparr>"
    (is "race_inv ?\<sigma>")
proof -
  let ?s = "dy_auth \<sigma>" and ?s' = "authorize_commit now r i (dy_auth \<sigma>)"
  have ok: "requests_ok (auth_requests ?s)" and f: "flight_ok ?s (Approving r i)"
    using inv fl by (simp_all add: race_inv_def)
  have g: "grows ?s ?s'"
    unfolding authorize_commit_def update_request_def grows_emit
    by (rule grows_update [OF ok]) simp
  have appr: "has_approval u ?s \<or> u = ar_uuid r" if "has_approval u ?s'" for u
    using that f
    by (auto simp: has_approval_def exists_where_iff authorize_commit_def table_simps
        transition_matches_def flight_ok_def split: if_splits)
  have ev: "logged_count u ?s' = logged_count u ?s"
    "approved_count u ?s' = (if ar_uuid r = u then Suc (approved_count u ?s) else approved_count u ?s)" for u
    by (simp_all add: authorize_commit_def logged_count_def approved_count_def)
  have "race_debt u ?\<sigma> \<le> race_debt u \<sigma> + (if u = ar_uuid r then 1 else 0)" for u
    using appr [of u] by (auto simp: race_debt_def fl ev)
  moreover have "race_debt u \<sigma> \<le> approved_count u ?s" for u using inv by (simp add: race_inv_def)
  ultimately have "race_debt u ?\<sigma> \<le> approved_count u ?s'" for u
    unfolding ev by (smt (verit) Suc_eq_plus1 add_0_right add_le_cancel_right order.trans)
  with inv g show ?thesis
    by (auto simp: race_inv_def fl intro: flight_ok_grows) (simp add: grows_def)
qed

lemma race_inv_claim:
  assumes inv: "race_inv \<sigma>" and fl: "dy_flights \<sigma> = xs @ Claiming r # ys"
    and cl: "request_claim now r (dy_auth \<sigma>) = (won, a)"
  shows "race_inv \<lparr>dy_auth = a, dy_flights = xs @ (if won then [Minting r] else []) @ ys\<rparr>"
    (is "race_inv ?\<sigma>")
proof -
  let ?s = "dy_auth \<sigma>"
  have ok: "requests_ok (auth_requests ?s)" and f: "flight_ok ?s (Claiming r)"
    using inv fl by (simp_all add: race_inv_def)
  have a: "a = ?s\<lparr>auth_requests := update_where (transition_matches (ar_uuid r) Approved)
      (\<lambda>q. q\<lparr>ar_status := Logged, ar_loggedAt := Some now\<rparr>) (auth_requests ?s)\<rparr>"
    using cl by (auto simp: request_claim_def guardedTransition_def)
  have calm: "calm ?s a" unfolding a by (rule calm_update [OF ok]) simp_all
  have "\<not> has_approval (ar_uuid r) a"
    by (auto simp: a has_approval_def exists_where_iff table_simps transition_matches_def)
  moreover have "has_approval (ar_uuid r) ?s" if won
  proof -
    from that cl have "count_where (transition_matches (ar_uuid r) Approved) (auth_requests ?s) = 1"
      by (simp add: request_claim_def guardedTransition_def)
    then show ?thesis
      using count_where_zero [of "transition_matches (ar_uuid r) Approved" "auth_requests ?s"]
      by (auto simp: has_approval_def exists_where_iff)
  qed
  ultimately have "race_debt u ?\<sigma> \<le> race_debt u \<sigma>" for u
    using calm by (auto simp: race_debt_def fl calm_def)
  then have debt: "race_debt u ?\<sigma> \<le> approved_count u a" for u
    using inv calm by (metis calm_def order.trans race_inv_def)
  have "flight_ok a f" if "f \<in> set (xs @ (if won then [Minting r] else []) @ ys)" for f
  proof -
    have "flight_ok ?s f"
      using that inv f by (auto simp: race_inv_def fl flight_ok_def split: if_splits)
    with calm show ?thesis by (auto simp: calm_def intro: flight_ok_grows)
  qed
  with debt calm show ?thesis by (simp add: race_inv_def calm_def grows_def)
qed

lemma race_inv_mint:
  assumes inv: "race_inv \<sigma>" and fl: "dy_flights \<sigma> = xs @ Minting r # ys"
    and mint: "issueSessionFor e c r (dy_auth \<sigma>) = (res, a)"
  shows "race_inv \<lparr>dy_auth = a, dy_flights = xs @ ys\<rparr>" (is "race_inv ?\<sigma>")
proof -
  let ?s = "dy_auth \<sigma>"
  have ok: "requests_ok (auth_requests ?s)" using inv by (simp add: race_inv_def)
  consider (calm) "calm ?s a"
    | (minted) "auth_requests a = auth_requests ?s"
        "\<And>u. logged_count u a = logged_count u ?s + (if u = ar_uuid r then 1 else 0)"
        "\<And>u. approved_count u a = approved_count u ?s"
  proof (cases "a = ?s \<or> a = snd (guardedTransition (ar_uuid r) Logged
           (\<lambda>q. q\<lparr>ar_status := Denied, ar_resolvedAt := Some (c_now c)\<rparr>) ?s)")
    case True
    then have "calm ?s a"
      using ok by (auto simp: guardedTransition_def intro!: calm_refl calm_update)
    then show thesis by (rule calm)
  next
    case False
    then obtain u x s1 where iss: "issueTokens e c u (ar_keepSignedIn r) None ?s = (x, s1)"
      and a: "a = s1 \<or> a = emit (AuthorizationRequestLoggedEvent (ar_uuid r) (u_id u)) s1"
      using mint by (auto simp: issueSessionFor_def split: option.splits if_splits prod.splits sum.splits)
    note fr = issueTokens_frame [OF iss]
    have cnt: "logged_count v s1 = logged_count v ?s" "approved_count v s1 = approved_count v ?s" for v
      by (rule event_counts_cong; simp add: fr)+
    have "calm ?s s1"
      using ok by (simp add: calm_def grows_same fr cnt has_approval_def)
    with a calm show thesis by (auto simp: cnt fr intro: minted)
  qed
  then show ?thesis
  proof cases
    case calm
    then show ?thesis by (rule race_inv_calm [OF inv]) (auto simp: fl)
  next
    case minted
    have "race_debt u ?\<sigma> = race_debt u \<sigma>" for u
      by (simp add: race_debt_def fl minted(1,2) has_approval_def)
    then show ?thesis
      using inv by (auto simp: race_inv_def fl minted(1,3) flight_ok_def)
  qed
qed

lemma dev_race_inv: "dev_race e \<sigma> \<sigma>' \<Longrightarrow> race_inv \<sigma> \<Longrightarrow> race_inv \<sigma>'"
proof (induction rule: dev_race.induct)
  case (create c username ip ua k \<sigma> res a)
  have "calm (dy_auth \<sigma>) a"
    using create by (intro calm_create) (simp_all add: race_inv_def)
  with create show ?case by (cases \<sigma>) (auto intro: race_inv_calm)
next
  case (approve_load now uuid i pw \<sigma> r a)
  note l = authorize_load_Inr [OF approve_load(1)]
  have ok: "requests_ok (auth_requests (dy_auth \<sigma>))" using approve_load by (simp add: race_inv_def)
  have "flight_ok a (Approving r i)"
    using l(1) ok loadOwnedOpenRequest_Inr [OF l(2)] by (simp add: flight_ok_loaded)
  with approve_load(2) calm_refl [OF ok] l(1) show ?case by (auto intro: race_inv_calm)
next
  case (approve_refuse now uuid i pw \<sigma> x a)
  have "calm (dy_auth \<sigma>) a"
    using approve_refuse by (intro calm_authorize_load) (simp_all add: race_inv_def)
  with approve_refuse show ?case by (cases \<sigma>) (auto intro: race_inv_calm)
next
  case (approve \<sigma> xs r i ys now)
  then show ?case by (intro race_inv_approve)
next
  case (deny_load uuid i \<sigma> r)
  have ok: "requests_ok (auth_requests (dy_auth \<sigma>))" using deny_load by (simp add: race_inv_def)
  have "flight_ok (dy_auth \<sigma>) (Denying r i)"
    using ok loadOwnedOpenRequest_Inr [OF deny_load(1)] by (simp add: flight_ok_loaded)
  with deny_load(2) calm_refl [OF ok] show ?case by (cases \<sigma>) (auto intro: race_inv_calm)
next
  case (deny \<sigma> xs r i ys now)
  have "calm (dy_auth \<sigma>) (deny_commit now r i (dy_auth \<sigma>))"
    using deny by (auto simp: deny_commit_def update_request_def race_inv_def
        intro!: calm_emit calm_update)
  with deny show ?case by (auto intro: race_inv_calm)
next
  case (expire_load uuid tok \<sigma> r)
  have ok: "requests_ok (auth_requests (dy_auth \<sigma>))" using expire_load by (simp add: race_inv_def)
  have "flight_ok (dy_auth \<sigma>) (Expiring r)"
    using ok poll_load_Inr [OF expire_load(1)] by (simp add: flight_ok_loaded)
  with expire_load(3) calm_refl [OF ok] show ?case by (cases \<sigma>) (auto intro: race_inv_calm)
next
  case (expire \<sigma> xs r ys now)
  have "calm (dy_auth \<sigma>) (snd (request_expire now r (dy_auth \<sigma>)))"
    using expire by (auto simp: request_expire_def update_request_def race_inv_def intro!: calm_update)
  with expire show ?case by (auto intro: race_inv_calm)
next
  case (claim_load uuid tok \<sigma> r)
  have ok: "requests_ok (auth_requests (dy_auth \<sigma>))" using claim_load by (simp add: race_inv_def)
  have "flight_ok (dy_auth \<sigma>) (Claiming r)"
    using ok poll_load_Inr [OF claim_load(1)] by (simp add: flight_ok_loaded)
  with claim_load(3) calm_refl [OF ok] show ?case by (cases \<sigma>) (auto intro: race_inv_calm)
next
  case (claim \<sigma> xs r ys now won a)
  then show ?case by (intro race_inv_claim)
next
  case (mint \<sigma> xs r ys c res a)
  then show ?case by (intro race_inv_mint)
next
  case (other a \<sigma>)
  then have "calm (dy_auth \<sigma>) a"
    by (simp add: calm_def grows_same race_inv_def has_approval_def)
  with other show ?case by (cases \<sigma>) (auto intro: race_inv_calm)
qed

lemma race_reach_inv: "race_reach e \<sigma> \<Longrightarrow> race_inv \<sigma>"
proof (induction rule: race_reach.induct)
  case init
  then show ?case
    by (simp add: race_inv_def init_auth_state_def empty_table_def requests_ok_def race_debt_def
        logged_count_def has_approval_def exists_where_iff)
next
  case (step \<sigma> \<sigma>')
  then show ?case by (simp add: dev_race_inv)
qed

text \<open>
  C12. However the statements of concurrent calls interleave, every session obtained through a
  device request is paid for by an approval: the sessions granted never outnumber the
  approvals, each of which required the approver's password.  In particular, a single approval
  polled by any number of clients at once yields at most one session.
\<close>

theorem device_sessions_need_approvals:
  assumes "race_reach e \<sigma>"
  shows "logged_count u (dy_auth \<sigma>) \<le> approved_count u (dy_auth \<sigma>)"
proof -
  have "race_debt u \<sigma> \<le> approved_count u (dy_auth \<sigma>)"
    using race_reach_inv [OF assms] by (simp add: race_inv_def)
  then show ?thesis by (simp add: race_debt_def)
qed

text \<open>Two polls that both read the approved row: the first claim wins, the second mints nothing.\<close>

definition demo_request :: authorization_request where
  "demo_request = request_row demo_uuid demo_authorized"

definition demo_claimed :: auth_state where
  "demo_claimed = snd (request_claim 2000 demo_request demo_authorized)"

definition demo_minted :: auth_state where
  "demo_minted = snd (issueSessionFor demo_env demo_ctx2 demo_request demo_claimed)"

lemma race_reach_create:
  assumes "race_reach e \<lparr>dy_auth = s, dy_flights = fs\<rparr>"
  shows "race_reach e \<lparr>dy_auth = snd (request_create e c n ip ua k s), dy_flights = fs\<rparr>"
  using race_reach.step [OF assms dev_race.create [of e c n ip ua k "\<lparr>dy_auth = s, dy_flights = fs\<rparr>"
        "fst (request_create e c n ip ua k s)" "snd (request_create e c n ip ua k s)"]]
  by simp

lemma demo_race:
  "race_reach demo_env \<lparr>dy_auth = demo_minted, dy_flights = [Claiming demo_request]\<rparr>"
proof -
  have r0: "race_reach demo_env \<lparr>dy_auth = demo_state, dy_flights = []\<rparr>"
    using race_reach.step [OF race_reach.init dev_race.other [of demo_state
          "\<lparr>dy_auth = init_auth_state, dy_flights = []\<rparr>" demo_env]]
    by (simp add: demo_state_def logged_count_def approved_count_def)
  have r1: "race_reach demo_env \<lparr>dy_auth = demo_requested, dy_flights = []\<rparr>"
    unfolding demo_requested_def by (rule race_reach_create [OF r0])
  have l: "authorize_load demo_env 2000 demo_uuid 1 ''secret'' demo_requested =
      (Inr (request_row demo_uuid demo_requested), demo_requested)" by code_simp
  have r2: "race_reach demo_env \<lparr>dy_auth = demo_requested,
      dy_flights = [Approving (request_row demo_uuid demo_requested) 1]\<rparr>"
    using race_reach.step [OF r1 dev_race.approve_load] l by simp
  have c: "demo_authorized = authorize_commit 2000 (request_row demo_uuid demo_requested) 1 demo_requested"
    by (simp add: demo_authorized_def authorize_def l del: One_nat_def)
  have r3: "race_reach demo_env \<lparr>dy_auth = demo_authorized, dy_flights = []\<rparr>"
    using race_reach.step [OF r2 dev_race.approve [of _ "[]" _ _ "[]" _ 2000]] c by simp
  have p: "poll_load demo_env demo_uuid ''t1'' demo_authorized = Inr demo_request"
    and st: "ar_status demo_request = Approved" by code_simp+
  have r4: "race_reach demo_env \<lparr>dy_auth = demo_authorized, dy_flights = [Claiming demo_request]\<rparr>"
    using race_reach.step [OF r3 dev_race.claim_load] p st by simp
  have r5: "race_reach demo_env \<lparr>dy_auth = demo_authorized,
      dy_flights = [Claiming demo_request, Claiming demo_request]\<rparr>"
    using race_reach.step [OF r4 dev_race.claim_load] p st by simp
  have won: "request_claim 2000 demo_request demo_authorized = (True, demo_claimed)" by code_simp
  have r6: "race_reach demo_env \<lparr>dy_auth = demo_claimed,
      dy_flights = [Minting demo_request, Claiming demo_request]\<rparr>"
    using race_reach.step [OF r5 dev_race.claim [of _ "[]" demo_request "[Claiming demo_request]" 2000]]
      won by simp
  show ?thesis
    using race_reach.step [OF r6 dev_race.mint [of _ "[]" demo_request "[Claiming demo_request]"
          demo_env demo_ctx2 "fst (issueSessionFor demo_env demo_ctx2 demo_request demo_claimed)" demo_minted]]
    by (simp add: demo_minted_def)
qed

theorem device_sessions_need_approvals_witness:
  "logged_count demo_uuid demo_minted \<le> approved_count demo_uuid demo_minted \<and>
   logged_count demo_uuid demo_minted = 1 \<and>
   fst (request_claim 2001 demo_request demo_minted) = False"
proof -
  have "logged_count demo_uuid demo_minted = 1"
    and "fst (request_claim 2001 demo_request demo_minted) = False" by code_simp+
  with device_sessions_need_approvals [OF demo_race, of demo_uuid] show ?thesis by simp
qed

section \<open>What interleaving can still do\<close>

text \<open>
  The writes of \<^verbatim>\<open>authorize\<close> and \<^verbatim>\<open>deny\<close> are not conditional on the status they checked.  A
  denial the caller was told has succeeded can be overwritten by an approval whose check was
  made before it, and the requesting device is then logged in.
\<close>

lemma denied_request_still_grants_session:
  "let load = authorize_load demo_env 2000 demo_uuid 1 ''secret'' demo_requested;
       denied = deny 2001 demo_uuid 1 (snd load);
       late = authorize_commit 2002 (request_row demo_uuid demo_requested) 1 (snd denied);
       polled = poll demo_env demo_ctx2 demo_uuid ''t1'' late
   in is_Inr (fst load) \<and> fst denied = Inr () \<and> logged_count demo_uuid (snd polled) = 1"
  by code_simp

text \<open>
  Likewise a second approval in flight makes a request that was already consumed claimable
  again: one request, two sessions.
\<close>

lemma consumed_request_grants_second_session:
  "let load = authorize_load demo_env 2000 demo_uuid 1 ''secret'' demo_requested;
       late = authorize_commit 2002 (request_row demo_uuid demo_requested) 1 demo_polled;
       polled = poll demo_env (demo_ctx2\<lparr>c_token := ''t3''\<rparr>) demo_uuid ''t1'' late
   in is_Inr (fst load) \<and> logged_count demo_uuid demo_polled = 1
      \<and> logged_count demo_uuid (snd polled) = 2"
  by code_simp

end
