(* ===== verification/Auth_Http.thy ===== *)
theory Auth_Http
  imports Session_Properties Request_Security Device_System
begin

text \<open>
  The HTTP surface of the Auth module: \<^verbatim>\<open>auth/auth-cookies.ts\<close>, \<^verbatim>\<open>auth/auth-response.ts\<close> and
  the routes of \<^verbatim>\<open>auth/auth.controller.ts\<close>, \<^verbatim>\<open>auth/session.controller.ts\<close>,
  \<^verbatim>\<open>auth/authorization-request.controller.ts\<close> and \<^verbatim>\<open>auth/admin.controller.ts\<close>.  A route returns
  its body or the thrown value, the cookie changes of its response in order, and the next state;
  the browser applies the changes to its jar, where a cookie is identified by name and path.
\<close>

section \<open>Cookies\<close>

record cookie =
  ck_name :: string
  ck_value :: string
  ck_path :: string
  ck_httpOnly :: bool
  ck_secure :: bool
  ck_sameSite :: string
  ck_maxAge :: js_value

datatype cookie_op = SetCookie cookie | ClearCookie string string

type_synonym jar = "string \<times> string \<Rightarrow> cookie option"

fun apply_op :: "cookie_op \<Rightarrow> jar \<Rightarrow> jar" where
  "apply_op (SetCookie c) j = j((ck_name c, ck_path c) \<mapsto> c)"
| "apply_op (ClearCookie name path) j = j((name, path) := None)"

definition apply_ops :: "cookie_op list \<Rightarrow> jar \<Rightarrow> jar" where
  "apply_ops ops j = fold apply_op ops j"

definition ACCESS_TOKEN_COOKIE :: string where "ACCESS_TOKEN_COOKIE = ''access_token''"
definition REFRESH_TOKEN_COOKIE :: string where "REFRESH_TOKEN_COOKIE = ''refresh_token''"
definition LOGGED_IN_COOKIE :: string where "LOGGED_IN_COOKIE = ''logged_in''"
definition REFRESH_TOKEN_COOKIE_PATH :: string where "REFRESH_TOKEN_COOKIE_PATH = ''/auth''"

definition DEFAULT_ACCESS_TOKEN_TTL_MS :: int where
  "DEFAULT_ACCESS_TOKEN_TTL_MS = 15 * 60 * 1000"

definition setSessionCookies :: "env \<Rightarrow> int \<Rightarrow> auth_result \<Rightarrow> cookie_op list" where
  "setSessionCookies e now result =
     (let refreshMaxAge = JNumber (Finite (max 0 (res_refreshTokenExpiresAt result - now)))
      in [SetCookie \<lparr>ck_name = ACCESS_TOKEN_COOKIE, ck_value = res_accessToken result, ck_path = ''/'',
            ck_httpOnly = True, ck_secure = True, ck_sameSite = ''strict'',
            ck_maxAge = config_get_default e ''KERGHAN_ACCESS_TOKEN_TTL_MS'' DEFAULT_ACCESS_TOKEN_TTL_MS\<rparr>,
          SetCookie \<lparr>ck_name = REFRESH_TOKEN_COOKIE, ck_value = res_refreshToken result,
            ck_path = REFRESH_TOKEN_COOKIE_PATH, ck_httpOnly = True, ck_secure = True,
            ck_sameSite = ''strict'', ck_maxAge = refreshMaxAge\<rparr>,
          SetCookie \<lparr>ck_name = LOGGED_IN_COOKIE, ck_value = ''1'', ck_path = ''/'', ck_httpOnly = False,
            ck_secure = True, ck_sameSite = ''strict'', ck_maxAge = refreshMaxAge\<rparr>])"

definition clearSessionCookies :: "cookie_op list" where
  "clearSessionCookies = [ClearCookie ACCESS_TOKEN_COOKIE ''/'',
     ClearCookie REFRESH_TOKEN_COOKIE REFRESH_TOKEN_COOKIE_PATH, ClearCookie LOGGED_IN_COOKIE ''/'']"

record request =
  rq_cookies :: "string \<Rightarrow> string option"
  rq_forwardedFor :: "string option"
  rq_remoteAddress :: "string option"
  rq_userAgent :: "string option"

definition readRefreshToken :: "request \<Rightarrow> string option" where
  "readRefreshToken req =
     (case rq_cookies req REFRESH_TOKEN_COOKIE of
        Some t \<Rightarrow> if t \<noteq> [] then Some t else None
      | None \<Rightarrow> None)"

definition resolveRefreshToken :: "request \<Rightarrow> string option \<Rightarrow> string option" where
  "resolveRefreshToken req fallbackToken =
     (case readRefreshToken req of
        Some t \<Rightarrow> Some t
      | None \<Rightarrow> if truthy fallbackToken then fallbackToken else None)"

definition is_unauthorized :: "exn \<Rightarrow> bool" where
  "is_unauthorized x = (case x of HttpExn h \<Rightarrow> ex_status h = 401 | _ \<Rightarrow> False)"

definition clearSessionCookiesOnUnauthorized ::
  "string option \<Rightarrow> (string \<Rightarrow> auth_state \<Rightarrow> ('a, auth_state) outcome) \<Rightarrow> auth_state
     \<Rightarrow> (exn + 'a) \<times> cookie_op list \<times> auth_state" where
  "clearSessionCookiesOnUnauthorized token action s =
     (case (if \<not> truthy token then (Inl (Unauthorized ''Missing refresh token''), s)
            else action (the token) s) of
        (Inr r, s1) \<Rightarrow> (Inr r, [], s1)
      | (Inl x, s1) \<Rightarrow> (Inl x, if is_unauthorized x then clearSessionCookies else [], s1))"

section \<open>Responses\<close>

record public_user =
  pu_id :: nat
  pu_username :: string
  pu_email :: string
  pu_isAdmin :: bool

definition serializeUser :: "user \<Rightarrow> public_user" where
  "serializeUser u = \<lparr>pu_id = u_id u, pu_username = u_username u, pu_email = u_email u,
     pu_isAdmin = u_isAdmin u\<rparr>"

definition respondWithSession :: "env \<Rightarrow> int \<Rightarrow> auth_result \<Rightarrow> public_user \<times> cookie_op list" where
  "respondWithSession e now result = (serializeUser (res_user result), setSessionCookies e now result)"

definition session_response ::
  "env \<Rightarrow> int \<Rightarrow> (auth_result, auth_state) outcome \<Rightarrow> (exn + public_user) \<times> cookie_op list \<times> auth_state" where
  "session_response e now out =
     (case out of
        (Inl x, s) \<Rightarrow> (Inl x, [], s)
      | (Inr r, s) \<Rightarrow> (case respondWithSession e now r of (body, ops) \<Rightarrow> (Inr body, ops, s)))"

section \<open>AuthController\<close>

definition trustedProxyHops :: "env \<Rightarrow> int" where
  "trustedProxyHops e = parseTrustedProxyHops (env_config e ''KERGHAN_TRUSTED_PROXY_HOPS'')"

definition extractClientRequestInfo :: "request \<Rightarrow> js_number \<Rightarrow> string option \<times> string" where
  "extractClientRequestInfo req hops =
     (extractIp (rq_forwardedFor req) (rq_remoteAddress req) hops,
      case rq_userAgent req of Some a \<Rightarrow> a | None \<Rightarrow> [])"

definition updateAccount_route ::
  "env \<Rightarrow> ctx \<Rightarrow> default_user_config \<Rightarrow> (auth_state \<Rightarrow> auth_state) \<Rightarrow> update_account_dto
     \<Rightarrow> access_token_payload \<Rightarrow> request \<Rightarrow> auth_state \<Rightarrow> (account_summary, auth_state) outcome" where
  "updateAccount_route e c cfg race dto user req s =
     updateAccount e c cfg race (pl_sub user) dto (readRefreshToken req) s"

definition login_route ::
  "env \<Rightarrow> ctx \<Rightarrow> string \<Rightarrow> string \<Rightarrow> bool option \<Rightarrow> auth_state
     \<Rightarrow> (exn + public_user) \<times> cookie_op list \<times> auth_state" where
  "login_route e c username password keepSignedIn s =
     session_response e (c_now c) (login e c username password keepSignedIn s)"

definition logout_route :: "env \<Rightarrow> int \<Rightarrow> request \<Rightarrow> auth_state \<Rightarrow> cookie_op list \<times> auth_state" where
  "logout_route e now req s =
     (let refreshToken = readRefreshToken req
      in (clearSessionCookies,
          if truthy refreshToken then logout e now (the refreshToken) s else s))"

definition recover_route ::
  "env \<Rightarrow> ctx \<Rightarrow> default_user_config \<Rightarrow> string \<Rightarrow> auth_state \<Rightarrow> (bool, auth_state) outcome" where
  "recover_route e c cfg email s =
     (case pr_recover e c cfg email s of (Inl x, s1) \<Rightarrow> (Inl x, s1) | (Inr _, s1) \<Rightarrow> (Inr True, s1))"

definition refresh_route ::
  "env \<Rightarrow> ctx \<Rightarrow> request \<Rightarrow> string option \<Rightarrow> auth_state
     \<Rightarrow> (exn + public_user) \<times> cookie_op list \<times> auth_state" where
  "refresh_route e c req fallbackToken s =
     (case clearSessionCookiesOnUnauthorized (resolveRefreshToken req fallbackToken)
             (\<lambda>token. refresh e c token) s of
        (Inl x, ops, s1) \<Rightarrow> (Inl x, ops, s1)
      | (Inr result, ops, s1) \<Rightarrow>
          (case respondWithSession e (c_now c) result of (body, ops2) \<Rightarrow> (Inr body, ops @ ops2, s1)))"

definition register_route ::
  "env \<Rightarrow> ctx \<Rightarrow> string \<Rightarrow> string \<Rightarrow> string \<Rightarrow> auth_state
     \<Rightarrow> (exn + public_user) \<times> cookie_op list \<times> auth_state" where
  "register_route e c username email password s =
     session_response e (c_now c) (register e c username email password s)"

definition resetPassword_route ::
  "env \<Rightarrow> ctx \<Rightarrow> default_user_config \<Rightarrow> string \<Rightarrow> string \<Rightarrow> auth_state \<Rightarrow> (bool, auth_state) outcome" where
  "resetPassword_route e c cfg token password s =
     (case resetPassword e c cfg token password s of
        (Inl x, s1) \<Rightarrow> (Inl x, s1) | (Inr _, s1) \<Rightarrow> (Inr True, s1))"

record status_body =
  sb_loggedIn :: bool
  sb_isAdmin :: bool
  sb_status :: "user_status option"

definition status_route ::
  "env \<Rightarrow> ctx \<Rightarrow> net \<Rightarrow> default_user_config \<Rightarrow> request \<Rightarrow> auth_state
     \<Rightarrow> (exn + status_body) \<times> cookie_op list \<times> auth_state" where
  "status_route e c n cfg req s =
     (let ip = (case fst (extractClientRequestInfo req (Finite (trustedProxyHops e))) of
            Some a \<Rightarrow> a | None \<Rightarrow> [])
      in case status e c n cfg (readRefreshToken req) ip s of
           (Inl x, s1) \<Rightarrow> (Inl x, [], s1)
         | (Inr r, s1) \<Rightarrow>
             (Inr \<lparr>sb_loggedIn = sr_loggedIn r, sb_isAdmin = sr_isAdmin r, sb_status = sr_status r\<rparr>,
              (case sr_session r of
                 Some session \<Rightarrow> setSessionCookies e (c_now c) session
               | None \<Rightarrow> if \<not> sr_loggedIn r \<and> sr_status r = None then clearSessionCookies else []),
              s1))"

section \<open>SessionController\<close>

definition sessions_mine_route ::
  "env \<Rightarrow> int \<Rightarrow> request \<Rightarrow> access_token_payload \<Rightarrow> auth_state \<Rightarrow> active_session list" where
  "sessions_mine_route e now req user s = listActive e now (pl_sub user) (readRefreshToken req) s"

definition revokeOthers_route ::
  "env \<Rightarrow> int \<Rightarrow> request \<Rightarrow> access_token_payload \<Rightarrow> auth_state \<Rightarrow> (unit, auth_state) outcome" where
  "revokeOthers_route e now req user s = revokeOthers e now (pl_sub user) (readRefreshToken req) s"

definition revoke_route ::
  "int \<Rightarrow> string \<Rightarrow> access_token_payload \<Rightarrow> auth_state \<Rightarrow> (unit, auth_state) outcome" where
  "revoke_route now uuid user s = session_revoke now (pl_sub user) uuid s"

section \<open>AuthorizationRequestController\<close>

text \<open>
  With \<^verbatim>\<open>KERGHAN_TRUSTED_PROXY_HOPS=0\<close> and a forwarding header no address is selected and
  \<^verbatim>\<open>undefined\<close> reaches the service; what the database layer does with an \<^verbatim>\<open>undefined\<close> column is the
  parameter \<open>onUndefinedIp\<close>.
\<close>

definition create_request_route ::
  "env \<Rightarrow> ctx \<Rightarrow> (auth_state \<Rightarrow> (created_authorization_request, auth_state) outcome) \<Rightarrow> string
     \<Rightarrow> bool option \<Rightarrow> request \<Rightarrow> auth_state \<Rightarrow> (created_authorization_request, auth_state) outcome" where
  "create_request_route e c onUndefinedIp username keepSignedIn req s =
     (case extractClientRequestInfo req (Finite (trustedProxyHops e)) of
        (None, _) \<Rightarrow> onUndefinedIp s
      | (Some ip, userAgent) \<Rightarrow>
          request_create e c username ip userAgent
            (case keepSignedIn of Some k \<Rightarrow> k | None \<Rightarrow> False) s)"

datatype poll_body = PollBody request_status "public_user option"

definition poll_route ::
  "env \<Rightarrow> ctx \<Rightarrow> string \<Rightarrow> string \<Rightarrow> auth_state \<Rightarrow> (exn + poll_body) \<times> cookie_op list \<times> auth_state" where
  "poll_route e c uuid pollToken s =
     (case poll e c uuid pollToken s of
        (Inl x, s1) \<Rightarrow> (Inl x, [], s1)
      | (Inr (PollApproved r), s1) \<Rightarrow>
          (case respondWithSession e (c_now c) r of
             (body, ops) \<Rightarrow> (Inr (PollBody Approved (Some body)), ops, s1))
      | (Inr (PollStatus st), s1) \<Rightarrow> (Inr (PollBody st None), [], s1))"

definition requests_mine_route ::
  "int \<Rightarrow> access_token_payload \<Rightarrow> auth_state \<Rightarrow> open_authorization_request list" where
  "requests_mine_route now user s = listOpenForUser now (pl_sub user) s"

definition authorize_route ::
  "env \<Rightarrow> int \<Rightarrow> string \<Rightarrow> string \<Rightarrow> access_token_payload \<Rightarrow> auth_state \<Rightarrow> (bool, auth_state) outcome" where
  "authorize_route e now uuid password user s =
     (case authorize e now uuid (pl_sub user) password s of
        (Inl x, s1) \<Rightarrow> (Inl x, s1) | (Inr _, s1) \<Rightarrow> (Inr True, s1))"

definition deny_request_route ::
  "int \<Rightarrow> string \<Rightarrow> access_token_payload \<Rightarrow> auth_state \<Rightarrow> (bool, auth_state) outcome" where
  "deny_request_route now uuid user s =
     (case deny now uuid (pl_sub user) s of
        (Inl x, s1) \<Rightarrow> (Inl x, s1) | (Inr _, s1) \<Rightarrow> (Inr True, s1))"

section \<open>AdminController\<close>

record admin_user_view =
  av_id :: nat
  av_username :: string
  av_email :: string
  av_isAdmin :: bool
  av_createdAt :: int
  av_status :: user_status

definition admin_serializeUser :: "user \<Rightarrow> admin_user_view" where
  "admin_serializeUser u = \<lparr>av_id = u_id u, av_username = u_username u, av_email = u_email u,
     av_isAdmin = u_isAdmin u, av_createdAt = u_createdAt u, av_status = u_status u\<rparr>"

definition map_body :: "('a \<Rightarrow> 'b) \<Rightarrow> ('a, 's) outcome \<Rightarrow> ('b, 's) outcome" where
  "map_body f out = (case out of (Inl x, s) \<Rightarrow> (Inl x, s) | (Inr r, s) \<Rightarrow> (Inr (f r), s))"

definition approve_route :: "nat \<Rightarrow> auth_state \<Rightarrow> (admin_user_view, auth_state) outcome" where
  "approve_route i s = map_body admin_serializeUser (approveUser i s)"

definition deny_route ::
  "env \<Rightarrow> int \<Rightarrow> default_user_config \<Rightarrow> nat \<Rightarrow> access_token_payload \<Rightarrow> auth_state
     \<Rightarrow> (admin_user_view, auth_state) outcome" where
  "deny_route e now cfg i currentUser s =
     map_body admin_serializeUser (denyUser e now cfg i (pl_sub currentUser) s)"

definition edit_route ::
  "env \<Rightarrow> ctx \<Rightarrow> default_user_config \<Rightarrow> nat \<Rightarrow> user_field_changes \<Rightarrow> auth_state
     \<Rightarrow> (admin_user_view, auth_state) outcome" where
  "edit_route e c cfg i dto s = map_body admin_serializeUser (editUser e c cfg i dto s)"

definition search_route ::
  "(string \<Rightarrow> string \<Rightarrow> bool) \<Rightarrow> string option \<Rightarrow> user_status option \<Rightarrow> access_token_payload \<Rightarrow> auth_state
     \<Rightarrow> admin_user_view list \<times> nat" where
  "search_route like q want currentUser s =
     (map admin_serializeUser (searchUsers like q want s), pl_sub currentUser)"

definition recoveryLink_route ::
  "env \<Rightarrow> ctx \<Rightarrow> default_user_config \<Rightarrow> nat \<Rightarrow> auth_state \<Rightarrow> (string, auth_state) outcome" where
  "recoveryLink_route e c cfg i s = generateRecoveryLink e c cfg i s"

definition sendRecoveryEmail_route ::
  "env \<Rightarrow> ctx \<Rightarrow> default_user_config \<Rightarrow> mail_config \<Rightarrow> (string \<Rightarrow> email_method option)
     \<Rightarrow> template_registry \<Rightarrow> nat \<Rightarrow> auth_state \<times> email_message list
     \<Rightarrow> (bool, auth_state \<times> email_message list) outcome" where
  "sendRecoveryEmail_route e c cfg mcfg methods templates i st =
     sendRecoveryEmail e c cfg mcfg methods templates i st"

section \<open>Cookies follow the session\<close>

lemma apply_ops_simps [simp]:
  "apply_ops [] j = j" "apply_ops (x # xs) j = apply_ops xs (apply_op x j)"
  "apply_ops (xs @ ys) j = apply_ops ys (apply_ops xs j)"
  by (simp_all add: apply_ops_def)

lemmas cookie_names = ACCESS_TOKEN_COOKIE_def REFRESH_TOKEN_COOKIE_def LOGGED_IN_COOKIE_def
  REFRESH_TOKEN_COOKIE_PATH_def

lemma cleared_jar:
  "apply_ops clearSessionCookies j (ACCESS_TOKEN_COOKIE, ''/'') = None"
  "apply_ops clearSessionCookies j (REFRESH_TOKEN_COOKIE, REFRESH_TOKEN_COOKIE_PATH) = None"
  "apply_ops clearSessionCookies j (LOGGED_IN_COOKIE, ''/'') = None"
  by (simp_all add: clearSessionCookies_def cookie_names)

lemma refresh_cookie_set:
  "\<exists>ck. apply_ops (setSessionCookies e now r) j (REFRESH_TOKEN_COOKIE, REFRESH_TOKEN_COOKIE_PATH) = Some ck
     \<and> ck_value ck = res_refreshToken r \<and> ck_httpOnly ck"
  by (simp add: setSessionCookies_def Let_def cookie_names)

lemma login_issues:
  assumes "login e c n pw k s = (Inr r, s')"
  shows "\<exists>u k0 si s0. issueTokens e c u k0 si s0 = (Inr r, s')"
  using assms by (auto simp: login_def split: sum.splits if_splits)

lemma register_issues:
  assumes "register e c n m pw s = (Inr r, s')"
  shows "\<exists>u k0 si s0. issueTokens e c u k0 si s0 = (Inr r, s')"
  using assms by (auto simp: register_def split: sum.splits prod.splits)

lemma refresh_issues:
  assumes "refresh e c tok s = (Inr r, s')"
  shows "\<exists>u k0 si s0. issueTokens e c u k0 si s0 = (Inr r, s')"
  using assms by (auto simp: refresh_def split: sum.splits prod.splits)

lemma session_response_Inr:
  assumes "session_response e now out = (Inr body, ops, s')"
  shows "\<exists>r. out = (Inr r, s') \<and> body = serializeUser (res_user r) \<and> ops = setSessionCookies e now r"
  using assms by (auto simp: session_response_def respondWithSession_def split: prod.splits sum.splits)

lemma refresh_route_Inr:
  assumes "refresh_route e c req fb s = (Inr body, ops, s')"
  shows "\<exists>tok r. refresh e c tok s = (Inr r, s') \<and> body = serializeUser (res_user r)
           \<and> ops = setSessionCookies e (c_now c) r"
  using assms
  by (auto simp: refresh_route_def respondWithSession_def clearSessionCookiesOnUnauthorized_def
      split: prod.splits sum.splits if_splits)

lemma issued_session_usable:
  assumes "issueTokens e c u k si s0 = (Inr r, s')" and "c_token c \<noteq> []"
  shows "\<exists>ck q. apply_ops (setSessionCookies e now r) j (REFRESH_TOKEN_COOKIE, REFRESH_TOKEN_COOKIE_PATH) = Some ck
    \<and> ck_httpOnly ck \<and> findActiveToken e (c_now c) (Some (ck_value ck)) s' = Some q
    \<and> rt_userId q = pu_id (serializeUser (res_user r))"
proof -
  have pos: "c_now c < res_refreshTokenExpiresAt r"
    using issueTokens_Inr(5) [OF assms(1)] refreshTokenTtlMs_pos [of e k s0] by simp
  from minted_token_found [OF assms pos] obtain q
    where "findActiveToken e (c_now c) (Some (res_refreshToken r)) s' = Some q" and "rt_userId q = u_id u"
    by blast
  with refresh_cookie_set [of e now r j] issueTokens_Inr(3) [OF assms(1)] show ?thesis
    by (auto simp: serializeUser_def)
qed

text \<open>
  C29. The browser stays in step with the server: after a successful login, registration or
  refresh its \<^verbatim>\<open>refresh_token\<close> cookie, unreadable to scripts, identifies an active session of the
  user named in the body; and a refresh answered \<^verbatim>\<open>401\<close> leaves no session cookie behind.
\<close>

theorem session_cookies_in_step:
  "(\<forall>body ops s'. c_token c \<noteq> [] \<and>
      (login_route e c n pw k s = (Inr body, ops, s') \<or> register_route e c n m pw s = (Inr body, ops, s')
       \<or> refresh_route e c req fb s = (Inr body, ops, s')) \<longrightarrow>
      (\<exists>ck q. apply_ops ops j (REFRESH_TOKEN_COOKIE, REFRESH_TOKEN_COOKIE_PATH) = Some ck \<and> ck_httpOnly ck
         \<and> findActiveToken e (c_now c) (Some (ck_value ck)) s' = Some q \<and> rt_userId q = pu_id body))
   \<and> (\<forall>x ops s'. refresh_route e c req fb s = (Inl x, ops, s') \<and> is_unauthorized x \<longrightarrow>
      apply_ops ops j (ACCESS_TOKEN_COOKIE, ''/'') = None
      \<and> apply_ops ops j (REFRESH_TOKEN_COOKIE, REFRESH_TOKEN_COOKIE_PATH) = None
      \<and> apply_ops ops j (LOGGED_IN_COOKIE, ''/'') = None)"
proof (intro conjI allI impI)
  fix body ops s'
  assume h: "c_token c \<noteq> [] \<and>
      (login_route e c n pw k s = (Inr body, ops, s') \<or> register_route e c n m pw s = (Inr body, ops, s')
       \<or> refresh_route e c req fb s = (Inr body, ops, s'))"
  then obtain r where "\<exists>u k0 si s0. issueTokens e c u k0 si s0 = (Inr r, s')"
    and "body = serializeUser (res_user r)" and "ops = setSessionCookies e (c_now c) r"
    unfolding login_route_def register_route_def
    by (meson login_issues register_issues refresh_issues session_response_Inr refresh_route_Inr)
  with h issued_session_usable show "\<exists>ck q. apply_ops ops j (REFRESH_TOKEN_COOKIE, REFRESH_TOKEN_COOKIE_PATH)
      = Some ck \<and> ck_httpOnly ck
      \<and> findActiveToken e (c_now c) (Some (ck_value ck)) s' = Some q \<and> rt_userId q = pu_id body" by blast
next
  fix x ops s'
  assume "refresh_route e c req fb s = (Inl x, ops, s') \<and> is_unauthorized x"
  then have "ops = clearSessionCookies"
    by (auto simp: refresh_route_def clearSessionCookiesOnUnauthorized_def
        split: prod.splits sum.splits if_splits)
  then show "apply_ops ops j (ACCESS_TOKEN_COOKIE, ''/'') = None"
    and "apply_ops ops j (REFRESH_TOKEN_COOKIE, REFRESH_TOKEN_COOKIE_PATH) = None"
    and "apply_ops ops j (LOGGED_IN_COOKIE, ''/'') = None"
    by (simp_all add: cleared_jar)
qed

theorem session_cookies_in_step_witness:
  "\<exists>body ops s' ck q. login_route demo_env demo_ctx ''demo'' ''secret'' None demo_state = (Inr body, ops, s')
     \<and> apply_ops ops Map.empty (REFRESH_TOKEN_COOKIE, REFRESH_TOKEN_COOKIE_PATH) = Some ck
     \<and> findActiveToken demo_env 1000 (Some (ck_value ck)) s' = Some q \<and> rt_userId q = pu_id body"
proof -
  have "is_Inr (fst (login_route demo_env demo_ctx ''demo'' ''secret'' None demo_state))" by code_simp
  then obtain body ops s' where h: "login_route demo_env demo_ctx ''demo'' ''secret'' None demo_state
      = (Inr body, ops, s')" by (metis is_Inr_outcome prod.collapse)
  have "c_token demo_ctx \<noteq> []" and n: "c_now demo_ctx = 1000" by (simp_all add: demo_ctx_def)
  with h session_cookies_in_step [of demo_ctx demo_env "''demo''" "''secret''" None demo_state "[]"
      "\<lparr>rq_cookies = Map.empty, rq_forwardedFor = None, rq_remoteAddress = None, rq_userAgent = None\<rparr>" None Map.empty]
  show ?thesis by fastforce
qed

section \<open>Revocation is immediate\<close>

text \<open>
  Revoking a session takes effect at once: from then on the gate admits no request on behalf
  of the user under that session, however long the access token would still be valid.
\<close>

theorem revoke_closes_gate:
  assumes "revoke_route now sid user s = (Inr x, s')"
    and "jwt_canActivate vrf ks (\<lambda>sid. findActiveSessionUser t sid s') isPublic cookie = Inr (Some p)"
  shows "\<not> (pl_sub p = pl_sub user \<and> pl_sid p = sid)"
proof
  assume p: "pl_sub p = pl_sub user \<and> pl_sid p = sid"
  have s': "s' = revoke_matching now USER_REVOKED
      (\<lambda>r. rt_userId r = pl_sub user \<and> rt_sessionUuid r = sid) s"
    using session_revoke_Inr(1) [of now "pl_sub user" sid s x s'] assms(1) by (simp add: revoke_route_def)
  have "session_active t sid (pl_sub user) s'"
    using auth_lookup.gate_sound [OF assms(2)] p by simp
  then show False unfolding s' session_active_revoked by blast
qed

definition demo_payload :: access_token_payload where
  "demo_payload = \<lparr>pl_sub = 1, pl_sid = ''0b5d6f1e-0000-4000-8000-0123456789ac'', pl_username = ''demo'',
     pl_isAdmin = False\<rparr>"

theorem revoke_closes_gate_witness:
  "\<exists>s' p. revoke_route 2500 demo_uuid demo_payload demo_two_sessions = (Inr (), s')
     \<and> jwt_canActivate demo_verify [] (\<lambda>sid. findActiveSessionUser 2500 sid s') False
         (Some (''jwt:'' @ pl_sid demo_payload)) = Inr (Some p)
     \<and> \<not> (pl_sub p = pl_sub demo_payload \<and> pl_sid p = demo_uuid)"
proof -
  let ?s = "snd (revoke_route 2500 demo_uuid demo_payload demo_two_sessions)"
  have "is_Inr (fst (revoke_route 2500 demo_uuid demo_payload demo_two_sessions))" by code_simp
  then have h: "revoke_route 2500 demo_uuid demo_payload demo_two_sessions = (Inr (), ?s)"
    using is_Inr_outcome by fastforce
  have g: "jwt_canActivate demo_verify [] (\<lambda>sid. findActiveSessionUser 2500 sid ?s) False
         (Some (''jwt:'' @ pl_sid demo_payload)) = Inr (Some demo_payload)" by code_simp
  from revoke_closes_gate [OF h g] h g show ?thesis by blast
qed

text \<open>
  C31. An administrator route is reached only through all three guards: the origin guard let the
  request pass, the caller's session is active at that moment and belongs to an approved user,
  and that user is an administrator in the database, whatever the access token says.
\<close>

theorem admin_routes_need_admin:
  assumes "guard_chain parseUrl cors vrf ks (\<lambda>sid. findActiveSessionUser now sid s) isPublic True r cookie = Inr w"
  shows "\<exists>p. w = Some p \<and> origin_canActivate parseUrl cors r = Inr True
    \<and> session_active now (pl_sid p) (pl_sub p) s
    \<and> (\<exists>u \<in> set (rows (users s)). u_id u = pl_sub p \<and> u_status u = APPROVED \<and> u_isAdmin u)"
proof -
  from assms obtain b where o: "origin_canActivate parseUrl cors r = Inr b"
    and j: "jwt_canActivate vrf ks (\<lambda>sid. findActiveSessionUser now sid s) isPublic cookie = Inr w"
    and a: "\<exists>t. admin_canActivate True w = Inr t"
    by (auto simp: guard_chain_def split: sum.splits)
  from o have "b = True" by (auto simp: origin_canActivate_def split: if_splits option.splits)
  from a obtain p where p: "w = Some p" "pl_isAdmin p"
    by (auto simp: admin_canActivate_def split: option.splits if_splits)
  with j auth_lookup.gate_sound [of vrf ks now s isPublic cookie p] o \<open>b = True\<close> show ?thesis
    by (auto simp: approved_as_def)
qed

definition demo_admin_state :: auth_state where
  "demo_admin_state = demo_logged_in\<lparr>users := \<lparr>rows = [demo_user\<lparr>u_isAdmin := True\<rparr>], next_id = 2\<rparr>\<rparr>"

theorem admin_routes_need_admin_witness:
  "\<exists>p. guard_chain (\<lambda>_. None) None demo_verify [] (\<lambda>sid. findActiveSessionUser 1500 sid demo_admin_state) False True
       \<lparr>oc_method = ''POST'', oc_secFetchSite = Some ''same-origin'', oc_origin = None, oc_host = None\<rparr>
       (Some (''jwt:'' @ demo_uuid)) = Inr (Some p)
     \<and> session_active 1500 (pl_sid p) (pl_sub p) demo_admin_state"
proof -
  let ?p = "\<lparr>pl_sub = 1, pl_sid = demo_uuid, pl_username = ''demo'', pl_isAdmin = True\<rparr>"
  have h: "guard_chain (\<lambda>_. None) None demo_verify [] (\<lambda>sid. findActiveSessionUser 1500 sid demo_admin_state) False True
       \<lparr>oc_method = ''POST'', oc_secFetchSite = Some ''same-origin'', oc_origin = None, oc_host = None\<rparr>
       (Some (''jwt:'' @ demo_uuid)) = Inr (Some ?p)" by code_simp
  from admin_routes_need_admin [OF h] h show ?thesis by auto
qed

end
