(* ===== verification/Integration_State.thy ===== *)
theory Integration_State
  imports Session_Lookup Demo
begin

text \<open>
  The rows of the Integrations module (\<^verbatim>\<open>integrations/entities/*.ts\<close>), its state and its errors
  (\<^verbatim>\<open>integration-errors.ts\<close>, \<^verbatim>\<open>integration-http-errors.ts\<close>).  Bytes are characters; a JSON
  document is a \<open>json\<close> value.  Identifiers stored as text are compared by MySQL's collation when
  a request supplies them; key ids and digests, which only the server writes, exactly.
\<close>

section \<open>JSON documents\<close>

datatype json =
    JsonNull
  | JsonBool bool
  | JsonNum int
  | JsonStr string
  | JsonArr "json list"
  | JsonObj "(string \<times> json) list"

definition json_field :: "string \<Rightarrow> json \<Rightarrow> json option" where
  "json_field k v = (case v of JsonObj fs \<Rightarrow> map_of fs k | _ \<Rightarrow> None)"

section \<open>Entities\<close>

datatype integration_status = IsActive | IsInvalid | IsExpired | IsUndecryptable

datatype integration_test_result =
    TestSuccess | TestRejected | TestTransientError | TestUndecryptable

record integration =
  ig_id :: nat
  ig_uuid :: string
  ig_userId :: nat
  ig_provider :: string
  ig_type :: string
  ig_label :: string
  ig_labelNormalized :: string
  ig_status :: integration_status
  ig_statusReason :: "string option"
  ig_githubLogin :: string
  ig_expiresAt :: "int option"
  ig_lastTestedAt :: "int option"
  ig_lastTestResult :: "integration_test_result option"
  ig_metadata :: json
  ig_secretHint :: "string option"
  ig_secretKeyId :: string
  ig_secretIv :: string
  ig_secretAuthTag :: string
  ig_secretCiphertext :: string
  ig_createdAt :: int
  ig_updatedAt :: int

record credential_lockout =
  cl_id :: nat
  cl_userId :: nat
  cl_failedAttempts :: int
  cl_lockedUntil :: "int option"

datatype state_purpose = PurposeCreate | PurposeReplace

record oauth_state =
  os_id :: nat
  os_uuid :: string
  os_userId :: nat
  os_secretHash :: string
  os_purpose :: state_purpose
  os_label :: "string option"
  os_integrationUuid :: "string option"
  os_codeVerifier :: string
  os_expiresAt :: int

datatype github_app_stage = StageRedirect | StageSelect

record github_app_state =
  gs_id :: nat
  gs_uuid :: string
  gs_userId :: nat
  gs_secretHash :: string
  gs_stage :: github_app_stage
  gs_purpose :: state_purpose
  gs_label :: "string option"
  gs_integrationUuid :: "string option"
  gs_candidateInstallationIds :: "int list option"
  gs_verifiedBy :: "string option"
  gs_expiresAt :: int

section \<open>The state of the module\<close>

record integ_state =
  integrations :: "integration table"
  cred_lockouts :: "credential_lockout table"
  oauth_states :: "oauth_state table"
  github_app_states :: "github_app_state table"

definition init_integ_state :: integ_state where
  "init_integ_state = \<lparr>integrations = empty_table, cred_lockouts = empty_table,
     oauth_states = empty_table, github_app_states = empty_table\<rparr>"

text \<open>What one request draws from the machine: the time, a UUID, an IV and two random secrets.\<close>

record ictx =
  ic_now :: int
  ic_uuid :: string
  ic_iv :: string
  ic_secret :: string
  ic_verifier :: string

section \<open>Errors\<close>

definition countsTowardCoolOff :: "credential_error \<Rightarrow> bool" where
  "countsTowardCoolOff x = (case x of
       CredentialInvalidError \<Rightarrow> True
     | InsufficientPermissionsError _ \<Rightarrow> True
     | InstallationNotAccessibleError \<Rightarrow> True
     | InstallationSuspendedError \<Rightarrow> True
     | GithubUnavailableError \<Rightarrow> False
     | GithubRateLimitedError _ \<Rightarrow> False)"

definition invalidMetadataError :: "string \<Rightarrow> exn" where
  "invalidMetadataError t = ErrorExn (''invalid '' @ t @ '' integration metadata'')"

definition integrationNotFound :: exn where
  "integrationNotFound = NotFound ''Integration not found''"

definition flowUnsupported :: exn where
  "flowUnsupported = http_exn_code 400 ''INTEGRATION_FLOW_UNSUPPORTED''
     ''This integration type does not support pasting a credential''"

definition labelTaken :: exn where
  "labelTaken = ConflictCode ''INTEGRATION_LABEL_TAKEN''
     ''label is already used by another integration''"

definition limitReached :: exn where
  "limitReached = ConflictCode ''INTEGRATIONS_LIMIT_REACHED'' ''Integration limit reached''"

definition credentialLocked :: exn where
  "credentialLocked = http_exn_code 423 ''INTEGRATION_CREDENTIAL_LOCKED''
     ''Too many rejected credentials; try again later''"

definition testCooldown :: "int \<Rightarrow> exn" where
  "testCooldown retryAfterSeconds = HttpExn \<lparr>ex_status = 429, ex_code = Some ''INTEGRATION_TEST_COOLDOWN'',
     ex_message = Msg ''This integration was tested recently; try again later'',
     ex_retryAfterSeconds = Some retryAfterSeconds\<rparr>"

definition githubUnavailable :: exn where
  "githubUnavailable = http_exn_code 502 ''GITHUB_UNAVAILABLE''
     ''GitHub is unavailable; try again later''"

definition githubRateLimited :: "int option \<Rightarrow> exn" where
  "githubRateLimited retryAfterSeconds = HttpExn \<lparr>ex_status = 503, ex_code = Some ''GITHUB_RATE_LIMITED'',
     ex_message = Msg ''GitHub rate limit reached; try again later'',
     ex_retryAfterSeconds = retryAfterSeconds\<rparr>"

definition invalidRedirectState :: exn where
  "invalidRedirectState = http_exn_code 400 ''INTEGRATION_REDIRECT_STATE_INVALID''
     ''This GitHub authorization link expired or was already used''"

text \<open>The fixed messages of the error classes' constructors.\<close>

definition credential_error_message :: "credential_error \<Rightarrow> string" where
  "credential_error_message x = (case x of
       CredentialInvalidError \<Rightarrow> ''GitHub rejected the credential''
     | InsufficientPermissionsError m \<Rightarrow> m
     | InstallationNotAccessibleError \<Rightarrow>
         ''Your GitHub account cannot access that installation of the GitHub App''
     | InstallationSuspendedError \<Rightarrow> ''This installation is suspended on GitHub''
     | GithubUnavailableError \<Rightarrow> ''GitHub is unavailable''
     | GithubRateLimitedError _ \<Rightarrow> ''GitHub rate limit reached'')"

definition httpErrorFor :: "credential_error \<Rightarrow> exn" where
  "httpErrorFor x = (case x of
       CredentialInvalidError \<Rightarrow>
         UnprocessableCode ''INTEGRATION_CREDENTIAL_INVALID'' ''GitHub rejected the credential''
     | InsufficientPermissionsError _ \<Rightarrow>
         UnprocessableCode ''INTEGRATION_INSUFFICIENT_PERMISSIONS'' (credential_error_message x)
     | InstallationNotAccessibleError \<Rightarrow>
         UnprocessableCode ''INTEGRATION_INSTALLATION_NOT_ACCESSIBLE'' (credential_error_message x)
     | InstallationSuspendedError \<Rightarrow>
         UnprocessableCode ''INTEGRATION_INSTALLATION_SUSPENDED'' (credential_error_message x)
     | GithubRateLimitedError n \<Rightarrow> githubRateLimited n
     | GithubUnavailableError \<Rightarrow> githubUnavailable)"

end
