(* ===== verification/Integrations_Key.thy ===== *)
theory Integrations_Key
  imports Integration_State
begin

text \<open>
  \<^verbatim>\<open>integrations/integrations-key.ts\<close>: the keys that encrypt integration secrets, read and
  validated at boot.  Bytes are characters; \<^verbatim>\<open>createHash('sha256')...digest('hex')\<close> is the
  parameter \<open>sha256hex\<close>; Node's base64 codec is written out (the decoder on the strings
  \<^verbatim>\<open>BASE64_PATTERN\<close> lets through, where nothing is skipped).
\<close>

section \<open>Base64\<close>

definition b64_char :: "nat \<Rightarrow> char" where
  "b64_char n = (if n < 26 then char_of (n + 65) else if n < 52 then char_of (n + 71)
     else if n < 62 then char_of (n - 4) else if n = 62 then CHR ''+'' else CHR ''/'')"

definition b64_value :: "char \<Rightarrow> nat option" where
  "b64_value c = (let n = (of_char c :: nat)
     in if 65 \<le> n \<and> n \<le> 90 then Some (n - 65) else if 97 \<le> n \<and> n \<le> 122 then Some (n - 71)
        else if 48 \<le> n \<and> n \<le> 57 then Some (n + 4) else if n = 43 then Some 62
        else if n = 47 then Some 63 else None)"

fun base64_encode :: "string \<Rightarrow> string" where
  "base64_encode [] = []"
| "base64_encode [a] =
     [b64_char (of_char a div 4), b64_char (of_char a mod 4 * 16), CHR ''='', CHR ''='']"
| "base64_encode [a, b] =
     [b64_char (of_char a div 4), b64_char (of_char a mod 4 * 16 + of_char b div 16),
      b64_char (of_char b mod 16 * 4), CHR ''='']"
| "base64_encode (a # b # c # r) =
     b64_char (of_char a div 4) # b64_char (of_char a mod 4 * 16 + of_char b div 16)
     # b64_char (of_char b mod 16 * 4 + of_char c div 64) # b64_char (of_char c mod 64)
     # base64_encode r"

fun base64_bytes :: "nat list \<Rightarrow> string" where
  "base64_bytes (w # x # y # z # r) =
     char_of (w * 4 + x div 16) # char_of (x mod 16 * 16 + y div 4) # char_of (y mod 4 * 64 + z)
     # base64_bytes r"
| "base64_bytes [w, x, y] = [char_of (w * 4 + x div 16), char_of (x mod 16 * 16 + y div 4)]"
| "base64_bytes [w, x] = [char_of (w * 4 + x div 16)]"
| "base64_bytes _ = []"

definition base64_body :: "string \<Rightarrow> string" where
  "base64_body s = takeWhile (\<lambda>c. c \<noteq> CHR ''='') s"

definition base64_decode :: "string \<Rightarrow> string" where
  "base64_decode s = base64_bytes (List.map_filter b64_value (base64_body s))"

text \<open>\<^verbatim>\<open>BASE64_PATTERN\<close>: one or more characters of the alphabet, then at most two \<open>=\<close>.\<close>

definition base64_pattern :: "string \<Rightarrow> bool" where
  "base64_pattern s = (let body = base64_body s; pad = drop (length body) s
     in body \<noteq> [] \<and> list_all (\<lambda>c. b64_value c \<noteq> None) body
        \<and> list_all (\<lambda>c. c = CHR ''='') pad \<and> length pad \<le> 2)"

section \<open>Key sets\<close>

record key_entry =
  ke_key :: string
  ke_keyId :: string

record integrations_key =
  ik_current :: key_entry
  ik_previous :: "key_entry list"
  ik_byId :: "(string \<times> string) list"

definition KEY_ID_LENGTH :: nat where "KEY_ID_LENGTH = 8"

definition INTEGRATIONS_KEY_BYTES :: nat where "INTEGRATIONS_KEY_BYTES = 32"

definition INTEGRATIONS_KEY_DEV_PLACEHOLDER :: string where
  "INTEGRATIONS_KEY_DEV_PLACEHOLDER = ''a2VyZ2hhbi1kZXYtaW50ZWdyYXRpb25zLWtleS0zMmI=''"

definition integrationsKeyIdFor :: "(string \<Rightarrow> string) \<Rightarrow> string \<Rightarrow> string" where
  "integrationsKeyIdFor sha256hex key = take KEY_ID_LENGTH (sha256hex key)"

definition to_entry :: "(string \<Rightarrow> string) \<Rightarrow> string \<Rightarrow> key_entry" where
  "to_entry sha256hex key = \<lparr>ke_key = key, ke_keyId = integrationsKeyIdFor sha256hex key\<rparr>"

text \<open>The loop that fills the map by key id; \<^term>\<open>Inl i\<close> is the id met twice.\<close>

fun fill_by_id :: "key_entry list \<Rightarrow> (string \<times> string) list \<Rightarrow> string + (string \<times> string) list" where
  "fill_by_id [] m = Inr m"
| "fill_by_id (entry # es) m =
     (if map_of m (ke_keyId entry) \<noteq> None then Inl (ke_keyId entry)
      else fill_by_id es (m @ [(ke_keyId entry, ke_key entry)]))"

definition integrationsKeySetOf ::
  "(string \<Rightarrow> string) \<Rightarrow> string \<Rightarrow> string list \<Rightarrow> exn + integrations_key" where
  "integrationsKeySetOf sha256hex current previous =
     (let cur = to_entry sha256hex current; prev = map (to_entry sha256hex) previous
      in case fill_by_id (cur # prev) [] of
           Inl i \<Rightarrow> Inl (ErrorExn (''KERGHAN_PREVIOUS_INTEGRATIONS_KEYS holds two keys sharing the key id '' @ i))
         | Inr m \<Rightarrow> Inr \<lparr>ik_current = cur, ik_previous = prev, ik_byId = m\<rparr>)"

section \<open>Validation\<close>

record key_source =
  ks_variable :: string
  ks_position :: "nat option"

definition keyError :: "key_source \<Rightarrow> string \<Rightarrow> exn" where
  "keyError source problem =
     (let subject = (case ks_position source of
            None \<Rightarrow> ks_variable source
          | Some p \<Rightarrow> ks_variable source @ '' entry '' @ nat_to_string p)
      in ErrorExn (subject @ '' '' @ problem @ '' (generate one with `openssl rand -base64 32`)''))"

definition decodeStrictBase64 :: "string \<Rightarrow> key_source \<Rightarrow> exn + string" where
  "decodeStrictBase64 raw source =
     (let decoded = base64_decode raw
      in if \<not> base64_pattern raw \<or> base64_encode decoded \<noteq> raw
         then Inl (keyError source ''must be valid base64'') else Inr decoded)"

definition assertNotReused :: "env \<Rightarrow> string \<Rightarrow> key_source \<Rightarrow> exn + unit" where
  "assertNotReused e raw source =
     (if raw = js_trim (config_string e ''KERGHAN_SECRET_KEY'')
      then Inl (keyError source ''must differ from KERGHAN_SECRET_KEY'')
      else if raw = INTEGRATIONS_KEY_DEV_PLACEHOLDER \<and> env_config e ''NODE_ENV'' = JString ''production''
      then Inl (keyError source ''must not be the public dev placeholder in production'')
      else Inr ())"

definition validateKey :: "env \<Rightarrow> string \<Rightarrow> key_source \<Rightarrow> exn + string" where
  "validateKey e raw source =
     (case decodeStrictBase64 raw source of
        Inl x \<Rightarrow> Inl x
      | Inr key \<Rightarrow>
          if length key \<noteq> INTEGRATIONS_KEY_BYTES
          then Inl (keyError source (''must decode to exactly '' @ nat_to_string INTEGRATIONS_KEY_BYTES @ '' bytes''))
          else (case assertNotReused e raw source of Inl x \<Rightarrow> Inl x | Inr _ \<Rightarrow> Inr key))"

fun previous_entries :: "nat \<Rightarrow> string list \<Rightarrow> string list \<Rightarrow> (string \<times> nat) list" where
  "previous_entries position seen [] = []"
| "previous_entries position seen (entry # es) =
     (let value = js_trim entry
      in if value \<noteq> [] \<and> value \<notin> set seen
         then (value, position) # previous_entries (Suc position) (value # seen) es
         else previous_entries (Suc position) seen es)"

definition parsePreviousIntegrationsKeys :: "string \<Rightarrow> string \<Rightarrow> (string \<times> nat) list" where
  "parsePreviousIntegrationsKeys raw current =
     previous_entries 1 [current] (js_split (CHR '','') raw)"

fun validate_all :: "env \<Rightarrow> (string \<times> nat) list \<Rightarrow> exn + string list" where
  "validate_all e [] = Inr []"
| "validate_all e ((value, position) # es) =
     (case validateKey e value \<lparr>ks_variable = ''KERGHAN_PREVIOUS_INTEGRATIONS_KEYS'', ks_position = Some position\<rparr> of
        Inl x \<Rightarrow> Inl x
      | Inr key \<Rightarrow> (case validate_all e es of Inl x \<Rightarrow> Inl x | Inr keys \<Rightarrow> Inr (key # keys)))"

definition buildIntegrationsKeys :: "(string \<Rightarrow> string) \<Rightarrow> env \<Rightarrow> exn + integrations_key" where
  "buildIntegrationsKeys sha256hex e =
     (let raw = js_trim (config_string e ''KERGHAN_INTEGRATIONS_KEY'');
          source = \<lparr>ks_variable = ''KERGHAN_INTEGRATIONS_KEY'', ks_position = None\<rparr>
      in if raw = [] then Inl (keyError source ''is missing or blank'')
         else case validateKey e raw source of
           Inl x \<Rightarrow> Inl x
         | Inr current \<Rightarrow>
             (case validate_all e (parsePreviousIntegrationsKeys
                     (config_string e ''KERGHAN_PREVIOUS_INTEGRATIONS_KEYS'') raw) of
                Inl x \<Rightarrow> Inl x
              | Inr previous \<Rightarrow> integrationsKeySetOf sha256hex current previous))"

section \<open>The codec\<close>

lemma b64_value_char: "n < 64 \<Longrightarrow> b64_value (b64_char n) = Some n"
  by (cases "n < 26"; cases "n < 52"; cases "n < 62"; cases "n = 62")
    (auto simp: b64_value_def b64_char_def Let_def)

lemma b64_char_no_pad: "n < 64 \<Longrightarrow> b64_char n \<noteq> CHR ''=''"
  using b64_value_char [of n] by (auto simp: b64_value_def Let_def)

lemma byte_bound: "(of_char c :: nat) < 256"
  by (metis of_char_mod_256 mod_less_divisor zero_less_numeral)

text \<open>Three bytes and the four groups of six bits they fill.\<close>

lemma div_byte: "(of_char b :: nat) div 16 < 16" "(of_char b :: nat) div 64 < 4" "(of_char b :: nat) div 4 < 64"
  using byte_bound [of b] by (simp_all add: less_mult_imp_div_less)

lemma sextet_bounds:
  "(x::nat) < 4 \<Longrightarrow> x * 16 < 64" "(y::nat) < 16 \<Longrightarrow> y * 4 < 64"
  "x < 4 \<Longrightarrow> y < 16 \<Longrightarrow> x * 16 + y < 64" "y < 16 \<Longrightarrow> x < 4 \<Longrightarrow> y * 4 + x < 64"
  by simp_all

lemma sextets [simp]:
  "(of_char a :: nat) div 4 < 64" "(of_char a :: nat) mod 4 * 16 < 64" "(of_char b :: nat) mod 16 * 4 < 64"
  "(of_char a :: nat) mod 4 * 16 + of_char b div 16 < 64"
  "(of_char b :: nat) mod 16 * 4 + of_char c div 64 < 64" "(of_char c :: nat) mod 64 < 64"
  by (rule div_byte sextet_bounds mod_less_divisor zero_less_numeral)+

lemma bytes_of_sextets [simp]:
  "(of_char b :: nat) div 16 div 16 = 0" "(of_char b :: nat) div 16 mod 16 = of_char b div 16"
  "(of_char b :: nat) div 64 div 4 = 0" "(of_char b :: nat) div 64 mod 4 = of_char b div 64"
  using div_byte [of b] by simp_all

lemma three_bytes_induct [case_names none one two more]:
  assumes "P []" and "\<And>a. P [a]" and "\<And>a b. P [a, b]" and "\<And>a b c r. P r \<Longrightarrow> P (a # b # c # r)"
  shows "P (s :: string)"
  using assms by (induction s rule: base64_encode.induct) auto

lemma base64_body_append:
  "n < 64 \<Longrightarrow> base64_body (b64_char n # s) = b64_char n # base64_body s"
  "base64_body (CHR ''='' # s) = []" "base64_body [] = []"
  by (simp_all add: base64_body_def b64_char_no_pad)

lemma base64_encode_Nil [simp]: "base64_encode s = [] \<longleftrightarrow> s = []"
  by (cases s rule: base64_encode.cases) simp_all

lemma base64_decode_encode: "base64_decode (base64_encode s) = s"
  by (induction s rule: three_bytes_induct)
    (simp_all add: base64_decode_def base64_body_append List.map_filter_simps b64_value_char)

lemma base64_pattern_encode: "s \<noteq> [] \<Longrightarrow> base64_pattern (base64_encode s)"
proof (induction s rule: three_bytes_induct)
  case (more a b c r)
  show ?case
  proof (cases "r = []")
    case True
    then show ?thesis
      by (simp add: base64_pattern_def base64_body_append b64_value_char Let_def)
  next
    case False
    with more.IH show ?thesis
      by (simp add: base64_pattern_def base64_body_append b64_value_char Let_def)
  qed
qed (simp_all add: base64_pattern_def base64_body_append b64_value_char Let_def)

lemma trim_base64 [simp]: "js_trim (base64_encode s) = base64_encode s"
proof -
  have char: "\<not> js_space (b64_char n)" if "n < 64" for n
    using b64_value_char [OF that] by (auto simp: b64_value_def js_space_def Let_def split: if_splits)
  have "list_all (\<lambda>c. \<not> js_space c) (base64_encode s)"
    by (induction s rule: three_bytes_induct) (simp_all add: char, simp_all add: js_space_def)
  moreover have "dropWhile js_space t = t" if "list_all (\<lambda>c. \<not> js_space c) t" for t
    using that by (cases t) simp_all
  ultimately show ?thesis by (simp add: js_trim_def list_all_rev)
qed

section \<open>Accepted keys\<close>

lemma decodeStrictBase64_Inr:
  "decodeStrictBase64 raw source = Inr key \<longleftrightarrow> raw \<noteq> [] \<and> base64_encode key = raw"
proof
  assume "decodeStrictBase64 raw source = Inr key"
  then show "raw \<noteq> [] \<and> base64_encode key = raw"
    by (auto simp: decodeStrictBase64_def base64_pattern_def base64_body_def Let_def split: if_splits)
next
  assume h: "raw \<noteq> [] \<and> base64_encode key = raw"
  then have "key \<noteq> []" by auto
  with h base64_pattern_encode base64_decode_encode show "decodeStrictBase64 raw source = Inr key"
    by (auto simp: decodeStrictBase64_def Let_def)
qed

text \<open>What makes a configured value an acceptable key.\<close>

definition good_key :: "env \<Rightarrow> string \<Rightarrow> string \<Rightarrow> bool" where
  "good_key e raw key \<longleftrightarrow> base64_encode key = raw \<and> length key = 32
     \<and> raw \<noteq> js_trim (config_string e ''KERGHAN_SECRET_KEY'')
     \<and> \<not> (raw = INTEGRATIONS_KEY_DEV_PLACEHOLDER \<and> env_config e ''NODE_ENV'' = JString ''production'')"

lemma validateKey_Inr: "validateKey e raw source = Inr key \<longleftrightarrow> good_key e raw key"
proof (cases "decodeStrictBase64 raw source")
  case (Inl x)
  then have "\<not> (raw \<noteq> [] \<and> base64_encode key = raw)" using decodeStrictBase64_Inr [of raw source key] by simp
  then have "\<not> good_key e raw key" by (auto simp: good_key_def)
  with Inl show ?thesis by (simp add: validateKey_def)
next
  case (Inr k)
  then have k: "base64_encode k = raw" by (simp add: decodeStrictBase64_Inr)
  have "raw \<noteq> []" using Inr by (simp add: decodeStrictBase64_Inr)
  moreover have "good_key e raw key \<Longrightarrow> key = k" using k base64_decode_encode by (metis good_key_def)
  ultimately show ?thesis using Inr k
    by (auto simp: validateKey_def good_key_def assertNotReused_def INTEGRATIONS_KEY_BYTES_def
        split: if_splits)
qed

lemma validate_all_Inr:
  "validate_all e es = Inr keys \<Longrightarrow> list_all2 (\<lambda>(v, p) k. good_key e v k) es keys"
  by (induction e es arbitrary: keys rule: validate_all.induct)
    (auto simp: validateKey_Inr split: sum.splits)

lemma fill_by_id_entries:
  "fill_by_id es m = Inr m' \<Longrightarrow> m' = m @ map (\<lambda>x. (ke_keyId x, ke_key x)) es"
  by (induction es m rule: fill_by_id.induct) (auto split: if_splits)

lemma fill_by_id_distinct:
  "fill_by_id es m = Inr m' \<Longrightarrow> distinct (map fst m) \<Longrightarrow> distinct (map fst m')"
  by (induction es m rule: fill_by_id.induct) (simp_all add: map_of_eq_None_iff split: if_splits)

text \<open>Every configured key is found again under its id, and nothing else is.\<close>

definition keys_ok :: "integrations_key \<Rightarrow> bool" where
  "keys_ok ks \<longleftrightarrow> distinct (map ke_keyId (ik_current ks # ik_previous ks))
     \<and> (\<forall>i k. map_of (ik_byId ks) i = Some k \<longleftrightarrow>
          (\<exists>x \<in> set (ik_current ks # ik_previous ks). ke_keyId x = i \<and> ke_key x = k))"

lemma integrationsKeySetOf_Inr:
  assumes "integrationsKeySetOf H current previous = Inr ks"
  shows "keys_ok ks" and "ik_current ks = to_entry H current" and "ik_previous ks = map (to_entry H) previous"
proof -
  from assms obtain m where fill: "fill_by_id (to_entry H current # map (to_entry H) previous) [] = Inr m"
    and ks: "ks = \<lparr>ik_current = to_entry H current, ik_previous = map (to_entry H) previous, ik_byId = m\<rparr>"
    by (auto simp: integrationsKeySetOf_def Let_def split: sum.splits simp del: fill_by_id.simps)
  let ?es = "to_entry H current # map (to_entry H) previous"
  have m: "m = map (\<lambda>x. (ke_keyId x, ke_key x)) ?es" and d: "distinct (map fst m)"
    using fill_by_id_entries [OF fill] fill_by_id_distinct [OF fill] by simp_all
  have "map fst m = map ke_keyId ?es" by (simp add: m)
  with d have "distinct (map ke_keyId ?es)" by metis
  moreover have "map_of m i = Some k \<longleftrightarrow> (\<exists>x \<in> set ?es. ke_keyId x = i \<and> ke_key x = k)" for i k
  proof -
    have "map_of m i = Some k \<longleftrightarrow> (i, k) \<in> set m" using d by (simp add: map_of_eq_Some_iff)
    also have "\<dots> \<longleftrightarrow> (\<exists>x \<in> set ?es. ke_keyId x = i \<and> ke_key x = k)" unfolding m set_map by blast
    finally show ?thesis .
  qed
  ultimately show "keys_ok ks" by (simp only: keys_ok_def ks integrations_key.simps simp_thms)
qed (use assms in \<open>auto simp: integrationsKeySetOf_def Let_def split: sum.splits\<close>)

lemma buildIntegrationsKeys_Inr:
  assumes "buildIntegrationsKeys H e = Inr ks"
  shows "keys_ok ks"
    and "good_key e (js_trim (config_string e ''KERGHAN_INTEGRATIONS_KEY'')) (ke_key (ik_current ks))"
    and "\<forall>x \<in> set (ik_previous ks). \<exists>raw. good_key e raw (ke_key x)"
    and "\<forall>x \<in> set (ik_current ks # ik_previous ks). ke_keyId x = integrationsKeyIdFor H (ke_key x)"
proof -
  let ?raw = "js_trim (config_string e ''KERGHAN_INTEGRATIONS_KEY'')"
  from assms obtain current previous where cur: "good_key e ?raw current"
    and prev: "validate_all e (parsePreviousIntegrationsKeys
        (config_string e ''KERGHAN_PREVIOUS_INTEGRATIONS_KEYS'') ?raw) = Inr previous"
    and set: "integrationsKeySetOf H current previous = Inr ks"
    by (auto simp: buildIntegrationsKeys_def Let_def validateKey_Inr split: if_splits sum.splits)
  note ks = integrationsKeySetOf_Inr [OF set]
  have "\<exists>raw. good_key e raw k" if "k \<in> set previous" for k
    using that validate_all_Inr [OF prev] by (auto simp: in_set_conv_nth list_all2_conv_all_nth split_beta)
  with ks cur show "keys_ok ks" and "good_key e ?raw (ke_key (ik_current ks))"
    and "\<forall>x \<in> set (ik_previous ks). \<exists>raw. good_key e raw (ke_key x)"
    and "\<forall>x \<in> set (ik_current ks # ik_previous ks). ke_keyId x = integrationsKeyIdFor H (ke_key x)"
    by (auto simp: to_entry_def)
qed

text \<open>
  C32. The server starts with exactly the well-formed keys: an accepted configuration has only
  keys of 32 bytes, each the base64 of what was configured, none of them the application's secret
  key nor (in production) the public placeholder, and every one is found under its own key id;
  and the base64 of any 32 bytes that is neither of those is accepted as the current key.
\<close>

theorem integrations_keys_accepted:
  "(\<forall>ks. buildIntegrationsKeys H e = Inr ks \<longrightarrow>
      good_key e (js_trim (config_string e ''KERGHAN_INTEGRATIONS_KEY'')) (ke_key (ik_current ks))
      \<and> (\<forall>x \<in> set (ik_previous ks). \<exists>raw. good_key e raw (ke_key x))
      \<and> (\<forall>x \<in> set (ik_current ks # ik_previous ks). map_of (ik_byId ks) (ke_keyId x) = Some (ke_key x)
           \<and> ke_keyId x = integrationsKeyIdFor H (ke_key x)))
   \<and> (\<forall>key. config_string e ''KERGHAN_INTEGRATIONS_KEY'' = base64_encode key
       \<and> config_string e ''KERGHAN_PREVIOUS_INTEGRATIONS_KEYS'' = []
       \<and> good_key e (base64_encode key) key \<longrightarrow>
       (\<exists>ks. buildIntegrationsKeys H e = Inr ks \<and> ke_key (ik_current ks) = key))"
proof (intro conjI allI impI)
  fix ks assume "buildIntegrationsKeys H e = Inr ks"
  note ks = buildIntegrationsKeys_Inr [OF this]
  show "good_key e (js_trim (config_string e ''KERGHAN_INTEGRATIONS_KEY'')) (ke_key (ik_current ks))"
    and "\<forall>x \<in> set (ik_previous ks). \<exists>raw. good_key e raw (ke_key x)" by (rule ks)+
  show "\<forall>x \<in> set (ik_current ks # ik_previous ks). map_of (ik_byId ks) (ke_keyId x) = Some (ke_key x)
           \<and> ke_keyId x = integrationsKeyIdFor H (ke_key x)"
    using ks(1,4) unfolding keys_ok_def by blast
next
  fix key
  assume h: "config_string e ''KERGHAN_INTEGRATIONS_KEY'' = base64_encode key
       \<and> config_string e ''KERGHAN_PREVIOUS_INTEGRATIONS_KEYS'' = [] \<and> good_key e (base64_encode key) key"
  have "js_trim [] = []" by (simp add: js_trim_def)
  with h have "parsePreviousIntegrationsKeys (config_string e ''KERGHAN_PREVIOUS_INTEGRATIONS_KEYS'')
      (base64_encode key) = []" by (simp add: parsePreviousIntegrationsKeys_def)
  moreover have "validateKey e (base64_encode key) src = Inr key" for src using h by (simp add: validateKey_Inr)
  moreover have "key \<noteq> []" using h by (auto simp: good_key_def)
  ultimately show "\<exists>ks. buildIntegrationsKeys H e = Inr ks \<and> ke_key (ik_current ks) = key"
    using h by (simp add: buildIntegrationsKeys_def integrationsKeySetOf_def to_entry_def Let_def)
qed

definition demo_key :: string where "demo_key = replicate 32 (CHR ''k'')"

definition demo_keys_env :: env where
  "demo_keys_env = demo_env\<lparr>env_config := (\<lambda>key.
     if key = ''KERGHAN_INTEGRATIONS_KEY'' then JString (base64_encode demo_key) else JUndefined)\<rparr>"

lemma demo_good_key:
  "config_string demo_keys_env ''KERGHAN_INTEGRATIONS_KEY'' = base64_encode demo_key"
  "config_string demo_keys_env ''KERGHAN_PREVIOUS_INTEGRATIONS_KEYS'' = []"
  "good_key demo_keys_env (base64_encode demo_key) demo_key"
proof -
  show "config_string demo_keys_env ''KERGHAN_INTEGRATIONS_KEY'' = base64_encode demo_key"
    and "config_string demo_keys_env ''KERGHAN_PREVIOUS_INTEGRATIONS_KEYS'' = []"
    by (simp_all add: demo_keys_env_def config_string_def)
  have "demo_key \<noteq> []" by (simp add: demo_key_def)
  then show "good_key demo_keys_env (base64_encode demo_key) demo_key"
    by (auto simp: good_key_def demo_keys_env_def config_string_def js_trim_def demo_key_def)
qed

theorem integrations_keys_accepted_witness:
  "\<exists>ks. buildIntegrationsKeys id demo_keys_env = Inr ks \<and> ke_key (ik_current ks) = demo_key
     \<and> map_of (ik_byId ks) (ke_keyId (ik_current ks)) = Some demo_key"
proof -
  from integrations_keys_accepted [of id demo_keys_env] demo_good_key obtain ks
    where h: "buildIntegrationsKeys id demo_keys_env = Inr ks" and k: "ke_key (ik_current ks) = demo_key" by metis
  with integrations_keys_accepted [of id demo_keys_env] show ?thesis by auto
qed

end
