(* ===== verification/Integrations_Encryption.thy ===== *)
theory Integrations_Encryption
  imports Integrations_Key
begin

text \<open>
  \<^verbatim>\<open>integrations/integrations-encryption.service.ts\<close>.  AES-256-GCM and the JSON codec are the
  parameter \<open>crypto\<close>: encryption gives the ciphertext and the tag, decryption the plaintext or
  \<^term>\<open>None\<close> when Node throws.  The IV is an input, drawn fresh by the caller.
\<close>

section \<open>The platform's cryptography\<close>

record crypto =
  cr_encrypt :: "string \<Rightarrow> string \<Rightarrow> string \<Rightarrow> string \<Rightarrow> string \<times> string"
  cr_decrypt :: "string \<Rightarrow> string \<Rightarrow> string \<Rightarrow> string \<Rightarrow> string \<Rightarrow> string option"
  cr_stringify :: "json \<Rightarrow> string"
  cr_parse :: "string \<Rightarrow> json option"

text \<open>What is documented of it: decryption inverts encryption.\<close>

definition crypto_ok :: "crypto \<Rightarrow> bool" where
  "crypto_ok C \<longleftrightarrow>
     (\<forall>k iv aad p c t. length k = 32 \<and> cr_encrypt C k iv aad p = (c, t) \<longrightarrow> cr_decrypt C k iv aad t c = Some p)"

section \<open>IntegrationsEncryptionService\<close>

record secret_binding =
  bd_uuid :: string
  bd_type :: string

record encrypted_secret =
  es_keyId :: string
  es_iv :: string
  es_authTag :: string
  es_ciphertext :: string

definition aadFor :: "secret_binding \<Rightarrow> string" where
  "aadFor b = bd_uuid b @ '':'' @ bd_type b"

definition currentKeyId :: "integrations_key \<Rightarrow> string" where
  "currentKeyId ks = ke_keyId (ik_current ks)"

definition previousKeyIds :: "integrations_key \<Rightarrow> string list" where
  "previousKeyIds ks = map ke_keyId (ik_previous ks)"

definition isDecryptableKeyId :: "integrations_key \<Rightarrow> string \<Rightarrow> bool" where
  "isDecryptableKeyId ks i \<longleftrightarrow> map_of (ik_byId ks) i \<noteq> None"

definition isCurrentKeyId :: "integrations_key \<Rightarrow> string \<Rightarrow> bool" where
  "isCurrentKeyId ks i \<longleftrightarrow> i = ke_keyId (ik_current ks)"

definition isPreviousKeyId :: "integrations_key \<Rightarrow> string \<Rightarrow> bool" where
  "isPreviousKeyId ks i \<longleftrightarrow> isDecryptableKeyId ks i \<and> \<not> isCurrentKeyId ks i"

definition encryptBuffer ::
  "crypto \<Rightarrow> integrations_key \<Rightarrow> string \<Rightarrow> string \<Rightarrow> secret_binding \<Rightarrow> encrypted_secret" where
  "encryptBuffer C ks iv plaintext b =
     (case cr_encrypt C (ke_key (ik_current ks)) iv (aadFor b) plaintext of
        (ciphertext, tag) \<Rightarrow> \<lparr>es_keyId = currentKeyId ks, es_iv = iv, es_authTag = tag,
                               es_ciphertext = ciphertext\<rparr>)"

definition decryptBuffer ::
  "crypto \<Rightarrow> integrations_key \<Rightarrow> encrypted_secret \<Rightarrow> secret_binding \<Rightarrow> string option" where
  "decryptBuffer C ks r b =
     (case map_of (ik_byId ks) (es_keyId r) of
        None \<Rightarrow> None
      | Some key \<Rightarrow> cr_decrypt C key (es_iv r) (aadFor b) (es_authTag r) (es_ciphertext r))"

definition encrypt ::
  "crypto \<Rightarrow> integrations_key \<Rightarrow> string \<Rightarrow> json \<Rightarrow> secret_binding \<Rightarrow> encrypted_secret" where
  "encrypt C ks iv secret b = encryptBuffer C ks iv (cr_stringify C secret) b"

definition decrypt ::
  "crypto \<Rightarrow> integrations_key \<Rightarrow> encrypted_secret \<Rightarrow> secret_binding \<Rightarrow> json option" where
  "decrypt C ks r b =
     (case decryptBuffer C ks r b of None \<Rightarrow> None | Some plaintext \<Rightarrow> cr_parse C plaintext)"

definition reencrypt ::
  "crypto \<Rightarrow> integrations_key \<Rightarrow> string \<Rightarrow> encrypted_secret \<Rightarrow> secret_binding \<Rightarrow> encrypted_secret option" where
  "reencrypt C ks iv r b =
     (case decryptBuffer C ks r b of
        None \<Rightarrow> None
      | Some plaintext \<Rightarrow> Some (encryptBuffer C ks iv plaintext b))"

section \<open>Rotation keeps secrets readable\<close>

text \<open>A key set the module can run with: looked up correctly, with a key of the cipher's length.\<close>

definition keyset_ok :: "integrations_key \<Rightarrow> bool" where
  "keyset_ok ks \<longleftrightarrow> keys_ok ks \<and> length (ke_key (ik_current ks)) = 32"

lemma buildIntegrationsKeys_keyset_ok:
  "buildIntegrationsKeys H e = Inr ks \<Longrightarrow> keyset_ok ks"
  using buildIntegrationsKeys_Inr(1,2) by (auto simp: keyset_ok_def good_key_def)

lemma current_key_found:
  "keyset_ok ks \<Longrightarrow> map_of (ik_byId ks) (currentKeyId ks) = Some (ke_key (ik_current ks))"
  unfolding keyset_ok_def keys_ok_def currentKeyId_def by (metis list.set_intros(1))

lemma isPreviousKeyId_iff:
  assumes "keyset_ok ks"
  shows "isPreviousKeyId ks i \<longleftrightarrow> i \<in> set (previousKeyIds ks)"
proof -
  from assms have d: "distinct (map ke_keyId (ik_current ks # ik_previous ks))"
    and f: "\<And>k. map_of (ik_byId ks) i = Some k \<longleftrightarrow>
        (\<exists>x \<in> set (ik_current ks # ik_previous ks). ke_keyId x = i \<and> ke_key x = k)"
    by (simp_all add: keyset_ok_def keys_ok_def)
  have "isDecryptableKeyId ks i \<longleftrightarrow> (\<exists>x \<in> set (ik_current ks # ik_previous ks). ke_keyId x = i)"
    unfolding isDecryptableKeyId_def using f by (metis not_None_eq)
  with d show ?thesis
    by (auto simp: isPreviousKeyId_def isCurrentKeyId_def previousKeyIds_def)
qed

lemma encryptBuffer_keyId [simp]: "es_keyId (encryptBuffer C ks iv p b) = currentKeyId ks"
  by (simp add: encryptBuffer_def split: prod.splits)

lemma decryptBuffer_encryptBuffer:
  assumes "crypto_ok C" and "keyset_ok ks"
    and "map_of (ik_byId ks') (currentKeyId ks) = Some (ke_key (ik_current ks))"
  shows "decryptBuffer C ks' (encryptBuffer C ks iv p b) b = Some p"
  using assms
  by (auto simp: decryptBuffer_def encryptBuffer_def crypto_ok_def keyset_ok_def split: prod.splits)

lemma reencrypt_Some:
  assumes "crypto_ok C" and "keyset_ok ks" and "reencrypt C ks iv r b = Some r'"
  shows "es_keyId r' = currentKeyId ks" and "decryptBuffer C ks r' b = decryptBuffer C ks r b"
    and "decrypt C ks r' b = decrypt C ks r b"
proof -
  from assms(3) obtain p where p: "decryptBuffer C ks r b = Some p" and r': "r' = encryptBuffer C ks iv p b"
    by (auto simp: reencrypt_def split: option.splits)
  show "es_keyId r' = currentKeyId ks" by (simp add: r')
  show eq: "decryptBuffer C ks r' b = decryptBuffer C ks r b"
    using decryptBuffer_encryptBuffer [OF assms(1,2) current_key_found [OF assms(2)]] by (simp add: r' p)
  show "decrypt C ks r' b = decrypt C ks r b" by (simp add: decrypt_def eq)
qed

lemma reencrypt_None: "reencrypt C ks iv r b = None \<longleftrightarrow> decryptBuffer C ks r b = None"
  by (simp add: reencrypt_def split: option.splits)

text \<open>
  C33. A stored secret survives key rotation: what was encrypted under one key set (a value that
  JSON carries unchanged) is read back as it was under every later set that still holds its key, re-encryption there changes only the
  representation, and the re-encrypted secret no longer needs the retired key.
\<close>

theorem secrets_survive_rotation:
  assumes "crypto_ok C" and "keyset_ok ks" and "keyset_ok ks'"
    and "cr_parse C (cr_stringify C secret) = Some secret"
    and "map_of (ik_byId ks') (currentKeyId ks) = Some (ke_key (ik_current ks))"
  shows "decrypt C ks' (encrypt C ks iv secret b) b = Some secret
    \<and> (\<exists>r. reencrypt C ks' iv' (encrypt C ks iv secret b) b = Some r \<and> es_keyId r = currentKeyId ks'
         \<and> (\<forall>ks2. map_of (ik_byId ks2) (currentKeyId ks') = Some (ke_key (ik_current ks')) \<longrightarrow>
               decrypt C ks2 r b = Some secret))"
proof -
  let ?p = "cr_stringify C secret"
  note json = assms(4)
  have old: "decryptBuffer C ks' (encrypt C ks iv secret b) b = Some ?p"
    unfolding encrypt_def by (rule decryptBuffer_encryptBuffer [OF assms(1,2,5)])
  have "decrypt C ks2 (encryptBuffer C ks' iv' ?p b) b = Some secret"
    if "map_of (ik_byId ks2) (currentKeyId ks') = Some (ke_key (ik_current ks'))" for ks2
    by (simp add: decrypt_def decryptBuffer_encryptBuffer [OF assms(1,3) that] json)
  with old json show ?thesis by (simp add: reencrypt_def decrypt_def)
qed

definition demo_crypto :: crypto where
  "demo_crypto = \<lparr>cr_encrypt = (\<lambda>k iv aad p. (p, k @ iv @ aad)),
     cr_decrypt = (\<lambda>k iv aad t c. if t = k @ iv @ aad then Some c else None),
     cr_stringify = (\<lambda>v. case v of JsonStr s \<Rightarrow> s | _ \<Rightarrow> []), cr_parse = (\<lambda>s. Some (JsonStr s))\<rparr>"

lemma demo_crypto_ok: "crypto_ok demo_crypto"
  by (auto simp: crypto_ok_def demo_crypto_def)

definition demo_new_key :: string where "demo_new_key = replicate 32 (CHR ''n'')"

definition demo_old_keys :: integrations_key where
  "demo_old_keys = (case integrationsKeySetOf id demo_key [] of Inr ks \<Rightarrow> ks
     | Inl _ \<Rightarrow> \<lparr>ik_current = to_entry id [], ik_previous = [], ik_byId = []\<rparr>)"

definition demo_new_keys :: integrations_key where
  "demo_new_keys = (case integrationsKeySetOf id demo_new_key [demo_key] of Inr ks \<Rightarrow> ks
     | Inl _ \<Rightarrow> \<lparr>ik_current = to_entry id [], ik_previous = [], ik_byId = []\<rparr>)"

lemma demo_keysets:
  "integrationsKeySetOf id demo_key [] = Inr demo_old_keys"
  "integrationsKeySetOf id demo_new_key [demo_key] = Inr demo_new_keys"
proof -
  show "integrationsKeySetOf id demo_key [] = Inr demo_old_keys"
    by (simp add: demo_old_keys_def integrationsKeySetOf_def Let_def)
  have "ke_keyId (to_entry id demo_key) \<noteq> ke_keyId (to_entry id demo_new_key)"
    by (simp add: to_entry_def integrationsKeyIdFor_def KEY_ID_LENGTH_def demo_key_def demo_new_key_def)
  then show "integrationsKeySetOf id demo_new_key [demo_key] = Inr demo_new_keys"
    by (simp add: demo_new_keys_def integrationsKeySetOf_def Let_def)
qed

lemma demo_keysets_ok: "keyset_ok demo_old_keys" "keyset_ok demo_new_keys"
  using integrationsKeySetOf_Inr(1,2) [OF demo_keysets(1)] integrationsKeySetOf_Inr(1,2) [OF demo_keysets(2)]
  by (simp_all add: keyset_ok_def to_entry_def demo_key_def demo_new_key_def)

lemma demo_old_key_kept:
  "map_of (ik_byId demo_new_keys) (currentKeyId demo_old_keys) = Some (ke_key (ik_current demo_old_keys))"
proof -
  have "to_entry id demo_key \<in> set (ik_current demo_new_keys # ik_previous demo_new_keys)"
    using integrationsKeySetOf_Inr(3) [OF demo_keysets(2)] by simp
  then show ?thesis
    using demo_keysets_ok(2) integrationsKeySetOf_Inr(2) [OF demo_keysets(1)]
    unfolding keyset_ok_def keys_ok_def currentKeyId_def by metis
qed

theorem secrets_survive_rotation_witness:
  "decrypt demo_crypto demo_new_keys
      (encrypt demo_crypto demo_old_keys ''iv1'' (JsonStr ''tok'') \<lparr>bd_uuid = demo_uuid, bd_type = ''pat''\<rparr>)
      \<lparr>bd_uuid = demo_uuid, bd_type = ''pat''\<rparr> = Some (JsonStr ''tok'')"
proof -
  have "cr_parse demo_crypto (cr_stringify demo_crypto (JsonStr ''tok'')) = Some (JsonStr ''tok'')"
    by (simp add: demo_crypto_def)
  from secrets_survive_rotation [OF demo_crypto_ok demo_keysets_ok this demo_old_key_kept] show ?thesis by blast
qed

end
