(* ===== verification/Integration_Store.thy ===== *)
theory Integration_Store
  imports Integrations_Encryption
begin

text \<open>
  \<^verbatim>\<open>integrations/integration-store.service.ts\<close>: owner-scoped persistence of integrations, and the
  invariant of their table.  A transaction that throws leaves the state it started from.
\<close>

section \<open>Rows and unique indexes\<close>

definition ensure_lockout_row :: "nat \<Rightarrow> integ_state \<Rightarrow> integ_state" where
  "ensure_lockout_row userId s =
     (if exists_where (\<lambda>l. cl_userId l = userId) (cred_lockouts s) then s
      else s\<lparr>cred_lockouts := insert_row (\<lambda>i. \<lparr>cl_id = i, cl_userId = userId, cl_failedAttempts = 0,
             cl_lockedUntil = None\<rparr>) (cred_lockouts s)\<rparr>)"

definition integ_clash :: "env \<Rightarrow> integration \<Rightarrow> integration \<Rightarrow> bool" where
  "integ_clash e r x \<longleftrightarrow> ig_id x \<noteq> ig_id r \<and>
     (env_collate e (ig_uuid x) (ig_uuid r)
      \<or> ig_userId x = ig_userId r \<and> env_collate e (ig_labelNormalized x) (ig_labelNormalized r))"

definition insert_integration ::
  "env \<Rightarrow> (nat \<Rightarrow> integration) \<Rightarrow> integ_state \<Rightarrow> (integration, integ_state) outcome" where
  "insert_integration e mk s =
     (let r = mk (next_id (integrations s))
      in if exists_where (integ_clash e r) (integrations s) then (Inl DupEntryExn, s)
         else (Inr r, s\<lparr>integrations := insert_row mk (integrations s)\<rparr>))"

text \<open>\<^verbatim>\<open>guardLabelRace\<close>, with \<^verbatim>\<open>isDuplicateEntry\<close>.\<close>

definition guardLabelRace :: "('a, 's) outcome \<Rightarrow> ('a, 's) outcome" where
  "guardLabelRace write =
     (case write of
        (Inl x, s) \<Rightarrow> (Inl (if x = DupEntryExn then labelTaken else x), s)
      | (Inr r, s) \<Rightarrow> (Inr r, s))"

section \<open>Reads\<close>

definition owned :: "nat \<Rightarrow> integration \<Rightarrow> bool" where
  "owned userId r \<longleftrightarrow> ig_userId r = userId"

definition listOwned :: "nat \<Rightarrow> integ_state \<Rightarrow> integration list" where
  "listOwned userId s =
     order_desc ig_createdAt (order_desc (\<lambda>r. int (ig_id r)) (select_where (owned userId) (integrations s)))"

definition findOwned :: "env \<Rightarrow> nat \<Rightarrow> string \<Rightarrow> integ_state \<Rightarrow> exn + integration" where
  "findOwned e userId uuid s =
     (case (if is_uuid uuid
            then find_one (\<lambda>r. env_collate e (ig_uuid r) uuid \<and> ig_userId r = userId) (integrations s)
            else None) of
        None \<Rightarrow> Inl integrationNotFound
      | Some r \<Rightarrow> Inr r)"

definition countOwned :: "nat \<Rightarrow> integ_state \<Rightarrow> nat" where
  "countOwned userId s = count_where (owned userId) (integrations s)"

definition assertLabelFree :: "env \<Rightarrow> nat \<Rightarrow> string \<Rightarrow> nat option \<Rightarrow> integ_state \<Rightarrow> exn + unit" where
  "assertLabelFree e userId labelNormalized exceptId s =
     (case find_one (\<lambda>r. ig_userId r = userId \<and> env_collate e (ig_labelNormalized r) labelNormalized)
             (integrations s) of
        None \<Rightarrow> Inr ()
      | Some holder \<Rightarrow> if Some (ig_id holder) \<noteq> exceptId then Inl labelTaken else Inr ())"

section \<open>Writes\<close>

definition insertWithinCap ::
  "env \<Rightarrow> nat \<Rightarrow> (nat \<Rightarrow> integration) \<Rightarrow> int \<Rightarrow> integ_state \<Rightarrow> (integration, integ_state) outcome" where
  "insertWithinCap e userId mk maxPerUser s =
     guardLabelRace
       (let s1 = ensure_lockout_row userId s
        in if int (countOwned userId s1) \<ge> maxPerUser then (Inl limitReached, s)
           else case insert_integration e mk s1 of
             (Inl x, _) \<Rightarrow> (Inl x, s)
           | (Inr r, s2) \<Rightarrow> (Inr r, s2))"

definition updateOwned ::
  "env \<Rightarrow> int \<Rightarrow> integration \<Rightarrow> (integration \<Rightarrow> integration) \<Rightarrow> integ_state
     \<Rightarrow> (integration, integ_state) outcome" where
  "updateOwned e now row changes s =
     (let hit = (\<lambda>r. ig_id r = ig_id row \<and> ig_userId r = ig_userId row);
          f = (\<lambda>r. (changes r)\<lparr>ig_updatedAt := now\<rparr>)
      in guardLabelRace
           (if exists_where (\<lambda>r. hit r \<and> exists_where (integ_clash e (f r)) (integrations s)) (integrations s)
            then (Inl DupEntryExn, s)
            else (Inr (f row), s\<lparr>integrations := update_where hit f (integrations s)\<rparr>)))"

definition set_secret :: "encrypted_secret \<Rightarrow> integration \<Rightarrow> integration" where
  "set_secret x r = r\<lparr>ig_secretKeyId := es_keyId x, ig_secretIv := es_iv x,
     ig_secretAuthTag := es_authTag x, ig_secretCiphertext := es_ciphertext x\<rparr>"

text \<open>The loaded row as the method leaves it, or \<^term>\<open>None\<close> when no row was affected.\<close>

definition rewriteSecret ::
  "int \<Rightarrow> integration \<Rightarrow> encrypted_secret \<Rightarrow> string \<Rightarrow> integ_state \<Rightarrow> integration option \<times> integ_state" where
  "rewriteSecret now row encrypted expectedKeyId s =
     (let hit = (\<lambda>r. ig_id r = ig_id row \<and> ig_userId r = ig_userId row \<and> ig_secretKeyId r = expectedKeyId);
          affected = count_where hit (integrations s)
      in (if affected = 0 then None else Some (set_secret encrypted row),
          s\<lparr>integrations := update_where hit (\<lambda>r. (set_secret encrypted r)\<lparr>ig_updatedAt := now\<rparr>)
              (integrations s)\<rparr>))"

definition deleteOwned :: "integration \<Rightarrow> integ_state \<Rightarrow> integ_state" where
  "deleteOwned row s =
     s\<lparr>integrations := delete_where (\<lambda>r. ig_id r = ig_id row \<and> ig_userId r = ig_userId row) (integrations s)\<rparr>"

section \<open>Operator-only reads\<close>

definition countBySecretKeyIdForOperator :: "integ_state \<Rightarrow> (string \<times> nat) list" where
  "countBySecretKeyIdForOperator s =
     map (\<lambda>i. (i, count_where (\<lambda>r. ig_secretKeyId r = i) (integrations s)))
       (remdups (map ig_secretKeyId (rows (integrations s))))"

definition findBySecretKeyIdsForOperator :: "string list \<Rightarrow> nat \<Rightarrow> nat \<Rightarrow> integ_state \<Rightarrow> integration list" where
  "findBySecretKeyIdsForOperator keyIds afterId limit s =
     (if keyIds = [] then []
      else take limit (order_asc (\<lambda>r. int (ig_id r))
             (select_where (\<lambda>r. ig_secretKeyId r \<in> set keyIds \<and> ig_id r > afterId) (integrations s))))"

section \<open>The invariant of the table\<close>

definition integrations_ok :: "env \<Rightarrow> integration table \<Rightarrow> bool" where
  "integrations_ok e t \<longleftrightarrow> distinct (map ig_id (rows t))
     \<and> (\<forall>r \<in> set (rows t). 0 < ig_id r \<and> ig_id r < next_id t)
     \<and> 0 < next_id t
     \<and> (\<forall>r \<in> set (rows t). \<forall>x \<in> set (rows t). \<not> integ_clash e r x)"

text \<open>A change that leaves the row's identity alone: its id, uuid and owner.\<close>

definition keeps_identity :: "(integration \<Rightarrow> integration) \<Rightarrow> bool" where
  "keeps_identity f \<longleftrightarrow> (\<forall>r. ig_id (f r) = ig_id r \<and> ig_uuid (f r) = ig_uuid r \<and> ig_userId (f r) = ig_userId r)"

lemma integ_clash_sym: "collate_ok e \<Longrightarrow> integ_clash e r x \<longleftrightarrow> integ_clash e x r"
  unfolding integ_clash_def collate_ok_def by (metis equivp_symp)

lemma countOwned_ensure [simp]: "countOwned u (ensure_lockout_row i s) = countOwned u s"
  "integrations (ensure_lockout_row i s) = integrations s"
  by (simp_all add: countOwned_def ensure_lockout_row_def)

lemma guardLabelRace_Inr [simp]: "guardLabelRace w = (Inr r, s) \<longleftrightarrow> w = (Inr r, s)"
  by (auto simp: guardLabelRace_def split: sum.splits prod.splits)

lemma guardLabelRace_state [simp]: "snd (guardLabelRace w) = snd w"
  by (auto simp: guardLabelRace_def split: sum.splits prod.splits)

lemma findOwned_Inr:
  assumes "findOwned e i uuid s = Inr r"
  shows "r \<in> set (rows (integrations s))" and "ig_userId r = i" and "env_collate e (ig_uuid r) uuid"
  using assms find_one_Some [of _ "integrations s" r]
  by (auto simp: findOwned_def split: option.splits if_splits)

lemma findOwned_Inl: "findOwned e i uuid s = Inl x \<Longrightarrow> x = integrationNotFound"
  by (auto simp: findOwned_def split: option.splits)

lemma insertWithinCap_cases:
  assumes "insertWithinCap e i mk n s = (res, s')"
  obtains (failed) x where "res = Inl x" and "s' = s" and "x = limitReached \<or> x = labelTaken"
    | (inserted) "res = Inr (mk (next_id (integrations s)))"
        and "integrations s' = insert_row mk (integrations s)" and "int (countOwned i s) < n"
        and "\<not> exists_where (integ_clash e (mk (next_id (integrations s)))) (integrations s)"
        and "s' = (ensure_lockout_row i s)\<lparr>integrations := insert_row mk (integrations s)\<rparr>"
  using assms
  by (fastforce simp: insertWithinCap_def insert_integration_def guardLabelRace_def Let_def limitReached_def
      split: if_splits)

lemma updateOwned_cases:
  assumes "updateOwned e now row f s = (res, s')"
  obtains (taken) "res = Inl labelTaken" and "s' = s"
    | (updated) "res = Inr ((f row)\<lparr>ig_updatedAt := now\<rparr>)"
        and "s' = s\<lparr>integrations := update_where (\<lambda>r. ig_id r = ig_id row \<and> ig_userId r = ig_userId row)
               (\<lambda>r. (f r)\<lparr>ig_updatedAt := now\<rparr>) (integrations s)\<rparr>"
        and "\<And>r x. r \<in> set (rows (integrations s)) \<Longrightarrow> ig_id r = ig_id row \<Longrightarrow> ig_userId r = ig_userId row \<Longrightarrow>
               x \<in> set (rows (integrations s)) \<Longrightarrow> \<not> integ_clash e ((f r)\<lparr>ig_updatedAt := now\<rparr>) x"
  using assms by (fastforce simp: updateOwned_def guardLabelRace_def Let_def exists_where_iff split: if_splits)

section \<open>Every write preserves it\<close>

lemma insert_integrations_ok:
  assumes "integrations_ok e t" and "collate_ok e" and "\<And>i. ig_id (mk i) = i"
    and "\<not> exists_where (integ_clash e (mk (next_id t))) t"
  shows "integrations_ok e (insert_row mk t)"
proof -
  let ?n = "mk (next_id t)"
  have c: "\<not> integ_clash e ?n x \<and> \<not> integ_clash e x ?n" if "x \<in> set (rows t)" for x
    using that assms(4) integ_clash_sym [OF assms(2)] by (auto simp: exists_where_iff)
  have "\<not> integ_clash e ?n ?n" by (simp add: integ_clash_def)
  with c assms(1,3) show ?thesis by (fastforce simp: integrations_ok_def table_simps)
qed

text \<open>An update of the row of one id.\<close>

lemma update_integrations_ok:
  assumes ok: "integrations_ok e t" and "collate_ok e" and keep: "keeps_identity f"
    and hit: "\<And>r. p r \<Longrightarrow> ig_id r = i"
    and free: "\<And>r x. r \<in> set (rows t) \<Longrightarrow> p r \<Longrightarrow> x \<in> set (rows t) \<Longrightarrow> \<not> integ_clash e (f r) x"
  shows "integrations_ok e (update_where p f t)"
proof -
  define g where "g r = (if p r then f r else r)" for r
  have id: "ig_id (g r) = ig_id r" for r using keep by (simp add: keeps_identity_def g_def)
  have clash: "\<not> integ_clash e (g r) (g x)" if r: "r \<in> set (rows t)" and x: "x \<in> set (rows t)" for r x
  proof (cases "ig_id r = ig_id x")
    case True
    then show ?thesis using id [of r] id [of x] by (simp add: integ_clash_def)
  next
    case ne: False
    have rx: "\<not> integ_clash e r x" using ok r x by (simp add: integrations_ok_def)
    show ?thesis
    proof (cases "p r")
      case True
      with hit ne have "\<not> p x" by blast
      with True free [OF r True x] show ?thesis by (simp add: g_def)
    next
      case False
      with rx free [OF x _ r] integ_clash_sym [OF assms(2)] show ?thesis by (auto simp: g_def)
    qed
  qed
  have rows: "rows (update_where p f t) = map g (rows t)" by (simp add: table_simps g_def)
  then have ids: "map ig_id (rows (update_where p f t)) = map ig_id (rows t)" by (simp add: id)
  show ?thesis
    using ok clash id unfolding integrations_ok_def ids by (simp add: rows next_id_table_ops)
qed

lemma delete_integrations_ok:
  "integrations_ok e t \<Longrightarrow> integrations_ok e (delete_where p t)"
  by (auto simp: integrations_ok_def table_simps intro: distinct_map_filter)

lemma insertWithinCap_ok:
  assumes "insertWithinCap e i mk n s = (res, s')" and "integrations_ok e (integrations s)"
    and "collate_ok e" and "\<And>k. ig_id (mk k) = k"
  shows "integrations_ok e (integrations s')"
  using assms(1)
proof (cases rule: insertWithinCap_cases)
  case inserted
  with assms(2-4) show ?thesis by (simp add: insert_integrations_ok)
qed (use assms(2) in simp)

lemma updateOwned_ok:
  assumes "updateOwned e now row f s = (res, s')" and "integrations_ok e (integrations s)"
    and "collate_ok e" and "keeps_identity f"
  shows "integrations_ok e (integrations s')"
  using assms(1)
proof (cases rule: updateOwned_cases)
  case updated
  have keep: "keeps_identity (\<lambda>r. (f r)\<lparr>ig_updatedAt := now\<rparr>)"
    using assms(4) by (simp add: keeps_identity_def)
  show ?thesis unfolding updated(2)
    using update_integrations_ok [OF assms(2,3) keep, of "\<lambda>r. ig_id r = ig_id row \<and> ig_userId r = ig_userId row" "ig_id row"]
      updated(3) by simp
qed (use assms(2) in simp)

lemma rewriteSecret_rows:
  "integrations (snd (rewriteSecret now row x k s)) =
     update_where (\<lambda>r. ig_id r = ig_id row \<and> ig_userId r = ig_userId row \<and> ig_secretKeyId r = k)
       (\<lambda>r. (set_secret x r)\<lparr>ig_updatedAt := now\<rparr>) (integrations s)"
  by (simp add: rewriteSecret_def Let_def)

lemma rewriteSecret_ok:
  assumes "integrations_ok e (integrations s)" and "collate_ok e"
  shows "integrations_ok e (integrations (snd (rewriteSecret now row x k s)))"
  unfolding rewriteSecret_rows
proof (rule update_integrations_ok [OF assms, where i = "ig_id row"])
  show "keeps_identity (\<lambda>r. (set_secret x r)\<lparr>ig_updatedAt := now\<rparr>)"
    by (simp add: keeps_identity_def set_secret_def)
  fix r y assume "r \<in> set (rows (integrations s))" and "y \<in> set (rows (integrations s))"
  with assms(1) have "\<not> integ_clash e r y" by (simp add: integrations_ok_def)
  then show "\<not> integ_clash e ((set_secret x r)\<lparr>ig_updatedAt := now\<rparr>) y"
    by (simp add: integ_clash_def set_secret_def)
qed simp

lemma deleteOwned_ok:
  "integrations_ok e (integrations s) \<Longrightarrow> integrations_ok e (integrations (deleteOwned row s))"
  by (simp add: deleteOwned_def delete_integrations_ok)

end
