(* ===== verification/Integration_Types.thy ===== *)
theory Integration_Types
  imports Integration_Store "HOL-Library.AList"
begin

text \<open>
  The extension point of the Integrations module (\<^verbatim>\<open>types/integration-type-strategy.ts\<close>) and the
  registry of strategies (\<^verbatim>\<open>types/integration-type-registry.ts\<close>).  A strategy is a record of its
  methods; what \<open>validate\<close>, \<open>test\<close> and \<open>onDelete\<close> return depends on GitHub's answer, which a
  strategy value already includes.  A secret is the JSON value a \<^verbatim>\<open>Secret\<close> wraps.
\<close>

record integration_flows =
  fl_credentialPaste :: bool
  fl_redirect :: bool

record validated_credential =
  vc_secret :: json
  vc_githubLogin :: string
  vc_expiresAt :: "int option"
  vc_metadata :: json

datatype transient_error = TransientUnavailable | TransientRateLimited

datatype test_outcome =
    OutcomeActive string "int option" json
  | OutcomeInvalid string
  | OutcomeExpired
  | OutcomeTransient transient_error "int option"

record integration_view =
  iv_uuid :: string
  iv_type :: string
  iv_status :: integration_status
  iv_statusReason :: "string option"
  iv_githubLogin :: string
  iv_expiresAt :: "int option"
  iv_metadata :: json

record strategy =
  st_type :: string
  st_flows :: integration_flows
  st_isEnabled :: "bool option"
  st_parseCredential :: "json \<Rightarrow> exn + json"
  st_parseSecretPayload :: "json \<Rightarrow> json option"
  st_validate :: "json \<Rightarrow> exn + validated_credential"
  st_test :: "json \<Rightarrow> integration_view \<Rightarrow> exn + test_outcome"
  st_describeMetadata :: "json \<Rightarrow> exn + json"
  st_mask :: "json \<Rightarrow> string"
  st_onDelete :: "json option \<Rightarrow> integration_view \<Rightarrow> exn + unit"

type_synonym registry = "(string \<times> strategy) list"

definition new_registry :: "strategy list \<Rightarrow> registry" where
  "new_registry strategies = fold (\<lambda>st m. AList.update (st_type st) st m) strategies []"

definition registry_find :: "registry \<Rightarrow> string \<Rightarrow> strategy option" where
  "registry_find reg t = map_of reg t"

definition registry_get :: "registry \<Rightarrow> string \<Rightarrow> exn + strategy" where
  "registry_get reg t =
     (case registry_find reg t of
        None \<Rightarrow> Inl (ErrorExn (''unknown integration type: '' @ t))
      | Some st \<Rightarrow> Inr st)"

record enabled_integration_type =
  et_type :: string
  et_flows :: integration_flows

definition enabledTypes :: "registry \<Rightarrow> enabled_integration_type list" where
  "enabledTypes reg =
     map (\<lambda>st. \<lparr>et_type = st_type st, et_flows = st_flows st\<rparr>)
       (filter (\<lambda>st. case st_isEnabled st of Some b \<Rightarrow> b | None \<Rightarrow> True) (map snd reg))"

text \<open>Looked up by its type, the strategy registered last under it is found.\<close>

lemma new_registry_find:
  "registry_find (new_registry strategies) t = List.find (\<lambda>st. st_type st = t) (rev strategies)"
proof (induction strategies rule: rev_induct)
  case Nil
  then show ?case by (simp add: registry_find_def new_registry_def)
next
  case (snoc st sts)
  then show ?case by (simp add: registry_find_def new_registry_def update_conv')
qed

lemma registry_find_type: "registry_find (new_registry sts) t = Some st \<Longrightarrow> st_type st = t"
  by (auto simp: new_registry_find find_Some_iff)

definition toIntegrationView :: "integration \<Rightarrow> integration_view" where
  "toIntegrationView r = \<lparr>iv_uuid = ig_uuid r, iv_type = ig_type r, iv_status = ig_status r,
     iv_statusReason = ig_statusReason r, iv_githubLogin = ig_githubLogin r,
     iv_expiresAt = ig_expiresAt r, iv_metadata = ig_metadata r\<rparr>"

end
