(* ===== verification/Integration_Credential.thy ===== *)
theory Integration_Credential
  imports Integration_Types Lockout
begin

text \<open>
  \<^verbatim>\<open>integrations/integration-credential-abuse-guard.service.ts\<close> and
  \<^verbatim>\<open>integrations/integration-credential.service.ts\<close>: the failure cool-off around credential
  validation, whose counter is only written by single statements, and the credential pipeline.
  The parameter \<open>race\<close> is what other requests committed while GitHub was being called.
\<close>

section \<open>The cool-off\<close>

definition DEFAULT_INTEGRATIONS_CREDENTIAL_MAX_ATTEMPTS :: int where
  "DEFAULT_INTEGRATIONS_CREDENTIAL_MAX_ATTEMPTS = 5"

definition DEFAULT_INTEGRATIONS_CREDENTIAL_LOCK_MS :: int where
  "DEFAULT_INTEGRATIONS_CREDENTIAL_LOCK_MS = 900000"

definition cred_maxAttempts :: "env \<Rightarrow> int" where
  "cred_maxAttempts e = getNumberConfig e ''KERGHAN_INTEGRATIONS_CREDENTIAL_MAX_ATTEMPTS''
     DEFAULT_INTEGRATIONS_CREDENTIAL_MAX_ATTEMPTS"

definition cred_lockMs :: "env \<Rightarrow> int" where
  "cred_lockMs e = getNumberConfig e ''KERGHAN_INTEGRATIONS_CREDENTIAL_LOCK_MS''
     DEFAULT_INTEGRATIONS_CREDENTIAL_LOCK_MS"

definition find_cred_lockout :: "nat \<Rightarrow> integ_state \<Rightarrow> credential_lockout option" where
  "find_cred_lockout userId s = find_one (\<lambda>l. cl_userId l = userId) (cred_lockouts s)"

definition cred_isLockedOut :: "int \<Rightarrow> nat \<Rightarrow> integ_state \<Rightarrow> bool" where
  "cred_isLockedOut now userId s =
     (case find_cred_lockout userId s of None \<Rightarrow> False | Some l \<Rightarrow> lock_active now (cl_lockedUntil l))"

text \<open>\<^verbatim>\<open>RESERVE_ATTEMPT_SQL\<close> computes the lock from the count before the increment.\<close>

definition reserve_row :: "env \<Rightarrow> int \<Rightarrow> credential_lockout \<Rightarrow> credential_lockout" where
  "reserve_row e now l = l\<lparr>cl_lockedUntil := (if cl_failedAttempts l + 1 \<ge> cred_maxAttempts e
       then Some (now + cred_lockMs e) else None), cl_failedAttempts := cl_failedAttempts l + 1\<rparr>"

definition reserveAttempt :: "env \<Rightarrow> int \<Rightarrow> nat \<Rightarrow> integ_state \<Rightarrow> bool \<times> integ_state" where
  "reserveAttempt e now userId s =
     (let s1 = ensure_lockout_row userId s;
          hit = (\<lambda>l. cl_userId l = userId \<and> \<not> lock_active now (cl_lockedUntil l))
      in (count_where hit (cred_lockouts s1) = 1,
          s1\<lparr>cred_lockouts := update_where hit (reserve_row e now) (cred_lockouts s1)\<rparr>))"

definition releaseAttempt :: "nat \<Rightarrow> integ_state \<Rightarrow> integ_state" where
  "releaseAttempt userId s =
     s\<lparr>cred_lockouts := update_where (\<lambda>l. cl_userId l = userId)
         (\<lambda>l. l\<lparr>cl_failedAttempts := max (cl_failedAttempts l - 1) 0, cl_lockedUntil := None\<rparr>) (cred_lockouts s)\<rparr>"

definition cred_reset :: "nat \<Rightarrow> integ_state \<Rightarrow> integ_state" where
  "cred_reset userId s =
     s\<lparr>cred_lockouts := update_where (\<lambda>l. cl_userId l = userId)
         (\<lambda>l. l\<lparr>cl_failedAttempts := 0, cl_lockedUntil := None\<rparr>) (cred_lockouts s)\<rparr>"

section \<open>The credential pipeline\<close>

definition cred_parse :: "registry \<Rightarrow> string \<Rightarrow> json \<Rightarrow> exn + strategy \<times> json" where
  "cred_parse reg t credential =
     (case registry_find reg t of
        None \<Rightarrow> Inl flowUnsupported
      | Some st \<Rightarrow>
          if \<not> fl_credentialPaste (st_flows st) then Inl flowUnsupported
          else (case st_parseCredential st credential of
             Inl x \<Rightarrow> Inl x
           | Inr secret \<Rightarrow> Inr (st, secret)))"

definition assertNotLocked :: "int \<Rightarrow> nat \<Rightarrow> integ_state \<Rightarrow> exn + unit" where
  "assertNotLocked now userId s = (if cred_isLockedOut now userId s then Inl credentialLocked else Inr ())"

definition settleFailure :: "nat \<Rightarrow> exn \<Rightarrow> integ_state \<Rightarrow> exn \<times> integ_state" where
  "settleFailure userId error s =
     (case error of
        CredentialExn x \<Rightarrow>
          (httpErrorFor x, if \<not> countsTowardCoolOff x then releaseAttempt userId s else s)
      | _ \<Rightarrow> (error, releaseAttempt userId s))"

definition attempt ::
  "env \<Rightarrow> int \<Rightarrow> (integ_state \<Rightarrow> integ_state) \<Rightarrow> nat \<Rightarrow> (exn + 'a) \<Rightarrow> ('a \<Rightarrow> bool) \<Rightarrow> integ_state
     \<Rightarrow> ('a, integ_state) outcome" where
  "attempt e now race userId run resetsCoolOff s =
     (case reserveAttempt e now userId s of
        (False, s1) \<Rightarrow> (Inl credentialLocked, s1)
      | (True, s1) \<Rightarrow>
          (let s2 = race s1
           in case run of
                Inl error \<Rightarrow> (case settleFailure userId error s2 of (x, s3) \<Rightarrow> (Inl x, s3))
              | Inr r \<Rightarrow>
                  (Inr r, if resetsCoolOff r then cred_reset userId s2 else releaseAttempt userId s2)))"

definition cred_validate ::
  "env \<Rightarrow> int \<Rightarrow> (integ_state \<Rightarrow> integ_state) \<Rightarrow> nat \<Rightarrow> strategy \<Rightarrow> json \<Rightarrow> integ_state
     \<Rightarrow> (validated_credential, integ_state) outcome" where
  "cred_validate e now race userId st secret s =
     attempt e now race userId (st_validate st secret) (\<lambda>_. True) s"

record sealed_credential =
  sc_githubLogin :: string
  sc_expiresAt :: "int option"
  sc_metadata :: json
  sc_secretHint :: string
  sc_encrypted :: encrypted_secret

definition cred_seal ::
  "crypto \<Rightarrow> integrations_key \<Rightarrow> string \<Rightarrow> strategy \<Rightarrow> validated_credential \<Rightarrow> string \<Rightarrow> exn + sealed_credential" where
  "cred_seal C ks iv st v uuid =
     (let encrypted = encrypt C ks iv (vc_secret v) \<lparr>bd_uuid = uuid, bd_type = st_type st\<rparr>
      in case st_describeMetadata st (vc_metadata v) of
           Inl x \<Rightarrow> Inl x
         | Inr metadata \<Rightarrow>
             Inr \<lparr>sc_githubLogin = vc_githubLogin v, sc_expiresAt = vc_expiresAt v, sc_metadata = metadata,
                  sc_secretHint = st_mask st (vc_secret v), sc_encrypted = encrypted\<rparr>)"

definition apply_sealed :: "sealed_credential \<Rightarrow> integration \<Rightarrow> integration" where
  "apply_sealed x r = (set_secret (sc_encrypted x) r)\<lparr>ig_githubLogin := sc_githubLogin x,
     ig_expiresAt := sc_expiresAt x, ig_metadata := sc_metadata x, ig_secretHint := Some (sc_secretHint x)\<rparr>"

section \<open>The lockout table\<close>

definition cred_lockouts_ok :: "integ_state \<Rightarrow> bool" where
  "cred_lockouts_ok s \<longleftrightarrow> distinct (map cl_userId (rows (cred_lockouts s)))
     \<and> (\<forall>l \<in> set (rows (cred_lockouts s)). 0 \<le> cl_failedAttempts l)"

definition cred_count :: "nat \<Rightarrow> integ_state \<Rightarrow> int" where
  "cred_count userId s = (case find_cred_lockout userId s of None \<Rightarrow> 0 | Some l \<Rightarrow> cl_failedAttempts l)"

lemma find_cred_lockout_Some:
  "find_cred_lockout i s = Some l \<Longrightarrow> l \<in> set (rows (cred_lockouts s)) \<and> cl_userId l = i"
  using find_one_Some by (fastforce simp: find_cred_lockout_def)

lemma find_cred_lockout_in:
  assumes "cred_lockouts_ok s" and "l \<in> set (rows (cred_lockouts s))" and "cl_userId l = i"
  shows "find_cred_lockout i s = Some l"
  unfolding find_cred_lockout_def
  using assms by (intro find_one_unique) (auto simp: cred_lockouts_ok_def dest: distinct_map_inj)

lemma cred_count_nonneg: "cred_lockouts_ok s \<Longrightarrow> 0 \<le> cred_count i s"
  using find_cred_lockout_Some [of i s] by (auto simp: cred_count_def cred_lockouts_ok_def split: option.splits)

lemma ensure_lockout_row_ok:
  assumes "cred_lockouts_ok s"
  shows "cred_lockouts_ok (ensure_lockout_row i s)"
    and "\<exists>l. find_cred_lockout i (ensure_lockout_row i s) = Some l \<and> cl_failedAttempts l = cred_count i s
           \<and> (\<forall>now. lock_active now (cl_lockedUntil l) \<longleftrightarrow> cred_isLockedOut now i s)"
proof -
  let ?s = "ensure_lockout_row i s"
  have "cred_lockouts_ok ?s \<and> (\<exists>l. find_cred_lockout i ?s = Some l \<and> cl_failedAttempts l = cred_count i s
      \<and> (\<forall>now. lock_active now (cl_lockedUntil l) \<longleftrightarrow> cred_isLockedOut now i s))"
  proof (cases "find_cred_lockout i s")
    case (Some l)
    with find_cred_lockout_Some have "?s = s" by (fastforce simp: ensure_lockout_row_def exists_where_iff)
    with assms Some show ?thesis by (simp add: cred_count_def cred_isLockedOut_def)
  next
    case None
    then have none: "\<forall>l \<in> set (rows (cred_lockouts s)). cl_userId l \<noteq> i"
      by (simp add: find_cred_lockout_def find_one_None)
    let ?l = "\<lparr>cl_id = next_id (cred_lockouts s), cl_userId = i, cl_failedAttempts = 0, cl_lockedUntil = None\<rparr>"
    have rows: "rows (cred_lockouts ?s) = rows (cred_lockouts s) @ [?l]"
      using none by (auto simp: ensure_lockout_row_def exists_where_iff table_simps)
    with assms none have ok: "cred_lockouts_ok ?s" by (auto simp: cred_lockouts_ok_def)
    have "find_cred_lockout i ?s = Some ?l" by (rule find_cred_lockout_in [OF ok]) (simp_all add: rows)
    with ok None show ?thesis by (simp add: cred_count_def cred_isLockedOut_def)
  qed
  then show "cred_lockouts_ok ?s"
    and "\<exists>l. find_cred_lockout i ?s = Some l \<and> cl_failedAttempts l = cred_count i s
           \<and> (\<forall>now. lock_active now (cl_lockedUntil l) \<longleftrightarrow> cred_isLockedOut now i s)" by auto
qed

text \<open>A write to the row of one user.\<close>

lemma update_cred_lockout:
  assumes ok: "cred_lockouts_ok s" and l: "find_cred_lockout i s = Some l"
    and keep: "\<And>r. cl_userId (f r) = cl_userId r" and pos: "\<And>r. 0 \<le> cl_failedAttempts r \<Longrightarrow> 0 \<le> cl_failedAttempts (f r)"
    and hit: "\<And>r. p r \<Longrightarrow> cl_userId r = i"
    and s': "s' = s\<lparr>cred_lockouts := update_where p f (cred_lockouts s)\<rparr>"
  shows "cred_lockouts_ok s'" and "find_cred_lockout i s' = Some (if p l then f l else l)"
proof -
  have us: "map cl_userId (rows (cred_lockouts s')) = map cl_userId (rows (cred_lockouts s))"
    unfolding s' by (simp add: rows_update_where keep)
  have "\<forall>l \<in> set (rows (cred_lockouts s')). 0 \<le> cl_failedAttempts l"
    using ok pos by (auto simp: s' table_simps cred_lockouts_ok_def)
  then show ok': "cred_lockouts_ok s'"
    using ok unfolding cred_lockouts_ok_def us by simp
  have "(if p l then f l else l) \<in> set (rows (cred_lockouts s'))"
    using find_cred_lockout_Some [OF l] by (auto simp: s' table_simps)
  with find_cred_lockout_in [OF ok', of "if p l then f l else l" i] keep find_cred_lockout_Some [OF l]
  show "find_cred_lockout i s' = Some (if p l then f l else l)" by simp
qed

lemma reserveAttempt_row:
  assumes "cred_lockouts_ok s"
  shows "cred_lockouts_ok (snd (reserveAttempt e now i s))"
    and "fst (reserveAttempt e now i s) \<longleftrightarrow> \<not> cred_isLockedOut now i s"
    and "\<not> cred_isLockedOut now i s \<Longrightarrow> cred_count i (snd (reserveAttempt e now i s)) = cred_count i s + 1"
    and "\<not> cred_isLockedOut now i s \<Longrightarrow> cred_isLockedOut t i (snd (reserveAttempt e now i s))
           \<longleftrightarrow> cred_maxAttempts e \<le> cred_count i s + 1 \<and> t < now + cred_lockMs e"
    and "cred_isLockedOut now i s \<Longrightarrow> cred_count i (snd (reserveAttempt e now i s)) = cred_count i s"
    and "cred_isLockedOut now i s \<Longrightarrow>
           cred_isLockedOut t i (snd (reserveAttempt e now i s)) \<longleftrightarrow> cred_isLockedOut t i s"
proof -
  let ?s1 = "ensure_lockout_row i s"
  let ?hit = "\<lambda>l. cl_userId l = i \<and> \<not> lock_active now (cl_lockedUntil l)"
  note ok1 = ensure_lockout_row_ok(1) [OF assms, of i]
  from ensure_lockout_row_ok(2) [OF assms, of i] obtain l where l: "find_cred_lockout i ?s1 = Some l"
    and c: "cl_failedAttempts l = cred_count i s"
    and k: "\<And>now. lock_active now (cl_lockedUntil l) \<longleftrightarrow> cred_isLockedOut now i s" by blast
  note m = find_cred_lockout_Some [OF l]
  have res: "snd (reserveAttempt e now i s)
      = ?s1\<lparr>cred_lockouts := update_where ?hit (reserve_row e now) (cred_lockouts ?s1)\<rparr>"
    by (simp add: reserveAttempt_def Let_def)
  note upd = update_cred_lockout [OF ok1 l, where f = "reserve_row e now" and p = ?hit, OF _ _ _ res]
  show "cred_lockouts_ok (snd (reserveAttempt e now i s))" by (rule upd) (simp_all add: reserve_row_def)
  have row: "find_cred_lockout i (snd (reserveAttempt e now i s)) = Some (if ?hit l then reserve_row e now l else l)"
    by (rule upd) (simp_all add: reserve_row_def)
  have "filter ?hit (rows (cred_lockouts ?s1)) = (if ?hit l then [l] else [])"
    using ok1 m by (intro filter_key_singleton [where k = cl_userId]) (auto simp: cred_lockouts_ok_def)
  then show "fst (reserveAttempt e now i s) \<longleftrightarrow> \<not> cred_isLockedOut now i s"
    using m k [of now] by (simp add: reserveAttempt_def Let_def count_where_def)
  show "\<not> cred_isLockedOut now i s \<Longrightarrow> cred_count i (snd (reserveAttempt e now i s)) = cred_count i s + 1"
    and "\<not> cred_isLockedOut now i s \<Longrightarrow> cred_isLockedOut t i (snd (reserveAttempt e now i s))
           \<longleftrightarrow> cred_maxAttempts e \<le> cred_count i s + 1 \<and> t < now + cred_lockMs e"
    and "cred_isLockedOut now i s \<Longrightarrow> cred_count i (snd (reserveAttempt e now i s)) = cred_count i s"
    and "cred_isLockedOut now i s \<Longrightarrow>
           cred_isLockedOut t i (snd (reserveAttempt e now i s)) \<longleftrightarrow> cred_isLockedOut t i s"
    using m k [of now] k [of t] c
    by (simp_all add: cred_count_def [of i "snd (reserveAttempt e now i s)"]
        cred_isLockedOut_def [of t i "snd (reserveAttempt e now i s)"] row reserve_row_def)
qed

text \<open>Releasing and resetting write the row when there is one.\<close>

lemma settle_row:
  assumes "cred_lockouts_ok s" and "\<And>r. cl_userId (f r) = cl_userId r"
    and "\<And>r. 0 \<le> cl_failedAttempts (f r) \<and> cl_lockedUntil (f r) = None"
    and "s' = s\<lparr>cred_lockouts := update_where (\<lambda>l. cl_userId l = i) f (cred_lockouts s)\<rparr>"
  shows "cred_lockouts_ok s'" and "\<not> cred_isLockedOut t i s'"
    and "find_cred_lockout i s' = map_option f (find_cred_lockout i s)"
proof -
  have "cred_lockouts_ok s' \<and> \<not> cred_isLockedOut t i s'
      \<and> find_cred_lockout i s' = map_option f (find_cred_lockout i s)"
  proof (cases "find_cred_lockout i s")
    case None
    then have "update_where (\<lambda>l. cl_userId l = i) f (cred_lockouts s) = cred_lockouts s"
      by (simp add: find_cred_lockout_def find_one_None update_where_def map_idI)
    with None assms show ?thesis by (simp add: cred_isLockedOut_def)
  next
    case (Some l)
    from update_cred_lockout [OF assms(1) Some, where f = f and p = "\<lambda>l. cl_userId l = i" and s' = s'] assms
      find_cred_lockout_Some [OF Some] show ?thesis by (simp add: cred_isLockedOut_def Some)
  qed
  then show "cred_lockouts_ok s'" and "\<not> cred_isLockedOut t i s'"
    and "find_cred_lockout i s' = map_option f (find_cred_lockout i s)" by auto
qed

lemma cred_reset_row:
  assumes "cred_lockouts_ok s"
  shows "cred_lockouts_ok (cred_reset i s)" and "cred_count i (cred_reset i s) = 0"
    and "\<not> cred_isLockedOut t i (cred_reset i s)"
  using settle_row [OF assms, where f = "\<lambda>l. l\<lparr>cl_failedAttempts := 0, cl_lockedUntil := None\<rparr>" and i = i
      and s' = "cred_reset i s"]
  by (auto simp: cred_reset_def cred_count_def split: option.splits)

lemma releaseAttempt_row:
  assumes "cred_lockouts_ok s"
  shows "cred_lockouts_ok (releaseAttempt i s)" and "cred_count i (releaseAttempt i s) = max (cred_count i s - 1) 0"
    and "\<not> cred_isLockedOut t i (releaseAttempt i s)"
  using settle_row [OF assms, where f = "\<lambda>l. l\<lparr>cl_failedAttempts := max (cl_failedAttempts l - 1) 0,
      cl_lockedUntil := None\<rparr>" and i = i and s' = "releaseAttempt i s"]
  by (auto simp: releaseAttempt_def cred_count_def split: option.splits)

interpretation cred_guard: cool_off cred_lockouts_ok "cred_count i" "\<lambda>now. cred_isLockedOut now i"
  "\<lambda>now s. snd (reserveAttempt e now i s)" "cred_reset i" "cred_maxAttempts e" "cred_lockMs e"
  for i e
  by unfold_locales (simp_all add: reserveAttempt_row cred_reset_row)

section \<open>Bursts of parallel attempts\<close>

text \<open>
  What concurrent requests of one user do to the counter, in any order: reserve an attempt at a
  time, settle a validation that failed, or finish one whose result does not reset the cool-off.
  The model counts the validations in flight and the ones that ended in a counted failure.
\<close>

datatype attempt_event = AttemptReserve int | AttemptFailed exn | AttemptKept

record burst =
  bu_state :: integ_state
  bu_inFlight :: nat
  bu_failed :: nat

definition counted_failure :: "exn \<Rightarrow> bool" where
  "counted_failure x = (case x of CredentialExn c \<Rightarrow> countsTowardCoolOff c | _ \<Rightarrow> False)"

fun burst_step :: "env \<Rightarrow> nat \<Rightarrow> attempt_event \<Rightarrow> burst \<Rightarrow> burst" where
  "burst_step e i (AttemptReserve now) b =
     (case reserveAttempt e now i (bu_state b) of (granted, s1) \<Rightarrow>
        b\<lparr>bu_state := s1, bu_inFlight := bu_inFlight b + (if granted then 1 else 0)\<rparr>)"
| "burst_step e i (AttemptFailed x) b =
     (if bu_inFlight b = 0 then b
      else b\<lparr>bu_state := snd (settleFailure i x (bu_state b)), bu_inFlight := bu_inFlight b - 1,
             bu_failed := bu_failed b + (if counted_failure x then 1 else 0)\<rparr>)"
| "burst_step e i AttemptKept b =
     (if bu_inFlight b = 0 then b
      else b\<lparr>bu_state := releaseAttempt i (bu_state b), bu_inFlight := bu_inFlight b - 1\<rparr>)"

definition burst_invar :: "env \<Rightarrow> nat \<Rightarrow> int \<Rightarrow> int \<Rightarrow> int \<Rightarrow> burst \<Rightarrow> bool" where
  "burst_invar e i lo hi c0 b \<longleftrightarrow> cred_lockouts_ok (bu_state b)
     \<and> cred_count i (bu_state b) = c0 + int (bu_inFlight b + bu_failed b)
     \<and> int (bu_inFlight b + bu_failed b) \<le> max 1 (cred_maxAttempts e - c0)
     \<and> (int (bu_inFlight b + bu_failed b) = max 1 (cred_maxAttempts e - c0) \<longrightarrow>
          (\<forall>t. lo \<le> t \<and> t \<le> hi \<longrightarrow> cred_isLockedOut t i (bu_state b)))"

definition reserves_within :: "int \<Rightarrow> int \<Rightarrow> attempt_event \<Rightarrow> bool" where
  "reserves_within lo hi ev = (case ev of AttemptReserve t \<Rightarrow> lo \<le> t \<and> t \<le> hi | _ \<Rightarrow> True)"

lemma settleFailure_state:
  "snd (settleFailure i x s) = (if counted_failure x then s else releaseAttempt i s)"
  by (simp add: settleFailure_def counted_failure_def split: exn.splits)

lemma burst_invar_release:
  assumes "burst_invar e i lo hi c0 b" and "0 \<le> c0" and "bu_inFlight b \<noteq> 0"
  shows "burst_invar e i lo hi c0 (b\<lparr>bu_state := releaseAttempt i (bu_state b), bu_inFlight := bu_inFlight b - 1\<rparr>)"
  using assms releaseAttempt_row(1,2) [of "bu_state b" i]
  by (auto simp: burst_invar_def)

lemma burst_invar_step:
  assumes inv: "burst_invar e i lo hi c0 b" and "0 \<le> c0" and "hi - lo < cred_lockMs e"
    and "reserves_within lo hi ev"
  shows "burst_invar e i lo hi c0 (burst_step e i ev b)"
proof (cases ev)
  case (AttemptReserve now)
  let ?s = "bu_state b" and ?r = "reserveAttempt e now i (bu_state b)"
  have ok: "cred_lockouts_ok ?s" using inv by (simp add: burst_invar_def)
  note res = reserveAttempt_row [OF ok, where e = e and now = now and i = i]
  have t: "lo \<le> now" "now \<le> hi" using assms(4) AttemptReserve by (simp_all add: reserves_within_def)
  show ?thesis
  proof (cases "cred_isLockedOut now i ?s")
    case True
    with inv res show ?thesis by (auto simp: AttemptReserve burst_invar_def split: prod.splits)
  next
    case False
    with inv t have "int (bu_inFlight b + bu_failed b) < max 1 (cred_maxAttempts e - c0)"
      by (auto simp: burst_invar_def)
    with False inv res(1-4) t assms(3) show ?thesis
      by (auto simp: AttemptReserve burst_invar_def split: prod.splits)
  qed
next
  case (AttemptFailed x)
  with inv burst_invar_release [OF inv assms(2)] show ?thesis
    by (auto simp: settleFailure_state burst_invar_def)
next
  case AttemptKept
  with inv burst_invar_release [OF inv assms(2)] show ?thesis by simp
qed

lemma burst_invar_fold:
  assumes "burst_invar e i lo hi c0 b" and "0 \<le> c0" and "hi - lo < cred_lockMs e"
    and "list_all (reserves_within lo hi) evs"
  shows "burst_invar e i lo hi c0 (fold (burst_step e i) evs b)"
  using assms(1,4) by (induction evs arbitrary: b) (simp_all add: burst_invar_step [OF _ assms(2,3)])



end
