(* ===== verification/Integrations_Key_Rotation.thy ===== *)
theory Integrations_Key_Rotation
  imports Integration_Store "HOL-Library.List_Lexorder" "HOL-Library.Char_ord"
begin

text \<open>
  \<^verbatim>\<open>integrations/integrations-key-rotation.service.ts\<close>: the key report and the batched
  re-encryption.  The parameter \<open>race\<close> is what other processes committed between the read of a
  batch and the rewrite of each of its rows, by row id (the identity when nothing did); \<open>iv\<close> is
  the random IV drawn for each row.  The loop is a partial function, so that not returning is the
  value \<^term>\<open>None\<close>.
\<close>

section \<open>Roles of key ids\<close>

datatype key_role = RoleCurrent | RolePrevious | RoleUnknown

text \<open>\<^verbatim>\<open>ROLE_ORDER\<close>: roles are ordered as they are reported.\<close>

definition ROLE_ORDER :: "key_role \<Rightarrow> nat" where
  "ROLE_ORDER r = (case r of RoleCurrent \<Rightarrow> 0 | RolePrevious \<Rightarrow> 1 | RoleUnknown \<Rightarrow> 2)"

lemma ROLE_ORDER_inject [simp]: "ROLE_ORDER r = ROLE_ORDER q \<longleftrightarrow> r = q"
  by (simp add: ROLE_ORDER_def split: key_role.splits)

instantiation key_role :: linorder
begin

definition less_eq_key_role :: "key_role \<Rightarrow> key_role \<Rightarrow> bool" where
  "less_eq_key_role r q \<longleftrightarrow> ROLE_ORDER r \<le> ROLE_ORDER q"

definition less_key_role :: "key_role \<Rightarrow> key_role \<Rightarrow> bool" where
  "less_key_role r q \<longleftrightarrow> ROLE_ORDER r < ROLE_ORDER q"

instance
  by standard (auto simp: less_eq_key_role_def less_key_role_def)

end

definition roleOf :: "integrations_key \<Rightarrow> string \<Rightarrow> key_role" where
  "roleOf ks i =
     (if isCurrentKeyId ks i then RoleCurrent else if isPreviousKeyId ks i then RolePrevious else RoleUnknown)"

record key_status_line =
  kl_keyId :: string
  kl_role :: key_role
  kl_count :: nat

definition key_status :: "integrations_key \<Rightarrow> integ_state \<Rightarrow> key_status_line list" where
  "key_status ks s =
     (let counts = countBySecretKeyIdForOperator s;
          configured = currentKeyId ks # previousKeyIds ks;
          unknown = sort (filter (\<lambda>i. i \<notin> set configured) (map fst counts))
      in sort_key kl_role
           (map (\<lambda>i. \<lparr>kl_keyId = i, kl_role = roleOf ks i,
                      kl_count = (case map_of counts i of Some n \<Rightarrow> n | None \<Rightarrow> 0)\<rparr>)
             (configured @ unknown)))"

section \<open>Re-encryption\<close>

record reencrypt_result =
  rr_reencrypted :: nat
  rr_skippedUndecryptable :: nat
  rr_skippedChanged :: nat

datatype row_outcome = Reencrypted | SkippedUndecryptable | SkippedChanged

definition add_outcome :: "row_outcome \<Rightarrow> reencrypt_result \<Rightarrow> reencrypt_result" where
  "add_outcome x res = (case x of
       Reencrypted \<Rightarrow> res\<lparr>rr_reencrypted := rr_reencrypted res + 1\<rparr>
     | SkippedUndecryptable \<Rightarrow> res\<lparr>rr_skippedUndecryptable := rr_skippedUndecryptable res + 1\<rparr>
     | SkippedChanged \<Rightarrow> res\<lparr>rr_skippedChanged := rr_skippedChanged res + 1\<rparr>)"

definition encryptedColumnsOf :: "integration \<Rightarrow> encrypted_secret \<times> secret_binding" where
  "encryptedColumnsOf r =
     (\<lparr>es_keyId = ig_secretKeyId r, es_iv = ig_secretIv r, es_authTag = ig_secretAuthTag r,
       es_ciphertext = ig_secretCiphertext r\<rparr>, \<lparr>bd_uuid = ig_uuid r, bd_type = ig_type r\<rparr>)"

lemma columns_eta [simp]:
  "\<lparr>es_keyId = es_keyId x, es_iv = es_iv x, es_authTag = es_authTag x, es_ciphertext = es_ciphertext x\<rparr> = x"
  by simp

definition reencrypt_columns ::
  "crypto \<Rightarrow> integrations_key \<Rightarrow> string \<Rightarrow> integration \<Rightarrow> encrypted_secret option" where
  "reencrypt_columns C ks iv r = (case encryptedColumnsOf r of (x, b) \<Rightarrow> reencrypt C ks iv x b)"

definition REENCRYPT_BATCH_SIZE :: nat where "REENCRYPT_BATCH_SIZE = 100"

definition reencryptRow ::
  "crypto \<Rightarrow> integrations_key \<Rightarrow> (nat \<Rightarrow> string) \<Rightarrow> int \<Rightarrow> (nat \<Rightarrow> integ_state \<Rightarrow> integ_state)
     \<Rightarrow> integration \<Rightarrow> integ_state \<Rightarrow> row_outcome \<times> integ_state" where
  "reencryptRow C ks iv now race r s =
     (let fromKeyId = ig_secretKeyId r; s1 = race (ig_id r) s
      in case reencrypt_columns C ks (iv (ig_id r)) r of
           None \<Rightarrow> (SkippedUndecryptable, s1)
         | Some encrypted \<Rightarrow>
             (case rewriteSecret now r encrypted fromKeyId s1 of
                (None, s2) \<Rightarrow> (SkippedChanged, s2)
              | (Some _, s2) \<Rightarrow> (Reencrypted, s2)))"

record rotation =
  ro_result :: reencrypt_result
  ro_afterId :: nat
  ro_state :: integ_state

definition reencrypt_one ::
  "crypto \<Rightarrow> integrations_key \<Rightarrow> (nat \<Rightarrow> string) \<Rightarrow> int \<Rightarrow> (nat \<Rightarrow> integ_state \<Rightarrow> integ_state)
     \<Rightarrow> integration \<Rightarrow> rotation \<Rightarrow> rotation" where
  "reencrypt_one C ks iv now race r ro =
     (case reencryptRow C ks iv now race r (ro_state ro) of
        (x, s1) \<Rightarrow> \<lparr>ro_result = add_outcome x (ro_result ro), ro_afterId = ig_id r, ro_state = s1\<rparr>)"

definition rotation_batch :: "integrations_key \<Rightarrow> rotation \<Rightarrow> integration list" where
  "rotation_batch ks ro =
     findBySecretKeyIdsForOperator (previousKeyIds ks) (ro_afterId ro) REENCRYPT_BATCH_SIZE (ro_state ro)"

partial_function (option) reencrypt_loop ::
  "crypto \<Rightarrow> integrations_key \<Rightarrow> (nat \<Rightarrow> string) \<Rightarrow> int \<Rightarrow> (nat \<Rightarrow> integ_state \<Rightarrow> integ_state)
     \<Rightarrow> rotation \<Rightarrow> rotation option" where
  "reencrypt_loop C ks iv now race ro =
     (let batch = rotation_batch ks ro; ro1 = fold (reencrypt_one C ks iv now race) batch ro
      in if length batch = REENCRYPT_BATCH_SIZE then reencrypt_loop C ks iv now race ro1 else Some ro1)"

definition reencrypt_all ::
  "crypto \<Rightarrow> integrations_key \<Rightarrow> (nat \<Rightarrow> string) \<Rightarrow> int \<Rightarrow> (nat \<Rightarrow> integ_state \<Rightarrow> integ_state)
     \<Rightarrow> integ_state \<Rightarrow> (reencrypt_result \<times> integ_state) option" where
  "reencrypt_all C ks iv now race s =
     map_option (\<lambda>ro. (ro_result ro, ro_state ro))
       (reencrypt_loop C ks iv now race
          \<lparr>ro_result = \<lparr>rr_reencrypted = 0, rr_skippedUndecryptable = 0, rr_skippedChanged = 0\<rparr>,
           ro_afterId = 0, ro_state = s\<rparr>)"

section \<open>The CLI's output\<close>

definition role_text :: "key_role \<Rightarrow> string" where
  "role_text r = (case r of RoleCurrent \<Rightarrow> ''current'' | RolePrevious \<Rightarrow> ''previous'' | RoleUnknown \<Rightarrow> ''unknown'')"

definition formatKeyStatus :: "key_status_line list \<Rightarrow> string" where
  "formatKeyStatus ls = concat (map (\<lambda>l. kl_keyId l @ '' '' @ role_text (kl_role l) @ '' ''
     @ nat_to_string (kl_count l) @ [CHR 0x0A]) ls)"

definition formatReencryptSummary :: "reencrypt_result \<Rightarrow> string" where
  "formatReencryptSummary res = ''reencrypted='' @ nat_to_string (rr_reencrypted res)
     @ '' skipped_undecryptable='' @ nat_to_string (rr_skippedUndecryptable res)
     @ '' skipped_changed='' @ nat_to_string (rr_skippedChanged res) @ [CHR 0x0A]"

definition reencryptExitCode :: "reencrypt_result \<Rightarrow> nat" where
  "reencryptExitCode res = (if rr_skippedUndecryptable res > 0 then 1 else 0)"

section \<open>Termination\<close>

definition integ_ids :: "integ_state \<Rightarrow> nat set" where
  "integ_ids s = ig_id ` set (rows (integrations s))"

lemma update_ids:
  assumes "\<And>r. ig_id (f r) = ig_id r"
  shows "ig_id ` set (rows (update_where p f t)) = ig_id ` set (rows t)"
proof -
  have "map ig_id (rows (update_where p f t)) = map ig_id (rows t)"
    unfolding rows_update_where by (rule map_update_keep) (rule assms)
  then show ?thesis by (metis list.set_map)
qed

text \<open>Other processes may change and delete rows meanwhile, but insert none.\<close>

definition no_new_rows :: "(nat \<Rightarrow> integ_state \<Rightarrow> integ_state) \<Rightarrow> bool" where
  "no_new_rows race \<longleftrightarrow> (\<forall>i s. integ_ids (race i s) \<subseteq> integ_ids s)"

lemma reencryptRow_ids:
  assumes "no_new_rows race"
  shows "integ_ids (snd (reencryptRow C ks iv now race r s)) \<subseteq> integ_ids s"
proof -
  have "integ_ids (snd (rewriteSecret now r x k s1)) = integ_ids s1" for x k s1
    by (simp add: integ_ids_def rewriteSecret_rows update_ids set_secret_def)
  moreover have "integ_ids (race (ig_id r) s) \<subseteq> integ_ids s" using assms by (simp add: no_new_rows_def)
  ultimately show ?thesis
    by (auto simp: reencryptRow_def Let_def split: option.splits prod.splits) (metis snd_conv subsetD)+
qed

lemma batch_ids:
  assumes "no_new_rows race"
  shows "integ_ids (ro_state (fold (reencrypt_one C ks iv now race) batch ro)) \<subseteq> integ_ids (ro_state ro)
    \<and> ro_afterId (fold (reencrypt_one C ks iv now race) batch ro)
        = (if batch = [] then ro_afterId ro else ig_id (last batch))"
proof (induction batch arbitrary: ro)
  case (Cons r batch)
  have "integ_ids (ro_state (reencrypt_one C ks iv now race r ro)) \<subseteq> integ_ids (ro_state ro)"
    using reencryptRow_ids [OF assms]
    by (simp add: reencrypt_one_def split_beta)
  with Cons.IH [of "reencrypt_one C ks iv now race r ro"] show ?case
    by (auto simp: reencrypt_one_def split: prod.splits)
qed simp

lemma rotation_batch_set:
  assumes "r \<in> set (rotation_batch ks ro)"
  shows "ig_id r \<in> integ_ids (ro_state ro)" and "ro_afterId ro < ig_id r"
  using assms
  by (auto simp: rotation_batch_def findBySecretKeyIdsForOperator_def integ_ids_def order_asc_def
      select_where_def split: if_splits dest!: in_set_takeD)

lemma reencrypt_loop_returns:
  assumes "no_new_rows race"
  shows "\<exists>ro'. reencrypt_loop C ks iv now race ro = Some ro'"
proof (induction "card {i \<in> integ_ids (ro_state ro). ro_afterId ro < i}" arbitrary: ro rule: less_induct)
  case less
  let ?batch = "rotation_batch ks ro"
  let ?ro = "fold (reencrypt_one C ks iv now race) ?batch ro"
  show ?case
  proof (cases "length ?batch = REENCRYPT_BATCH_SIZE")
    case True
    then have ne: "?batch \<noteq> []" by (auto simp: REENCRYPT_BATCH_SIZE_def)
    let ?i = "ig_id (last ?batch)"
    have last: "?i \<in> integ_ids (ro_state ro)" "ro_afterId ro < ?i"
      using rotation_batch_set [OF last_in_set [OF ne]] .
    have "{i \<in> integ_ids (ro_state ?ro). ro_afterId ?ro < i} \<subset> {i \<in> integ_ids (ro_state ro). ro_afterId ro < i}"
      using batch_ids [OF assms, where C = C and ks = ks and iv = iv and now = now and batch = ?batch and ro = ro]
        ne last by auto
    moreover have "finite (integ_ids (ro_state ro))" by (simp add: integ_ids_def)
    ultimately have "card {i \<in> integ_ids (ro_state ?ro). ro_afterId ?ro < i}
        < card {i \<in> integ_ids (ro_state ro). ro_afterId ro < i}" by (intro psubset_card_mono) auto
    from less [OF this] True show ?thesis by (simp add: reencrypt_loop.simps [of C ks iv now race ro] Let_def)
  next
    case False
    then show ?thesis by (simp add: reencrypt_loop.simps [of C ks iv now race ro] Let_def)
  qed
qed

section \<open>One pass over the table\<close>

text \<open>The reference: every row under a previous key that decrypts is rewritten, in one pass.\<close>

definition rekey ::
  "crypto \<Rightarrow> integrations_key \<Rightarrow> (nat \<Rightarrow> string) \<Rightarrow> int \<Rightarrow> integration \<Rightarrow> integration" where
  "rekey C ks iv now r =
     (if ig_secretKeyId r \<in> set (previousKeyIds ks)
      then case reencrypt_columns C ks (iv (ig_id r)) r of
        None \<Rightarrow> r
      | Some x \<Rightarrow> (set_secret x r)\<lparr>ig_updatedAt := now\<rparr>
      else r)"

lemma rekey_id [simp]: "ig_id (rekey C ks iv now r) = ig_id r"
  by (simp add: rekey_def set_secret_def split: option.splits)

text \<open>The table when the rows up to an id have been treated.\<close>

definition rekeyed_upto ::
  "crypto \<Rightarrow> integrations_key \<Rightarrow> (nat \<Rightarrow> string) \<Rightarrow> int \<Rightarrow> integ_state \<Rightarrow> nat \<Rightarrow> integ_state" where
  "rekeyed_upto C ks iv now s a = s\<lparr>integrations := (integrations s)\<lparr>rows :=
     map (\<lambda>r. if ig_id r \<le> a then rekey C ks iv now r else r) (rows (integrations s))\<rparr>\<rparr>"

definition work_list :: "integrations_key \<Rightarrow> integ_state \<Rightarrow> integration list" where
  "work_list ks s = order_asc (\<lambda>r. int (ig_id r))
     (select_where (\<lambda>r. ig_secretKeyId r \<in> set (previousKeyIds ks)) (integrations s))"

lemma work_list_set:
  "r \<in> set (work_list ks s) \<longleftrightarrow> r \<in> set (rows (integrations s)) \<and> ig_secretKeyId r \<in> set (previousKeyIds ks)"
  by (auto simp: work_list_def order_asc_def select_where_def)

lemma work_list_sorted:
  assumes "distinct (map ig_id (rows (integrations s)))"
  shows "sorted_wrt (<) (map ig_id (work_list ks s))"
proof -
  let ?L = "work_list ks s"
  have "sorted (map (\<lambda>r. int (ig_id r)) ?L)" by (simp add: work_list_def order_asc_def)
  then have s: "sorted (map ig_id ?L)" by (simp add: sorted_wrt_map)
  have "distinct ?L" using assms by (simp add: work_list_def order_asc_def select_where_def distinct_map)
  moreover have "inj_on ig_id (set ?L)"
    using assms by (auto simp: work_list_def order_asc_def select_where_def distinct_map inj_on_def)
  ultimately have "distinct (map ig_id ?L)" by (simp add: distinct_map)
  with s show ?thesis by (simp add: strict_sorted_iff)
qed

lemma rotation_batch_upto:
  assumes "ro_state ro = rekeyed_upto C ks iv now s (ro_afterId ro)"
  shows "rotation_batch ks ro =
    take REENCRYPT_BATCH_SIZE (filter (\<lambda>r. ro_afterId ro < ig_id r) (work_list ks s))"
proof -
  let ?a = "ro_afterId ro" and ?m = "\<lambda>r. ig_secretKeyId r \<in> set (previousKeyIds ks)"
  have "filter (\<lambda>r. ?m r \<and> ?a < ig_id r) (map (\<lambda>r. if ig_id r \<le> ?a then rekey C ks iv now r else r) xs)
      = filter (\<lambda>r. ?a < ig_id r) (filter ?m xs)" for xs
    by (induction xs) auto
  then have "select_where (\<lambda>r. ?m r \<and> ?a < ig_id r) (integrations (ro_state ro))
      = filter (\<lambda>r. ?a < ig_id r) (select_where ?m (integrations s))"
    by (simp add: assms rekeyed_upto_def select_where_def)
  then have "order_asc (\<lambda>r. int (ig_id r)) (select_where (\<lambda>r. ?m r \<and> ?a < ig_id r) (integrations (ro_state ro)))
      = filter (\<lambda>r. ?a < ig_id r) (work_list ks s)"
    by (simp add: work_list_def order_asc_def filter_sort)
  moreover have "work_list ks s = []" if "previousKeyIds ks = []"
    using that by (simp add: work_list_def select_where_def order_asc_def)
  ultimately show ?thesis
    by (auto simp: rotation_batch_def findBySecretKeyIdsForOperator_def)
qed

definition quiet_outcome :: "crypto \<Rightarrow> integrations_key \<Rightarrow> (nat \<Rightarrow> string) \<Rightarrow> integration \<Rightarrow> row_outcome" where
  "quiet_outcome C ks iv r =
     (if reencrypt_columns C ks (iv (ig_id r)) r = None then SkippedUndecryptable else Reencrypted)"

lemma reencryptRow_quiet:
  assumes ids: "distinct (map ig_id (rows (integrations s)))" and r: "r \<in> set (work_list ks s)"
    and a: "a < ig_id r"
    and gap: "\<And>x. x \<in> set (work_list ks s) \<Longrightarrow> a < ig_id x \<Longrightarrow> ig_id r \<le> ig_id x"
  shows "reencryptRow C ks iv now (\<lambda>_ s. s) r (rekeyed_upto C ks iv now s a)
       = (quiet_outcome C ks iv r, rekeyed_upto C ks iv now s (ig_id r))"
proof -
  let ?g = "\<lambda>x. if ig_id x \<le> a then rekey C ks iv now x else x"
  let ?h = "\<lambda>x. if ig_id x \<le> ig_id r then rekey C ks iv now x else x"
  have rin: "r \<in> set (rows (integrations s))" and m: "ig_secretKeyId r \<in> set (previousKeyIds ks)"
    using r by (simp_all add: work_list_set)
  have step: "?g x = ?h x" if "x \<in> set (rows (integrations s))" and "x \<noteq> r" for x
  proof -
    from that ids rin have "ig_id x \<noteq> ig_id r" by (metis distinct_map_inj)
    moreover have "rekey C ks iv now x = x" if "a < ig_id x" and "ig_id x < ig_id r"
      using gap [of x] that \<open>x \<in> set (rows (integrations s))\<close>
      by (auto simp: work_list_set rekey_def)
    ultimately show ?thesis using a by auto
  qed
  show ?thesis
  proof (cases "reencrypt_columns C ks (iv (ig_id r)) r")
    case None
    then have "?g x = ?h x" if "x \<in> set (rows (integrations s))" for x
      using step [OF that] a m by (cases "x = r") (auto simp: rekey_def)
    with None show ?thesis
      by (simp add: reencryptRow_def Let_def quiet_outcome_def rekeyed_upto_def cong: map_cong)
  next
    case (Some x)
    let ?hit = "\<lambda>q. ig_id q = ig_id r \<and> ig_userId q = ig_userId r \<and> ig_secretKeyId q = ig_secretKeyId r"
    let ?f = "\<lambda>q. (set_secret x q)\<lparr>ig_updatedAt := now\<rparr>"
    have upd: "(if ?hit (?g q) then ?f (?g q) else ?g q) = ?h q" if "q \<in> set (rows (integrations s))" for q
    proof (cases "q = r")
      case True
      with Some a m show ?thesis by (simp add: rekey_def)
    next
      case False
      with that ids rin have "ig_id q \<noteq> ig_id r" by (metis distinct_map_inj)
      with step [OF that False] show ?thesis by simp
    qed
    have "?g r = r" using a by simp
    then have "r \<in> set (rows (integrations (rekeyed_upto C ks iv now s a)))"
      using rin by (force simp: rekeyed_upto_def)
    then have "count_where ?hit (integrations (rekeyed_upto C ks iv now s a)) \<noteq> 0"
      by (auto simp: count_where_zero)
    moreover have "update_where ?hit ?f (integrations (rekeyed_upto C ks iv now s a))
        = integrations (rekeyed_upto C ks iv now s (ig_id r))"
      using upd by (simp add: update_where_def rekeyed_upto_def comp_def cong: map_cong)
    ultimately show ?thesis
      using Some by (simp add: reencryptRow_def Let_def quiet_outcome_def rewriteSecret_def rekeyed_upto_def)
  qed
qed

text \<open>The part of the work list after a cursor, cut at its first rows.\<close>

lemma pending_step:
  assumes sorted: "sorted_wrt (<) (map ig_id L)" and f: "filter (\<lambda>r. a < ig_id r) L = r # rest"
  shows "a < ig_id r" and "r \<in> set L" and "\<And>x. x \<in> set L \<Longrightarrow> a < ig_id x \<Longrightarrow> ig_id r \<le> ig_id x"
    and "filter (\<lambda>x. ig_id r < ig_id x) L = rest"
proof -
  have "r \<in> set (filter (\<lambda>r. a < ig_id r) L)" using f by simp
  then show a: "a < ig_id r" and "r \<in> set L" by simp_all
  have "sorted_wrt (<) (map ig_id (r # rest))"
    using sorted f by (metis sorted_wrt_filter sorted_wrt_map)
  then have later: "\<forall>x \<in> set rest. ig_id r < ig_id x" by simp
  show "ig_id r \<le> ig_id x" if "x \<in> set L" and "a < ig_id x" for x
  proof -
    from that have "x \<in> set (r # rest)" unfolding f [symmetric] by simp
    with later show ?thesis by auto
  qed
  have "filter (\<lambda>x. ig_id r < ig_id x) L = filter (\<lambda>x. ig_id r < ig_id x) (filter (\<lambda>x. a < ig_id x) L)"
    using a by (auto intro: filter_cong)
  with later show "filter (\<lambda>x. ig_id r < ig_id x) L = rest" by (simp add: f filter_id_conv)
qed

lemma batch_quiet:
  assumes ids: "distinct (map ig_id (rows (integrations s)))"
    and "filter (\<lambda>r. ro_afterId ro < ig_id r) (work_list ks s) = B @ rest"
    and "ro_state ro = rekeyed_upto C ks iv now s (ro_afterId ro)"
  shows "\<exists>b. fold (reencrypt_one C ks iv now (\<lambda>_ s. s)) B ro
      = \<lparr>ro_result = fold (\<lambda>r. add_outcome (quiet_outcome C ks iv r)) B (ro_result ro), ro_afterId = b,
          ro_state = rekeyed_upto C ks iv now s b\<rparr>
    \<and> filter (\<lambda>r. b < ig_id r) (work_list ks s) = rest"
  using assms(2,3)
proof (induction B arbitrary: ro)
  case Nil
  then show ?case by (cases ro) auto
next
  case (Cons r B)
  let ?a = "ro_afterId ro"
  note pend = pending_step [OF work_list_sorted [OF ids] Cons.prems(1) [simplified]]
  let ?ro = "reencrypt_one C ks iv now (\<lambda>_ s. s) r ro"
  have "reencryptRow C ks iv now (\<lambda>_ s. s) r (ro_state ro)
      = (quiet_outcome C ks iv r, rekeyed_upto C ks iv now s (ig_id r))"
    unfolding Cons.prems(2) by (rule reencryptRow_quiet [OF ids pend(2,1,3)])
  then have ro: "?ro = \<lparr>ro_result = add_outcome (quiet_outcome C ks iv r) (ro_result ro), ro_afterId = ig_id r,
      ro_state = rekeyed_upto C ks iv now s (ig_id r)\<rparr>"
    by (simp add: reencrypt_one_def)
  from Cons.IH [of ?ro] pend(4) show ?case by (simp add: ro)
qed

lemma rekeyed_done:
  assumes "filter (\<lambda>r. a < ig_id r) (work_list ks s) = []"
  shows "rekeyed_upto C ks iv now s a
       = s\<lparr>integrations := (integrations s)\<lparr>rows := map (rekey C ks iv now) (rows (integrations s))\<rparr>\<rparr>"
proof -
  have "rekey C ks iv now r = r" if "r \<in> set (rows (integrations s))" and "\<not> ig_id r \<le> a" for r
  proof -
    from that(2) assms have "r \<notin> set (work_list ks s)" by (auto simp: filter_empty_conv)
    with that(1) show ?thesis by (simp add: work_list_set rekey_def)
  qed
  then show ?thesis by (auto simp: rekeyed_upto_def cong: map_cong)
qed

lemma loop_quiet:
  assumes ids: "distinct (map ig_id (rows (integrations s)))"
    and "ro_state ro = rekeyed_upto C ks iv now s (ro_afterId ro)"
  shows "\<exists>b. reencrypt_loop C ks iv now (\<lambda>_ s. s) ro = Some
      \<lparr>ro_result = fold (\<lambda>r. add_outcome (quiet_outcome C ks iv r))
           (filter (\<lambda>r. ro_afterId ro < ig_id r) (work_list ks s)) (ro_result ro),
       ro_afterId = b,
       ro_state = s\<lparr>integrations := (integrations s)\<lparr>rows := map (rekey C ks iv now) (rows (integrations s))\<rparr>\<rparr>\<rparr>"
  using assms(2)
proof (induction "length (filter (\<lambda>r. ro_afterId ro < ig_id r) (work_list ks s))" arbitrary: ro rule: less_induct)
  case less
  let ?P = "filter (\<lambda>r. ro_afterId ro < ig_id r) (work_list ks s)"
  let ?B = "take REENCRYPT_BATCH_SIZE ?P" and ?R = "drop REENCRYPT_BATCH_SIZE ?P"
  let ?out = "\<lambda>r. add_outcome (quiet_outcome C ks iv r)"
  have B: "rotation_batch ks ro = ?B" by (rule rotation_batch_upto [OF less.prems])
  from batch_quiet [OF ids, where B = ?B and rest = ?R and ro = ro and C = C and ks = ks and iv = iv and now = now]
    less.prems obtain b
    where step: "fold (reencrypt_one C ks iv now (\<lambda>_ s. s)) ?B ro
      = \<lparr>ro_result = fold ?out ?B (ro_result ro), ro_afterId = b, ro_state = rekeyed_upto C ks iv now s b\<rparr>"
    and rest: "filter (\<lambda>r. b < ig_id r) (work_list ks s) = ?R" by auto
  have P: "fold ?out ?P x = fold ?out ?R (fold ?out ?B x)" for x
    by (metis append_take_drop_id comp_apply fold_append)
  show ?case
  proof (cases "length ?B = REENCRYPT_BATCH_SIZE")
    case True
    let ?ro = "\<lparr>ro_result = fold ?out ?B (ro_result ro), ro_afterId = b, ro_state = rekeyed_upto C ks iv now s b\<rparr>"
    have "length ?R < length ?P" using True by (auto simp: REENCRYPT_BATCH_SIZE_def)
    with less.hyps [of ?ro] rest obtain b' where
      rec: "reencrypt_loop C ks iv now (\<lambda>_ s. s) ?ro = Some
        \<lparr>ro_result = fold ?out ?R (fold ?out ?B (ro_result ro)), ro_afterId = b',
         ro_state = s\<lparr>integrations := (integrations s)\<lparr>rows := map (rekey C ks iv now) (rows (integrations s))\<rparr>\<rparr>\<rparr>"
      by auto
    have "reencrypt_loop C ks iv now (\<lambda>_ s. s) ro = reencrypt_loop C ks iv now (\<lambda>_ s. s) ?ro"
      using True by (subst reencrypt_loop.simps) (simp only: B step Let_def simp_thms if_True)
    with rec show ?thesis by (simp only: P) blast
  next
    case False
    then have "?R = []" by simp
    with rest rekeyed_done [of b ks s C iv now]
    have "rekeyed_upto C ks iv now s b
        = s\<lparr>integrations := (integrations s)\<lparr>rows := map (rekey C ks iv now) (rows (integrations s))\<rparr>\<rparr>" by simp
    moreover have "reencrypt_loop C ks iv now (\<lambda>_ s. s) ro
        = Some \<lparr>ro_result = fold ?out ?B (ro_result ro), ro_afterId = b, ro_state = rekeyed_upto C ks iv now s b\<rparr>"
      using False by (subst reencrypt_loop.simps) (simp only: B step Let_def if_False)
    ultimately show ?thesis using \<open>?R = []\<close> by (simp only: P fold_simps id_apply) blast
  qed
qed

text \<open>The counters count.\<close>

lemma fold_outcomes:
  "fold (\<lambda>r. add_outcome (quiet_outcome C ks iv r)) L res
   = res\<lparr>rr_reencrypted := rr_reencrypted res
            + length (filter (\<lambda>r. reencrypt_columns C ks (iv (ig_id r)) r \<noteq> None) L),
         rr_skippedUndecryptable := rr_skippedUndecryptable res
            + length (filter (\<lambda>r. reencrypt_columns C ks (iv (ig_id r)) r = None) L)\<rparr>"
  by (induction L arbitrary: res) (simp_all add: add_outcome_def quiet_outcome_def)

lemma work_list_count:
  "length (filter p (work_list ks s))
   = count_where (\<lambda>r. ig_secretKeyId r \<in> set (previousKeyIds ks) \<and> p r) (integrations s)"
  by (simp add: work_list_def order_asc_def filter_sort select_where_def count_where_def conj_commute)

lemma reencrypt_all_quiet:
  assumes "integrations_ok e (integrations s)"
  shows "reencrypt_all C ks iv now (\<lambda>_ s. s) s = Some
    (\<lparr>rr_reencrypted = count_where (\<lambda>r. ig_secretKeyId r \<in> set (previousKeyIds ks)
          \<and> reencrypt_columns C ks (iv (ig_id r)) r \<noteq> None) (integrations s),
      rr_skippedUndecryptable = count_where (\<lambda>r. ig_secretKeyId r \<in> set (previousKeyIds ks)
          \<and> reencrypt_columns C ks (iv (ig_id r)) r = None) (integrations s),
      rr_skippedChanged = 0\<rparr>,
     s\<lparr>integrations := (integrations s)\<lparr>rows := map (rekey C ks iv now) (rows (integrations s))\<rparr>\<rparr>)"
proof -
  let ?ro = "\<lparr>ro_result = \<lparr>rr_reencrypted = 0, rr_skippedUndecryptable = 0, rr_skippedChanged = 0\<rparr>,
      ro_afterId = 0, ro_state = s\<rparr>"
  have ids: "distinct (map ig_id (rows (integrations s)))"
    and pos: "\<And>r. r \<in> set (rows (integrations s)) \<Longrightarrow> 0 < ig_id r"
    using assms by (simp_all add: integrations_ok_def)
  have "map (\<lambda>r. if ig_id r \<le> 0 then rekey C ks iv now r else r) (rows (integrations s)) = rows (integrations s)"
    using pos by (intro map_idI) fastforce
  then have "ro_state ?ro = rekeyed_upto C ks iv now s (ro_afterId ?ro)" by (simp add: rekeyed_upto_def)
  moreover have "filter (\<lambda>r. 0 < ig_id r) (work_list ks s) = work_list ks s"
    using pos by (auto simp: filter_id_conv work_list_set)
  ultimately show ?thesis
    using loop_quiet [OF ids, of ?ro C ks iv now]
    by (auto simp: reencrypt_all_def fold_outcomes work_list_count)
qed

text \<open>
  C34. The batched re-encryption always returns, however other processes change or delete rows
  meanwhile (none inserts any), and each row's rewrite is refused when its key id changed since
  the batch was read: a concurrent credential replacement wins.
\<close>

theorem reencryption_returns:
  assumes "no_new_rows race"
  shows "(\<exists>res s'. reencrypt_all C ks iv now race s = Some (res, s'))
    \<and> (\<forall>r x. integrations_ok e (integrations (race (ig_id r) s)) \<and> x \<in> set (rows (integrations (race (ig_id r) s)))
          \<and> ig_id x = ig_id r \<and> ig_secretKeyId x \<noteq> ig_secretKeyId r \<longrightarrow>
        x \<in> set (rows (integrations (snd (reencryptRow C ks iv now race r s))))
        \<and> fst (reencryptRow C ks iv now race r s) \<noteq> Reencrypted)"
proof (intro conjI allI impI)
  obtain ro where "reencrypt_loop C ks iv now race
      \<lparr>ro_result = \<lparr>rr_reencrypted = 0, rr_skippedUndecryptable = 0, rr_skippedChanged = 0\<rparr>,
       ro_afterId = 0, ro_state = s\<rparr> = Some ro"
    using reencrypt_loop_returns [OF assms] by blast
  then show "\<exists>res s'. reencrypt_all C ks iv now race s = Some (res, s')" by (simp add: reencrypt_all_def)
next
  fix r x :: integration
  assume h: "integrations_ok e (integrations (race (ig_id r) s))
      \<and> x \<in> set (rows (integrations (race (ig_id r) s)))
      \<and> ig_id x = ig_id r \<and> ig_secretKeyId x \<noteq> ig_secretKeyId r"
  let ?t = "integrations (race (ig_id r) s)"
  let ?hit = "\<lambda>q. ig_id q = ig_id r \<and> ig_userId q = ig_userId r \<and> ig_secretKeyId q = ig_secretKeyId r"
  have none: "\<not> ?hit q" if "q \<in> set (rows ?t)" for q
    using h that distinct_map_inj [of ig_id "rows ?t" q x] by (auto simp: integrations_ok_def)
  then have "count_where ?hit ?t = 0" by (simp add: count_where_zero)
  moreover from none have "x \<in> set (rows (update_where ?hit f ?t))" for f
    using h by (force simp: table_simps)
  ultimately show "x \<in> set (rows (integrations (snd (reencryptRow C ks iv now race r s))))"
    and "fst (reencryptRow C ks iv now race r s) \<noteq> Reencrypted"
    using h by (simp_all add: reencryptRow_def rewriteSecret_def Let_def split: option.splits)
qed

definition demo_integration :: integration where
  "demo_integration = (case encrypt demo_crypto demo_old_keys ''iv1'' (JsonStr ''tok'')
       \<lparr>bd_uuid = demo_uuid, bd_type = ''pat''\<rparr> of x \<Rightarrow>
     \<lparr>ig_id = 1, ig_uuid = demo_uuid, ig_userId = 1, ig_provider = ''github'', ig_type = ''pat'',
      ig_label = ''Work'', ig_labelNormalized = ''work'', ig_status = IsActive, ig_statusReason = None,
      ig_githubLogin = ''octocat'', ig_expiresAt = None, ig_lastTestedAt = Some 0,
      ig_lastTestResult = Some TestSuccess, ig_metadata = JsonNull, ig_secretHint = None,
      ig_secretKeyId = es_keyId x, ig_secretIv = es_iv x, ig_secretAuthTag = es_authTag x,
      ig_secretCiphertext = es_ciphertext x, ig_createdAt = 0, ig_updatedAt = 0\<rparr>)"

definition demo_integ :: integ_state where
  "demo_integ = init_integ_state\<lparr>integrations := \<lparr>rows = [demo_integration], next_id = 2\<rparr>\<rparr>"

text \<open>A concurrent credential replacement, which stores the row under the new key.\<close>

definition demo_replacement :: "nat \<Rightarrow> integ_state \<Rightarrow> integ_state" where
  "demo_replacement i s = s\<lparr>integrations := update_where (\<lambda>r. ig_id r = i)
     (\<lambda>r. r\<lparr>ig_secretKeyId := currentKeyId demo_new_keys\<rparr>) (integrations s)\<rparr>"

lemma demo_integ_rows: "rows (integrations demo_integ) = [demo_integration]"
  by (simp add: demo_integ_def)

lemma demo_integration_fields:
  "ig_id demo_integration = 1" "ig_secretKeyId demo_integration = currentKeyId demo_old_keys"
  by (simp_all add: demo_integration_def encrypt_def)

lemma demo_integ_ok: "integrations_ok e (integrations demo_integ)"
  by (simp add: integrations_ok_def demo_integ_def demo_integration_fields integ_clash_def)

lemma demo_key_moves: "currentKeyId demo_new_keys \<noteq> currentKeyId demo_old_keys"
proof -
  have "ik_current demo_new_keys = to_entry id demo_new_key" and "ik_current demo_old_keys = to_entry id demo_key"
    by (rule integrationsKeySetOf_Inr(2) [OF demo_keysets(2)] integrationsKeySetOf_Inr(2) [OF demo_keysets(1)])+
  then show ?thesis
    by (simp add: currentKeyId_def to_entry_def integrationsKeyIdFor_def KEY_ID_LENGTH_def demo_key_def demo_new_key_def)
qed

theorem reencryption_returns_witness:
  "(\<exists>res s'. reencrypt_all demo_crypto demo_new_keys (\<lambda>_. ''iv2'') 9 demo_replacement demo_integ = Some (res, s'))
   \<and> fst (reencryptRow demo_crypto demo_new_keys (\<lambda>_. ''iv2'') 9 demo_replacement demo_integration demo_integ)
       \<noteq> Reencrypted"
proof -
  let ?x = "demo_integration\<lparr>ig_secretKeyId := currentKeyId demo_new_keys\<rparr>"
  have quiet: "no_new_rows demo_replacement"
    by (simp add: no_new_rows_def demo_replacement_def integ_ids_def update_ids)
  have t: "rows (integrations (demo_replacement 1 demo_integ)) = [?x]"
    by (simp add: demo_replacement_def table_simps demo_integ_rows demo_integration_fields)
  then have "integrations_ok demo_env (integrations (demo_replacement 1 demo_integ))"
    by (simp add: integrations_ok_def integ_clash_def demo_integration_fields)
      (simp add: demo_replacement_def demo_integ_def table_simps)
  note ok = this
  note wins = reencryption_returns [OF quiet, where C = demo_crypto and ks = demo_new_keys
      and iv = "\<lambda>_. ''iv2''" and now = 9 and s = demo_integ and e = demo_env]
  have "fst (reencryptRow demo_crypto demo_new_keys (\<lambda>_. ''iv2'') 9 demo_replacement demo_integration demo_integ)
      \<noteq> Reencrypted"
    by (rule wins [THEN conjunct2, rule_format, of demo_integration ?x, THEN conjunct2])
      (use ok t demo_key_moves in \<open>simp add: demo_integration_fields\<close>)
  with wins show ?thesis by blast
qed

text \<open>
  C35. Re-encryption in batches of a hundred is one pass over the table: left alone, it rewrites
  exactly the rows stored under a previous key that decrypt and counts them; no row reads
  differently afterwards; and when the exit code is 0 no row needs a previous key any more.
\<close>

theorem reencryption_is_one_pass:
  assumes "integrations_ok e (integrations s)" and "crypto_ok C" and "keyset_ok ks"
  shows "\<exists>res s'. reencrypt_all C ks iv now (\<lambda>_ s. s) s = Some (res, s')
    \<and> rows (integrations s') = map (rekey C ks iv now) (rows (integrations s))
    \<and> rr_reencrypted res + rr_skippedUndecryptable res
        = count_where (\<lambda>r. ig_secretKeyId r \<in> set (previousKeyIds ks)) (integrations s)
    \<and> map (\<lambda>r. case encryptedColumnsOf r of (x, b) \<Rightarrow> decrypt C ks x b) (rows (integrations s'))
        = map (\<lambda>r. case encryptedColumnsOf r of (x, b) \<Rightarrow> decrypt C ks x b) (rows (integrations s))
    \<and> (reencryptExitCode res = 0 \<longrightarrow>
        (\<forall>r \<in> set (rows (integrations s')). ig_secretKeyId r \<notin> set (previousKeyIds ks)))"
proof -
  note run = reencrypt_all_quiet [OF assms(1), of C ks iv now]
  have cur: "currentKeyId ks \<notin> set (previousKeyIds ks)"
    using isPreviousKeyId_iff [OF assms(3)] by (auto simp: isPreviousKeyId_def isCurrentKeyId_def currentKeyId_def)
  have same: "(case encryptedColumnsOf (rekey C ks iv now r) of (x, b) \<Rightarrow> decrypt C ks x b)
      = (case encryptedColumnsOf r of (x, b) \<Rightarrow> decrypt C ks x b)" for r
    using reencrypt_Some(3) [OF assms(2,3)]
    by (auto simp: rekey_def encryptedColumnsOf_def reencrypt_columns_def set_secret_def split: option.splits)
  have moved: "ig_secretKeyId (rekey C ks iv now r) \<notin> set (previousKeyIds ks)"
    if "\<not> (ig_secretKeyId r \<in> set (previousKeyIds ks) \<and> reencrypt_columns C ks (iv (ig_id r)) r = None)" for r
    using that reencrypt_Some(1) [OF assms(2,3)] cur
    by (auto simp: rekey_def encryptedColumnsOf_def reencrypt_columns_def set_secret_def split: option.splits)
  have split: "count_where (\<lambda>r. p r \<and> q r \<noteq> None) t + count_where (\<lambda>r. p r \<and> q r = None) t = count_where p t"
    for p q and t :: "integration table"
  proof -
    have "length (filter (\<lambda>r. p r \<and> q r \<noteq> None) xs) + length (filter (\<lambda>r. p r \<and> q r = None) xs)
        = length (filter p xs)" for xs by (induction xs) auto
    then show ?thesis by (simp add: count_where_def)
  qed
  show ?thesis
  proof (intro exI conjI impI, rule run)
    let ?s = "s\<lparr>integrations := (integrations s)\<lparr>rows := map (rekey C ks iv now) (rows (integrations s))\<rparr>\<rparr>"
    show "rows (integrations ?s) = map (rekey C ks iv now) (rows (integrations s))" by simp
    show "map (\<lambda>r. case encryptedColumnsOf r of (x, b) \<Rightarrow> decrypt C ks x b) (rows (integrations ?s))
        = map (\<lambda>r. case encryptedColumnsOf r of (x, b) \<Rightarrow> decrypt C ks x b) (rows (integrations s))"
      by (simp add: same)
  qed (use moved in \<open>auto simp: split [simplified] reencryptExitCode_def count_where_zero split: if_splits\<close>)
qed

theorem reencryption_is_one_pass_witness:
  "\<exists>res s'. reencrypt_all demo_crypto demo_new_keys (\<lambda>_. ''iv2'') 9 (\<lambda>_ s. s) demo_integ = Some (res, s')
     \<and> rr_reencrypted res + rr_skippedUndecryptable res = 1"
proof -
  have "currentKeyId demo_old_keys \<in> set (previousKeyIds demo_new_keys)"
    using isPreviousKeyId_iff [OF demo_keysets_ok(2), of "currentKeyId demo_old_keys"] demo_old_key_kept demo_key_moves
    by (simp add: isPreviousKeyId_def isDecryptableKeyId_def isCurrentKeyId_def currentKeyId_def)
  then have "count_where (\<lambda>r. ig_secretKeyId r \<in> set (previousKeyIds demo_new_keys)) (integrations demo_integ) = 1"
    by (simp add: count_where_def demo_integ_rows demo_integration_fields)
  with reencryption_is_one_pass [OF demo_integ_ok demo_crypto_ok demo_keysets_ok(2),
      where iv = "\<lambda>_. ''iv2''" and now = 9]
  show ?thesis by auto
qed

end
