(* ===== verification/Integrations_Service.thy ===== *)
theory Integrations_Service
  imports Integration_Credential Integrations_Key_Rotation
begin

text \<open>
  \<^verbatim>\<open>integration-test-cooldown.service.ts\<close>, \<^verbatim>\<open>integration-connection-test.service.ts\<close>,
  \<^verbatim>\<open>integration-response.ts\<close>, \<^verbatim>\<open>integrations.service.ts\<close> and \<^verbatim>\<open>integrations.controller.ts\<close>.  The
  parameter \<open>race\<close> is what other requests committed while the handler waited: for GitHub's answer,
  or, on a rename, between the label check and the write.  A date of a response stays a number.
\<close>

section \<open>The test cooldown\<close>

definition DEFAULT_INTEGRATIONS_TEST_COOLDOWN_MS :: int where
  "DEFAULT_INTEGRATIONS_TEST_COOLDOWN_MS = 30000"

definition cooldownMs :: "env \<Rightarrow> int" where
  "cooldownMs e = getNumberConfig e ''KERGHAN_INTEGRATIONS_TEST_COOLDOWN_MS'' DEFAULT_INTEGRATIONS_TEST_COOLDOWN_MS"

datatype cooldown_claim = Claimed | NotClaimed int

definition ceil_seconds :: "int \<Rightarrow> int" where
  "ceil_seconds ms = - ((- ms) div 1000)"

definition remainingSeconds :: "env \<Rightarrow> string \<Rightarrow> nat \<Rightarrow> int \<Rightarrow> integ_state \<Rightarrow> exn + int" where
  "remainingSeconds e uuid userId now s =
     (case find_one (\<lambda>r. env_collate e (ig_uuid r) uuid \<and> ig_userId r = userId) (integrations s) of
        None \<Rightarrow> Inl integrationNotFound
      | Some row \<Rightarrow>
          (let remainingMs = (case ig_lastTestedAt row of None \<Rightarrow> 0 | Some t \<Rightarrow> t + cooldownMs e - now)
           in Inr (max 1 (min (ceil_seconds remainingMs) (ceil_seconds (cooldownMs e))))))"

definition claimable :: "env \<Rightarrow> string \<Rightarrow> nat \<Rightarrow> int \<Rightarrow> integration \<Rightarrow> bool" where
  "claimable e uuid userId now r \<longleftrightarrow> env_collate e (ig_uuid r) uuid \<and> ig_userId r = userId
     \<and> (case ig_lastTestedAt r of None \<Rightarrow> True | Some t \<Rightarrow> t < now - cooldownMs e)"

definition claim :: "env \<Rightarrow> string \<Rightarrow> nat \<Rightarrow> int \<Rightarrow> integ_state \<Rightarrow> (cooldown_claim, integ_state) outcome" where
  "claim e uuid userId now s =
     (let hit = claimable e uuid userId now;
          s1 = s\<lparr>integrations := update_where hit
                 (\<lambda>r. r\<lparr>ig_lastTestedAt := Some now, ig_updatedAt := now\<rparr>) (integrations s)\<rparr>
      in if count_where hit (integrations s) = 1 then (Inr Claimed, s1)
         else (case remainingSeconds e uuid userId now s1 of
                 Inl x \<Rightarrow> (Inl x, s1)
               | Inr n \<Rightarrow> (Inr (NotClaimed n), s1)))"

definition nextTestAt :: "env \<Rightarrow> int option \<Rightarrow> int option" where
  "nextTestAt e lastTestedAt = map_option (\<lambda>t. t + cooldownMs e) lastTestedAt"

section \<open>Test connection\<close>

definition decryptRow :: "crypto \<Rightarrow> integrations_key \<Rightarrow> strategy \<Rightarrow> integration \<Rightarrow> json option" where
  "decryptRow C ks st row =
     (case encryptedColumnsOf row of (x, b) \<Rightarrow>
        (case decrypt C ks x b of None \<Rightarrow> None | Some v \<Rightarrow> st_parseSecretPayload st v))"

text \<open>The row is rewritten in place when the conditional write took effect.\<close>

definition reencryptIfPrevious ::
  "crypto \<Rightarrow> integrations_key \<Rightarrow> string \<Rightarrow> int \<Rightarrow> integration \<Rightarrow> integ_state \<Rightarrow> integration \<times> integ_state" where
  "reencryptIfPrevious C ks iv now row s =
     (let fromKeyId = ig_secretKeyId row
      in if \<not> isPreviousKeyId ks fromKeyId then (row, s)
         else case encryptedColumnsOf row of (x, b) \<Rightarrow>
           (case reencrypt C ks iv x b of
              None \<Rightarrow> (row, s)
            | Some encrypted \<Rightarrow>
                (case rewriteSecret now row encrypted fromKeyId s of
                   (None, s1) \<Rightarrow> (row, s1)
                 | (Some row1, s1) \<Rightarrow> (row1, s1))))"

definition rejected ::
  "env \<Rightarrow> integration \<Rightarrow> integration_status \<Rightarrow> string option \<Rightarrow> int \<Rightarrow> integ_state
     \<Rightarrow> (integration, integ_state) outcome" where
  "rejected e row status reason now s =
     updateOwned e now row (\<lambda>r. r\<lparr>ig_status := status, ig_statusReason := reason,
       ig_lastTestedAt := Some now, ig_lastTestResult := Some TestRejected\<rparr>) s"

definition record_outcome ::
  "env \<Rightarrow> registry \<Rightarrow> integration \<Rightarrow> test_outcome \<Rightarrow> int \<Rightarrow> integ_state \<Rightarrow> (integration, integ_state) outcome" where
  "record_outcome e reg row outcome now s =
     (case outcome of
        OutcomeActive githubLogin expiresAt metadata \<Rightarrow>
          (case registry_get reg (ig_type row) of
             Inl x \<Rightarrow> (Inl x, s)
           | Inr st \<Rightarrow>
               (case st_describeMetadata st metadata of
                  Inl x \<Rightarrow> (Inl x, s)
                | Inr described \<Rightarrow>
                    updateOwned e now row (\<lambda>r. r\<lparr>ig_status := IsActive, ig_statusReason := None,
                      ig_githubLogin := githubLogin, ig_expiresAt := expiresAt, ig_metadata := described,
                      ig_lastTestedAt := Some now, ig_lastTestResult := Some TestSuccess\<rparr>) s))
      | OutcomeInvalid reason \<Rightarrow> rejected e row IsInvalid (Some reason) now s
      | OutcomeExpired \<Rightarrow> rejected e row IsExpired None now s
      | OutcomeTransient error retryAfterSeconds \<Rightarrow>
          (case updateOwned e now row (\<lambda>r. r\<lparr>ig_lastTestedAt := Some now,
                  ig_lastTestResult := Some TestTransientError\<rparr>) s of
             (Inl x, s1) \<Rightarrow> (Inl x, s1)
           | (Inr _, s1) \<Rightarrow>
               (Inl (if error = TransientRateLimited then githubRateLimited retryAfterSeconds
                     else githubUnavailable), s1)))"

definition test_connection ::
  "env \<Rightarrow> crypto \<Rightarrow> integrations_key \<Rightarrow> registry \<Rightarrow> (integ_state \<Rightarrow> integ_state) \<Rightarrow> ictx \<Rightarrow> nat \<Rightarrow> string
     \<Rightarrow> integ_state \<Rightarrow> (integration, integ_state) outcome" where
  "test_connection e C ks reg race ic userId uuid s =
     (case findOwned e userId uuid s of
        Inl x \<Rightarrow> (Inl x, s)
      | Inr row \<Rightarrow>
          (let now = ic_now ic
           in case claim e (ig_uuid row) userId now s of
                (Inl x, s1) \<Rightarrow> (Inl x, s1)
              | (Inr (NotClaimed n), s1) \<Rightarrow> (Inl (testCooldown n), s1)
              | (Inr Claimed, s1) \<Rightarrow>
                  (case registry_get reg (ig_type row) of
                     Inl x \<Rightarrow> (Inl x, s1)
                   | Inr st \<Rightarrow>
                       (case decryptRow C ks st row of
                          None \<Rightarrow>
                            updateOwned e now row (\<lambda>r. r\<lparr>ig_status := IsUndecryptable, ig_statusReason := None,
                              ig_lastTestedAt := Some now, ig_lastTestResult := Some TestUndecryptable\<rparr>) s1
                        | Some secret \<Rightarrow>
                            (case reencryptIfPrevious C ks (ic_iv ic) now row s1 of
                               (row1, s2) \<Rightarrow>
                                 (let s3 = race s2
                                  in case st_test st secret (toIntegrationView row1) of
                                       Inl x \<Rightarrow> (Inl x, s3)
                                     | Inr outcome \<Rightarrow> record_outcome e reg row1 outcome now s3))))))"

section \<open>Responses\<close>

record integration_response =
  ir_id :: string
  ir_provider :: string
  ir_type :: string
  ir_label :: string
  ir_status :: integration_status
  ir_statusReason :: "string option"
  ir_secretHint :: "string option"
  ir_githubLogin :: string
  ir_metadata :: json
  ir_expiresAt :: "int option"
  ir_lastTestedAt :: "int option"
  ir_nextTestAt :: "int option"
  ir_lastTestResult :: "integration_test_result option"
  ir_createdAt :: int
  ir_updatedAt :: int

definition reportedStatus :: "integration \<Rightarrow> bool \<Rightarrow> int \<Rightarrow> integration_status" where
  "reportedStatus row keyIsDecryptable now =
     (if \<not> keyIsDecryptable then IsUndecryptable
      else if ig_status row = IsActive \<and> (case ig_expiresAt row of None \<Rightarrow> False | Some t \<Rightarrow> t < now)
      then IsExpired
      else ig_status row)"

definition toIntegrationResponse ::
  "integration \<Rightarrow> bool \<Rightarrow> int option \<Rightarrow> int \<Rightarrow> integration_response" where
  "toIntegrationResponse row keyIsDecryptable next now =
     (let status = reportedStatus row keyIsDecryptable now
      in \<lparr>ir_id = ig_uuid row, ir_provider = ig_provider row, ir_type = ig_type row,
          ir_label = ig_label row, ir_status = status,
          ir_statusReason = (if status = IsInvalid then ig_statusReason row else None),
          ir_secretHint = (if status = IsUndecryptable then None else ig_secretHint row),
          ir_githubLogin = ig_githubLogin row, ir_metadata = ig_metadata row,
          ir_expiresAt = ig_expiresAt row, ir_lastTestedAt = ig_lastTestedAt row,
          ir_nextTestAt = next, ir_lastTestResult = ig_lastTestResult row,
          ir_createdAt = ig_createdAt row, ir_updatedAt = ig_updatedAt row\<rparr>)"

section \<open>IntegrationsService\<close>

definition DEFAULT_INTEGRATIONS_MAX_PER_USER :: int where
  "DEFAULT_INTEGRATIONS_MAX_PER_USER = 20"

definition maxPerUser :: "env \<Rightarrow> int" where
  "maxPerUser e = getNumberConfig e ''KERGHAN_INTEGRATIONS_MAX_PER_USER'' DEFAULT_INTEGRATIONS_MAX_PER_USER"

definition normalizeLabel :: "string \<Rightarrow> string" where
  "normalizeLabel label = js_lower (js_trim label)"

record create_integration_dto =
  ci_label :: string
  ci_provider :: string
  ci_type :: string
  ci_credential :: json

definition respond :: "env \<Rightarrow> integrations_key \<Rightarrow> int \<Rightarrow> integration \<Rightarrow> integration_response" where
  "respond e ks now row =
     toIntegrationResponse row (isDecryptableKeyId ks (ig_secretKeyId row)) (nextTestAt e (ig_lastTestedAt row)) now"

definition respond_outcome ::
  "env \<Rightarrow> integrations_key \<Rightarrow> int \<Rightarrow> (integration, 's) outcome \<Rightarrow> (integration_response, 's) outcome" where
  "respond_outcome e ks now w = (case w of
       (Inl x, s) \<Rightarrow> (Inl x, s)
     | (Inr row, s) \<Rightarrow> (Inr (respond e ks now row), s))"

definition integrations_list ::
  "env \<Rightarrow> integrations_key \<Rightarrow> int \<Rightarrow> nat \<Rightarrow> integ_state \<Rightarrow> integration_response list" where
  "integrations_list e ks now userId s = map (respond e ks now) (listOwned userId s)"

definition integrations_show ::
  "env \<Rightarrow> integrations_key \<Rightarrow> int \<Rightarrow> nat \<Rightarrow> string \<Rightarrow> integ_state \<Rightarrow> exn + integration_response" where
  "integrations_show e ks now userId uuid s = map_sum id (respond e ks now) (findOwned e userId uuid s)"

text \<open>The row a create inserts, under the id the table gives it.\<close>

definition created_integration ::
  "ictx \<Rightarrow> nat \<Rightarrow> create_integration_dto \<Rightarrow> string \<Rightarrow> string \<Rightarrow> sealed_credential \<Rightarrow> nat \<Rightarrow> integration" where
  "created_integration ic userId dto labelNormalized t x i =
     apply_sealed x
       \<lparr>ig_id = i, ig_uuid = ic_uuid ic, ig_userId = userId, ig_provider = ci_provider dto, ig_type = t,
        ig_label = ci_label dto, ig_labelNormalized = labelNormalized, ig_status = IsActive,
        ig_statusReason = None, ig_githubLogin = [], ig_expiresAt = None,
        ig_lastTestedAt = Some (ic_now ic), ig_lastTestResult = Some TestSuccess, ig_metadata = JsonNull,
        ig_secretHint = None, ig_secretKeyId = [], ig_secretIv = [], ig_secretAuthTag = [],
        ig_secretCiphertext = [], ig_createdAt = ic_now ic, ig_updatedAt = ic_now ic\<rparr>"

definition integrations_create ::
  "env \<Rightarrow> crypto \<Rightarrow> integrations_key \<Rightarrow> registry \<Rightarrow> (integ_state \<Rightarrow> integ_state) \<Rightarrow> ictx \<Rightarrow> nat
     \<Rightarrow> create_integration_dto \<Rightarrow> integ_state \<Rightarrow> (integration_response, integ_state) outcome" where
  "integrations_create e C ks reg race ic userId dto s =
     (case cred_parse reg (ci_type dto) (ci_credential dto) of
        Inl x \<Rightarrow> (Inl x, s)
      | Inr (st, secret) \<Rightarrow>
          (let labelNormalized = normalizeLabel (ci_label dto)
           in case assertNotLocked (ic_now ic) userId s of
                Inl x \<Rightarrow> (Inl x, s)
              | Inr _ \<Rightarrow>
                  if int (countOwned userId s) \<ge> maxPerUser e then (Inl limitReached, s)
                  else case assertLabelFree e userId labelNormalized None s of
                    Inl x \<Rightarrow> (Inl x, s)
                  | Inr _ \<Rightarrow>
                      (case cred_validate e (ic_now ic) race userId st secret s of
                         (Inl x, s1) \<Rightarrow> (Inl x, s1)
                       | (Inr validated, s1) \<Rightarrow>
                           (case cred_seal C ks (ic_iv ic) st validated (ic_uuid ic) of
                              Inl x \<Rightarrow> (Inl x, s1)
                            | Inr x \<Rightarrow>
                                respond_outcome e ks (ic_now ic)
                                  (insertWithinCap e userId
                                     (created_integration ic userId dto labelNormalized (st_type st) x)
                                     (maxPerUser e) s1)))))"

definition integrations_rename ::
  "env \<Rightarrow> integrations_key \<Rightarrow> (integ_state \<Rightarrow> integ_state) \<Rightarrow> int \<Rightarrow> nat \<Rightarrow> string \<Rightarrow> string
     \<Rightarrow> integ_state \<Rightarrow> (integration_response, integ_state) outcome" where
  "integrations_rename e ks race now userId uuid label s =
     (case findOwned e userId uuid s of
        Inl x \<Rightarrow> (Inl x, s)
      | Inr row \<Rightarrow>
          (let labelNormalized = normalizeLabel label
           in case assertLabelFree e userId labelNormalized (Some (ig_id row)) s of
                Inl x \<Rightarrow> (Inl x, s)
              | Inr _ \<Rightarrow>
                  respond_outcome e ks now
                    (updateOwned e now row (\<lambda>r. r\<lparr>ig_label := label, ig_labelNormalized := labelNormalized\<rparr>)
                       (race s))))"

definition integrations_replaceCredential ::
  "env \<Rightarrow> crypto \<Rightarrow> integrations_key \<Rightarrow> registry \<Rightarrow> (integ_state \<Rightarrow> integ_state) \<Rightarrow> ictx \<Rightarrow> nat \<Rightarrow> string
     \<Rightarrow> json \<Rightarrow> integ_state \<Rightarrow> (integration_response, integ_state) outcome" where
  "integrations_replaceCredential e C ks reg race ic userId uuid credential s =
     (case findOwned e userId uuid s of
        Inl x \<Rightarrow> (Inl x, s)
      | Inr row \<Rightarrow>
          (case cred_parse reg (ig_type row) credential of
             Inl x \<Rightarrow> (Inl x, s)
           | Inr (st, secret) \<Rightarrow>
               (case assertNotLocked (ic_now ic) userId s of
                  Inl x \<Rightarrow> (Inl x, s)
                | Inr _ \<Rightarrow>
                    (case cred_validate e (ic_now ic) race userId st secret s of
                       (Inl x, s1) \<Rightarrow> (Inl x, s1)
                     | (Inr validated, s1) \<Rightarrow>
                         (case cred_seal C ks (ic_iv ic) st validated (ig_uuid row) of
                            Inl x \<Rightarrow> (Inl x, s1)
                          | Inr x \<Rightarrow>
                              respond_outcome e ks (ic_now ic)
                                (updateOwned e (ic_now ic) row
                                   (\<lambda>r. (apply_sealed x r)\<lparr>ig_status := IsActive, ig_statusReason := None,
                                      ig_lastTestedAt := Some (ic_now ic), ig_lastTestResult := Some TestSuccess\<rparr>)
                                   s1))))))"

definition integrations_test ::
  "env \<Rightarrow> crypto \<Rightarrow> integrations_key \<Rightarrow> registry \<Rightarrow> (integ_state \<Rightarrow> integ_state) \<Rightarrow> ictx \<Rightarrow> nat \<Rightarrow> string
     \<Rightarrow> integ_state \<Rightarrow> (integration_response, integ_state) outcome" where
  "integrations_test e C ks reg race ic userId uuid s =
     respond_outcome e ks (ic_now ic) (test_connection e C ks reg race ic userId uuid s)"

text \<open>What the cleanup before a deletion attempts; any failure of it is logged and dropped.\<close>

definition cleanUp :: "crypto \<Rightarrow> integrations_key \<Rightarrow> registry \<Rightarrow> integration \<Rightarrow> exn + unit" where
  "cleanUp C ks reg row =
     (case registry_get reg (ig_type row) of
        Inl x \<Rightarrow> Inl x
      | Inr st \<Rightarrow> st_onDelete st (decryptRow C ks st row) (toIntegrationView row))"

definition integrations_delete ::
  "env \<Rightarrow> crypto \<Rightarrow> integrations_key \<Rightarrow> registry \<Rightarrow> (integ_state \<Rightarrow> integ_state) \<Rightarrow> nat \<Rightarrow> string \<Rightarrow> integ_state
     \<Rightarrow> (unit, integ_state) outcome" where
  "integrations_delete e C ks reg race userId uuid s =
     (case findOwned e userId uuid s of
        Inl x \<Rightarrow> (Inl x, s)
      | Inr row \<Rightarrow>
          (let s1 = race s
           in case cleanUp C ks reg row of
                Inl _ \<Rightarrow> (Inr (), deleteOwned row s1)
              | Inr _ \<Rightarrow> (Inr (), deleteOwned row s1)))"

section \<open>IntegrationsController\<close>

datatype integrations_request =
    MineRequest
  | TypesRequest
  | ShowRequest string
  | CreateRequest create_integration_dto
  | RenameRequest string string
  | CredentialRequest string json
  | TestRequest string
  | RemoveRequest string

datatype integrations_body =
    BodyList "integration_response list"
  | BodyTypes "enabled_integration_type list"
  | BodyOne integration_response
  | BodyNone

definition body_outcome :: "('a \<Rightarrow> 'b) \<Rightarrow> ('a, 's) outcome \<Rightarrow> ('b, 's) outcome" where
  "body_outcome f w = map_prod (map_sum id f) id w"

definition integrations_route ::
  "env \<Rightarrow> crypto \<Rightarrow> integrations_key \<Rightarrow> registry \<Rightarrow> (integ_state \<Rightarrow> integ_state) \<Rightarrow> ictx \<Rightarrow> nat
     \<Rightarrow> integrations_request \<Rightarrow> integ_state \<Rightarrow> (integrations_body, integ_state) outcome" where
  "integrations_route e C ks reg race ic userId req s =
     (case req of
        MineRequest \<Rightarrow> (Inr (BodyList (integrations_list e ks (ic_now ic) userId s)), s)
      | TypesRequest \<Rightarrow> (Inr (BodyTypes (enabledTypes reg)), s)
      | ShowRequest uuid \<Rightarrow> (map_sum id BodyOne (integrations_show e ks (ic_now ic) userId uuid s), s)
      | CreateRequest dto \<Rightarrow> body_outcome BodyOne (integrations_create e C ks reg race ic userId dto s)
      | RenameRequest uuid label \<Rightarrow>
          body_outcome BodyOne (integrations_rename e ks race (ic_now ic) userId uuid label s)
      | CredentialRequest uuid credential \<Rightarrow>
          body_outcome BodyOne (integrations_replaceCredential e C ks reg race ic userId uuid credential s)
      | TestRequest uuid \<Rightarrow> body_outcome BodyOne (integrations_test e C ks reg race ic userId uuid s)
      | RemoveRequest uuid \<Rightarrow> body_outcome (\<lambda>_. BodyNone) (integrations_delete e C ks reg race userId uuid s))"

end
