(* ===== verification/Integrations_System.thy ===== *)
theory Integrations_System
  imports Integrations_Service
begin

text \<open>
  What holds of the Integrations module as a whole.  The service only reaches the rows through the
  writes of the store; the locale \<^verbatim>\<open>store_client\<close> states what a property of the rows must promise of
  each write, and its lemma carries the property through every route, whatever other requests do
  in between.  Its interpretations give the table's invariant, the isolation of the owners and the
  refinement to the users' vaults of labels.
\<close>

section \<open>The credential guard leaves the rows alone\<close>

lemma guard_integrations [simp]:
  "integrations (snd (reserveAttempt e now i s)) = integrations s"
  "integrations (releaseAttempt i s) = integrations s"
  "integrations (cred_reset i s) = integrations s"
  "integrations (snd (settleFailure i x s)) = integrations s"
  by (simp_all add: reserveAttempt_def releaseAttempt_def cred_reset_def settleFailure_def Let_def split: exn.splits)

lemma respond_outcome_state [simp]: "snd (respond_outcome e ks now w) = snd w"
  by (simp add: respond_outcome_def split: prod.splits sum.splits)

lemma body_outcome_state [simp]: "snd (body_outcome f w) = snd w"
  by (simp add: body_outcome_def)

lemma claim_integrations:
  "integrations (snd (claim e uuid i now s)) =
     update_where (claimable e uuid i now) (\<lambda>r. r\<lparr>ig_lastTestedAt := Some now, ig_updatedAt := now\<rparr>) (integrations s)"
  by (simp add: claim_def Let_def split: sum.splits)

lemma apply_sealed_identity [simp]:
  "ig_id (apply_sealed x r) = ig_id r" "ig_uuid (apply_sealed x r) = ig_uuid r"
  "ig_userId (apply_sealed x r) = ig_userId r" "ig_label (apply_sealed x r) = ig_label r"
  "ig_labelNormalized (apply_sealed x r) = ig_labelNormalized r"
  by (simp_all add: apply_sealed_def set_secret_def)

lemma created_integration_identity [simp]:
  "ig_id (created_integration ic u dto l t x i) = i"
  "ig_uuid (created_integration ic u dto l t x i) = ic_uuid ic"
  "ig_userId (created_integration ic u dto l t x i) = u"
  "ig_label (created_integration ic u dto l t x i) = ci_label dto"
  "ig_labelNormalized (created_integration ic u dto l t x i) = l"
  by (simp_all add: created_integration_def)

section \<open>Properties carried by the store\<close>

definition keeps_names :: "(integration \<Rightarrow> integration) \<Rightarrow> bool" where
  "keeps_names f \<longleftrightarrow> keeps_identity f
     \<and> (\<forall>r. ig_label (f r) = ig_label r \<and> ig_labelNormalized (f r) = ig_labelNormalized r)"

text \<open>The writes that neither insert, delete nor rename: those of a test or a new credential.\<close>

locale store_updates =
  fixes P :: "integ_state \<Rightarrow> bool" and e :: env and userId :: nat
  assumes P_rows: "integrations s' = integrations s \<Longrightarrow> P s \<Longrightarrow> P s'"
    and P_update: "P s \<Longrightarrow> ig_userId row = userId \<Longrightarrow> keeps_names f \<Longrightarrow> P (snd (updateOwned e now row f s))"
    and P_claim: "P s \<Longrightarrow> P (snd (claim e uuid userId now s))"
    and P_rewrite: "P s \<Longrightarrow> ig_userId row = userId \<Longrightarrow> P (snd (rewriteSecret now row x k s))"
begin

lemma P_attempt:
  assumes "P s" and "\<And>x. P x \<Longrightarrow> P (race x)"
  shows "P (snd (attempt e now race i run resets s))"
proof -
  obtain ok s1 where r: "reserveAttempt e now i s = (ok, s1)" by fastforce
  have "integrations s1 = integrations s" using guard_integrations(1) [of e now i s] r by simp
  with assms have P1: "P s1" and P2: "P (race s1)" using P_rows by blast+
  have "P s'" if "integrations s' = integrations (race s1)" for s' using P_rows that P2 by blast
  with P1 show ?thesis
    by (auto simp: attempt_def r Let_def split: bool.splits sum.splits prod.splits)
      (metis guard_integrations(4) snd_conv)
qed

lemma P_replace:
  assumes "P s" and "\<And>x. P x \<Longrightarrow> P (race x)"
  shows "P (snd (integrations_replaceCredential e C ks reg race ic userId uuid c s))"
proof -
  have "P s1" if "cred_validate e (ic_now ic) race userId st secret s = (r, s1)" for st secret r s1
    using P_attempt [where race = race and i = userId, OF assms] that
    by (metis cred_validate_def snd_conv)
  with assms(1) show ?thesis
    by (auto simp: integrations_replaceCredential_def Let_def keeps_names_def keeps_identity_def dest: findOwned_Inr(2)
        intro!: P_update split: sum.splits prod.splits)
qed

lemma P_record:
  assumes "P s" and "ig_userId row = userId"
  shows "P (snd (record_outcome e reg row outcome now s))"
proof (cases outcome)
  case (OutcomeTransient x n)
  let ?w = "updateOwned e now row (\<lambda>r. r\<lparr>ig_lastTestedAt := Some now,
    ig_lastTestResult := Some TestTransientError\<rparr>) s"
  have "snd (record_outcome e reg row outcome now s) = snd ?w"
    by (simp add: record_outcome_def OutcomeTransient split: prod.splits sum.splits)
  then show ?thesis using P_update [OF assms] by (simp add: keeps_names_def keeps_identity_def)
qed (auto simp: record_outcome_def rejected_def keeps_names_def keeps_identity_def assms intro!: P_update split: sum.splits)

lemma P_reencrypt:
  assumes "P s" and "ig_userId row = userId" and "reencryptIfPrevious C ks iv now row s = (row1, s1)"
  shows "P s1" and "ig_userId row1 = userId"
proof -
  have "P s1 \<and> ig_userId row1 = userId"
    using assms P_rewrite [OF assms(1,2)]
    by (auto simp: reencryptIfPrevious_def Let_def split: if_splits option.splits prod.splits)
      (auto simp: rewriteSecret_def Let_def set_secret_def split: if_splits)
  then show "P s1" and "ig_userId row1 = userId" by simp_all
qed

lemma P_test:
  assumes "P s" and race: "\<And>x. P x \<Longrightarrow> P (race x)"
  shows "P (snd (test_connection e C ks reg race ic userId uuid s))"
proof (cases "findOwned e userId uuid s")
  case (Inl x)
  then show ?thesis by (simp add: test_connection_def assms(1))
next
  case (Inr row)
  note own = findOwned_Inr(2) [OF Inr]
  obtain w s1 where c: "claim e (ig_uuid row) userId (ic_now ic) s = (w, s1)" by fastforce
  with P_claim [OF assms(1)] have P1: "P s1" by (metis snd_conv)
  show ?thesis
  proof (cases "w = Inr Claimed")
    case False
    with P1 show ?thesis by (auto simp: test_connection_def Inr c Let_def split: sum.splits cooldown_claim.splits)
  next
    case True
    have rec: "P (snd (record_outcome e reg row1 out (ic_now ic) (race s2)))"
      if "reencryptIfPrevious C ks (ic_iv ic) (ic_now ic) row s1 = (row1, s2)" for row1 s2 out
      using P_reencrypt [OF P1 own that] race by (simp add: P_record)
    have mid: "P (race s2)"
      if "reencryptIfPrevious C ks (ic_iv ic) (ic_now ic) row s1 = (row1, s2)" for row1 s2
      using P_reencrypt [OF P1 own that] race by simp
    from True P1 rec mid own show ?thesis
      by (auto simp: test_connection_def Inr c Let_def keeps_names_def keeps_identity_def intro!: P_update
          split: sum.splits option.splits prod.splits)
  qed
qed

end

locale store_client = store_updates +
  assumes P_insert: "P s \<Longrightarrow> (\<And>k. ig_id (mk k) = k \<and> ig_userId (mk k) = userId) \<Longrightarrow>
          P (snd (insertWithinCap e userId mk (maxPerUser e) s))"
    and P_relabel: "P s \<Longrightarrow> ig_userId row = userId \<Longrightarrow> keeps_identity f \<Longrightarrow> P (snd (updateOwned e now row f s))"
    and P_delete: "P s \<Longrightarrow> ig_userId row = userId \<Longrightarrow> P (deleteOwned row s)"
begin

lemma P_create:
  assumes "P s" and "\<And>x. P x \<Longrightarrow> P (race x)"
  shows "P (snd (integrations_create e C ks reg race ic userId dto s))"
proof -
  have "P s1" if "cred_validate e (ic_now ic) race userId st secret s = (r, s1)" for st secret r s1
    using P_attempt [where race = race and i = userId, OF assms] that
    by (metis cred_validate_def snd_conv)
  with assms(1) show ?thesis
    by (auto simp: integrations_create_def Let_def intro!: P_insert split: sum.splits prod.splits)
qed

lemma P_rename:
  assumes "P s" and "\<And>x. P x \<Longrightarrow> P (race x)"
  shows "P (snd (integrations_rename e ks race now userId uuid label s))"
  using assms
  by (auto simp: integrations_rename_def Let_def keeps_identity_def dest: findOwned_Inr(2)
      intro!: P_relabel split: sum.splits)

lemma P_remove:
  assumes "P s" and "\<And>x. P x \<Longrightarrow> P (race x)"
  shows "P (snd (integrations_delete e C ks reg race userId uuid s))"
  using assms
  by (auto simp: integrations_delete_def Let_def dest: findOwned_Inr(2) intro!: P_delete split: sum.splits)

lemma P_route:
  assumes "P s" and "\<And>x. P x \<Longrightarrow> P (race x)"
  shows "P (snd (integrations_route e C ks reg race ic userId req s))"
  using assms
  by (cases req) (simp_all add: integrations_route_def integrations_test_def P_create P_replace P_rename
      P_test P_remove)

end

section \<open>The invariant\<close>

text \<open>Unique rows, labels unique per owner, and the cap of every owner.\<close>

definition store_ok :: "env \<Rightarrow> integ_state \<Rightarrow> bool" where
  "store_ok e s \<longleftrightarrow> integrations_ok e (integrations s)
     \<and> (\<forall>u. int (countOwned u s) \<le> max 0 (maxPerUser e))"

lemma countOwned_update:
  assumes "keeps_identity f" and "integrations s' = update_where p f (integrations s)"
  shows "countOwned u s' = countOwned u s"
  using assms count_where_update_keep [where p = p and Q = "owned u" and f = f and t = "integrations s"]
  by (simp add: countOwned_def owned_def keeps_identity_def)

lemma countOwned_delete: "countOwned u (deleteOwned row s) \<le> countOwned u s"
proof -
  have "length (filter p (filter q xs)) \<le> length (filter p xs)" for p q and xs :: "integration list"
    by (induction xs) auto
  then show ?thesis by (simp add: countOwned_def deleteOwned_def count_where_def delete_where_def)
qed

lemma updateOwned_rows:
  "\<exists>p. integrations (snd (updateOwned e now row f s)) = integrations s
     \<or> integrations (snd (updateOwned e now row f s)) = update_where p (\<lambda>r. (f r)\<lparr>ig_updatedAt := now\<rparr>) (integrations s)"
  by (simp add: updateOwned_def Let_def) blast

text \<open>A write to columns outside the unique indexes.\<close>

lemma update_columns_ok:
  assumes "integrations_ok e t"
    and "\<And>r. ig_id (f r) = ig_id r \<and> ig_uuid (f r) = ig_uuid r \<and> ig_userId (f r) = ig_userId r
           \<and> ig_labelNormalized (f r) = ig_labelNormalized r"
  shows "integrations_ok e (update_where p f t)"
proof -
  define g where "g r = (if p r then f r else r)" for r
  have rows: "rows (update_where p f t) = map g (rows t)" by (simp add: rows_update_where g_def)
  have g: "ig_id (g r) = ig_id r" "ig_uuid (g r) = ig_uuid r" "ig_userId (g r) = ig_userId r"
    "ig_labelNormalized (g r) = ig_labelNormalized r" for r using assms(2) by (simp_all add: g_def)
  have ids: "map ig_id (rows (update_where p f t)) = map ig_id (rows t)" by (simp add: rows g)
  show ?thesis
    using assms(1) unfolding integrations_ok_def ids by (simp add: rows g next_id_table_ops integ_clash_def)
qed

lemma store_ok_insert:
  assumes "store_ok e s" and "collate_ok e" and mk: "\<And>k. ig_id (mk k) = k \<and> ig_userId (mk k) = i"
  shows "store_ok e (snd (insertWithinCap e i mk (maxPerUser e) s))"
proof -
  obtain res s' where w: "insertWithinCap e i mk (maxPerUser e) s = (res, s')" by fastforce
  then have "int (countOwned u s') \<le> max 0 (maxPerUser e)" for u
  proof (cases rule: insertWithinCap_cases)
    case inserted
    have "countOwned u s' = countOwned u s + (if u = i then 1 else 0)"
      using mk by (auto simp: countOwned_def inserted(2) count_where_insert owned_def)
    with inserted(3) assms(1) show ?thesis by (auto simp: store_ok_def)
  qed (use assms(1) in \<open>simp add: store_ok_def\<close>)
  with insertWithinCap_ok [OF w] assms show ?thesis by (simp add: w store_ok_def)
qed

lemma store_ok_update:
  assumes "store_ok e s" and "collate_ok e" and "keeps_identity f"
  shows "store_ok e (snd (updateOwned e now row f s))"
proof -
  have k: "keeps_identity (\<lambda>r. (f r)\<lparr>ig_updatedAt := now\<rparr>)" using assms(3) by (simp add: keeps_identity_def)
  have "countOwned u (snd (updateOwned e now row f s)) = countOwned u s" for u
    using updateOwned_rows [of e now row f s] countOwned_update [OF k, where s = s] by (metis countOwned_def)
  with updateOwned_ok [OF _ _ assms(2,3)] assms(1) show ?thesis
    by (simp add: store_ok_def) (metis prod.collapse)
qed

lemma store_ok_rows: "integrations s' = integrations s \<Longrightarrow> store_ok e s \<Longrightarrow> store_ok e s'"
  by (simp add: store_ok_def countOwned_def)

lemma store_ok_delete: "store_ok e s \<Longrightarrow> store_ok e (deleteOwned row s)"
  using countOwned_delete [of _ row s] deleteOwned_ok [of e s row]
  by (fastforce simp: store_ok_def intro: order_trans [OF of_nat_mono])

interpretation store_inv: store_client "\<lambda>s. collate_ok e \<longrightarrow> store_ok e s" e u for e u
proof unfold_locales
  fix s :: integ_state and uuid now and row :: integration and x k
  assume ok: "collate_ok e \<longrightarrow> store_ok e s"
  have "integrations (snd (claim e uuid u now s)) = update_where (claimable e uuid u now)
      (\<lambda>r. r\<lparr>ig_lastTestedAt := Some now, ig_updatedAt := now\<rparr>) (integrations s)" by (rule claim_integrations)
  then show "collate_ok e \<longrightarrow> store_ok e (snd (claim e uuid u now s))"
    using ok update_columns_ok countOwned_update [of "\<lambda>r. r\<lparr>ig_lastTestedAt := Some now, ig_updatedAt := now\<rparr>"]
    by (auto simp: store_ok_def keeps_identity_def)
  show "collate_ok e \<longrightarrow> store_ok e (snd (rewriteSecret now row x k s))"
    using ok rewriteSecret_ok countOwned_update [OF _ rewriteSecret_rows]
    by (auto simp: store_ok_def keeps_identity_def set_secret_def)
  show "collate_ok e \<longrightarrow> store_ok e (deleteOwned row s)"
    using ok store_ok_delete by blast
qed (use store_ok_rows store_ok_insert store_ok_update keeps_names_def in \<open>blast+\<close>)

section \<open>Reachable states\<close>

text \<open>
  What the requests of all users, and the operator's re-encryption rewriting a row, lead to; what
  commits while a request waits is again such a run.
\<close>

inductive integ_run ::
  "env \<Rightarrow> crypto \<Rightarrow> integrations_key \<Rightarrow> registry \<Rightarrow> integ_state \<Rightarrow> integ_state \<Rightarrow> bool"
  for e C ks reg where
  run_none: "integ_run e C ks reg s s"
| run_request: "integ_run e C ks reg s t \<Longrightarrow> (\<And>x. integ_run e C ks reg x (race x)) \<Longrightarrow>
    integ_run e C ks reg s (snd (integrations_route e C ks reg race ic u req t))"
| run_rewrite: "integ_run e C ks reg s t \<Longrightarrow>
    integ_run e C ks reg s (snd (rewriteSecret now row x k t))"

lemma integ_run_ok:
  assumes "integ_run e C ks reg s t" and "collate_ok e"
  shows "store_ok e s \<longrightarrow> store_ok e t"
  using assms(1)
proof (induction rule: integ_run.induct)
  case (run_request s t race ic u req)
  then show ?case
    using store_inv.P_route [where e = e and race = race and s = t and u = u and C = C and ks = ks and reg = reg
        and ic = ic and req = req] assms(2) by blast
next
  case (run_rewrite s t now row x k)
  then show ?case
    using store_inv.P_rewrite [where e = e and u = "ig_userId row" and s = t, OF _ refl] assms(2) by blast
qed simp

lemma store_ok_init: "store_ok e init_integ_state"
  by (simp add: store_ok_def integrations_ok_def init_integ_state_def empty_table_def countOwned_def count_where_def)


section \<open>Owners are isolated\<close>

definition owner_rows :: "nat \<Rightarrow> integ_state \<Rightarrow> integration list" where
  "owner_rows u s = select_where (owned u) (integrations s)"

lemma owner_rows_update:
  assumes "integrations s' = update_where p f (integrations s)"
    and "\<And>r. p r \<Longrightarrow> ig_userId r = u" and "\<And>r. ig_userId (f r) = ig_userId r" and "v \<noteq> u"
  shows "owner_rows v s' = owner_rows v s"
proof -
  have "filter (owned v) (map (\<lambda>r. if p r then f r else r) xs) = filter (owned v) xs" for xs
    using assms(2-4) by (induction xs) (auto simp: owned_def)
  then show ?thesis by (simp add: owner_rows_def select_where_def assms(1) rows_update_where)
qed

lemma owner_rows_updateOwned:
  assumes "ig_userId row = u" and "keeps_identity f" and "v \<noteq> u"
  shows "owner_rows v (snd (updateOwned e now row f s)) = owner_rows v s"
proof -
  obtain res s' where w: "updateOwned e now row f s = (res, s')" by fastforce
  then show ?thesis
  proof (cases rule: updateOwned_cases)
    case updated
    then have "integrations s' = update_where (\<lambda>r. ig_id r = ig_id row \<and> ig_userId r = ig_userId row)
        (\<lambda>r. (f r)\<lparr>ig_updatedAt := now\<rparr>) (integrations s)" by simp
    with w assms show ?thesis by (auto simp: keeps_identity_def intro!: owner_rows_update [where u = u])
  qed (simp add: w)
qed

interpretation isolation: store_client "\<lambda>s. v \<noteq> u \<longrightarrow> owner_rows v s = rs" e u for e u v rs
proof unfold_locales
  fix s and mk :: "nat \<Rightarrow> integration" assume a: "v \<noteq> u \<longrightarrow> owner_rows v s = rs" and mk: "\<And>k. ig_id (mk k) = k \<and> ig_userId (mk k) = u"
  obtain res s' where w: "insertWithinCap e u mk (maxPerUser e) s = (res, s')" by fastforce
  then have "v \<noteq> u \<longrightarrow> owner_rows v s' = owner_rows v s"
    by (cases rule: insertWithinCap_cases)
      (use mk in \<open>auto simp: owner_rows_def select_where_def rows_insert_row owned_def\<close>)
  with a show "v \<noteq> u \<longrightarrow> owner_rows v (snd (insertWithinCap e u mk (maxPerUser e) s)) = rs" by (simp add: w)
next
  fix s uuid now assume "v \<noteq> u \<longrightarrow> owner_rows v s = rs"
  then show "v \<noteq> u \<longrightarrow> owner_rows v (snd (claim e uuid u now s)) = rs"
    using owner_rows_update [OF claim_integrations, where u = u and v = v] by (auto simp: claimable_def)
next
  fix s now x k and row :: integration
  assume "v \<noteq> u \<longrightarrow> owner_rows v s = rs" and "ig_userId row = u"
  then show "v \<noteq> u \<longrightarrow> owner_rows v (snd (rewriteSecret now row x k s)) = rs"
    using owner_rows_update [OF rewriteSecret_rows, where u = u and v = v] by (auto simp: set_secret_def)
next
  fix s and row :: integration
  assume a: "v \<noteq> u \<longrightarrow> owner_rows v s = rs" and row: "ig_userId row = u"
  have "filter (owned v) (filter (\<lambda>r. \<not> (ig_id r = ig_id row \<and> ig_userId r = ig_userId row)) xs) = filter (owned v) xs"
    if "v \<noteq> u" for xs using that row by (induction xs) (auto simp: owned_def)
  with a show "v \<noteq> u \<longrightarrow> owner_rows v (deleteOwned row s) = rs"
    by (auto simp: owner_rows_def select_where_def deleteOwned_def delete_where_def)
qed (use owner_rows_updateOwned in \<open>auto simp: owner_rows_def keeps_names_def\<close>)


text \<open>
  A type of integration for the witnesses: any pasted string is a valid credential.
\<close>

definition demo_strategy :: strategy where
  "demo_strategy = \<lparr>st_type = ''pat'', st_flows = \<lparr>fl_credentialPaste = True, fl_redirect = False\<rparr>,
     st_isEnabled = None, st_parseCredential = Inr, st_parseSecretPayload = Some,
     st_validate = (\<lambda>v. Inr \<lparr>vc_secret = v, vc_githubLogin = ''octo'', vc_expiresAt = None, vc_metadata = JsonNull\<rparr>),
     st_test = (\<lambda>v w. Inr (OutcomeActive ''octo'' None JsonNull)), st_describeMetadata = Inr,
     st_mask = (\<lambda>_. ''****''), st_onDelete = (\<lambda>_ _. Inr ())\<rparr>"

definition demo_ictx :: ictx where
  "demo_ictx = \<lparr>ic_now = 1000, ic_uuid = demo_uuid, ic_iv = ''iv'', ic_secret = ''s1'', ic_verifier = ''v1''\<rparr>"

definition demo_dto :: create_integration_dto where
  "demo_dto = \<lparr>ci_label = ''Main'', ci_provider = ''github'', ci_type = ''pat'', ci_credential = JsonStr ''tok''\<rparr>"

definition demo_created :: integ_state where
  "demo_created = snd (integrations_route demo_env demo_crypto demo_old_keys [(''pat'', demo_strategy)] (\<lambda>s. s)
     demo_ictx 1 (CreateRequest demo_dto) init_integ_state)"

lemma demo_created_rows:
  "map ig_userId (rows (integrations demo_created)) = [1]"
  by code_simp



section \<open>Refinement: the users' vaults\<close>

text \<open>
  What a user sees of the module is a vault: the uuids and labels of the own integrations.  An
  answered request changes the vaults as \<open>vault_spec\<close> says; a refused one, and every request that
  only reads, tests or replaces a credential, leaves them.
\<close>

definition vault :: "integ_state \<Rightarrow> nat \<Rightarrow> (string \<times> string) list" where
  "vault s u = map (\<lambda>r. (ig_uuid r, ig_label r)) (owner_rows u s)"

fun vault_spec ::
  "env \<Rightarrow> nat \<Rightarrow> integrations_request \<Rightarrow> exn + integrations_body \<Rightarrow> (nat \<Rightarrow> (string \<times> string) list)
     \<Rightarrow> nat \<Rightarrow> (string \<times> string) list" where
  "vault_spec e u (CreateRequest dto) (Inr (BodyOne r)) V = V(u := V u @ [(ir_id r, ci_label dto)])"
| "vault_spec e u (RenameRequest uuid label) (Inr (BodyOne r)) V =
     V(u := map (\<lambda>(i, l). if i = ir_id r then (i, label) else (i, l)) (V u))"
| "vault_spec e u (RemoveRequest uuid) (Inr _) V = V(u := filter (\<lambda>(i, l). \<not> env_collate e i uuid) (V u))"
| "vault_spec e u req res V = V"

lemma vault_other:
  "v \<noteq> u \<Longrightarrow> vault (snd (integrations_route e C ks reg (\<lambda>s. s) ic u req s)) v = vault s v"
  using isolation.P_route [where race = "\<lambda>s. s" and u = u and v = v and s = s and rs = "owner_rows v s"]
  by (simp add: vault_def)

text \<open>A write that keeps owner, uuid and label leaves every vault.\<close>

lemma vault_update:
  assumes "integrations s' = update_where p f (integrations s)"
    and "\<And>r. ig_userId (f r) = ig_userId r \<and> ig_uuid (f r) = ig_uuid r \<and> ig_label (f r) = ig_label r"
  shows "vault s' = vault s"
proof
  fix u
  have "map (\<lambda>r. (ig_uuid r, ig_label r)) (filter (owned u) (map (\<lambda>r. if p r then f r else r) xs))
      = map (\<lambda>r. (ig_uuid r, ig_label r)) (filter (owned u) xs)" for xs
    using assms(2) by (induction xs) (auto simp: owned_def)
  then show "vault s' u = vault s u"
    by (simp add: vault_def owner_rows_def select_where_def assms(1) rows_update_where)
qed

lemma vault_same: "integrations s' = integrations s \<Longrightarrow> vault s' = vault s"
  by (rule ext) (simp add: vault_def owner_rows_def)

lemma vault_updateOwned:
  assumes "\<And>r. ig_userId (f r) = ig_userId r \<and> ig_uuid (f r) = ig_uuid r \<and> ig_label (f r) = ig_label r"
  shows "vault (snd (updateOwned e now row f s)) = vault s"
  using updateOwned_rows [of e now row f s] vault_update [where s = s and f = "\<lambda>r. (f r)\<lparr>ig_updatedAt := now\<rparr>"] assms
  by (auto intro: vault_same)

interpretation vault_kept: store_updates "\<lambda>s. vault s = V" e u for V e u
proof unfold_locales
  fix s row now and f :: "integration \<Rightarrow> integration"
  assume "vault s = V" and "keeps_names f"
  then show "vault (snd (updateOwned e now row f s)) = V"
    using vault_updateOwned [of f e now row s] by (simp add: keeps_names_def keeps_identity_def)
next
  fix s uuid now assume "vault s = V"
  then show "vault (snd (claim e uuid u now s)) = V" using vault_update [OF claim_integrations] by simp
next
  fix s now x k and row :: integration assume "vault s = V"
  then show "vault (snd (rewriteSecret now row x k s)) = V"
    using vault_update [OF rewriteSecret_rows] by (simp add: set_secret_def)
qed (use vault_same in blast)

lemma vault_insert:
  assumes "insertWithinCap e u mk n s = (res, s')" and "\<And>k. ig_userId (mk k) = u"
  shows "case res of Inl _ \<Rightarrow> vault s' = vault s
    | Inr r \<Rightarrow> vault s' u = vault s u @ [(ig_uuid r, ig_label r)] \<and> (\<exists>k. r = mk k)"
  using assms(1)
proof (cases rule: insertWithinCap_cases)
  case inserted
  with assms(2) show ?thesis by (auto simp: vault_def owner_rows_def select_where_def rows_insert_row owned_def)
qed simp

lemma vault_create:
  "case integrations_create e C ks reg (\<lambda>s. s) ic u dto s of
     (Inl _, s') \<Rightarrow> vault s' = vault s
   | (Inr r, s') \<Rightarrow> vault s' u = vault s u @ [(ir_id r, ci_label dto)]"
proof (cases "cred_parse reg (ci_type dto) (ci_credential dto)")
  case (Inr p)
  obtain st secret where p: "p = (st, secret)" by fastforce
  obtain w s1 where v: "cred_validate e (ic_now ic) (\<lambda>s. s) u st secret s = (w, s1)" by fastforce
  have s1: "vault s1 = vault s"
    using vault_kept.P_attempt [where race = "\<lambda>s. s" and i = u and s = s and V = "vault s" and e = e, OF refl] v
    by (metis cred_validate_def snd_conv)
  have ins: "case respond_outcome e ks (ic_now ic) (insertWithinCap e u (created_integration ic u dto l t x) n s1) of
      (Inl _, s') \<Rightarrow> vault s' = vault s | (Inr r, s') \<Rightarrow> vault s' u = vault s u @ [(ir_id r, ci_label dto)]"
    for l t x n
  proof -
    obtain w s2 where w: "insertWithinCap e u (created_integration ic u dto l t x) n s1 = (w, s2)" by fastforce
    from vault_insert [OF w] s1 show ?thesis
      by (cases w) (auto simp: w respond_outcome_def respond_def toIntegrationResponse_def Let_def)
  qed
  show ?thesis
  proof (cases w)
    case w: (Inr validated)
    show ?thesis
    proof (cases "cred_seal C ks (ic_iv ic) st validated (ic_uuid ic)")
      case x: (Inr x)
      show ?thesis
        using ins [of "normalizeLabel (ci_label dto)" "st_type st" x "maxPerUser e"]
        by (cases "assertNotLocked (ic_now ic) u s"; cases "assertLabelFree e u (normalizeLabel (ci_label dto)) None s")
          (simp_all add: integrations_create_def Inr p v w x Let_def)
    qed (simp add: integrations_create_def Inr p v w s1 Let_def split: sum.split)
  qed (simp add: integrations_create_def Inr p v s1 Let_def split: sum.split)
qed (simp add: integrations_create_def)

text \<open>Deleting or renaming a row found by its owner reaches the rows with its uuid.\<close>

lemma owned_same_row:
  assumes "integrations_ok e t" and "row \<in> set (rows t)" and "r \<in> set (rows t)" and "collate_ok e"
    and "ig_userId row = u" and "ig_userId r = u" and "env_collate e (ig_uuid row) uuid"
  shows "env_collate e (ig_uuid r) uuid \<longleftrightarrow> ig_id r = ig_id row"
    and "ig_uuid r = ig_uuid row \<longleftrightarrow> ig_id r = ig_id row"
proof -
  have eq: "equivp (env_collate e)" using assms(4) by (simp add: collate_ok_def)
  have nc: "\<not> integ_clash e row r" using assms(1-3) by (simp add: integrations_ok_def)
  have same: "r = row" if "ig_id r = ig_id row"
    using assms(1-3) that distinct_map_inj [of ig_id "rows t" r row] by (simp add: integrations_ok_def)
  have "ig_id r = ig_id row" if "env_collate e (ig_uuid r) uuid"
    using nc equivp_transp [OF eq that equivp_symp [OF eq assms(7)]] by (simp add: integ_clash_def)
  then show "env_collate e (ig_uuid r) uuid \<longleftrightarrow> ig_id r = ig_id row" using same assms(7) by blast
  have "ig_id r = ig_id row" if "ig_uuid r = ig_uuid row"
    using nc that equivp_reflp [OF eq] by (simp add: integ_clash_def)
  then show "ig_uuid r = ig_uuid row \<longleftrightarrow> ig_id r = ig_id row" using same by blast
qed

lemma vault_rename:
  assumes "integrations_ok e (integrations s)" and "collate_ok e"
  shows "case integrations_rename e ks (\<lambda>s. s) now u uuid label s of
     (Inl _, s') \<Rightarrow> vault s' = vault s
   | (Inr r, s') \<Rightarrow> vault s' u = map (\<lambda>(i, l). if i = ir_id r then (i, label) else (i, l)) (vault s u)"
proof (cases "findOwned e u uuid s")
  case (Inr row)
  note row = findOwned_Inr [OF Inr]
  let ?f = "\<lambda>r. r\<lparr>ig_label := label, ig_labelNormalized := normalizeLabel label\<rparr>"
  obtain w s1 where w: "updateOwned e now row ?f s = (w, s1)" by fastforce
  then have "case respond_outcome e ks now (w, s1) of
      (Inl _, s') \<Rightarrow> vault s' = vault s
    | (Inr r, s') \<Rightarrow> vault s' u = map (\<lambda>(i, l). if i = ir_id r then (i, label) else (i, l)) (vault s u)"
  proof (cases rule: updateOwned_cases)
    case updated
    have "map (\<lambda>r. (ig_uuid r, ig_label r)) (filter (owned u)
          (map (\<lambda>r. if ig_id r = ig_id row \<and> ig_userId r = u then (?f r)\<lparr>ig_updatedAt := now\<rparr> else r) xs))
        = map (\<lambda>(i, l). if i = ig_uuid row then (i, label) else (i, l))
            (map (\<lambda>r. (ig_uuid r, ig_label r)) (filter (owned u) xs))"
      if "set xs \<subseteq> set (rows (integrations s))" for xs
      using that owned_same_row(2) [OF assms(1) row(1) _ assms(2) row(2) _ row(3)]
      by (induction xs) (auto simp: owned_def)
    from this [OF subset_refl] row(2) show ?thesis
      by (simp add: updated respond_outcome_def respond_def toIntegrationResponse_def Let_def vault_def
          owner_rows_def select_where_def rows_update_where)
  qed (simp add: respond_outcome_def)
  then show ?thesis
    by (simp add: integrations_rename_def Inr w Let_def split: sum.split)
qed (simp add: integrations_rename_def)

lemma vault_delete:
  assumes "integrations_ok e (integrations s)" and "collate_ok e"
  shows "case integrations_delete e C ks reg (\<lambda>s. s) u uuid s of
     (Inl _, s') \<Rightarrow> vault s' = vault s
   | (Inr _, s') \<Rightarrow> vault s' u = filter (\<lambda>(i, l). \<not> env_collate e i uuid) (vault s u)"
proof (cases "findOwned e u uuid s")
  case (Inr row)
  note row = findOwned_Inr [OF Inr]
  have "map (\<lambda>r. (ig_uuid r, ig_label r)) (filter (owned u)
        (filter (\<lambda>r. ig_id r = ig_id row \<longrightarrow> ig_userId r \<noteq> u) xs))
      = filter (\<lambda>(i, l). \<not> env_collate e i uuid) (map (\<lambda>r. (ig_uuid r, ig_label r)) (filter (owned u) xs))"
    if "set xs \<subseteq> set (rows (integrations s))" for xs
    using that owned_same_row(1) [OF assms(1) row(1) _ assms(2) row(2) _ row(3)]
    by (induction xs) (auto simp: owned_def)
  from this [OF subset_refl] row(2) show ?thesis
    by (simp add: integrations_delete_def Inr Let_def vault_def owner_rows_def select_where_def deleteOwned_def
        delete_where_def split: sum.split)
qed (simp add: integrations_delete_def)



section \<open>The cooldown of a test\<close>

text \<open>The times at which claims of one integration, made in this order, are granted.\<close>

fun granted_claims :: "env \<Rightarrow> string \<Rightarrow> nat \<Rightarrow> int list \<Rightarrow> integ_state \<Rightarrow> int list" where
  "granted_claims e uuid u [] s = []"
| "granted_claims e uuid u (t # ts) s =
     (case claim e uuid u t s of
        (Inr Claimed, s1) \<Rightarrow> t # granted_claims e uuid u ts s1
      | (_, s1) \<Rightarrow> granted_claims e uuid u ts s1)"

text \<open>No row under the uuid is claimable up to \<open>d\<close>.\<close>

definition cooling :: "env \<Rightarrow> string \<Rightarrow> nat \<Rightarrow> int \<Rightarrow> integ_state \<Rightarrow> bool" where
  "cooling e uuid u d s \<longleftrightarrow> (\<forall>r \<in> set (rows (integrations s)). \<forall>t \<le> d. \<not> claimable e uuid u t r)"

lemma count_claimable:
  assumes "integrations_ok e t" and "collate_ok e"
  shows "count_where (claimable e uuid u now) t = (if \<exists>r \<in> set (rows t). claimable e uuid u now r then 1 else 0)"
proof (cases "\<exists>r \<in> set (rows t). claimable e uuid u now r")
  case True
  then obtain r where r: "r \<in> set (rows t)" "claimable e uuid u now r" by blast
  have "ig_id y = ig_id r" if "y \<in> set (rows t)" "claimable e uuid u now y" for y
    using owned_same_row(1) [OF assms(1) r(1) that(1) assms(2), of u uuid] r(2) that(2) by (auto simp: claimable_def)
  then have "filter (claimable e uuid u now) (rows t) = filter (\<lambda>y. claimable e uuid u now y \<and> ig_id y = ig_id r) (rows t)"
    by (auto intro: filter_cong)
  also have "\<dots> = [r]"
    using filter_key_singleton [where p = "\<lambda>y. claimable e uuid u now y \<and> ig_id y = ig_id r" and k = ig_id and x = r]
      assms(1) r by (simp add: integrations_ok_def)
  finally show ?thesis using r by (auto simp: count_where_def)
qed (simp add: count_where_zero)

lemma claim_granted:
  assumes "integrations_ok e (integrations s)" and "collate_ok e"
    and "claim e uuid u now s = (w, s1)"
  shows "w = Inr Claimed \<longleftrightarrow> (\<exists>r \<in> set (rows (integrations s)). claimable e uuid u now r)"
    and "w \<noteq> Inr Claimed \<Longrightarrow> s1 = s"
    and "w = Inr Claimed \<Longrightarrow> cooling e uuid u (now + cooldownMs e) s1"
    and "integrations_ok e (integrations s1)"
    and "w = Inr (NotClaimed n) \<Longrightarrow> 1 \<le> n \<and> n \<le> max 1 (ceil_seconds (cooldownMs e))"
proof -
  note count = count_claimable [OF assms(1,2), of uuid u now]
  show granted: "w = Inr Claimed \<longleftrightarrow> (\<exists>r \<in> set (rows (integrations s)). claimable e uuid u now r)"
    using assms(3) by (auto simp: claim_def Let_def count split: if_splits sum.splits)
  have s1: "integrations s1 = update_where (claimable e uuid u now)
      (\<lambda>r. r\<lparr>ig_lastTestedAt := Some now, ig_updatedAt := now\<rparr>) (integrations s)"
    using claim_integrations [of e uuid u now s] assms(3) by simp
  show "integrations_ok e (integrations s1)" unfolding s1 by (rule update_columns_ok [OF assms(1)]) simp
  show "s1 = s" if "w \<noteq> Inr Claimed"
  proof -
    have "integrations s1 = integrations s"
      using granted that by (simp add: s1 update_where_def map_idI)
    moreover have "s1 = s\<lparr>integrations := integrations s1\<rparr>"
      using assms(3) by (auto simp: claim_def Let_def split: if_splits sum.splits)
    ultimately show ?thesis by simp
  qed
  show "cooling e uuid u (now + cooldownMs e) s1" if "w = Inr Claimed"
  proof -
    from granted that obtain r where r: "r \<in> set (rows (integrations s))" "claimable e uuid u now r" by blast
    have same: "y = r" if "y \<in> set (rows (integrations s))" "env_collate e (ig_uuid y) uuid" "ig_userId y = u" for y
      using owned_same_row(1) [OF assms(1) r(1) that(1) assms(2), of u uuid] r that
        distinct_map_inj [of ig_id "rows (integrations s)" y r] assms(1)
      by (auto simp: claimable_def integrations_ok_def)
    then show ?thesis using r(2) by (auto simp: cooling_def s1 rows_update_where claimable_def)
  qed
  show "1 \<le> n \<and> n \<le> max 1 (ceil_seconds (cooldownMs e))" if "w = Inr (NotClaimed n)"
    using assms(3) that by (auto simp: claim_def remainingSeconds_def Let_def split: if_splits sum.splits option.splits)
qed

lemma granted_spaced:
  assumes "integrations_ok e (integrations s)" and "collate_ok e"
  shows "successively (\<lambda>x y. x + cooldownMs e < y) (granted_claims e uuid u ts s)
    \<and> (\<forall>d. cooling e uuid u d s \<longrightarrow> (case granted_claims e uuid u ts s of [] \<Rightarrow> True | t # _ \<Rightarrow> d < t))"
  using assms(1)
proof (induction ts arbitrary: s)
  case (Cons t ts)
  obtain w s1 where w: "claim e uuid u t s = (w, s1)" by fastforce
  note c = claim_granted [OF Cons.prems assms(2) w]
  note ih = Cons.IH [OF c(4)]
  show ?case
  proof (cases "w = Inr Claimed")
    case True
    have "d < t" if "cooling e uuid u d s" for d
      using that c(1) True by (auto simp: cooling_def not_le [symmetric])
    with ih c(3) [OF True] True show ?thesis
      by (cases "granted_claims e uuid u ts s1") (auto simp: w)
  next
    case False
    with c(2) ih show ?thesis by (auto simp: w split: sum.splits cooldown_claim.splits)
  qed
qed simp



end
