(* ===== verification/Github_Http.thy ===== *)
theory Github_Http
  imports Integrations_Key
begin

text \<open>
  \<^verbatim>\<open>integrations/github-http.ts\<close>, \<^verbatim>\<open>integrations/github-client.service.ts\<close> and
  \<^verbatim>\<open>integrations/github-answer.ts\<close>: how a request to GitHub is built and how its answer is read.
  The network, the JSON codec and the URL encodings are the parameter \<open>web\<close>; within one request
  of a user it answers a call to GitHub as a function of that call.  A body is a list of chunks.
\<close>

section \<open>The web platform\<close>

record http_call =
  hc_url :: string
  hc_method :: string
  hc_headers :: "(string \<times> string) list"
  hc_body :: "string option"

record http_answer =
  ha_status :: nat
  ha_headers :: "(string \<times> string) list"
  ha_chunks :: "string list option"

record web =
  wb_fetch :: "http_call \<Rightarrow> string + http_answer"
  wb_urlencode :: "(string \<times> string) list \<Rightarrow> string"
  wb_encodeURIComponent :: "string \<Rightarrow> string"
  wb_json_parse :: "string \<Rightarrow> json option"
  wb_json_stringify :: "json \<Rightarrow> string"
  wb_number :: "string \<Rightarrow> js_number"
  wb_sha256_base64url :: "string \<Rightarrow> string"

definition http_header :: "http_answer \<Rightarrow> string \<Rightarrow> string option" where
  "http_header r name = map_of (ha_headers r) name"

section \<open>Reading an answer\<close>

record rate_limit_fields =
  rl_remaining :: "int option"
  rl_reset :: "int option"
  rl_retryAfter :: "int option"

definition numericHeader :: "web \<Rightarrow> http_answer \<Rightarrow> string \<Rightarrow> int option" where
  "numericHeader W r name =
     (case http_header r name of
        None \<Rightarrow> None
      | Some raw \<Rightarrow>
          if js_trim raw = [] then None
          else (case wb_number W raw of Finite n \<Rightarrow> Some n | NaN \<Rightarrow> None))"

definition rateLimitFields :: "web \<Rightarrow> http_answer \<Rightarrow> rate_limit_fields" where
  "rateLimitFields W r = \<lparr>rl_remaining = numericHeader W r ''x-ratelimit-remaining'',
     rl_reset = numericHeader W r ''x-ratelimit-reset'', rl_retryAfter = numericHeader W r ''retry-after''\<rparr>"

text \<open>The loop of \<^verbatim>\<open>readCappedBody\<close>: \<^term>\<open>None\<close> once the total exceeds the cap.\<close>

fun read_chunks :: "nat \<Rightarrow> string list \<Rightarrow> nat \<Rightarrow> string \<Rightarrow> string option" where
  "read_chunks maxBytes [] size_read acc = Some acc"
| "read_chunks maxBytes (chunk # rest) size_read acc =
     (if size_read + length chunk > maxBytes then None
      else read_chunks maxBytes rest (size_read + length chunk) (acc @ chunk))"

definition readCappedBody :: "http_answer \<Rightarrow> nat \<Rightarrow> string option" where
  "readCappedBody r maxBytes =
     (case ha_chunks r of None \<Rightarrow> Some [] | Some chunks \<Rightarrow> read_chunks maxBytes chunks 0 [])"

definition parseJsonObject :: "web \<Rightarrow> string option \<Rightarrow> json" where
  "parseJsonObject W body =
     (case body of
        None \<Rightarrow> JsonObj []
      | Some b \<Rightarrow>
          (case wb_json_parse W b of
             Some (JsonObj fs) \<Rightarrow> JsonObj fs
           | _ \<Rightarrow> JsonObj []))"

section \<open>The client\<close>

definition GITHUB_API_URL :: string where
  "GITHUB_API_URL = ''https://api.github.com''"

definition GITHUB_OAUTH_TOKEN_URL :: string where
  "GITHUB_OAUTH_TOKEN_URL = ''https://github.com/login/oauth/access_token''"

definition GITHUB_API_VERSION :: string where
  "GITHUB_API_VERSION = ''2022-11-28''"

definition GITHUB_USER_AGENT :: string where
  "GITHUB_USER_AGENT = ''kerghan''"

definition GITHUB_MAX_BODY_BYTES :: nat where
  "GITHUB_MAX_BODY_BYTES = 64 * 1024"

definition GITHUB_LOGIN_MAX_LENGTH :: nat where
  "GITHUB_LOGIN_MAX_LENGTH = 255"

definition UNRECOGNIZED_OAUTH_ERROR :: string where
  "UNRECOGNIZED_OAUTH_ERROR = ''unrecognized_error''"

datatype client_error = ClientTimeout | ClientNetworkError

definition isTimeout :: "string \<Rightarrow> bool" where
  "isTimeout name \<longleftrightarrow> name = ''TimeoutError'' \<or> name = ''AbortError''"

definition send_call :: "web \<Rightarrow> http_call \<Rightarrow> nat \<Rightarrow> client_error + (http_answer \<times> string option)" where
  "send_call W c maxBodyBytes =
     (case wb_fetch W c of
        Inl name \<Rightarrow> Inl (if isTimeout name then ClientTimeout else ClientNetworkError)
      | Inr r \<Rightarrow> Inr (r, readCappedBody r maxBodyBytes))"

definition apiHeaders :: "string \<Rightarrow> (string \<times> string) list" where
  "apiHeaders authorization =
     [(''Authorization'', authorization), (''Accept'', ''application/vnd.github+json''),
      (''X-GitHub-Api-Version'', GITHUB_API_VERSION), (''User-Agent'', GITHUB_USER_AGENT)]"

definition isUsableLogin :: "json option \<Rightarrow> bool" where
  "isUsableLogin login =
     (case login of
        Some (JsonStr s) \<Rightarrow> s \<noteq> [] \<and> length s \<le> GITHUB_LOGIN_MAX_LENGTH
      | _ \<Rightarrow> False)"

definition json_string :: "json option \<Rightarrow> string option" where
  "json_string v = (case v of Some (JsonStr s) \<Rightarrow> Some s | _ \<Rightarrow> None)"

definition parseLogin :: "web \<Rightarrow> string option \<Rightarrow> string option" where
  "parseLogin W body =
     (let login = json_field ''login'' (parseJsonObject W body)
      in if isUsableLogin login then json_string login else None)"

record github_user_response =
  gu_status :: nat
  gu_login :: "string option"
  gu_oauthScopes :: "string option"
  gu_tokenExpiration :: "string option"
  gu_rateLimit :: rate_limit_fields

definition getUser_call :: "string \<Rightarrow> http_call" where
  "getUser_call token = \<lparr>hc_url = GITHUB_API_URL @ ''/user'', hc_method = ''GET'',
     hc_headers = apiHeaders (''Bearer '' @ token), hc_body = None\<rparr>"

definition getUser :: "web \<Rightarrow> string \<Rightarrow> client_error + github_user_response" where
  "getUser W token =
     map_sum id (\<lambda>(r, body).
       \<lparr>gu_status = ha_status r, gu_login = (if ha_status r = 200 then parseLogin W body else None),
        gu_oauthScopes = http_header r ''x-oauth-scopes'',
        gu_tokenExpiration = http_header r ''github-authentication-token-expiration'',
        gu_rateLimit = rateLimitFields W r\<rparr>)
       (send_call W (getUser_call token) GITHUB_MAX_BODY_BYTES)"

record oauth_code_exchange_request =
  cx_clientId :: string
  cx_clientSecret :: string
  cx_code :: string
  cx_codeVerifier :: "string option"
  cx_redirectUri :: string

record oauth_code_exchange_response =
  xr_status :: nat
  xr_accessToken :: "string option"
  xr_error :: "string option"
  xr_rateLimit :: rate_limit_fields

text \<open>\<^verbatim>\<open>OAUTH_ERROR_PATTERN\<close>.\<close>

definition oauth_error_char :: "char \<Rightarrow> bool" where
  "oauth_error_char c = (let n = (of_char c :: nat) in 97 \<le> n \<and> n \<le> 122 \<or> is_digit c \<or> c = CHR ''_'')"

definition oauthErrorCode :: "json option \<Rightarrow> string option" where
  "oauthErrorCode error =
     (case error of
        None \<Rightarrow> None
      | Some JsonNull \<Rightarrow> None
      | Some (JsonStr s) \<Rightarrow>
          if 1 \<le> length s \<and> length s \<le> 64 \<and> list_all oauth_error_char s then Some s
          else Some UNRECOGNIZED_OAUTH_ERROR
      | Some _ \<Rightarrow> Some UNRECOGNIZED_OAUTH_ERROR)"

definition exchangeOauthCode_call :: "web \<Rightarrow> oauth_code_exchange_request \<Rightarrow> http_call" where
  "exchangeOauthCode_call W q =
     \<lparr>hc_url = GITHUB_OAUTH_TOKEN_URL, hc_method = ''POST'',
      hc_headers = [(''Accept'', ''application/json''), (''Content-Type'', ''application/x-www-form-urlencoded''),
        (''User-Agent'', GITHUB_USER_AGENT)],
      hc_body = Some (wb_urlencode W
        ([(''client_id'', cx_clientId q), (''client_secret'', cx_clientSecret q), (''code'', cx_code q),
          (''redirect_uri'', cx_redirectUri q)]
         @ (case cx_codeVerifier q of None \<Rightarrow> [] | Some v \<Rightarrow> [(''code_verifier'', v)])))\<rparr>"

definition exchangeOauthCode ::
  "web \<Rightarrow> oauth_code_exchange_request \<Rightarrow> client_error + oauth_code_exchange_response" where
  "exchangeOauthCode W q =
     map_sum id (\<lambda>(r, body).
       let parsed = parseJsonObject W body
       in \<lparr>xr_status = ha_status r,
           xr_accessToken = (case json_field ''access_token'' parsed of
               Some (JsonStr s) \<Rightarrow> if s \<noteq> [] then Some s else None | _ \<Rightarrow> None),
           xr_error = oauthErrorCode (json_field ''error'' parsed),
           xr_rateLimit = rateLimitFields W r\<rparr>)
       (send_call W (exchangeOauthCode_call W q) GITHUB_MAX_BODY_BYTES)"

definition revokeOauthToken_call :: "web \<Rightarrow> string \<Rightarrow> string \<Rightarrow> string \<Rightarrow> http_call" where
  "revokeOauthToken_call W clientId clientSecret token =
     (let basic = base64_encode (clientId @ '':'' @ clientSecret)
      in \<lparr>hc_url = GITHUB_API_URL @ ''/applications/'' @ wb_encodeURIComponent W clientId @ ''/token'',
          hc_method = ''DELETE'',
          hc_headers = apiHeaders (''Basic '' @ basic) @ [(''Content-Type'', ''application/json'')],
          hc_body = Some (wb_json_stringify W (JsonObj [(''access_token'', JsonStr token)]))\<rparr>)"

definition revokeOauthToken :: "web \<Rightarrow> string \<Rightarrow> string \<Rightarrow> string \<Rightarrow> client_error + nat" where
  "revokeOauthToken W clientId clientSecret token =
     map_sum id (\<lambda>(r, _). ha_status r)
       (send_call W (revokeOauthToken_call W clientId clientSecret token) GITHUB_MAX_BODY_BYTES)"

section \<open>Classifying an answer\<close>

datatype github_user_answer =
    UserOk string github_user_response
  | UserUnauthorized
  | UserRateLimited "int option"
  | UserUnavailable

definition isRateLimited :: "nat \<Rightarrow> rate_limit_fields \<Rightarrow> bool" where
  "isRateLimited status f \<longleftrightarrow> status \<in> {403, 429} \<and> (rl_remaining f = Some 0 \<or> rl_retryAfter f \<noteq> None)"

definition retryAfterSecondsFor :: "rate_limit_fields \<Rightarrow> int \<Rightarrow> int option" where
  "retryAfterSecondsFor f now =
     (case rl_retryAfter f of
        Some n \<Rightarrow> Some (max 0 n)
      | None \<Rightarrow>
          (case rl_reset f of
             Some reset \<Rightarrow> Some (max 0 (reset - now div 1000))
           | None \<Rightarrow> None))"

definition classifyGithubUser :: "github_user_response \<Rightarrow> int \<Rightarrow> github_user_answer" where
  "classifyGithubUser r now =
     (if gu_status r = 200 \<and> isUsableLogin (map_option JsonStr (gu_login r)) then UserOk (the (gu_login r)) r
      else if gu_status r = 401 then UserUnauthorized
      else if isRateLimited (gu_status r) (gu_rateLimit r)
      then UserRateLimited (retryAfterSecondsFor (gu_rateLimit r) now)
      else UserUnavailable)"

definition fetchGithubUser :: "web \<Rightarrow> string \<Rightarrow> int \<Rightarrow> github_user_answer" where
  "fetchGithubUser W token now =
     (case getUser W token of
        Inl _ \<Rightarrow> UserUnavailable
      | Inr r \<Rightarrow> classifyGithubUser r now)"

section \<open>What the client promises\<close>

lemma read_chunks_iff:
  "read_chunks n chunks size_read acc =
     (if chunks = [] \<or> size_read + length (concat chunks) \<le> n then Some (acc @ concat chunks) else None)"
  by (induction chunks arbitrary: size_read acc) auto

lemma readCappedBody_bound: "readCappedBody r n = Some b \<Longrightarrow> length b \<le> n"
  by (auto simp: readCappedBody_def read_chunks_iff split: option.splits if_splits)

lemma isUsableLogin_iff:
  "isUsableLogin v \<longleftrightarrow> (\<exists>s. v = Some (JsonStr s) \<and> s \<noteq> [] \<and> length s \<le> 255)"
  by (auto simp: isUsableLogin_def GITHUB_LOGIN_MAX_LENGTH_def split: option.splits json.splits)

lemma fetchGithubUser_Ok:
  assumes "fetchGithubUser W token now = UserOk login r"
  shows "login \<noteq> []" and "length login \<le> 255" and "gu_status r = 200" and "gu_login r = Some login"
    and "getUser W token = Inr r"
  using assms
  by (auto simp: fetchGithubUser_def classifyGithubUser_def isUsableLogin_iff split: sum.splits if_splits)

text \<open>Two ways of rounding the time of a rate limit up agree.\<close>

lemma ceil_reset:
  fixes reset now :: int
  shows "reset - now div 1000 = - ((now - reset * 1000) div 1000)"
proof -
  have "(now - reset * 1000) div 1000 = now div 1000 - reset"
    using div_mult_self1 [of 1000 now "- reset"] by simp
  then show ?thesis by simp
qed

end
