(* ===== verification/Redirect_State.thy ===== *)
theory Redirect_State
  imports Integration_Store Github_Http
begin

text \<open>
  The single-use states of the redirect flows: \<^verbatim>\<open>types/shared/state-secret.ts\<close>,
  \<^verbatim>\<open>types/oauth-app/oauth-state.service.ts\<close> and \<^verbatim>\<open>types/github-app/github-app-state.service.ts\<close>.
  Redeeming a state is a read and a conditional delete; what other requests commit in between is
  the parameter \<open>race\<close> of the whole operation, or is interleaved explicitly between its halves.
\<close>

section \<open>The secret of a state\<close>

definition sha256Hex :: "env \<Rightarrow> string \<Rightarrow> string" where
  "sha256Hex e v = env_hashToken e v"

definition secretMatches :: "env \<Rightarrow> string \<Rightarrow> string \<Rightarrow> bool" where
  "secretMatches e secret storedHash \<longleftrightarrow> sha256Hex e secret = storedHash"

definition state_uuid_char :: "char \<Rightarrow> bool" where
  "state_uuid_char c = (let n = (of_char c :: nat) in is_digit c \<or> 97 \<le> n \<and> n \<le> 102 \<or> c = CHR ''-'')"

definition base64url_char :: "char \<Rightarrow> bool" where
  "base64url_char c = (let n = (of_char c :: nat)
     in 65 \<le> n \<and> n \<le> 90 \<or> 97 \<le> n \<and> n \<le> 122 \<or> is_digit c \<or> c = CHR ''_'' \<or> c = CHR ''-'')"

definition OAUTH_STATE_PATTERN :: "string \<Rightarrow> bool" where
  "OAUTH_STATE_PATTERN st \<longleftrightarrow> length st = 80 \<and> list_all state_uuid_char (take 36 st)
     \<and> st ! 36 = CHR ''.'' \<and> list_all base64url_char (drop 37 st)"

section \<open>OauthStateService\<close>

definition OAUTH_STATE_TTL_MS :: int where "OAUTH_STATE_TTL_MS = 10 * 60 * 1000"

definition OAUTH_STATE_MAX_PENDING :: nat where "OAUTH_STATE_MAX_PENDING = 5"

datatype oauth_state_target = TargetLabel string | TargetIntegration string

record issued_oauth_state =
  io_state :: string
  io_codeChallenge :: string

datatype consumed_oauth_state =
    ConsumedCreate string string
  | ConsumedReplace string string

definition pkceChallenge :: "web \<Rightarrow> string \<Rightarrow> string" where
  "pkceChallenge W codeVerifier = wb_sha256_base64url W codeVerifier"

definition oauth_prunePending :: "nat \<Rightarrow> integ_state \<Rightarrow> integ_state" where
  "oauth_prunePending userId s =
     (let pending = order_desc (\<lambda>r. int (os_id r)) (select_where (\<lambda>r. os_userId r = userId) (oauth_states s));
          stale = map os_id (drop (OAUTH_STATE_MAX_PENDING - 1) pending)
      in if length stale > 0
         then s\<lparr>oauth_states := delete_where (\<lambda>r. os_id r \<in> set stale) (oauth_states s)\<rparr> else s)"

definition oauth_state_row :: "env \<Rightarrow> ictx \<Rightarrow> nat \<Rightarrow> oauth_state_target \<Rightarrow> nat \<Rightarrow> oauth_state" where
  "oauth_state_row e ic userId target i =
     \<lparr>os_id = i, os_uuid = ic_uuid ic, os_userId = userId, os_secretHash = sha256Hex e (ic_secret ic),
      os_purpose = (case target of TargetLabel _ \<Rightarrow> PurposeCreate | TargetIntegration _ \<Rightarrow> PurposeReplace),
      os_label = (case target of TargetLabel l \<Rightarrow> Some l | TargetIntegration _ \<Rightarrow> None),
      os_integrationUuid = (case target of TargetLabel _ \<Rightarrow> None | TargetIntegration u \<Rightarrow> Some u),
      os_codeVerifier = ic_verifier ic, os_expiresAt = ic_now ic + OAUTH_STATE_TTL_MS\<rparr>"

definition oauth_issue ::
  "env \<Rightarrow> web \<Rightarrow> ictx \<Rightarrow> nat \<Rightarrow> oauth_state_target \<Rightarrow> integ_state \<Rightarrow> (issued_oauth_state, integ_state) outcome" where
  "oauth_issue e W ic userId target s =
     (let now = ic_now ic;
          s1 = s\<lparr>oauth_states := delete_where (\<lambda>r. os_expiresAt r \<le> now) (oauth_states s)\<rparr>;
          s2 = oauth_prunePending userId s1
      in if exists_where (\<lambda>r. env_collate e (os_uuid r) (ic_uuid ic)) (oauth_states s2) then (Inl DupEntryExn, s2)
         else (Inr \<lparr>io_state = ic_uuid ic @ ''.'' @ ic_secret ic, io_codeChallenge = pkceChallenge W (ic_verifier ic)\<rparr>,
               s2\<lparr>oauth_states := insert_row (oauth_state_row e ic userId target) (oauth_states s2)\<rparr>))"

definition oauth_toConsumed :: "oauth_state \<Rightarrow> exn + consumed_oauth_state" where
  "oauth_toConsumed row =
     (case (os_purpose row, os_label row, os_integrationUuid row) of
        (PurposeCreate, Some label, _) \<Rightarrow> Inr (ConsumedCreate label (os_codeVerifier row))
      | (PurposeReplace, _, Some uuid) \<Rightarrow> Inr (ConsumedReplace uuid (os_codeVerifier row))
      | _ \<Rightarrow> Inl invalidRedirectState)"

text \<open>The read: the row the state names, if it is the caller's.\<close>

definition oauth_find :: "env \<Rightarrow> nat \<Rightarrow> string \<Rightarrow> integ_state \<Rightarrow> exn + (oauth_state \<times> string)" where
  "oauth_find e userId st s =
     (if \<not> OAUTH_STATE_PATTERN st then Inl invalidRedirectState
      else case js_split (CHR ''.'') st of
        uuid # secret # _ \<Rightarrow>
          (case find_one (\<lambda>r. env_collate e (os_uuid r) uuid \<and> os_userId r = userId) (oauth_states s) of
             None \<Rightarrow> Inl invalidRedirectState
           | Some row \<Rightarrow> Inr (row, secret))
      | _ \<Rightarrow> Inl invalidRedirectState)"

text \<open>The delete, which decides who redeems the row, and the checks after it.\<close>

definition oauth_take ::
  "env \<Rightarrow> int \<Rightarrow> oauth_state \<times> string \<Rightarrow> integ_state \<Rightarrow> (consumed_oauth_state, integ_state) outcome" where
  "oauth_take e now found s =
     (let row = fst found; secret = snd found;
          affected = count_where (\<lambda>r. os_id r = os_id row) (oauth_states s);
          s1 = s\<lparr>oauth_states := delete_where (\<lambda>r. os_id r = os_id row) (oauth_states s)\<rparr>
      in if affected \<noteq> 1 \<or> \<not> secretMatches e secret (os_secretHash row) \<or> os_expiresAt row \<le> now
         then (Inl invalidRedirectState, s1)
         else (oauth_toConsumed row, s1))"

definition oauth_consume ::
  "env \<Rightarrow> (integ_state \<Rightarrow> integ_state) \<Rightarrow> int \<Rightarrow> nat \<Rightarrow> string \<Rightarrow> integ_state
     \<Rightarrow> (consumed_oauth_state, integ_state) outcome" where
  "oauth_consume e race now userId st s =
     (case oauth_find e userId st s of
        Inl x \<Rightarrow> (Inl x, s)
      | Inr found \<Rightarrow> oauth_take e now found (race s))"

section \<open>GithubAppStateService\<close>

definition GITHUB_APP_STATE_TTL_MS :: int where "GITHUB_APP_STATE_TTL_MS = 10 * 60 * 1000"

definition GITHUB_APP_STATE_MAX_PENDING :: nat where "GITHUB_APP_STATE_MAX_PENDING = 5"

definition GITHUB_APP_MAX_CANDIDATES :: nat where "GITHUB_APP_MAX_CANDIDATES = 100"

definition GITHUB_APP_STATE_PATTERN :: "string \<Rightarrow> bool" where
  "GITHUB_APP_STATE_PATTERN = OAUTH_STATE_PATTERN"

datatype github_app_state_target = AppCreate string | AppReplace string

record consumed_github_app_state =
  cg_target :: github_app_state_target
  cg_candidates :: "int list"
  cg_verifiedBy :: "string option"

text \<open>\<^verbatim>\<open>GITHUB_ACCOUNT_LOGIN_PATTERN\<close> of \<^verbatim>\<open>github-app-client.service.ts\<close>, and \<^verbatim>\<open>isGithubLogin\<close>.\<close>

definition login_char :: "char \<Rightarrow> bool" where
  "login_char c = (let n = (of_char c :: nat)
     in 65 \<le> n \<and> n \<le> 90 \<or> 97 \<le> n \<and> n \<le> 122 \<or> is_digit c \<or> c = CHR ''-'')"

definition GITHUB_ACCOUNT_LOGIN_PATTERN :: "string \<Rightarrow> bool" where
  "GITHUB_ACCOUNT_LOGIN_PATTERN login \<longleftrightarrow> 1 \<le> length login \<and> length login \<le> 39 \<and> list_all login_char login"

definition isGithubLogin :: "string option \<Rightarrow> bool" where
  "isGithubLogin login = (case login of Some l \<Rightarrow> GITHUB_ACCOUNT_LOGIN_PATTERN l | None \<Rightarrow> False)"

definition app_prunePending :: "nat \<Rightarrow> integ_state \<Rightarrow> integ_state" where
  "app_prunePending userId s =
     (let pending = order_desc (\<lambda>r. int (gs_id r)) (select_where (\<lambda>r. gs_userId r = userId) (github_app_states s));
          stale = map gs_id (drop (GITHUB_APP_STATE_MAX_PENDING - 1) pending)
      in if length stale > 0
         then s\<lparr>github_app_states := delete_where (\<lambda>r. gs_id r \<in> set stale) (github_app_states s)\<rparr> else s)"

definition app_state_row ::
  "env \<Rightarrow> ictx \<Rightarrow> nat \<Rightarrow> github_app_stage \<Rightarrow> github_app_state_target \<Rightarrow> int list option \<Rightarrow> string option
     \<Rightarrow> nat \<Rightarrow> github_app_state" where
  "app_state_row e ic userId stage target candidates verifiedBy i =
     \<lparr>gs_id = i, gs_uuid = ic_uuid ic, gs_userId = userId, gs_secretHash = sha256Hex e (ic_secret ic),
      gs_stage = stage,
      gs_purpose = (case target of AppCreate _ \<Rightarrow> PurposeCreate | AppReplace _ \<Rightarrow> PurposeReplace),
      gs_label = (case target of AppCreate l \<Rightarrow> Some l | AppReplace _ \<Rightarrow> None),
      gs_integrationUuid = (case target of AppCreate _ \<Rightarrow> None | AppReplace u \<Rightarrow> Some u),
      gs_candidateInstallationIds = candidates, gs_verifiedBy = verifiedBy,
      gs_expiresAt = ic_now ic + GITHUB_APP_STATE_TTL_MS\<rparr>"

definition app_issue ::
  "env \<Rightarrow> ictx \<Rightarrow> nat \<Rightarrow> github_app_stage \<Rightarrow> github_app_state_target \<Rightarrow> int list option \<Rightarrow> string option
     \<Rightarrow> integ_state \<Rightarrow> (string, integ_state) outcome" where
  "app_issue e ic userId stage target candidates verifiedBy s =
     (let now = ic_now ic;
          s1 = s\<lparr>github_app_states := delete_where (\<lambda>r. gs_expiresAt r \<le> now) (github_app_states s)\<rparr>;
          s2 = app_prunePending userId s1
      in if exists_where (\<lambda>r. env_collate e (gs_uuid r) (ic_uuid ic)) (github_app_states s2) then (Inl DupEntryExn, s2)
         else (Inr (ic_uuid ic @ ''.'' @ ic_secret ic),
               s2\<lparr>github_app_states := insert_row (app_state_row e ic userId stage target candidates verifiedBy) (github_app_states s2)\<rparr>))"

definition issueRedirect ::
  "env \<Rightarrow> ictx \<Rightarrow> nat \<Rightarrow> github_app_state_target \<Rightarrow> integ_state \<Rightarrow> (string, integ_state) outcome" where
  "issueRedirect e ic userId target s = app_issue e ic userId StageRedirect target None None s"

definition issueSelect ::
  "env \<Rightarrow> ictx \<Rightarrow> nat \<Rightarrow> github_app_state_target \<Rightarrow> int list \<Rightarrow> string \<Rightarrow> integ_state \<Rightarrow> (string, integ_state) outcome" where
  "issueSelect e ic userId target candidates verifiedBy s =
     app_issue e ic userId StageSelect target (Some (take GITHUB_APP_MAX_CANDIDATES candidates)) (Some verifiedBy) s"

definition app_targetOf :: "github_app_state \<Rightarrow> exn + github_app_state_target" where
  "app_targetOf row =
     (case (gs_purpose row, gs_label row, gs_integrationUuid row) of
        (PurposeCreate, Some label, _) \<Rightarrow> Inr (AppCreate label)
      | (PurposeReplace, _, Some uuid) \<Rightarrow> Inr (AppReplace uuid)
      | _ \<Rightarrow> Inl invalidRedirectState)"

definition isCandidateList :: "int list option \<Rightarrow> bool" where
  "isCandidateList ids = (case ids of Some xs \<Rightarrow> list_all (\<lambda>i. 0 < i \<and> i < 2 ^ 53) xs | None \<Rightarrow> False)"

definition app_toConsumed :: "github_app_state \<Rightarrow> exn + consumed_github_app_state" where
  "app_toConsumed row =
     (case app_targetOf row of
        Inl x \<Rightarrow> Inl x
      | Inr target \<Rightarrow>
          if gs_stage row = StageRedirect
          then Inr \<lparr>cg_target = target, cg_candidates = [], cg_verifiedBy = None\<rparr>
          else if \<not> isCandidateList (gs_candidateInstallationIds row) \<or> \<not> isGithubLogin (gs_verifiedBy row)
          then Inl invalidRedirectState
          else Inr \<lparr>cg_target = target, cg_candidates = the (gs_candidateInstallationIds row),
                 cg_verifiedBy = gs_verifiedBy row\<rparr>)"

definition app_find :: "env \<Rightarrow> nat \<Rightarrow> string \<Rightarrow> integ_state \<Rightarrow> exn + (github_app_state \<times> string)" where
  "app_find e userId st s =
     (if \<not> GITHUB_APP_STATE_PATTERN st then Inl invalidRedirectState
      else case js_split (CHR ''.'') st of
        uuid # secret # _ \<Rightarrow>
          (case find_one (\<lambda>r. env_collate e (gs_uuid r) uuid \<and> gs_userId r = userId) (github_app_states s) of
             None \<Rightarrow> Inl invalidRedirectState
           | Some row \<Rightarrow> Inr (row, secret))
      | _ \<Rightarrow> Inl invalidRedirectState)"

definition app_take ::
  "env \<Rightarrow> int \<Rightarrow> github_app_stage \<Rightarrow> github_app_state \<times> string \<Rightarrow> integ_state
     \<Rightarrow> (consumed_github_app_state, integ_state) outcome" where
  "app_take e now stage found s =
     (let row = fst found; secret = snd found;
          affected = count_where (\<lambda>r. gs_id r = gs_id row) (github_app_states s);
          s1 = s\<lparr>github_app_states := delete_where (\<lambda>r. gs_id r = gs_id row) (github_app_states s)\<rparr>;
          valid = (affected = 1 \<and> secretMatches e secret (gs_secretHash row) \<and> gs_expiresAt row > now
            \<and> gs_stage row = stage)
      in if \<not> valid then (Inl invalidRedirectState, s1) else (app_toConsumed row, s1))"

definition app_consume ::
  "env \<Rightarrow> (integ_state \<Rightarrow> integ_state) \<Rightarrow> int \<Rightarrow> nat \<Rightarrow> string \<Rightarrow> github_app_stage \<Rightarrow> integ_state
     \<Rightarrow> (consumed_github_app_state, integ_state) outcome" where
  "app_consume e race now userId st stage s =
     (case app_find e userId st s of
        Inl x \<Rightarrow> (Inl x, s)
      | Inr found \<Rightarrow> app_take e now stage found (race s))"

section \<open>The contract of single-use states\<close>

text \<open>The redemptions that succeed in a run of redemptions and other operations.\<close>

fun redeemed :: "('q \<Rightarrow> 's \<Rightarrow> bool \<times> 's) \<Rightarrow> ('o \<Rightarrow> 's \<Rightarrow> 's) \<Rightarrow> ('q + 'o) list \<Rightarrow> 's \<Rightarrow> 'q list" where
  "redeemed redeem other [] s = []"
| "redeemed redeem other (Inl q # evs) s =
     (case redeem q s of (ok, s1) \<Rightarrow>
        if ok then q # redeemed redeem other evs s1 else redeemed redeem other evs s1)"
| "redeemed redeem other (Inr x # evs) s = redeemed redeem other evs (other x s)"

locale single_use =
  fixes ids :: "'s \<Rightarrow> nat set" and bound :: "'s \<Rightarrow> nat" and key :: "'q \<Rightarrow> nat"
    and redeem :: "'q \<Rightarrow> 's \<Rightarrow> bool \<times> 's" and other :: "'o \<Rightarrow> 's \<Rightarrow> 's"
  assumes redeem_present: "fst (redeem q s) \<Longrightarrow> key q \<in> ids s"
    and redeem_gone: "ids (snd (redeem q s)) \<subseteq> ids s - {key q}"
    and redeem_bound: "bound s \<le> bound (snd (redeem q s))"
    and other_ids: "ids (other x s) \<subseteq> ids s \<union> {bound s..}"
    and other_bound: "bound s \<le> bound (other x s)"
begin

lemma never_again:
  assumes "i \<notin> ids s" and "i < bound s"
  shows "filter (\<lambda>q. key q = i) (redeemed redeem other evs s) = []"
  using assms
proof (induction evs arbitrary: s)
  case (Cons ev evs)
  show ?case
  proof (cases ev)
    case (Inl q)
    obtain ok s1 where r: "redeem q s = (ok, s1)" by fastforce
    have "i \<notin> ids s1" and "i < bound s1"
      using Cons.prems redeem_gone [of q s] redeem_bound [of s q] by (auto simp: r)
    moreover have "ok \<Longrightarrow> key q \<noteq> i" using Cons.prems(1) redeem_present [of q s] by (auto simp: r)
    ultimately show ?thesis using Cons.IH [of s1] by (auto simp: Inl r)
  next
    case (Inr x)
    have "i \<notin> ids (other x s)" and "i < bound (other x s)"
      using Cons.prems other_ids [of x s] other_bound [of s x] by auto
    with Cons.IH [of "other x s"] show ?thesis by (simp add: Inr)
  qed
qed simp

lemma at_most_once:
  assumes "i < bound s"
  shows "length (filter (\<lambda>q. key q = i) (redeemed redeem other evs s)) \<le> 1"
  using assms
proof (induction evs arbitrary: s)
  case (Cons ev evs)
  show ?case
  proof (cases ev)
    case (Inl q)
    obtain ok s1 where r: "redeem q s = (ok, s1)" by fastforce
    have b: "i < bound s1" using Cons.prems redeem_bound [of s q] by (simp add: r)
    have gone: "key q = i \<Longrightarrow> filter (\<lambda>q. key q = i) (redeemed redeem other evs s1) = []"
      using never_again [OF _ b] redeem_gone [of q s] by (auto simp: r)
    from Cons.IH [OF b] gone show ?thesis by (auto simp: Inl r)
  next
    case (Inr x)
    have "i < bound (other x s)" using Cons.prems other_bound [of s x] by simp
    from Cons.IH [OF this] show ?thesis by (simp add: Inr)
  qed
qed simp

end

section \<open>Both services meet it\<close>

definition oauth_redeem ::
  "env \<Rightarrow> int \<times> oauth_state \<times> string \<Rightarrow> integ_state \<Rightarrow> bool \<times> integ_state" where
  "oauth_redeem e q s = (case oauth_take e (fst q) (snd q) s of (r, s1) \<Rightarrow> (is_Inr r, s1))"

definition oauth_issued :: "env \<Rightarrow> web \<Rightarrow> ictx \<times> nat \<times> oauth_state_target \<Rightarrow> integ_state \<Rightarrow> integ_state" where
  "oauth_issued e W q s = (case q of (ic, u, t) \<Rightarrow> snd (oauth_issue e W ic u t s))"

definition app_redeem ::
  "env \<Rightarrow> int \<times> github_app_stage \<times> github_app_state \<times> string \<Rightarrow> integ_state \<Rightarrow> bool \<times> integ_state" where
  "app_redeem e q s = (case q of (now, stage, found) \<Rightarrow>
     (case app_take e now stage found s of (r, s1) \<Rightarrow> (is_Inr r, s1)))"

definition app_issued ::
  "env \<Rightarrow> ictx \<times> nat \<times> github_app_stage \<times> github_app_state_target \<times> int list option \<times> string option
     \<Rightarrow> integ_state \<Rightarrow> integ_state" where
  "app_issued e q s = (case q of (ic, u, stage, t, cs, v) \<Rightarrow> snd (app_issue e ic u stage t cs v s))"

lemma pruned_rows:
  "rows (oauth_states (oauth_prunePending u s)) = filter (\<lambda>r. os_id r \<notin> set (map os_id (drop 4
      (order_desc (\<lambda>r. int (os_id r)) (select_where (\<lambda>r. os_userId r = u) (oauth_states s)))))) (rows (oauth_states s))"
  "next_id (oauth_states (oauth_prunePending u s)) = next_id (oauth_states s)"
  "rows (github_app_states (app_prunePending u s)) = filter (\<lambda>r. gs_id r \<notin> set (map gs_id (drop 4
      (order_desc (\<lambda>r. int (gs_id r)) (select_where (\<lambda>r. gs_userId r = u) (github_app_states s)))))) (rows (github_app_states s))"
  "next_id (github_app_states (app_prunePending u s)) = next_id (github_app_states s)"
  by (auto simp: oauth_prunePending_def app_prunePending_def Let_def delete_where_def OAUTH_STATE_MAX_PENDING_def
      GITHUB_APP_STATE_MAX_PENDING_def intro!: filter_True [symmetric])

lemma oauth_issue_table:
  defines "T u s now \<equiv> oauth_states (oauth_prunePending u
     (s\<lparr>oauth_states := delete_where (\<lambda>r. os_expiresAt r \<le> now) (oauth_states s)\<rparr>))"
  shows "oauth_states (snd (oauth_issue e W ic u t s)) = T u s (ic_now ic)
     \<or> oauth_states (snd (oauth_issue e W ic u t s)) = insert_row (oauth_state_row e ic u t) (T u s (ic_now ic))"
    and "set (rows (T u s now)) \<subseteq> set (rows (oauth_states s))" and "next_id (T u s now) = next_id (oauth_states s)"
  by (auto simp: T_def oauth_issue_def Let_def pruned_rows next_id_table_ops delete_where_def)

lemma app_issue_table:
  defines "T u s now \<equiv> github_app_states (app_prunePending u
     (s\<lparr>github_app_states := delete_where (\<lambda>r. gs_expiresAt r \<le> now) (github_app_states s)\<rparr>))"
  shows "github_app_states (snd (app_issue e ic u stage t cs v s)) = T u s (ic_now ic)
     \<or> github_app_states (snd (app_issue e ic u stage t cs v s)) = insert_row (app_state_row e ic u stage t cs v) (T u s (ic_now ic))"
    and "set (rows (T u s now)) \<subseteq> set (rows (github_app_states s))" and "next_id (T u s now) = next_id (github_app_states s)"
  by (auto simp: T_def app_issue_def Let_def pruned_rows next_id_table_ops delete_where_def)

lemma fresh_keys_only:
  assumes "t' = T \<or> t' = insert_row mk T" and "set (rows T) \<subseteq> set (rows t)" and "next_id T = next_id t"
    and "\<And>i. k (mk i) = i"
  shows "k ` set (rows t') \<subseteq> k ` set (rows t) \<union> {next_id t..}" and "next_id t \<le> next_id t'"
  using assms(1)
proof (elim disjE)
  assume "t' = insert_row mk T"
  with assms(2-4) show "k ` set (rows t') \<subseteq> k ` set (rows t) \<union> {next_id t..}" by (auto simp: insert_row_def)
qed (use assms in \<open>auto simp: insert_row_def\<close>)

lemma count_where_one_key: "count_where (\<lambda>r. k r = i) t = 1 \<Longrightarrow> i \<in> k ` set (rows t)"
  using count_where_zero [of "\<lambda>r. k r = i" t] by auto

lemma oauth_take_row:
  "oauth_states (snd (oauth_take e now (row, secret) s)) = delete_where (\<lambda>r. os_id r = os_id row) (oauth_states s)"
  "fst (oauth_take e now (row, secret) s) = Inr c \<Longrightarrow> os_id row \<in> os_id ` set (rows (oauth_states s))
     \<and> sha256Hex e secret = os_secretHash row \<and> now < os_expiresAt row \<and> oauth_toConsumed row = Inr c"
  using count_where_one_key [of os_id "os_id row" "oauth_states s"]
  by (auto simp: oauth_take_def Let_def secretMatches_def split: if_splits)

lemma app_take_row:
  "github_app_states (snd (app_take e now stage (row, secret) s)) = delete_where (\<lambda>r. gs_id r = gs_id row) (github_app_states s)"
  "fst (app_take e now stage (row, secret) s) = Inr c \<Longrightarrow> gs_id row \<in> gs_id ` set (rows (github_app_states s))
     \<and> sha256Hex e secret = gs_secretHash row \<and> now < gs_expiresAt row \<and> gs_stage row = stage \<and> app_toConsumed row = Inr c"
  using count_where_one_key [of gs_id "gs_id row" "github_app_states s"]
  by (auto simp: app_take_def Let_def secretMatches_def split: if_splits)

interpretation oauth_single: single_use "\<lambda>s. os_id ` set (rows (oauth_states s))" "\<lambda>s. next_id (oauth_states s)"
  "\<lambda>q. os_id (fst (snd q))" "oauth_redeem e" "oauth_issued e W" for e W
proof unfold_locales
  fix q :: "int \<times> oauth_state \<times> string" and s
  obtain now row secret where q: "q = (now, row, secret)" by (metis prod.collapse)
  show "fst (oauth_redeem e q s) \<Longrightarrow> os_id (fst (snd q)) \<in> os_id ` set (rows (oauth_states s))"
    using oauth_take_row(2) [of e now row secret s]
    by (cases "fst (oauth_take e now (row, secret) s)") (auto simp: oauth_redeem_def q is_Inr_def split: prod.splits)
  have st: "oauth_states (snd (oauth_redeem e q s)) = delete_where (\<lambda>r. os_id r = os_id row) (oauth_states s)"
    using oauth_take_row(1) [of e now row secret s] by (auto simp: oauth_redeem_def q split: prod.splits)
  show "os_id ` set (rows (oauth_states (snd (oauth_redeem e q s)))) \<subseteq> os_id ` set (rows (oauth_states s)) - {os_id (fst (snd q))}"
    and "next_id (oauth_states s) \<le> next_id (oauth_states (snd (oauth_redeem e q s)))"
    unfolding st by (auto simp: delete_where_def q)
next
  fix x :: "ictx \<times> nat \<times> oauth_state_target" and s
  obtain ic u t where x: "x = (ic, u, t)" by (metis prod.collapse)
  show "os_id ` set (rows (oauth_states (oauth_issued e W x s))) \<subseteq> os_id ` set (rows (oauth_states s)) \<union> {next_id (oauth_states s)..}"
    and "next_id (oauth_states s) \<le> next_id (oauth_states (oauth_issued e W x s))"
    unfolding oauth_issued_def x prod.case
    by (rule fresh_keys_only [where k = os_id, OF oauth_issue_table(1) oauth_issue_table(2) oauth_issue_table(3)],
        simp add: oauth_state_row_def)+
qed

interpretation app_single: single_use "\<lambda>s. gs_id ` set (rows (github_app_states s))" "\<lambda>s. next_id (github_app_states s)"
  "\<lambda>q. gs_id (fst (snd (snd q)))" "app_redeem e" "app_issued e" for e
proof unfold_locales
  fix q :: "int \<times> github_app_stage \<times> github_app_state \<times> string" and s
  obtain now stage row secret where q: "q = (now, stage, row, secret)" by (metis prod.collapse)
  show "fst (app_redeem e q s) \<Longrightarrow> gs_id (fst (snd (snd q))) \<in> gs_id ` set (rows (github_app_states s))"
    using app_take_row(2) [of e now stage row secret s]
    by (cases "fst (app_take e now stage (row, secret) s)") (auto simp: app_redeem_def q is_Inr_def split: prod.splits)
  have st: "github_app_states (snd (app_redeem e q s)) = delete_where (\<lambda>r. gs_id r = gs_id row) (github_app_states s)"
    using app_take_row(1) [of e now stage row secret s] by (auto simp: app_redeem_def q split: prod.splits)
  show "gs_id ` set (rows (github_app_states (snd (app_redeem e q s)))) \<subseteq> gs_id ` set (rows (github_app_states s)) - {gs_id (fst (snd (snd q)))}"
    and "next_id (github_app_states s) \<le> next_id (github_app_states (snd (app_redeem e q s)))"
    unfolding st by (auto simp: delete_where_def q)
next
  fix x :: "ictx \<times> nat \<times> github_app_stage \<times> github_app_state_target \<times> int list option \<times> string option" and s
  obtain ic u stage t cs v where x: "x = (ic, u, stage, t, cs, v)" by (metis prod.collapse)
  show "gs_id ` set (rows (github_app_states (app_issued e x s))) \<subseteq> gs_id ` set (rows (github_app_states s)) \<union> {next_id (github_app_states s)..}"
    and "next_id (github_app_states s) \<le> next_id (github_app_states (app_issued e x s))"
    unfolding app_issued_def x prod.case
    by (rule fresh_keys_only [where k = gs_id, OF app_issue_table(1) app_issue_table(2) app_issue_table(3)],
        simp add: app_state_row_def)+
qed

section \<open>What redeeming shows\<close>

lemma oauth_find_Inr:
  assumes "oauth_find e u st s = Inr (row, secret)"
  shows "row \<in> set (rows (oauth_states s))" and "os_userId row = u"
    and "\<exists>uuid rest. js_split (CHR ''.'') st = uuid # secret # rest \<and> env_collate e (os_uuid row) uuid"
  using assms find_one_Some [of _ "oauth_states s" row]
  by (auto simp: oauth_find_def split: if_splits list.splits option.splits)

lemma app_find_Inr:
  assumes "app_find e u st s = Inr (row, secret)"
  shows "row \<in> set (rows (github_app_states s))" and "gs_userId row = u"
    and "\<exists>uuid rest. js_split (CHR ''.'') st = uuid # secret # rest \<and> env_collate e (gs_uuid row) uuid"
  using assms find_one_Some [of _ "github_app_states s" row]
  by (auto simp: app_find_def split: if_splits list.splits option.splits)

lemma oauth_consume_Inr:
  assumes "oauth_consume e race now u st s = (Inr c, s')"
  obtains row secret where "oauth_find e u st s = Inr (row, secret)" and "sha256Hex e secret = os_secretHash row"
    and "now < os_expiresAt row" and "oauth_toConsumed row = Inr c"
proof -
  from assms obtain row secret where f: "oauth_find e u st s = Inr (row, secret)"
    by (auto simp: oauth_consume_def split: sum.splits)
  with assms oauth_take_row(2) [of e now row secret "race s" c] that [OF f] show thesis
    by (auto simp: oauth_consume_def)
qed

lemma app_consume_Inr:
  assumes "app_consume e race now u st stage s = (Inr c, s')"
  obtains row secret where "app_find e u st s = Inr (row, secret)" and "sha256Hex e secret = gs_secretHash row"
    and "now < gs_expiresAt row" and "gs_stage row = stage" and "app_toConsumed row = Inr c"
proof -
  from assms obtain row secret where f: "app_find e u st s = Inr (row, secret)"
    by (auto simp: app_consume_def split: sum.splits)
  with assms app_take_row(2) [of e now stage row secret "race s" c] that [OF f] show thesis
    by (auto simp: app_consume_def)
qed

text \<open>At most five states of a user are pending after one was issued.\<close>

lemma pruned_count:
  assumes "rows t' = filter (\<lambda>r. k r \<notin> set (map k (drop 4 (order_desc f (select_where p t))))) (rows t)"
  shows "count_where p t' \<le> 4"
proof -
  let ?xs = "order_desc f (select_where p t)"
  let ?q = "\<lambda>r. k r \<notin> set (map k (drop 4 ?xs))"
  have "length (filter ?q ?xs) = length (filter ?q (filter p (rows t)))"
    by (simp only: order_desc_def select_where_def filter_sort length_sort)
  moreover have "filter ?q ?xs = filter ?q (take 4 ?xs) @ filter ?q (drop 4 ?xs)"
    by (metis append_take_drop_id filter_append)
  moreover have "filter ?q (drop 4 ?xs) = []" by (simp add: filter_empty_conv)
  moreover have "length (filter ?q (take 4 ?xs)) \<le> 4" by (rule order_trans [OF length_filter_le]) simp
  ultimately have "length (filter ?q (filter p (rows t))) \<le> 4" by simp
  then show ?thesis by (simp add: count_where_def assms conj_commute)
qed

lemma pending_bound:
  "fst (oauth_issue e W ic u t s) = Inr x \<Longrightarrow>
     count_where (\<lambda>r. os_userId r = u) (oauth_states (snd (oauth_issue e W ic u t s))) \<le> 5"
  "fst (app_issue e ic u stage tg cs v s) = Inr y \<Longrightarrow>
     count_where (\<lambda>r. gs_userId r = u) (github_app_states (snd (app_issue e ic u stage tg cs v s))) \<le> 5"
proof -
  have "count_where (\<lambda>r. os_userId r = u) (oauth_states (oauth_prunePending u s1)) + (if b then 1 else 0) \<le> 5" for s1 b
    using pruned_count [OF pruned_rows(1), of u s1] by simp
  then show "fst (oauth_issue e W ic u t s) = Inr x \<Longrightarrow>
     count_where (\<lambda>r. os_userId r = u) (oauth_states (snd (oauth_issue e W ic u t s))) \<le> 5"
    by (simp add: oauth_issue_def Let_def count_where_insert split: if_split_asm)
  have "count_where (\<lambda>r. gs_userId r = u) (github_app_states (app_prunePending u s1)) + (if b then 1 else 0) \<le> 5" for s1 b
    using pruned_count [OF pruned_rows(3), of u s1] by simp
  then show "fst (app_issue e ic u stage tg cs v s) = Inr y \<Longrightarrow>
     count_where (\<lambda>r. gs_userId r = u) (github_app_states (snd (app_issue e ic u stage tg cs v s))) \<le> 5"
    by (simp add: app_issue_def Let_def count_where_insert split: if_split_asm)
qed

text \<open>
  C26. The state of a redirect flow is redeemed at most once, however redemptions of the same row
  and new flows interleave between the read and the delete; and a redemption succeeds only for
  the user who started the flow, with the secret that was issued, before it expires.
\<close>

theorem redirect_states_are_single_use:
  "(i < next_id (oauth_states s) \<longrightarrow> length (filter (\<lambda>q. os_id (fst (snd q)) = i)
       (redeemed (oauth_redeem e) (oauth_issued e W) evs s)) \<le> 1)
   \<and> (i < next_id (github_app_states s) \<longrightarrow> length (filter (\<lambda>q. gs_id (fst (snd (snd q))) = i)
       (redeemed (app_redeem e) (app_issued e) evs' s)) \<le> 1)
   \<and> (\<forall>c. fst (oauth_consume e race now u st s) = Inr c \<longrightarrow>
        (\<exists>row \<in> set (rows (oauth_states s)). os_userId row = u \<and> now < os_expiresAt row
           \<and> sha256Hex e (js_split (CHR ''.'') st ! 1) = os_secretHash row))
   \<and> (\<forall>c. fst (app_consume e race now u st stage s) = Inr c \<longrightarrow>
        (\<exists>row \<in> set (rows (github_app_states s)). gs_userId row = u \<and> now < gs_expiresAt row \<and> gs_stage row = stage
           \<and> sha256Hex e (js_split (CHR ''.'') st ! 1) = gs_secretHash row))"
proof (intro conjI impI allI)
  fix c assume "fst (oauth_consume e race now u st s) = Inr c"
  then have "oauth_consume e race now u st s = (Inr c, snd (oauth_consume e race now u st s))" by (metis prod.collapse)
  then obtain row secret where f: "oauth_find e u st s = Inr (row, secret)"
    and "sha256Hex e secret = os_secretHash row" "now < os_expiresAt row" by (rule oauth_consume_Inr)
  with oauth_find_Inr [OF f] show "\<exists>row \<in> set (rows (oauth_states s)). os_userId row = u \<and> now < os_expiresAt row
           \<and> sha256Hex e (js_split (CHR ''.'') st ! 1) = os_secretHash row" by auto
next
  fix c assume "fst (app_consume e race now u st stage s) = Inr c"
  then have "app_consume e race now u st stage s = (Inr c, snd (app_consume e race now u st stage s))"
    by (metis prod.collapse)
  then obtain row secret where f: "app_find e u st s = Inr (row, secret)"
    and "sha256Hex e secret = gs_secretHash row" "now < gs_expiresAt row" "gs_stage row = stage" by (rule app_consume_Inr)
  with app_find_Inr [OF f] show "\<exists>row \<in> set (rows (github_app_states s)). gs_userId row = u \<and> now < gs_expiresAt row
      \<and> gs_stage row = stage \<and> sha256Hex e (js_split (CHR ''.'') st ! 1) = gs_secretHash row" by auto
qed (use oauth_single.at_most_once app_single.at_most_once in \<open>blast+\<close>)

definition demo_web :: web where
  "demo_web = \<lparr>wb_fetch = (\<lambda>_. Inl ''TimeoutError''), wb_urlencode = (\<lambda>fs. js_join ''&'' (map (\<lambda>(k, v). k @ ''='' @ v) fs)),
     wb_encodeURIComponent = id, wb_json_parse = (\<lambda>_. None), wb_json_stringify = (\<lambda>_. []),
     wb_number = (\<lambda>_. NaN), wb_sha256_base64url = (\<lambda>s. ''p:'' @ s)\<rparr>"

definition demo_flow_ictx :: ictx where
  "demo_flow_ictx = \<lparr>ic_now = 1000, ic_uuid = demo_uuid, ic_iv = ''iv'', ic_secret = replicate 43 (CHR ''s''),
     ic_verifier = ''v1''\<rparr>"

definition demo_flow_state :: integ_state where
  "demo_flow_state = snd (oauth_issue demo_env demo_web demo_flow_ictx 1 (TargetLabel ''Main'') init_integ_state)"

theorem redirect_states_are_single_use_witness:
  "\<exists>row \<in> set (rows (oauth_states demo_flow_state)). os_userId row = 1 \<and> 2000 < os_expiresAt row
     \<and> fst (oauth_consume demo_env (\<lambda>s. s) 2000 1 (demo_uuid @ ''.'' @ replicate 43 (CHR ''s'')) demo_flow_state)
         = Inr (ConsumedCreate ''Main'' ''v1'')"
proof -
  let ?st = "demo_uuid @ ''.'' @ replicate 43 (CHR ''s'')"
  have h: "fst (oauth_consume demo_env (\<lambda>s. s) 2000 1 ?st demo_flow_state) = Inr (ConsumedCreate ''Main'' ''v1'')"
    by code_simp
  from redirect_states_are_single_use [where s = demo_flow_state and e = demo_env and race = "\<lambda>s. s" and now = 2000
      and u = 1 and st = ?st, THEN conjunct2, THEN conjunct2, THEN conjunct1, rule_format, OF h] h
  show ?thesis by blast
qed

end
