(* ===== verification/Redirect_Config.thy ===== *)
theory Redirect_Config
  imports Request_Security Github_Http
begin

text \<open>
  Boot-time configuration of the redirect types: \<^verbatim>\<open>types/shared/redirect-config.ts\<close>,
  \<^verbatim>\<open>types/oauth-app/oauth-app-config.ts\<close> and \<^verbatim>\<open>types/github-app/github-app-config.ts\<close>, and the
  app token of \<^verbatim>\<open>types/github-app/github-app-jwt.ts\<close>.  Parsing a PEM and signing with its key are
  the parameter \<open>app_keys\<close>.  A disabled type has no configuration.
\<close>

section \<open>The callback URL\<close>

definition readTrimmed :: "env \<Rightarrow> string \<Rightarrow> string" where
  "readTrimmed e key = js_trim (config_string e key)"

definition parseOrigin :: "url_parser \<Rightarrow> string \<Rightarrow> string \<Rightarrow> exn + url" where
  "parseOrigin parseUrl raw typeName =
     (let problem = ErrorExn (''FRONTEND_BASE_URL must be a valid http(s) URL when the '' @ typeName @ '' is enabled'')
      in case parseUrl raw of
           None \<Rightarrow> Inl problem
         | Some u \<Rightarrow> if url_protocol u \<noteq> ''https:'' \<and> url_protocol u \<noteq> ''http:'' then Inl problem else Inr u)"

definition buildCallbackUrl :: "url_parser \<Rightarrow> env \<Rightarrow> string \<Rightarrow> string \<Rightarrow> exn + string" where
  "buildCallbackUrl parseUrl e callbackPath typeName =
     (case parseOrigin parseUrl (readTrimmed e ''FRONTEND_BASE_URL'') typeName of
        Inl x \<Rightarrow> Inl x
      | Inr origin \<Rightarrow>
          if readTrimmed e ''NODE_ENV'' = ''production'' \<and> url_protocol origin \<noteq> ''https:''
          then Inl (ErrorExn (''FRONTEND_BASE_URL must be https when NODE_ENV=production and the '' @ typeName
                 @ '' is enabled''))
          else Inr (url_origin origin @ callbackPath))"

definition client_id_char :: "char \<Rightarrow> bool" where
  "client_id_char c = (let n = (of_char c :: nat)
     in 65 \<le> n \<and> n \<le> 90 \<or> 97 \<le> n \<and> n \<le> 122 \<or> is_digit c \<or> c = CHR ''.'' \<or> c = CHR ''_'' \<or> c = CHR ''-'')"

section \<open>The OAuth App\<close>

definition OAUTH_APP_CLIENT_ID_PATTERN :: "string \<Rightarrow> bool" where
  "OAUTH_APP_CLIENT_ID_PATTERN i \<longleftrightarrow> 1 \<le> length i \<and> length i \<le> 100 \<and> list_all client_id_char i"

record oauth_app_config =
  oa_clientId :: string
  oa_clientSecret :: string
  oa_callbackUrl :: string

definition buildOauthAppConfig :: "url_parser \<Rightarrow> env \<Rightarrow> exn + oauth_app_config option" where
  "buildOauthAppConfig parseUrl e =
     (let clientId = readTrimmed e ''KERGHAN_GITHUB_OAUTH_APP_CLIENT_ID'';
          clientSecret = readTrimmed e ''KERGHAN_GITHUB_OAUTH_APP_CLIENT_SECRET''
      in if clientId = [] \<and> clientSecret = [] then Inr None
         else if clientId = [] \<or> clientSecret = []
         then Inl (ErrorExn ((if clientId = [] then ''KERGHAN_GITHUB_OAUTH_APP_CLIENT_ID''
                              else ''KERGHAN_GITHUB_OAUTH_APP_CLIENT_SECRET'')
                @ '' is missing or blank: set both OAuth App variables, or neither''))
         else if \<not> OAUTH_APP_CLIENT_ID_PATTERN clientId
         then Inl (ErrorExn ''KERGHAN_GITHUB_OAUTH_APP_CLIENT_ID must be 1-100 characters of [A-Za-z0-9._-]'')
         else (case buildCallbackUrl parseUrl e ''/integrations/oauth_app/callback'' ''OAuth App'' of
                 Inl x \<Rightarrow> Inl x
               | Inr callbackUrl \<Rightarrow>
                   Inr (Some \<lparr>oa_clientId = clientId, oa_clientSecret = clientSecret, oa_callbackUrl = callbackUrl\<rparr>)))"

section \<open>The GitHub App\<close>

definition GITHUB_APP_VARS :: "string list" where
  "GITHUB_APP_VARS = [''KERGHAN_GITHUB_APP_ID'', ''KERGHAN_GITHUB_APP_SLUG'', ''KERGHAN_GITHUB_APP_PRIVATE_KEY'',
     ''KERGHAN_GITHUB_APP_CLIENT_ID'', ''KERGHAN_GITHUB_APP_CLIENT_SECRET'']"

definition slug_char :: "char \<Rightarrow> bool" where
  "slug_char c = (let n = (of_char c :: nat) in 97 \<le> n \<and> n \<le> 122 \<or> is_digit c \<or> c = CHR ''-'')"

definition GITHUB_APP_SLUG_PATTERN :: "string \<Rightarrow> bool" where
  "GITHUB_APP_SLUG_PATTERN i \<longleftrightarrow> 1 \<le> length i \<and> length i \<le> 100 \<and> list_all slug_char i"

definition GITHUB_APP_CLIENT_ID_PATTERN :: "string \<Rightarrow> bool" where
  "GITHUB_APP_CLIENT_ID_PATTERN i \<longleftrightarrow> 1 \<le> length i \<and> length i \<le> 100 \<and> list_all client_id_char i"

definition APP_ID_PATTERN :: "string \<Rightarrow> bool" where
  "APP_ID_PATTERN raw = (case raw of
       [] \<Rightarrow> False
     | c # cs \<Rightarrow> is_digit c \<and> c \<noteq> CHR ''0'' \<and> list_all is_digit cs \<and> length cs \<le> 15)"

text \<open>The type of an asymmetric key and the key, when the PEM parses; and the RS256 signature, base64url.\<close>

record app_keys =
  ak_parse :: "string \<Rightarrow> (string \<times> string) option"
  ak_sign :: "string \<Rightarrow> string \<Rightarrow> string"

record github_app_config =
  ga_appId :: int
  ga_slug :: string
  ga_privateKey :: string
  ga_clientId :: string
  ga_clientSecret :: string
  ga_callbackUrl :: string

definition parseAppId :: "string \<Rightarrow> exn + int" where
  "parseAppId raw =
     (if \<not> APP_ID_PATTERN raw \<or> int (digits_value raw) \<ge> 2 ^ 53
      then Inl (ErrorExn ''KERGHAN_GITHUB_APP_ID must be a positive integer'')
      else Inr (int (digits_value raw)))"

definition checkPattern :: "string \<Rightarrow> (string \<Rightarrow> bool) \<Rightarrow> string \<Rightarrow> string \<Rightarrow> exn + string" where
  "checkPattern raw pattern variable charset =
     (if \<not> pattern raw then Inl (ErrorExn (variable @ '' must be 1-100 characters of '' @ charset)) else Inr raw)"

definition parsePrivateKey :: "app_keys \<Rightarrow> string \<Rightarrow> exn + string" where
  "parsePrivateKey K raw =
     (let problem = ErrorExn ''KERGHAN_GITHUB_APP_PRIVATE_KEY must be the base64 of an RSA private key PEM''
      in case ak_parse K (base64_decode raw) of
           None \<Rightarrow> Inl problem
         | Some (keyType, key) \<Rightarrow> if keyType \<noteq> ''rsa'' then Inl problem else Inr key)"

definition buildGithubAppConfig :: "url_parser \<Rightarrow> app_keys \<Rightarrow> env \<Rightarrow> exn + github_app_config option" where
  "buildGithubAppConfig parseUrl K e =
     (let value = readTrimmed e; missing = filter (\<lambda>key. value key = []) GITHUB_APP_VARS
      in if length missing = length GITHUB_APP_VARS then Inr None
         else if length missing > 0
         then Inl (ErrorExn (js_join '', '' missing @ '' missing or blank: set all five GitHub App variables, or none''))
         else case parseAppId (value ''KERGHAN_GITHUB_APP_ID'') of
           Inl x \<Rightarrow> Inl x
         | Inr appId \<Rightarrow>
             (case checkPattern (value ''KERGHAN_GITHUB_APP_SLUG'') GITHUB_APP_SLUG_PATTERN
                     ''KERGHAN_GITHUB_APP_SLUG'' ''[a-z0-9-]'' of
                Inl x \<Rightarrow> Inl x
              | Inr slug \<Rightarrow>
                  (case parsePrivateKey K (value ''KERGHAN_GITHUB_APP_PRIVATE_KEY'') of
                     Inl x \<Rightarrow> Inl x
                   | Inr key \<Rightarrow>
                       (case checkPattern (value ''KERGHAN_GITHUB_APP_CLIENT_ID'') GITHUB_APP_CLIENT_ID_PATTERN
                               ''KERGHAN_GITHUB_APP_CLIENT_ID'' ''[A-Za-z0-9._-]'' of
                          Inl x \<Rightarrow> Inl x
                        | Inr clientId \<Rightarrow>
                            (case buildCallbackUrl parseUrl e ''/integrations/github_app/callback'' ''GitHub App'' of
                               Inl x \<Rightarrow> Inl x
                             | Inr callbackUrl \<Rightarrow>
                                 Inr (Some \<lparr>ga_appId = appId, ga_slug = slug, ga_privateKey = key,
                                   ga_clientId = clientId,
                                   ga_clientSecret = value ''KERGHAN_GITHUB_APP_CLIENT_SECRET'',
                                   ga_callbackUrl = callbackUrl\<rparr>))))))"

section \<open>The app token\<close>

definition APP_JWT_BACKDATE_SECONDS :: int where "APP_JWT_BACKDATE_SECONDS = 60"

definition APP_JWT_LIFETIME_SECONDS :: int where "APP_JWT_LIFETIME_SECONDS = 9 * 60"

definition base64url :: "string \<Rightarrow> string" where
  "base64url s = map (\<lambda>c. if c = CHR ''+'' then CHR ''-'' else if c = CHR ''/'' then CHR ''_'' else c)
     (filter (\<lambda>c. c \<noteq> CHR ''='') (base64_encode s))"

definition encodeSegment :: "web \<Rightarrow> json \<Rightarrow> string" where
  "encodeSegment W v = base64url (wb_json_stringify W v)"

definition mintAppJwt :: "web \<Rightarrow> app_keys \<Rightarrow> string \<Rightarrow> string \<Rightarrow> int \<Rightarrow> string" where
  "mintAppJwt W K privateKey clientId nowMs =
     (let now = nowMs div 1000;
          header = encodeSegment W (JsonObj [(''alg'', JsonStr ''RS256''), (''typ'', JsonStr ''JWT'')]);
          payload = encodeSegment W (JsonObj [(''iat'', JsonNum (now - APP_JWT_BACKDATE_SECONDS)),
            (''exp'', JsonNum (now + APP_JWT_LIFETIME_SECONDS)), (''iss'', JsonStr clientId)]);
          signingInput = header @ ''.'' @ payload
      in signingInput @ ''.'' @ ak_sign K privateKey signingInput)"

section \<open>What an accepted configuration is\<close>

lemma buildCallbackUrl_Inr:
  assumes "buildCallbackUrl parseUrl e path n = Inr url"
  shows "\<exists>u :: url. parseUrl (readTrimmed e ''FRONTEND_BASE_URL'') = Some u \<and> url = url_origin u @ path
    \<and> (readTrimmed e ''NODE_ENV'' = ''production'' \<longrightarrow> url_protocol u = ''https:'')"
  using assms by (auto simp: buildCallbackUrl_def parseOrigin_def Let_def split: sum.splits option.splits if_splits)

lemma buildOauthAppConfig_Some:
  assumes "buildOauthAppConfig parseUrl e = Inr (Some cfg)"
  shows "OAUTH_APP_CLIENT_ID_PATTERN (oa_clientId cfg)" and "oa_clientSecret cfg \<noteq> []"
    and "\<exists>u :: url. oa_callbackUrl cfg = url_origin u @ ''/integrations/oauth_app/callback''
           \<and> (readTrimmed e ''NODE_ENV'' = ''production'' \<longrightarrow> url_protocol u = ''https:'')"
proof -
  from assms obtain url where b: "buildCallbackUrl parseUrl e ''/integrations/oauth_app/callback'' ''OAuth App'' = Inr url"
    and c: "oa_callbackUrl cfg = url"
    by (auto simp: buildOauthAppConfig_def Let_def split: if_splits sum.splits)
  from buildCallbackUrl_Inr [OF b] obtain u :: url
    where u: "url = url_origin u @ ''/integrations/oauth_app/callback''"
      "readTrimmed e ''NODE_ENV'' = ''production'' \<longrightarrow> url_protocol u = ''https:''" by blast
  show "\<exists>u :: url. oa_callbackUrl cfg = url_origin u @ ''/integrations/oauth_app/callback''
           \<and> (readTrimmed e ''NODE_ENV'' = ''production'' \<longrightarrow> url_protocol u = ''https:'')"
    by (intro exI [of _ u] conjI u(2)) (simp only: c u(1))
  show "OAUTH_APP_CLIENT_ID_PATTERN (oa_clientId cfg)" and "oa_clientSecret cfg \<noteq> []"
    using assms by (auto simp: buildOauthAppConfig_def Let_def split: if_splits sum.splits)
qed

end
