(* ===== verification/Pat_Type.thy ===== *)
theory Pat_Type
  imports Integration_Types Github_Http "HOL-Library.List_Lexorder" "HOL-Library.Char_ord"
begin

text \<open>
  The Personal Access Token type: \<^verbatim>\<open>integrations/types/pat/pat-credential.ts\<close>,
  \<^verbatim>\<open>pat-metadata.ts\<close> and \<^verbatim>\<open>pat.strategy.ts\<close>.  The ellipsis of a hint is its UTF-8 bytes; what
  \<^verbatim>\<open>new Date\<close> makes of a text is the platform's \<open>env_parse_date\<close>.
\<close>

section \<open>Credentials\<close>

datatype pat_token_kind = Classic | FineGrained

definition PAT_PREFIXES :: "(string \<times> pat_token_kind) list" where
  "PAT_PREFIXES = [(''github_pat_'', FineGrained), (''ghp_'', Classic)]"

definition MAX_TOKEN_LENGTH :: nat where "MAX_TOKEN_LENGTH = 255"

definition HINT_SUFFIX_LENGTH :: nat where "HINT_SUFFIX_LENGTH = 4"

definition ELLIPSIS :: string where "ELLIPSIS = [CHR 0xE2, CHR 0x80, CHR 0xA6]"

definition token_char :: "char \<Rightarrow> bool" where
  "token_char c = (let n = (of_char c :: nat)
     in 65 \<le> n \<and> n \<le> 90 \<or> 97 \<le> n \<and> n \<le> 122 \<or> is_digit c \<or> c = CHR ''_'')"

definition tokenKindOf :: "string \<Rightarrow> pat_token_kind option" where
  "tokenKindOf token = map_option snd (List.find (\<lambda>(pre, _). prefix pre token) PAT_PREFIXES)"

text \<open>\<^term>\<open>Inl\<close> is the problem, \<^term>\<open>Inr\<close> the trimmed token.\<close>

definition checkToken :: "json \<Rightarrow> string + string" where
  "checkToken v =
     (case v of
        JsonStr raw \<Rightarrow>
          (let token = js_trim raw
           in if length token < 1 \<or> length token > MAX_TOKEN_LENGTH
              then Inl (''credential.token must be between 1 and '' @ nat_to_string MAX_TOKEN_LENGTH @ '' characters'')
              else if \<not> list_all token_char token
              then Inl ''credential.token must only contain letters, digits and underscores''
              else if tokenKindOf token = None
              then Inl ''credential.token must be a GitHub personal access token''
              else Inr token)
      | _ \<Rightarrow> Inl ''credential.token must be a string'')"

definition checkCredential :: "json \<Rightarrow> string + string" where
  "checkCredential raw =
     (case raw of
        JsonObj fs \<Rightarrow>
          (case fs of
             [(k, v)] \<Rightarrow>
               if k = ''token'' then checkToken v
               else Inl ''credential must contain exactly one field, token''
           | _ \<Rightarrow> Inl ''credential must contain exactly one field, token'')
      | _ \<Rightarrow> Inl ''credential must be an object'')"

definition pat_payload :: "string \<Rightarrow> json" where
  "pat_payload token = JsonObj [(''token'', JsonStr token)]"

definition parsePatCredential :: "json \<Rightarrow> exn + json" where
  "parsePatCredential raw =
     (case checkCredential raw of
        Inl problem \<Rightarrow> Inl (HttpExn \<lparr>ex_status = 400, ex_code = Some ''VALIDATION_FAILED'',
           ex_message = Msgs [problem], ex_retryAfterSeconds = None\<rparr>)
      | Inr token \<Rightarrow> Inr (pat_payload token))"

definition parsePatPayload :: "json \<Rightarrow> json option" where
  "parsePatPayload payload =
     (case checkCredential payload of
        Inl _ \<Rightarrow> None
      | Inr token \<Rightarrow> Some (pat_payload token))"

definition maskPatToken :: "string \<Rightarrow> string" where
  "maskPatToken token =
     (let pre = (case List.find (\<lambda>(pre, _). prefix pre token) PAT_PREFIXES of
                   Some (pre, _) \<Rightarrow> pre | None \<Rightarrow> [])
      in pre @ ELLIPSIS @ drop (length token - HINT_SUFFIX_LENGTH) token)"

section \<open>Metadata\<close>

definition MAX_SCOPES :: nat where "MAX_SCOPES = 50"

definition MAX_SCOPE_LENGTH :: nat where "MAX_SCOPE_LENGTH = 64"

definition METADATA_KEYS :: "string list" where
  "METADATA_KEYS = [''permissionsVerified'', ''scopes'', ''tokenKind'']"

definition parseScopes :: "string option \<Rightarrow> string list" where
  "parseScopes header =
     (let scopes = filter (\<lambda>scope. scope \<noteq> [] \<and> length scope \<le> MAX_SCOPE_LENGTH)
            (map js_trim (js_split (CHR '','') (case header of Some h \<Rightarrow> h | None \<Rightarrow> [])))
      in take MAX_SCOPES (sort (remdups scopes)))"

text \<open>
  \<^verbatim>\<open>EXPIRATION_PATTERN\<close>: a date, a time and a zone, separated by single spaces; in a shape a \<open>d\<close> is a
  digit and an \<open>s\<close> a sign, and any other character itself.
\<close>

fun has_shape :: "string \<Rightarrow> string \<Rightarrow> bool" where
  "has_shape [] [] = True"
| "has_shape (p # ps) (c # cs) =
     ((if p = CHR ''d'' then is_digit c else if p = CHR ''s'' then c = CHR ''+'' \<or> c = CHR ''-'' else c = p)
      \<and> has_shape ps cs)"
| "has_shape _ _ = False"

definition expiration_match :: "string \<Rightarrow> (string \<times> string \<times> string) option" where
  "expiration_match s =
     (let date = take 10 s; time = take 8 (drop 11 s); zone = drop 20 s
      in if has_shape ''dddd-dd-dd dd:dd:dd '' (take 20 s) \<and> (zone = ''UTC'' \<or> has_shape ''sdddd'' zone)
         then Some (date, time, zone) else None)"

datatype parsed_expiration = ExpirationAbsent | ExpirationAt int | ExpirationUnparseable

definition parseExpiration :: "env \<Rightarrow> string option \<Rightarrow> parsed_expiration" where
  "parseExpiration e header =
     (case header of
        None \<Rightarrow> ExpirationAbsent
      | Some h \<Rightarrow>
          if js_trim h = [] then ExpirationAbsent
          else (case expiration_match (js_trim h) of
                  None \<Rightarrow> ExpirationUnparseable
                | Some (date, time, zone) \<Rightarrow>
                    (let offset = (if zone = ''UTC'' then ''Z'' else take 3 zone @ '':'' @ drop 3 zone)
                     in case env_parse_date e (date @ ''T'' @ time @ offset) of
                          None \<Rightarrow> ExpirationUnparseable
                        | Some t \<Rightarrow> ExpirationAt t)))"

record pat_metadata =
  pm_tokenKind :: pat_token_kind
  pm_scopes :: "string list option"
  pm_permissionsVerified :: bool

definition buildPatMetadata :: "pat_token_kind \<Rightarrow> string option \<Rightarrow> pat_metadata" where
  "buildPatMetadata tokenKind scopesHeader =
     (if tokenKind = Classic
      then \<lparr>pm_tokenKind = tokenKind, pm_scopes = Some (parseScopes scopesHeader), pm_permissionsVerified = True\<rparr>
      else \<lparr>pm_tokenKind = tokenKind, pm_scopes = None, pm_permissionsVerified = False\<rparr>)"

definition kind_text :: "pat_token_kind \<Rightarrow> string" where
  "kind_text k = (case k of Classic \<Rightarrow> ''classic'' | FineGrained \<Rightarrow> ''fine_grained'')"

definition metadata_json :: "pat_metadata \<Rightarrow> json" where
  "metadata_json md = JsonObj [(''tokenKind'', JsonStr (kind_text (pm_tokenKind md))),
     (''scopes'', case pm_scopes md of None \<Rightarrow> JsonNull | Some ss \<Rightarrow> JsonArr (map JsonStr ss)),
     (''permissionsVerified'', JsonBool (pm_permissionsVerified md))]"

definition isScopeList :: "json option \<Rightarrow> bool" where
  "isScopeList scopes =
     (case scopes of
        Some (JsonArr xs) \<Rightarrow> length xs \<le> MAX_SCOPES \<and>
          list_all (\<lambda>x. case x of JsonStr s \<Rightarrow> s \<noteq> [] \<and> length s \<le> MAX_SCOPE_LENGTH | _ \<Rightarrow> False) xs
      | _ \<Rightarrow> False)"

definition isConsistent :: "json \<Rightarrow> bool" where
  "isConsistent metadata =
     (let tokenKind = json_field ''tokenKind'' metadata; scopes = json_field ''scopes'' metadata;
          permissionsVerified = json_field ''permissionsVerified'' metadata
      in if tokenKind = Some (JsonStr ''classic'')
         then permissionsVerified = Some (JsonBool True) \<and> isScopeList scopes
         else tokenKind = Some (JsonStr ''fine_grained'') \<and> permissionsVerified = Some (JsonBool False)
           \<and> scopes = Some JsonNull)"

text \<open>The copy has the keys in the order of the object literal.\<close>

definition describePatMetadata :: "json \<Rightarrow> exn + json" where
  "describePatMetadata metadata =
     (case metadata of
        JsonObj fs \<Rightarrow>
          if js_join '','' (sort (map fst fs)) \<noteq> js_join '','' METADATA_KEYS \<or> \<not> isConsistent metadata
          then Inl (invalidMetadataError ''pat'')
          else Inr (JsonObj (map (\<lambda>k. (k, the (json_field k metadata)))
                 [''tokenKind'', ''scopes'', ''permissionsVerified'']))
      | _ \<Rightarrow> Inl (invalidMetadataError ''pat''))"

section \<open>PatStrategy\<close>

definition STATUS_REASON_INSUFFICIENT_PERMISSIONS :: string where
  "STATUS_REASON_INSUFFICIENT_PERMISSIONS = ''insufficient_permissions''"

definition PAT_REASON_BAD_CREDENTIALS :: string where
  "PAT_REASON_BAD_CREDENTIALS = ''bad_credentials''"

definition REQUIRED_CLASSIC_SCOPE :: string where
  "REQUIRED_CLASSIC_SCOPE = ''repo''"

record pat_identity =
  pi_githubLogin :: string
  pi_expiresAt :: "int option"
  pi_metadata :: pat_metadata

definition pat_tokenOf :: "json \<Rightarrow> string" where
  "pat_tokenOf secret = (case json_field ''token'' secret of Some (JsonStr t) \<Rightarrow> t | _ \<Rightarrow> [])"

definition expiryFrom :: "env \<Rightarrow> string option \<Rightarrow> int option" where
  "expiryFrom e header = (case parseExpiration e header of ExpirationAt t \<Rightarrow> Some t | _ \<Rightarrow> None)"

definition pat_identityFrom :: "env \<Rightarrow> json \<Rightarrow> string \<Rightarrow> github_user_response \<Rightarrow> pat_identity" where
  "pat_identityFrom e secret login r =
     \<lparr>pi_githubLogin = login, pi_expiresAt = expiryFrom e (gu_tokenExpiration r),
      pi_metadata = buildPatMetadata
        (case tokenKindOf (pat_tokenOf secret) of Some k \<Rightarrow> k | None \<Rightarrow> FineGrained) (gu_oauthScopes r)\<rparr>"

definition pat_hasRequiredPermissions :: "pat_metadata \<Rightarrow> bool" where
  "pat_hasRequiredPermissions md \<longleftrightarrow> pm_tokenKind md \<noteq> Classic
     \<or> REQUIRED_CLASSIC_SCOPE \<in> set (case pm_scopes md of Some ss \<Rightarrow> ss | None \<Rightarrow> [])"

definition validationErrorFor :: "github_user_answer \<Rightarrow> exn" where
  "validationErrorFor a =
     (case a of
        UserUnauthorized \<Rightarrow> CredentialExn CredentialInvalidError
      | UserRateLimited n \<Rightarrow> CredentialExn (GithubRateLimitedError n)
      | _ \<Rightarrow> CredentialExn GithubUnavailableError)"

definition isPast :: "int option \<Rightarrow> int \<Rightarrow> bool" where
  "isPast date now = (case date of None \<Rightarrow> False | Some t \<Rightarrow> t < now)"

definition pat_validate :: "env \<Rightarrow> web \<Rightarrow> int \<Rightarrow> json \<Rightarrow> exn + validated_credential" where
  "pat_validate e W now secret =
     (case fetchGithubUser W (pat_tokenOf secret) now of
        UserOk login r \<Rightarrow>
          (let identity = pat_identityFrom e secret login r
           in if \<not> pat_hasRequiredPermissions (pi_metadata identity)
              then Inl (CredentialExn (InsufficientPermissionsError ''The classic token lacks the repo scope''))
              else Inr \<lparr>vc_secret = secret, vc_githubLogin = pi_githubLogin identity,
                     vc_expiresAt = pi_expiresAt identity, vc_metadata = metadata_json (pi_metadata identity)\<rparr>)
      | answer \<Rightarrow> Inl (validationErrorFor answer))"

definition pat_activeOutcome :: "env \<Rightarrow> json \<Rightarrow> string \<Rightarrow> github_user_response \<Rightarrow> test_outcome" where
  "pat_activeOutcome e secret login r =
     (let identity = pat_identityFrom e secret login r
      in if \<not> pat_hasRequiredPermissions (pi_metadata identity)
         then OutcomeInvalid STATUS_REASON_INSUFFICIENT_PERMISSIONS
         else OutcomeActive (pi_githubLogin identity) (pi_expiresAt identity) (metadata_json (pi_metadata identity)))"

definition pat_test :: "env \<Rightarrow> web \<Rightarrow> int \<Rightarrow> json \<Rightarrow> integration_view \<Rightarrow> test_outcome" where
  "pat_test e W now secret current =
     (case fetchGithubUser W (pat_tokenOf secret) now of
        UserOk login r \<Rightarrow> pat_activeOutcome e secret login r
      | UserUnauthorized \<Rightarrow>
          if isPast (iv_expiresAt current) now then OutcomeExpired else OutcomeInvalid PAT_REASON_BAD_CREDENTIALS
      | UserRateLimited n \<Rightarrow> OutcomeTransient TransientRateLimited n
      | UserUnavailable \<Rightarrow> OutcomeTransient TransientUnavailable None)"

definition pat_strategy :: "env \<Rightarrow> web \<Rightarrow> int \<Rightarrow> strategy" where
  "pat_strategy e W now =
     \<lparr>st_type = ''pat'', st_flows = \<lparr>fl_credentialPaste = True, fl_redirect = False\<rparr>, st_isEnabled = None,
      st_parseCredential = parsePatCredential, st_parseSecretPayload = parsePatPayload,
      st_validate = pat_validate e W now, st_test = (\<lambda>secret current. Inr (pat_test e W now secret current)),
      st_describeMetadata = describePatMetadata, st_mask = (\<lambda>secret. maskPatToken (pat_tokenOf secret)),
      st_onDelete = (\<lambda>_ _. Inr ())\<rparr>"

section \<open>What the type guarantees\<close>

lemma checkToken_Inr:
  assumes "checkToken v = Inr token"
  shows "js_trim token = token" and "1 \<le> length token" and "length token \<le> 255" and "list_all token_char token"
    and "tokenKindOf token \<noteq> None" and "checkToken (JsonStr token) = Inr token"
proof -
  from assms obtain raw where "v = JsonStr raw" and t: "token = js_trim raw"
    by (auto simp: checkToken_def Let_def split: json.splits if_splits)
  with assms show tr: "js_trim token = token" and "1 \<le> length token" and "length token \<le> 255"
    and "list_all token_char token" and "tokenKindOf token \<noteq> None"
    by (auto simp: checkToken_def Let_def MAX_TOKEN_LENGTH_def Suc_le_eq split: if_splits)
  with assms t \<open>v = JsonStr raw\<close> show "checkToken (JsonStr token) = Inr token"
    by (auto simp: checkToken_def Let_def split: if_splits)
qed

lemma checkCredential_Inr:
  "checkCredential raw = Inr token \<longleftrightarrow> (\<exists>v. raw = JsonObj [(''token'', v)] \<and> checkToken v = Inr token)"
  by (auto simp: checkCredential_def split: json.splits list.splits prod.splits if_splits)

lemma pat_tokenOf_payload [simp]: "pat_tokenOf (pat_payload token) = token"
  by (simp add: pat_tokenOf_def pat_payload_def json_field_def)

lemma pat_payload_reparsed:
  assumes "parsePatCredential raw = Inr p"
  shows "parsePatPayload p = Some p" and "\<exists>token. p = pat_payload token \<and> list_all token_char token
    \<and> 1 \<le> length token \<and> length token \<le> 255 \<and> tokenKindOf token \<noteq> None"
proof -
  from assms obtain token where p: "p = pat_payload token" and "checkCredential raw = Inr token"
    by (auto simp: parsePatCredential_def split: sum.splits)
  then obtain v where v: "checkToken v = Inr token" by (auto simp: checkCredential_Inr)
  note t = checkToken_Inr [OF v]
  from t(6) have "checkCredential p = Inr token" by (simp add: checkCredential_Inr p pat_payload_def)
  then show "parsePatPayload p = Some p" by (simp add: parsePatPayload_def p)
  from p t show "\<exists>token. p = pat_payload token \<and> list_all token_char token
    \<and> 1 \<le> length token \<and> length token \<le> 255 \<and> tokenKindOf token \<noteq> None" by blast
qed

lemma parseScopes_bounds:
  "length (parseScopes h) \<le> 50" "scope \<in> set (parseScopes h) \<Longrightarrow> scope \<noteq> [] \<and> length scope \<le> 64"
  "sorted (parseScopes h)" "distinct (parseScopes h)"
  by (auto simp: parseScopes_def Let_def MAX_SCOPES_def MAX_SCOPE_LENGTH_def sorted_wrt_take dest: in_set_takeD)

text \<open>The metadata the type builds passes its own check, unchanged.\<close>

lemma describe_built_metadata:
  "describePatMetadata (metadata_json (buildPatMetadata k h)) = Inr (metadata_json (buildPatMetadata k h))"
proof -
  let ?md = "buildPatMetadata k h"
  have "sort [''tokenKind'', ''scopes'', ''permissionsVerified''] = METADATA_KEYS"
    by (simp add: METADATA_KEYS_def)
  then have keys: "js_join '','' (sort [''tokenKind'', ''scopes'', ''permissionsVerified'']) = js_join '','' METADATA_KEYS"
    by simp
  have "isConsistent (metadata_json ?md)"
  proof (cases k)
    case Classic
    have "isScopeList (Some (JsonArr (map JsonStr (parseScopes h))))"
      using parseScopes_bounds(1) [where h = h] parseScopes_bounds(2) [where h = h] by (auto simp: isScopeList_def MAX_SCOPES_def MAX_SCOPE_LENGTH_def list_all_iff)
    with Classic show ?thesis
      by (simp add: isConsistent_def metadata_json_def buildPatMetadata_def json_field_def kind_text_def Let_def)
  next
    case FineGrained
    then show ?thesis
      by (simp add: isConsistent_def metadata_json_def buildPatMetadata_def json_field_def kind_text_def Let_def)
  qed
  with keys show ?thesis
    by (simp add: describePatMetadata_def metadata_json_def json_field_def)
qed

text \<open>A validated credential can always be sealed, with a hint of at most nineteen bytes of which four are the token's.\<close>

lemma pat_validate_Inr:
  assumes "pat_validate e W now secret = Inr v"
  shows "vc_secret v = secret" and "describePatMetadata (vc_metadata v) = Inr (vc_metadata v)"
    and "vc_githubLogin v \<noteq> [] \<and> length (vc_githubLogin v) \<le> 255"
    and "\<exists>r h. getUser W (pat_tokenOf secret) = Inr r \<and> gu_status r = 200
           \<and> (tokenKindOf (pat_tokenOf secret) = Some Classic \<longrightarrow> ''repo'' \<in> set (parseScopes (gu_oauthScopes r)))"
proof -
  from assms obtain login r where a: "fetchGithubUser W (pat_tokenOf secret) now = UserOk login r"
    and v: "v = \<lparr>vc_secret = secret, vc_githubLogin = login, vc_expiresAt = pi_expiresAt (pat_identityFrom e secret login r),
      vc_metadata = metadata_json (pi_metadata (pat_identityFrom e secret login r))\<rparr>"
    and perm: "pat_hasRequiredPermissions (pi_metadata (pat_identityFrom e secret login r))"
    by (auto simp: pat_validate_def pat_identityFrom_def Let_def split: github_user_answer.splits if_splits)
  note ok = fetchGithubUser_Ok [OF a]
  show "vc_secret v = secret" and "describePatMetadata (vc_metadata v) = Inr (vc_metadata v)"
    by (simp_all add: v pat_identityFrom_def describe_built_metadata)
  show "vc_githubLogin v \<noteq> [] \<and> length (vc_githubLogin v) \<le> 255" using ok by (simp add: v)
  show "\<exists>r h. getUser W (pat_tokenOf secret) = Inr r \<and> gu_status r = 200
           \<and> (tokenKindOf (pat_tokenOf secret) = Some Classic \<longrightarrow> ''repo'' \<in> set (parseScopes (gu_oauthScopes r)))"
    using ok perm by (auto simp: pat_hasRequiredPermissions_def pat_identityFrom_def buildPatMetadata_def REQUIRED_CLASSIC_SCOPE_def)
qed

end
