(* ===== verification/Oauth_App.thy ===== *)
theory Oauth_App
  imports Integrations_Service Redirect_State Redirect_Config Pat_Type
begin

text \<open>
  The OAuth App type (\<^verbatim>\<open>integrations/types/oauth-app/\<close>): credential, metadata, authorize URL, code
  exchange, revocation, strategy, flow and controller.  Functions that change something at GitHub
  also return the calls they make for it, in order: the code exchange and the revocations.
\<close>

section \<open>Credential and metadata\<close>

definition OAUTH_APP_TOKEN_PREFIX :: string where "OAUTH_APP_TOKEN_PREFIX = ''gho_''"

definition isOauthAppToken :: "string \<Rightarrow> bool" where
  "isOauthAppToken token \<longleftrightarrow> prefix OAUTH_APP_TOKEN_PREFIX token \<and> length token > length OAUTH_APP_TOKEN_PREFIX"

definition oauth_payload :: "string \<Rightarrow> json" where
  "oauth_payload token = JsonObj [(''token'', JsonStr token)]"

definition parseOauthAppPayload :: "json \<Rightarrow> json option" where
  "parseOauthAppPayload payload =
     (case payload of
        JsonObj fs \<Rightarrow>
          (case json_field ''token'' payload of
             Some (JsonStr token) \<Rightarrow>
               if length fs = 1 \<and> isOauthAppToken token then Some (oauth_payload token) else None
           | _ \<Rightarrow> None)
      | _ \<Rightarrow> None)"

definition maskOauthAppToken :: "string \<Rightarrow> string" where
  "maskOauthAppToken token = OAUTH_APP_TOKEN_PREFIX @ ELLIPSIS @ drop (length token - HINT_SUFFIX_LENGTH) token"

definition oauthAppTokenOf :: "json \<Rightarrow> string" where
  "oauthAppTokenOf secret = (case json_field ''token'' secret of Some (JsonStr t) \<Rightarrow> t | _ \<Rightarrow> [])"

definition buildOauthAppMetadata :: "string option \<Rightarrow> string \<Rightarrow> json" where
  "buildOauthAppMetadata scopesHeader clientId =
     JsonObj [(''scopes'', JsonArr (map JsonStr (parseScopes scopesHeader))), (''clientId'', JsonStr clientId)]"

definition scope_strings :: "json list \<Rightarrow> string list" where
  "scope_strings xs = List.map_filter (\<lambda>x. case x of JsonStr s \<Rightarrow> Some s | _ \<Rightarrow> None) xs"

definition describeOauthAppMetadata :: "json \<Rightarrow> exn + json" where
  "describeOauthAppMetadata metadata =
     (case metadata of
        JsonObj fs \<Rightarrow>
          (let scopes = json_field ''scopes'' metadata; clientId = json_field ''clientId'' metadata
           in case (scopes, clientId) of
                (Some (JsonArr xs), Some (JsonStr i)) \<Rightarrow>
                  if js_join '','' (sort (map fst fs)) \<noteq> js_join '','' [''clientId'', ''scopes'']
                     \<or> \<not> isScopeList scopes \<or> \<not> OAUTH_APP_CLIENT_ID_PATTERN i
                  then Inl (invalidMetadataError ''oauth_app'')
                  else Inr (JsonObj [(''scopes'', JsonArr (map JsonStr (sort (remdups (scope_strings xs))))),
                         (''clientId'', JsonStr i)])
              | _ \<Rightarrow> Inl (invalidMetadataError ''oauth_app''))
      | _ \<Rightarrow> Inl (invalidMetadataError ''oauth_app''))"

definition oauth_clientIdOf :: "json \<Rightarrow> string option" where
  "oauth_clientIdOf metadata = json_string (json_field ''clientId'' metadata)"

section \<open>The authorize URL\<close>

definition authorizeUrl :: "web \<Rightarrow> oauth_app_config \<Rightarrow> string \<Rightarrow> string \<Rightarrow> string" where
  "authorizeUrl W config st codeChallenge =
     ''https://github.com/login/oauth/authorize?'' @ wb_urlencode W
       [(''client_id'', oa_clientId config), (''redirect_uri'', oa_callbackUrl config), (''scope'', ''repo''),
        (''state'', st), (''code_challenge'', codeChallenge), (''code_challenge_method'', ''S256''),
        (''allow_signup'', ''false''), (''prompt'', ''select_account'')]"

section \<open>Revocation and code exchange\<close>

text \<open>What GitHub answers to a revocation is only logged.\<close>

definition oauth_revoke :: "web \<Rightarrow> oauth_app_config option \<Rightarrow> string \<Rightarrow> string option \<Rightarrow> http_call list" where
  "oauth_revoke W config token clientIdOfToken =
     (case config of
        None \<Rightarrow> []
      | Some c \<Rightarrow>
          if clientIdOfToken \<noteq> Some (oa_clientId c) then []
          else [revokeOauthToken_call W (oa_clientId c) (oa_clientSecret c) token])"

definition oauth_exchangeErrorFor :: "oauth_code_exchange_response \<Rightarrow> int \<Rightarrow> credential_error" where
  "oauth_exchangeErrorFor answer now =
     (if isRateLimited (xr_status answer) (xr_rateLimit answer)
      then GithubRateLimitedError (retryAfterSecondsFor (xr_rateLimit answer) now)
      else if xr_status answer \<noteq> 200 then GithubUnavailableError
      else if xr_error answer = Some ''bad_verification_code'' then CredentialInvalidError
      else GithubUnavailableError)"

definition oauth_exchange_request :: "oauth_app_config \<Rightarrow> string \<Rightarrow> string \<Rightarrow> oauth_code_exchange_request" where
  "oauth_exchange_request config code verifier =
     \<lparr>cx_clientId = oa_clientId config, cx_clientSecret = oa_clientSecret config, cx_code = code,
      cx_codeVerifier = Some verifier, cx_redirectUri = oa_callbackUrl config\<rparr>"

definition oauth_exchange ::
  "web \<Rightarrow> oauth_app_config \<Rightarrow> int \<Rightarrow> string \<Rightarrow> string \<Rightarrow> (credential_error + string) \<times> http_call list" where
  "oauth_exchange W config now code verifier =
     (let q = oauth_exchange_request config code verifier; call = exchangeOauthCode_call W q
      in case exchangeOauthCode W q of
           Inl _ \<Rightarrow> (Inl GithubUnavailableError, [call])
         | Inr answer \<Rightarrow>
             (case xr_accessToken answer of
                Some token \<Rightarrow>
                  if xr_status answer = 200 \<and> isOauthAppToken token then (Inr token, [call])
                  else (Inl (oauth_exchangeErrorFor answer now),
                        call # oauth_revoke W (Some config) token (Some (oa_clientId config)))
              | None \<Rightarrow> (Inl (oauth_exchangeErrorFor answer now), [call])))"

section \<open>OauthAppStrategy\<close>

definition OAUTH_APP_REASON_REVOKED :: string where "OAUTH_APP_REASON_REVOKED = ''revoked''"

definition oauth_hasRequiredScope :: "string option \<Rightarrow> bool" where
  "oauth_hasRequiredScope scopesHeader \<longleftrightarrow> ''repo'' \<in> set (parseScopes scopesHeader)"

definition oauth_identify :: "web \<Rightarrow> int \<Rightarrow> string \<Rightarrow> string \<Rightarrow> exn + validated_credential" where
  "oauth_identify W now token clientId =
     (case fetchGithubUser W token now of
        UserOk login r \<Rightarrow>
          if \<not> oauth_hasRequiredScope (gu_oauthScopes r)
          then Inl (CredentialExn (InsufficientPermissionsError ''The authorization lacks the repo scope''))
          else Inr \<lparr>vc_secret = oauth_payload token, vc_githubLogin = login, vc_expiresAt = None,
                 vc_metadata = buildOauthAppMetadata (gu_oauthScopes r) clientId\<rparr>
      | answer \<Rightarrow> Inl (validationErrorFor answer))"

text \<open>\<^verbatim>\<open>validate\<close>, on the code of the callback and the flow's verifier.\<close>

definition oauth_validate ::
  "web \<Rightarrow> oauth_app_config option \<Rightarrow> int \<Rightarrow> string \<Rightarrow> string
     \<Rightarrow> (exn + validated_credential) \<times> http_call list" where
  "oauth_validate W config now code verifier =
     (case config of
        None \<Rightarrow> (Inl (CredentialExn GithubUnavailableError), [])
      | Some c \<Rightarrow>
          (case oauth_exchange W c now code verifier of
             (Inl x, calls) \<Rightarrow> (Inl (CredentialExn x), calls)
           | (Inr token, calls) \<Rightarrow>
               (case oauth_identify W now token (oa_clientId c) of
                  Inr v \<Rightarrow> (Inr v, calls)
                | Inl x \<Rightarrow> (Inl x, calls @ oauth_revoke W config token (Some (oa_clientId c))))))"

definition oauth_activeOutcome :: "oauth_app_config option \<Rightarrow> string \<Rightarrow> github_user_response \<Rightarrow> string option \<Rightarrow> test_outcome" where
  "oauth_activeOutcome config login r clientId =
     (let i = (case clientId of Some i \<Rightarrow> i | None \<Rightarrow> (case config of Some c \<Rightarrow> oa_clientId c | None \<Rightarrow> []))
      in if \<not> oauth_hasRequiredScope (gu_oauthScopes r) then OutcomeInvalid STATUS_REASON_INSUFFICIENT_PERMISSIONS
         else OutcomeActive login None (buildOauthAppMetadata (gu_oauthScopes r) i))"

definition oauth_test :: "web \<Rightarrow> oauth_app_config option \<Rightarrow> int \<Rightarrow> json \<Rightarrow> integration_view \<Rightarrow> test_outcome" where
  "oauth_test W config now secret current =
     (case fetchGithubUser W (oauthAppTokenOf secret) now of
        UserOk login r \<Rightarrow> oauth_activeOutcome config login r (oauth_clientIdOf (iv_metadata current))
      | UserUnauthorized \<Rightarrow> OutcomeInvalid OAUTH_APP_REASON_REVOKED
      | UserRateLimited n \<Rightarrow> OutcomeTransient TransientRateLimited n
      | UserUnavailable \<Rightarrow> OutcomeTransient TransientUnavailable None)"

definition oauth_onDelete :: "web \<Rightarrow> oauth_app_config option \<Rightarrow> json option \<Rightarrow> integration_view \<Rightarrow> http_call list" where
  "oauth_onDelete W config secret current =
     (case secret of
        None \<Rightarrow> []
      | Some x \<Rightarrow> oauth_revoke W config (oauthAppTokenOf x) (oauth_clientIdOf (iv_metadata current)))"

definition oauth_code_payload :: "string \<Rightarrow> string \<Rightarrow> json" where
  "oauth_code_payload code verifier = JsonObj [(''code'', JsonStr code), (''codeVerifier'', JsonStr verifier)]"

definition oauth_field :: "string \<Rightarrow> json \<Rightarrow> string" where
  "oauth_field k v = (case json_string (json_field k v) of Some s \<Rightarrow> s | None \<Rightarrow> [])"

definition oauth_strategy :: "web \<Rightarrow> oauth_app_config option \<Rightarrow> int \<Rightarrow> strategy" where
  "oauth_strategy W config now =
     \<lparr>st_type = ''oauth_app'', st_flows = \<lparr>fl_credentialPaste = False, fl_redirect = True\<rparr>,
      st_isEnabled = Some (config \<noteq> None), st_parseCredential = (\<lambda>_. Inl flowUnsupported),
      st_parseSecretPayload = parseOauthAppPayload,
      st_validate = (\<lambda>secret. fst (oauth_validate W config now (oauth_field ''code'' secret) (oauth_field ''codeVerifier'' secret))),
      st_test = (\<lambda>secret current. Inr (oauth_test W config now secret current)),
      st_describeMetadata = describeOauthAppMetadata, st_mask = (\<lambda>secret. maskOauthAppToken (oauthAppTokenOf secret)),
      st_onDelete = (\<lambda>_ _. Inr ())\<rparr>"

section \<open>OauthAppFlowService\<close>

record start_redirect_dto =
  sd_label :: "string option"
  sd_integrationId :: "string option"

record oauth_app_callback_dto =
  cb_code :: string
  cb_state :: string

record oauth_app_callback_result =
  cr_created :: bool
  cr_integration :: integration_response

definition exactlyOneTarget :: "string option \<Rightarrow> string option \<Rightarrow> exn + oauth_state_target" where
  "exactlyOneTarget label integrationId =
     (case (label, integrationId) of
        (Some l, None) \<Rightarrow> Inr (TargetLabel l)
      | (None, Some u) \<Rightarrow> Inr (TargetIntegration u)
      | _ \<Rightarrow> Inl (HttpExn \<lparr>ex_status = 400, ex_code = Some ''VALIDATION_FAILED'',
                 ex_message = Msgs [''exactly one of label and integrationId must be given''],
                 ex_retryAfterSeconds = None\<rparr>))"

definition oauth_enabledConfig :: "oauth_app_config option \<Rightarrow> exn + oauth_app_config" where
  "oauth_enabledConfig config = (case config of None \<Rightarrow> Inl (NotFound ''Not Found'') | Some c \<Rightarrow> Inr c)"

text \<open>The lookup of a flow's integration, with the check of its type; and the checks before a create.\<close>

definition find_of_type :: "env \<Rightarrow> string \<Rightarrow> nat \<Rightarrow> string \<Rightarrow> integ_state \<Rightarrow> exn + integration" where
  "find_of_type e t userId uuid s =
     (case findOwned e userId uuid s of
        Inl x \<Rightarrow> Inl x
      | Inr row \<Rightarrow> if ig_type row \<noteq> t then Inl flowUnsupported else Inr row)"

definition assertCreatable :: "env \<Rightarrow> nat \<Rightarrow> string \<Rightarrow> integ_state \<Rightarrow> exn + unit" where
  "assertCreatable e userId label s =
     (if int (countOwned userId s) \<ge> maxPerUser e then Inl limitReached
      else assertLabelFree e userId (normalizeLabel label) None s)"

definition oauth_precheck :: "env \<Rightarrow> int \<Rightarrow> nat \<Rightarrow> oauth_state_target \<Rightarrow> integ_state \<Rightarrow> exn + unit" where
  "oauth_precheck e now userId target s =
     (case (case target of TargetIntegration uuid \<Rightarrow> map_sum id (\<lambda>_. ()) (find_of_type e ''oauth_app'' userId uuid s)
                         | TargetLabel _ \<Rightarrow> Inr ()) of
        Inl x \<Rightarrow> Inl x
      | Inr _ \<Rightarrow>
          (case assertNotLocked now userId s of
             Inl x \<Rightarrow> Inl x
           | Inr _ \<Rightarrow> (case target of TargetLabel label \<Rightarrow> assertCreatable e userId label s | TargetIntegration _ \<Rightarrow> Inr ())))"

definition oauth_start ::
  "env \<Rightarrow> web \<Rightarrow> oauth_app_config option \<Rightarrow> ictx \<Rightarrow> nat \<Rightarrow> start_redirect_dto \<Rightarrow> integ_state \<Rightarrow> (string, integ_state) outcome" where
  "oauth_start e W config ic userId dto s =
     (case oauth_enabledConfig config of
        Inl x \<Rightarrow> (Inl x, s)
      | Inr c \<Rightarrow>
          (case exactlyOneTarget (sd_label dto) (sd_integrationId dto) of
             Inl x \<Rightarrow> (Inl x, s)
           | Inr target \<Rightarrow>
               (case oauth_precheck e (ic_now ic) userId target s of
                  Inl x \<Rightarrow> (Inl x, s)
                | Inr _ \<Rightarrow>
                    (case oauth_issue e W ic userId target s of
                       (Inl x, s1) \<Rightarrow> (Inl x, s1)
                     | (Inr i, s1) \<Rightarrow> (Inr (authorizeUrl W c (io_state i) (io_codeChallenge i)), s1)))))"

definition fresh_columns :: "int \<Rightarrow> sealed_credential \<Rightarrow> integration \<Rightarrow> integration" where
  "fresh_columns now x r = (apply_sealed x r)\<lparr>ig_status := IsActive, ig_statusReason := None,
     ig_lastTestedAt := Some now, ig_lastTestResult := Some TestSuccess\<rparr>"

definition flow_dto :: "string \<Rightarrow> string \<Rightarrow> create_integration_dto" where
  "flow_dto t label = \<lparr>ci_label = label, ci_provider = ''github'', ci_type = t, ci_credential = JsonNull\<rparr>"

definition flow_create ::
  "env \<Rightarrow> crypto \<Rightarrow> integrations_key \<Rightarrow> strategy \<Rightarrow> ictx \<Rightarrow> nat \<Rightarrow> string \<Rightarrow> validated_credential \<Rightarrow> integ_state
     \<Rightarrow> (oauth_app_callback_result, integ_state) outcome" where
  "flow_create e C ks st ic userId label validated s =
     (case cred_seal C ks (ic_iv ic) st validated (ic_uuid ic) of
        Inl x \<Rightarrow> (Inl x, s)
      | Inr x \<Rightarrow>
          (case insertWithinCap e userId
                  (created_integration ic userId (flow_dto (st_type st) label) (normalizeLabel label) (st_type st) x)
                  (maxPerUser e) s of
             (Inl y, s1) \<Rightarrow> (Inl y, s1)
           | (Inr row, s1) \<Rightarrow> (Inr \<lparr>cr_created = True, cr_integration = respond e ks (ic_now ic) row\<rparr>, s1)))"

definition oauth_replace ::
  "env \<Rightarrow> crypto \<Rightarrow> integrations_key \<Rightarrow> web \<Rightarrow> oauth_app_config option \<Rightarrow> ictx \<Rightarrow> nat \<Rightarrow> string
     \<Rightarrow> validated_credential \<Rightarrow> integ_state
     \<Rightarrow> (oauth_app_callback_result, integ_state) outcome \<times> http_call list" where
  "oauth_replace e C ks W config ic userId uuid validated s =
     (case findOwned e userId uuid s of
        Inl x \<Rightarrow> ((Inl x, s), [])
      | Inr row \<Rightarrow>
          (let st = oauth_strategy W config (ic_now ic);
               previous = decryptRow C ks st row; previousClientId = oauth_clientIdOf (ig_metadata row)
           in case cred_seal C ks (ic_iv ic) st validated (ig_uuid row) of
                Inl x \<Rightarrow> ((Inl x, s), [])
              | Inr x \<Rightarrow>
                  (case updateOwned e (ic_now ic) row (fresh_columns (ic_now ic) x) s of
                     (Inl y, s1) \<Rightarrow> ((Inl y, s1), [])
                   | (Inr updated, s1) \<Rightarrow>
                       ((Inr \<lparr>cr_created = False, cr_integration = respond e ks (ic_now ic) updated\<rparr>, s1),
                        case previous of
                          Some p \<Rightarrow> if oauthAppTokenOf p \<noteq> oauthAppTokenOf (vc_secret validated)
                                    then oauth_revoke W config (oauthAppTokenOf p) previousClientId else []
                        | None \<Rightarrow> []))))"

definition storeOrRevoke ::
  "env \<Rightarrow> crypto \<Rightarrow> integrations_key \<Rightarrow> web \<Rightarrow> oauth_app_config option \<Rightarrow> ictx \<Rightarrow> nat \<Rightarrow> consumed_oauth_state
     \<Rightarrow> validated_credential \<Rightarrow> integ_state
     \<Rightarrow> (oauth_app_callback_result, integ_state) outcome \<times> http_call list" where
  "storeOrRevoke e C ks W config ic userId consumed validated s =
     (let token = oauthAppTokenOf (vc_secret validated)
      in case (case consumed of
                 ConsumedCreate label _ \<Rightarrow>
                   (flow_create e C ks (oauth_strategy W config (ic_now ic)) ic userId label validated s, [])
               | ConsumedReplace uuid _ \<Rightarrow> oauth_replace e C ks W config ic userId uuid validated s) of
           ((Inl x, s1), calls) \<Rightarrow>
             ((Inl x, s1), calls @ oauth_revoke W config token (oauth_clientIdOf (vc_metadata validated)))
         | ((Inr r, s1), calls) \<Rightarrow> ((Inr r, s1), calls))"

text \<open>
  The callback: \<open>race\<close> is what commits between the read and the delete of the state, \<open>race2\<close>
  what commits while GitHub is called.
\<close>

definition oauth_callback ::
  "env \<Rightarrow> crypto \<Rightarrow> integrations_key \<Rightarrow> web \<Rightarrow> oauth_app_config option \<Rightarrow> (integ_state \<Rightarrow> integ_state)
     \<Rightarrow> (integ_state \<Rightarrow> integ_state) \<Rightarrow> ictx \<Rightarrow> nat \<Rightarrow> oauth_app_callback_dto \<Rightarrow> integ_state
     \<Rightarrow> (oauth_app_callback_result, integ_state) outcome \<times> http_call list" where
  "oauth_callback e C ks W config race race2 ic userId dto s =
     (case oauth_enabledConfig config of
        Inl x \<Rightarrow> ((Inl x, s), [])
      | Inr _ \<Rightarrow>
          (case oauth_consume e race (ic_now ic) userId (cb_state dto) s of
             (Inl x, s1) \<Rightarrow> ((Inl x, s1), [])
           | (Inr consumed, s1) \<Rightarrow>
               (let target = (case consumed of ConsumedCreate l _ \<Rightarrow> TargetLabel l | ConsumedReplace u _ \<Rightarrow> TargetIntegration u);
                    verifier = (case consumed of ConsumedCreate _ v \<Rightarrow> v | ConsumedReplace _ v \<Rightarrow> v)
                in case oauth_precheck e (ic_now ic) userId target s1 of
                     Inl x \<Rightarrow> ((Inl x, s1), [])
                   | Inr _ \<Rightarrow>
                       (let made = (if fst (reserveAttempt e (ic_now ic) userId s1)
                              then snd (oauth_validate W config (ic_now ic) (cb_code dto) verifier) else [])
                        in case cred_validate e (ic_now ic) race2 userId (oauth_strategy W config (ic_now ic))
                                  (oauth_code_payload (cb_code dto) verifier) s1 of
                             (Inl x, s2) \<Rightarrow> ((Inl x, s2), made)
                           | (Inr validated, s2) \<Rightarrow>
                               (case storeOrRevoke e C ks W config ic userId consumed validated s2 of
                                  (out, calls) \<Rightarrow> (out, made @ calls))))))"

section \<open>OauthAppController\<close>

text \<open>The guard of the controller, then the handler; a callback answers its status with the body.\<close>

definition oauth_app_guard :: "oauth_app_config option \<Rightarrow> exn + bool" where
  "oauth_app_guard config = (if config = None then Inl (NotFound ''Not Found'') else Inr True)"

definition oauth_start_route ::
  "env \<Rightarrow> web \<Rightarrow> oauth_app_config option \<Rightarrow> ictx \<Rightarrow> nat \<Rightarrow> start_redirect_dto \<Rightarrow> integ_state \<Rightarrow> (string, integ_state) outcome" where
  "oauth_start_route e W config ic userId dto s =
     (case oauth_app_guard config of Inl x \<Rightarrow> (Inl x, s) | Inr _ \<Rightarrow> oauth_start e W config ic userId dto s)"

definition oauth_callback_route ::
  "env \<Rightarrow> crypto \<Rightarrow> integrations_key \<Rightarrow> web \<Rightarrow> oauth_app_config option \<Rightarrow> (integ_state \<Rightarrow> integ_state)
     \<Rightarrow> (integ_state \<Rightarrow> integ_state) \<Rightarrow> ictx \<Rightarrow> nat \<Rightarrow> oauth_app_callback_dto \<Rightarrow> integ_state
     \<Rightarrow> (nat \<times> integration_response, integ_state) outcome \<times> http_call list" where
  "oauth_callback_route e C ks W config race race2 ic userId dto s =
     (case oauth_app_guard config of
        Inl x \<Rightarrow> ((Inl x, s), [])
      | Inr _ \<Rightarrow>
          map_prod (body_outcome (\<lambda>r. (if cr_created r then 201 else 200, cr_integration r))) id
            (oauth_callback e C ks W config race race2 ic userId dto s))"

end
