(* ===== verification/Github_App_Client.thy ===== *)
theory Github_App_Client
  imports Redirect_State Redirect_Config Pat_Type
begin

text \<open>
  How the GitHub App type asks GitHub: \<^verbatim>\<open>integrations/github-app-client.service.ts\<close>,
  \<^verbatim>\<open>types/github-app/github-app-metadata.ts\<close>, \<^verbatim>\<open>github-app-credential.ts\<close>,
  \<^verbatim>\<open>github-app-installation.service.ts\<close>, \<^verbatim>\<open>github-app-user-verification.service.ts\<close> and
  \<^verbatim>\<open>github-app-revocation.service.ts\<close>.  A verification also returns the calls that issue or revoke
  a user token, in order.
\<close>

section \<open>The client\<close>

definition GITHUB_INSTALLATIONS_MAX_BODY_BYTES :: nat where
  "GITHUB_INSTALLATIONS_MAX_BODY_BYTES = 1024 * 1024"

definition GITHUB_USER_INSTALLATIONS_URL :: string where
  "GITHUB_USER_INSTALLATIONS_URL = GITHUB_API_URL @ ''/user/installations?per_page=100''"

datatype github_account_type = AccountUser | AccountOrganization

datatype github_repository_selection = SelectionAll | SelectionSelected

record github_user_installation =
  gi_installationId :: int
  gi_appId :: int
  gi_accountLogin :: string
  gi_accountType :: github_account_type

record installations_page =
  ip_status :: nat
  ip_installations :: "github_user_installation list option"
  ip_nextUrl :: "string option"
  ip_rateLimit :: rate_limit_fields

record github_app_installation =
  ai_base :: github_user_installation
  ai_repositorySelection :: github_repository_selection
  ai_issues :: "string option"
  ai_metadata :: "string option"
  ai_suspended :: bool

record installation_response =
  ar_status :: nat
  ar_installation :: "github_app_installation option"
  ar_rateLimit :: rate_limit_fields

definition isPositiveId :: "json option \<Rightarrow> bool" where
  "isPositiveId v = (case v of Some (JsonNum i) \<Rightarrow> 0 < i \<and> i < 2 ^ 53 | _ \<Rightarrow> False)"

text \<open>\<^verbatim>\<open>NEXT_LINK_PATTERN\<close>: the leftmost match, whose first group ends at the first closing bracket.\<close>

definition link_tail :: "string \<Rightarrow> bool" where
  "link_tail rest = (case dropWhile js_space rest of
       [] \<Rightarrow> False
     | c # cs \<Rightarrow> c = CHR '';'' \<and> prefix (''rel='' @ [CHR 0x22] @ ''next'' @ [CHR 0x22]) (dropWhile js_space cs))"

fun next_link :: "string \<Rightarrow> string option" where
  "next_link [] = None"
| "next_link (c # cs) =
     (let target = takeWhile (\<lambda>x. x \<noteq> CHR ''>'') cs; rest = dropWhile (\<lambda>x. x \<noteq> CHR ''>'') cs
      in if c = CHR ''<'' \<and> target \<noteq> [] \<and> rest \<noteq> [] \<and> link_tail (tl rest) then Some target else next_link cs)"

definition nextPageUrl :: "string option \<Rightarrow> string option" where
  "nextPageUrl link =
     (case Option.bind link next_link of
        None \<Rightarrow> None
      | Some next \<Rightarrow> if prefix (GITHUB_API_URL @ ''/'') next then Some next else None)"

definition as_object :: "json option \<Rightarrow> json" where
  "as_object v = (case v of Some (JsonObj fs) \<Rightarrow> JsonObj fs | _ \<Rightarrow> JsonObj [])"

definition account_type_of :: "json option \<Rightarrow> github_account_type option" where
  "account_type_of v =
     (if v = Some (JsonStr ''User'') then Some AccountUser
      else if v = Some (JsonStr ''Organization'') then Some AccountOrganization else None)"

definition json_int :: "json option \<Rightarrow> int" where
  "json_int v = (case v of Some (JsonNum i) \<Rightarrow> i | _ \<Rightarrow> 0)"

definition parseInstallation :: "json \<Rightarrow> github_user_installation option" where
  "parseInstallation raw =
     (let account = as_object (json_field ''account'' raw);
          login = json_string (json_field ''login'' account); t = account_type_of (json_field ''type'' account)
      in if \<not> isPositiveId (json_field ''id'' raw) \<or> \<not> isPositiveId (json_field ''app_id'' raw)
            \<or> \<not> isGithubLogin login \<or> t = None
         then None
         else Some \<lparr>gi_installationId = json_int (json_field ''id'' raw), gi_appId = json_int (json_field ''app_id'' raw),
                gi_accountLogin = the login, gi_accountType = the t\<rparr>)"

definition parseInstallations :: "web \<Rightarrow> string option \<Rightarrow> github_user_installation list option" where
  "parseInstallations W body =
     (case json_field ''installations'' (parseJsonObject W body) of
        Some (JsonArr entries) \<Rightarrow> Some (List.map_filter (\<lambda>x. parseInstallation (as_object (Some x))) entries)
      | _ \<Rightarrow> None)"

definition repository_selection_of :: "json option \<Rightarrow> github_repository_selection option" where
  "repository_selection_of v =
     (if v = Some (JsonStr ''all'') then Some SelectionAll
      else if v = Some (JsonStr ''selected'') then Some SelectionSelected else None)"

definition parseAppInstallation :: "json \<Rightarrow> github_app_installation option" where
  "parseAppInstallation raw =
     (let base = parseInstallation raw; selection = repository_selection_of (json_field ''repository_selection'' raw);
          suspendedAt = (case json_field ''suspended_at'' raw of Some JsonNull \<Rightarrow> None | v \<Rightarrow> v);
          permissions = as_object (json_field ''permissions'' raw)
      in if base = None \<or> selection = None \<or> suspendedAt \<noteq> None \<and> json_string suspendedAt = None then None
         else Some \<lparr>ai_base = the base, ai_repositorySelection = the selection,
                ai_issues = json_string (json_field ''issues'' permissions),
                ai_metadata = json_string (json_field ''metadata'' permissions), ai_suspended = (suspendedAt \<noteq> None)\<rparr>)"

definition get_call :: "string \<Rightarrow> string \<Rightarrow> http_call" where
  "get_call url token = \<lparr>hc_url = url, hc_method = ''GET'', hc_headers = apiHeaders (''Bearer '' @ token), hc_body = None\<rparr>"

definition listUserInstallations :: "web \<Rightarrow> string \<Rightarrow> string option \<Rightarrow> client_error + installations_page" where
  "listUserInstallations W userToken pageUrl =
     map_sum id (\<lambda>(r, body).
       \<lparr>ip_status = ha_status r, ip_installations = (if ha_status r = 200 then parseInstallations W body else None),
        ip_nextUrl = (if ha_status r = 200 then nextPageUrl (http_header r ''link'') else None),
        ip_rateLimit = rateLimitFields W r\<rparr>)
       (send_call W (get_call (case pageUrl of Some u \<Rightarrow> u | None \<Rightarrow> GITHUB_USER_INSTALLATIONS_URL) userToken)
          GITHUB_INSTALLATIONS_MAX_BODY_BYTES)"

definition installation_url :: "int \<Rightarrow> string" where
  "installation_url i = GITHUB_API_URL @ ''/app/installations/'' @ nat_to_string (nat i)"

definition getAppInstallation :: "web \<Rightarrow> string \<Rightarrow> int \<Rightarrow> client_error + installation_response" where
  "getAppInstallation W jwt i =
     map_sum id (\<lambda>(r, body).
       \<lparr>ar_status = ha_status r,
        ar_installation = (if ha_status r = 200 then parseAppInstallation (parseJsonObject W body) else None),
        ar_rateLimit = rateLimitFields W r\<rparr>)
       (send_call W (get_call (installation_url i) jwt) GITHUB_MAX_BODY_BYTES)"

definition createInstallationToken :: "web \<Rightarrow> string \<Rightarrow> int \<Rightarrow> client_error + (nat \<times> rate_limit_fields)" where
  "createInstallationToken W jwt i =
     map_sum id (\<lambda>(r, _). (ha_status r, rateLimitFields W r))
       (send_call W ((get_call (installation_url i @ ''/access_tokens'') jwt)\<lparr>hc_method := ''POST''\<rparr>)
          GITHUB_MAX_BODY_BYTES)"

section \<open>Credential and metadata\<close>

definition githubAppPayload :: "int \<Rightarrow> json" where
  "githubAppPayload i = JsonObj [(''installationId'', JsonNum i)]"

definition parseGithubAppPayload :: "json \<Rightarrow> json option" where
  "parseGithubAppPayload payload =
     (case payload of
        JsonObj fs \<Rightarrow>
          (let i = json_field ''installationId'' payload
           in if length fs = 1 \<and> isPositiveId i then Some (githubAppPayload (json_int i)) else None)
      | _ \<Rightarrow> None)"

definition installationIdOf :: "json \<Rightarrow> int" where
  "installationIdOf secret = json_int (json_field ''installationId'' secret)"

definition maskInstallationId :: "int \<Rightarrow> string" where
  "maskInstallationId i =
     (let s = nat_to_string (nat i) in ''installation '' @ ELLIPSIS @ drop (length s - HINT_SUFFIX_LENGTH) s)"

definition PERMISSION_LEVELS :: "string list" where
  "PERMISSION_LEVELS = [''read'', ''write'']"

definition hasRequiredPermissions :: "github_app_installation \<Rightarrow> bool" where
  "hasRequiredPermissions a \<longleftrightarrow> ai_issues a \<in> Some ` set PERMISSION_LEVELS \<and> ai_metadata a \<in> Some ` set PERMISSION_LEVELS"

definition hasValidIdentity :: "json \<Rightarrow> bool" where
  "hasValidIdentity c \<longleftrightarrow> isPositiveId (json_field ''installationId'' c) \<and> isPositiveId (json_field ''appId'' c)
     \<and> isGithubLogin (json_string (json_field ''accountLogin'' c)) \<and> isGithubLogin (json_string (json_field ''verifiedBy'' c))
     \<and> account_type_of (json_field ''accountType'' c) \<noteq> None"

definition has_level :: "json option \<Rightarrow> bool" where
  "has_level v \<longleftrightarrow> (\<exists>l \<in> set PERMISSION_LEVELS. v = Some (JsonStr l))"

definition hasValidGrant :: "json \<Rightarrow> bool" where
  "hasValidGrant c \<longleftrightarrow> repository_selection_of (json_field ''repositorySelection'' c) \<noteq> None
     \<and> (case json_field ''permissions'' c of
          Some (JsonObj ps) \<Rightarrow> js_join '','' (sort (map fst ps)) = ''issues,metadata''
            \<and> has_level (json_field ''issues'' (JsonObj ps)) \<and> has_level (json_field ''metadata'' (JsonObj ps))
        | _ \<Rightarrow> False)"

definition APP_METADATA_KEYS :: "string list" where
  "APP_METADATA_KEYS = [''accountLogin'', ''accountType'', ''appId'', ''installationId'', ''permissions'',
     ''repositorySelection'', ''verifiedBy'']"

definition pick_fields :: "string list \<Rightarrow> json \<Rightarrow> (string \<times> json) list" where
  "pick_fields ks v = map (\<lambda>k. (k, the (json_field k v))) ks"

definition describeGithubAppMetadata :: "json \<Rightarrow> exn + json" where
  "describeGithubAppMetadata metadata =
     (case metadata of
        JsonObj fs \<Rightarrow>
          if js_join '','' (sort (map fst fs)) \<noteq> js_join '','' APP_METADATA_KEYS
             \<or> \<not> hasValidIdentity metadata \<or> \<not> hasValidGrant metadata
          then Inl (invalidMetadataError ''github_app'')
          else Inr (JsonObj
            (pick_fields [''installationId'', ''appId'', ''accountLogin'', ''accountType'', ''repositorySelection''] metadata
             @ [(''permissions'', JsonObj (pick_fields [''issues'', ''metadata''] (the (json_field ''permissions'' metadata))))]
             @ pick_fields [''verifiedBy''] metadata))
      | _ \<Rightarrow> Inl (invalidMetadataError ''github_app''))"

definition account_type_text :: "github_account_type \<Rightarrow> string" where
  "account_type_text t = (case t of AccountUser \<Rightarrow> ''User'' | AccountOrganization \<Rightarrow> ''Organization'')"

definition selection_text :: "github_repository_selection \<Rightarrow> string" where
  "selection_text x = (case x of SelectionAll \<Rightarrow> ''all'' | SelectionSelected \<Rightarrow> ''selected'')"

definition string_or_null :: "string option \<Rightarrow> json" where
  "string_or_null v = (case v of Some s \<Rightarrow> JsonStr s | None \<Rightarrow> JsonNull)"

definition buildGithubAppMetadata :: "github_app_installation \<Rightarrow> string \<Rightarrow> exn + json" where
  "buildGithubAppMetadata a verifiedBy =
     describeGithubAppMetadata (JsonObj
       [(''installationId'', JsonNum (gi_installationId (ai_base a))), (''appId'', JsonNum (gi_appId (ai_base a))),
        (''accountLogin'', JsonStr (gi_accountLogin (ai_base a))),
        (''accountType'', JsonStr (account_type_text (gi_accountType (ai_base a)))),
        (''repositorySelection'', JsonStr (selection_text (ai_repositorySelection a))),
        (''permissions'', JsonObj [(''issues'', string_or_null (ai_issues a)), (''metadata'', string_or_null (ai_metadata a))]),
        (''verifiedBy'', JsonStr verifiedBy)])"

section \<open>GithubAppInstallationService\<close>

definition GITHUB_APP_INSUFFICIENT_PERMISSIONS_MESSAGE :: string where
  "GITHUB_APP_INSUFFICIENT_PERMISSIONS_MESSAGE =
     ''This installation has not granted Issues and Metadata read access to the GitHub App''"

definition GITHUB_APP_REASON_UNINSTALLED :: string where "GITHUB_APP_REASON_UNINSTALLED = ''uninstalled''"

definition GITHUB_APP_REASON_SUSPENDED :: string where "GITHUB_APP_REASON_SUSPENDED = ''suspended''"

datatype installation_check =
    CheckOk github_app_installation
  | CheckNotFound
  | CheckSuspended
  | CheckInsufficientPermissions
  | CheckRateLimited "int option"
  | CheckUnavailable

definition classifyFailure :: "nat \<Rightarrow> rate_limit_fields \<Rightarrow> int \<Rightarrow> installation_check" where
  "classifyFailure status f now =
     (if status = 404 then CheckNotFound
      else if isRateLimited status f then CheckRateLimited (retryAfterSecondsFor f now)
      else CheckUnavailable)"

definition classifyLookup :: "installation_response \<Rightarrow> int \<Rightarrow> int \<Rightarrow> installation_check" where
  "classifyLookup answer appId now =
     (if ar_status answer \<noteq> 200 then classifyFailure (ar_status answer) (ar_rateLimit answer) now
      else case ar_installation answer of
             None \<Rightarrow> CheckUnavailable
           | Some a \<Rightarrow>
               if gi_appId (ai_base a) \<noteq> appId then CheckNotFound
               else if ai_suspended a then CheckSuspended
               else if hasRequiredPermissions a then CheckOk a else CheckInsufficientPermissions)"

definition classifyMint :: "nat \<Rightarrow> rate_limit_fields \<Rightarrow> int \<Rightarrow> installation_check \<Rightarrow> installation_check" where
  "classifyMint status f now looked =
     (if status = 201 then looked
      else if status = 403 \<and> \<not> isRateLimited status f then CheckSuspended
      else classifyFailure status f now)"

definition installation_check :: "web \<Rightarrow> app_keys \<Rightarrow> github_app_config \<Rightarrow> int \<Rightarrow> int \<Rightarrow> installation_check" where
  "installation_check W K config now i =
     (let jwt = mintAppJwt W K (ga_privateKey config) (ga_clientId config) now
      in case getAppInstallation W jwt i of
           Inl _ \<Rightarrow> CheckUnavailable
         | Inr lookup \<Rightarrow>
             (case classifyLookup lookup (ga_appId config) now of
                CheckOk a \<Rightarrow>
                  (case createInstallationToken W jwt i of
                     Inl _ \<Rightarrow> CheckUnavailable
                   | Inr (status, f) \<Rightarrow> classifyMint status f now (CheckOk a))
              | looked \<Rightarrow> looked))"

definition installation_verify ::
  "web \<Rightarrow> app_keys \<Rightarrow> github_app_config \<Rightarrow> int \<Rightarrow> int \<Rightarrow> credential_error + github_app_installation" where
  "installation_verify W K config now i =
     (case installation_check W K config now i of
        CheckOk a \<Rightarrow> Inr a
      | CheckNotFound \<Rightarrow> Inl InstallationNotAccessibleError
      | CheckSuspended \<Rightarrow> Inl InstallationSuspendedError
      | CheckInsufficientPermissions \<Rightarrow> Inl (InsufficientPermissionsError GITHUB_APP_INSUFFICIENT_PERMISSIONS_MESSAGE)
      | CheckRateLimited n \<Rightarrow> Inl (GithubRateLimitedError n)
      | CheckUnavailable \<Rightarrow> Inl GithubUnavailableError)"

definition installation_probe ::
  "web \<Rightarrow> app_keys \<Rightarrow> github_app_config \<Rightarrow> int \<Rightarrow> int \<Rightarrow> test_outcome + github_app_installation" where
  "installation_probe W K config now i =
     (case installation_check W K config now i of
        CheckOk a \<Rightarrow> Inr a
      | CheckNotFound \<Rightarrow> Inl (OutcomeInvalid GITHUB_APP_REASON_UNINSTALLED)
      | CheckSuspended \<Rightarrow> Inl (OutcomeInvalid GITHUB_APP_REASON_SUSPENDED)
      | CheckInsufficientPermissions \<Rightarrow> Inl (OutcomeInvalid STATUS_REASON_INSUFFICIENT_PERMISSIONS)
      | CheckRateLimited n \<Rightarrow> Inl (OutcomeTransient TransientRateLimited n)
      | CheckUnavailable \<Rightarrow> Inl (OutcomeTransient TransientUnavailable None))"

section \<open>GithubAppUserVerificationService\<close>

definition GITHUB_APP_USER_TOKEN_PREFIX :: string where "GITHUB_APP_USER_TOKEN_PREFIX = ''ghu_''"

definition GITHUB_APP_MAX_INSTALLATION_PAGES :: nat where "GITHUB_APP_MAX_INSTALLATION_PAGES = 10"

record verified_github_user =
  vu_login :: string
  vu_installations :: "github_user_installation list"

definition isUserToken :: "string \<Rightarrow> bool" where
  "isUserToken token \<longleftrightarrow> prefix GITHUB_APP_USER_TOKEN_PREFIX token \<and> length token > length GITHUB_APP_USER_TOKEN_PREFIX"

definition app_revoke :: "web \<Rightarrow> github_app_config option \<Rightarrow> string \<Rightarrow> http_call list" where
  "app_revoke W config token =
     (case config of
        None \<Rightarrow> []
      | Some c \<Rightarrow> [revokeOauthToken_call W (ga_clientId c) (ga_clientSecret c) token])"

definition app_exchangeErrorFor :: "oauth_code_exchange_response \<Rightarrow> int \<Rightarrow> credential_error" where
  "app_exchangeErrorFor answer now =
     (if isRateLimited (xr_status answer) (xr_rateLimit answer)
      then GithubRateLimitedError (retryAfterSecondsFor (xr_rateLimit answer) now)
      else if xr_status answer \<noteq> 200 then GithubUnavailableError
      else if xr_error answer = Some ''bad_verification_code'' then CredentialInvalidError
      else GithubUnavailableError)"

definition app_exchange_request :: "github_app_config \<Rightarrow> string \<Rightarrow> oauth_code_exchange_request" where
  "app_exchange_request config code =
     \<lparr>cx_clientId = ga_clientId config, cx_clientSecret = ga_clientSecret config, cx_code = code,
      cx_codeVerifier = None, cx_redirectUri = ga_callbackUrl config\<rparr>"

definition app_exchange ::
  "web \<Rightarrow> github_app_config \<Rightarrow> int \<Rightarrow> string \<Rightarrow> (credential_error + string) \<times> http_call list" where
  "app_exchange W config now code =
     (let q = app_exchange_request config code; call = exchangeOauthCode_call W q
      in case exchangeOauthCode W q of
           Inl _ \<Rightarrow> (Inl GithubUnavailableError, [call])
         | Inr answer \<Rightarrow>
             (case xr_accessToken answer of
                Some token \<Rightarrow>
                  if xr_status answer = 200 \<and> isUserToken token then (Inr token, [call])
                  else (Inl (app_exchangeErrorFor answer now), call # app_revoke W (Some config) token)
              | None \<Rightarrow> (Inl (app_exchangeErrorFor answer now), [call])))"

definition app_loginOf :: "web \<Rightarrow> int \<Rightarrow> string \<Rightarrow> credential_error + string" where
  "app_loginOf W now token =
     (case fetchGithubUser W token now of
        UserOk login _ \<Rightarrow> if isGithubLogin (Some login) then Inr login else Inl GithubUnavailableError
      | UserUnauthorized \<Rightarrow> Inl CredentialInvalidError
      | UserRateLimited n \<Rightarrow> Inl (GithubRateLimitedError n)
      | UserUnavailable \<Rightarrow> Inl GithubUnavailableError)"

definition pageErrorFor :: "installations_page \<Rightarrow> int \<Rightarrow> credential_error" where
  "pageErrorFor page now =
     (if ip_status page = 401 then CredentialInvalidError
      else if isRateLimited (ip_status page) (ip_rateLimit page)
      then GithubRateLimitedError (retryAfterSecondsFor (ip_rateLimit page) now)
      else GithubUnavailableError)"

definition fetchPage ::
  "web \<Rightarrow> int \<Rightarrow> string \<Rightarrow> string option \<Rightarrow> credential_error + (github_user_installation list \<times> string option)" where
  "fetchPage W now token pageUrl =
     (case listUserInstallations W token pageUrl of
        Inl _ \<Rightarrow> Inl GithubUnavailableError
      | Inr page \<Rightarrow>
          (case ip_installations page of
             Some entries \<Rightarrow> if ip_status page = 200 then Inr (entries, ip_nextUrl page) else Inl (pageErrorFor page now)
           | None \<Rightarrow> Inl (pageErrorFor page now)))"

text \<open>
  The map of the loop, as its values in the order their ids were first inserted.  The filter of a
  page looks at what earlier pages found, so a later entry of the same page replaces the value.
\<close>

definition map_set :: "github_user_installation \<Rightarrow> github_user_installation list \<Rightarrow> github_user_installation list" where
  "map_set x fs =
     (if gi_installationId x \<in> gi_installationId ` set fs
      then map (\<lambda>y. if gi_installationId y = gi_installationId x then x else y) fs else fs @ [x])"

definition add_entries :: "int \<Rightarrow> github_user_installation list \<Rightarrow> github_user_installation list
     \<Rightarrow> github_user_installation list" where
  "add_entries appId entries found =
     fold map_set
       (filter (\<lambda>x. gi_appId x = appId \<and> gi_installationId x \<notin> gi_installationId ` set found) entries) found"

primrec installations_pages ::
  "web \<Rightarrow> int \<Rightarrow> string \<Rightarrow> int \<Rightarrow> nat \<Rightarrow> string option \<Rightarrow> github_user_installation list
     \<Rightarrow> credential_error + github_user_installation list" where
  "installations_pages W now token appId 0 pageUrl found = Inr found"
| "installations_pages W now token appId (Suc n) pageUrl found =
     (case fetchPage W now token pageUrl of
        Inl x \<Rightarrow> Inl x
      | Inr (entries, nextUrl) \<Rightarrow>
          (let found1 = add_entries appId entries found
           in case nextUrl of
                None \<Rightarrow> Inr found1
              | Some u \<Rightarrow> installations_pages W now token appId n (Some u) found1))"

definition installationsOf :: "web \<Rightarrow> int \<Rightarrow> string \<Rightarrow> int \<Rightarrow> credential_error + github_user_installation list" where
  "installationsOf W now token appId =
     installations_pages W now token appId GITHUB_APP_MAX_INSTALLATION_PAGES None []"

definition user_verify ::
  "web \<Rightarrow> github_app_config \<Rightarrow> int \<Rightarrow> string \<Rightarrow> (credential_error + verified_github_user) \<times> http_call list" where
  "user_verify W config now code =
     (case app_exchange W config now code of
        (Inl x, calls) \<Rightarrow> (Inl x, calls)
      | (Inr token, calls) \<Rightarrow>
          ((case app_loginOf W now token of
              Inl x \<Rightarrow> Inl x
            | Inr login \<Rightarrow>
                (case installationsOf W now token (ga_appId config) of
                   Inl x \<Rightarrow> Inl x
                 | Inr installations \<Rightarrow> Inr \<lparr>vu_login = login, vu_installations = installations\<rparr>)),
           calls @ app_revoke W (Some config) token))"

end
