(* ===== verification/Github_App.thy ===== *)
theory Github_App
  imports Oauth_App Github_App_Client
begin

text \<open>
  The GitHub App type (\<^verbatim>\<open>integrations/types/github-app/\<close>): strategy, store, redirect flow, selection
  and controller.  \<open>race\<close> is what commits between the read and the delete of a state, \<open>race2\<close> what
  commits while GitHub is called.  The comparison of account logins by \<^verbatim>\<open>localeCompare\<close> is the order
  of their lower-case characters: a login holds only letters, digits and hyphens.
\<close>

section \<open>GithubAppStrategy\<close>

definition validateInstallation ::
  "web \<Rightarrow> app_keys \<Rightarrow> github_app_config \<Rightarrow> int \<Rightarrow> int \<Rightarrow> string \<Rightarrow> exn + validated_credential" where
  "validateInstallation W K config now i verifiedBy =
     (case installation_verify W K config now i of
        Inl x \<Rightarrow> Inl (CredentialExn x)
      | Inr a \<Rightarrow>
          (case buildGithubAppMetadata a verifiedBy of
             Inl x \<Rightarrow> Inl x
           | Inr metadata \<Rightarrow>
               Inr \<lparr>vc_secret = githubAppPayload (gi_installationId (ai_base a)),
                    vc_githubLogin = gi_accountLogin (ai_base a), vc_expiresAt = None, vc_metadata = metadata\<rparr>))"

definition app_test ::
  "web \<Rightarrow> app_keys \<Rightarrow> github_app_config option \<Rightarrow> int \<Rightarrow> json \<Rightarrow> integration_view \<Rightarrow> exn + test_outcome" where
  "app_test W K config now secret current =
     (case config of
        None \<Rightarrow> Inr (OutcomeTransient TransientUnavailable None)
      | Some c \<Rightarrow>
          (case installation_probe W K c now (installationIdOf secret) of
             Inl outcome \<Rightarrow> Inr outcome
           | Inr a \<Rightarrow>
               (let verifiedBy = json_string (json_field ''verifiedBy'' (iv_metadata current));
                    login = gi_accountLogin (ai_base a)
                in case buildGithubAppMetadata a (if isGithubLogin verifiedBy then the verifiedBy else login) of
                     Inl x \<Rightarrow> Inl x
                   | Inr metadata \<Rightarrow> Inr (OutcomeActive login None metadata))))"

definition app_strategy :: "web \<Rightarrow> app_keys \<Rightarrow> github_app_config option \<Rightarrow> int \<Rightarrow> strategy" where
  "app_strategy W K config now =
     \<lparr>st_type = ''github_app'', st_flows = \<lparr>fl_credentialPaste = False, fl_redirect = True\<rparr>,
      st_isEnabled = Some (config \<noteq> None), st_parseCredential = (\<lambda>_. Inl flowUnsupported),
      st_parseSecretPayload = parseGithubAppPayload, st_validate = (\<lambda>_. Inl flowUnsupported),
      st_test = app_test W K config now, st_describeMetadata = describeGithubAppMetadata,
      st_mask = (\<lambda>secret. maskInstallationId (installationIdOf secret)), st_onDelete = (\<lambda>_ _. Inr ())\<rparr>"

section \<open>GithubAppStore\<close>

definition app_precheck :: "env \<Rightarrow> int \<Rightarrow> nat \<Rightarrow> github_app_state_target \<Rightarrow> integ_state \<Rightarrow> exn + unit" where
  "app_precheck e now userId target s =
     (case (case target of AppReplace uuid \<Rightarrow> map_sum id (\<lambda>_. ()) (find_of_type e ''github_app'' userId uuid s)
                         | AppCreate _ \<Rightarrow> Inr ()) of
        Inl x \<Rightarrow> Inl x
      | Inr _ \<Rightarrow>
          (case assertNotLocked now userId s of
             Inl x \<Rightarrow> Inl x
           | Inr _ \<Rightarrow> (case target of AppCreate label \<Rightarrow> assertCreatable e userId label s | AppReplace _ \<Rightarrow> Inr ())))"

definition app_save ::
  "env \<Rightarrow> crypto \<Rightarrow> integrations_key \<Rightarrow> strategy \<Rightarrow> ictx \<Rightarrow> nat \<Rightarrow> github_app_state_target
     \<Rightarrow> validated_credential \<Rightarrow> integ_state \<Rightarrow> (oauth_app_callback_result, integ_state) outcome" where
  "app_save e C ks st ic userId target validated s =
     (case target of
        AppCreate label \<Rightarrow> flow_create e C ks st ic userId label validated s
      | AppReplace uuid \<Rightarrow>
          (case findOwned e userId uuid s of
             Inl x \<Rightarrow> (Inl x, s)
           | Inr row \<Rightarrow>
               (case cred_seal C ks (ic_iv ic) st validated (ig_uuid row) of
                  Inl x \<Rightarrow> (Inl x, s)
                | Inr x \<Rightarrow>
                    (case updateOwned e (ic_now ic) row (fresh_columns (ic_now ic) x) s of
                       (Inl y, s1) \<Rightarrow> (Inl y, s1)
                     | (Inr updated, s1) \<Rightarrow>
                         (Inr \<lparr>cr_created = False, cr_integration = respond e ks (ic_now ic) updated\<rparr>, s1)))))"

section \<open>GithubAppSelectionService\<close>

record selection_entry =
  se_installationId :: int
  se_accountLogin :: string
  se_accountType :: github_account_type

record github_app_selection =
  sl_state :: string
  sl_installations :: "selection_entry list"

text \<open>The map's values, the first entry of an id kept; then sorted and cut.\<close>

definition add_selection_entry :: "github_user_installation \<Rightarrow> selection_entry list \<Rightarrow> selection_entry list" where
  "add_selection_entry x es =
     (if gi_installationId x \<in> se_installationId ` set es then es
      else es @ [\<lparr>se_installationId = gi_installationId x, se_accountLogin = gi_accountLogin x,
                  se_accountType = gi_accountType x\<rparr>])"

definition selectionEntries :: "github_user_installation list \<Rightarrow> selection_entry list" where
  "selectionEntries installations =
     take GITHUB_APP_MAX_CANDIDATES
       (sort_key (\<lambda>x. js_lower (se_accountLogin x))
         (sort_key se_installationId (fold add_selection_entry installations [])))"

definition selection_offer ::
  "env \<Rightarrow> ictx \<Rightarrow> nat \<Rightarrow> github_app_state_target \<Rightarrow> github_user_installation list \<Rightarrow> string \<Rightarrow> integ_state
     \<Rightarrow> (github_app_selection, integ_state) outcome" where
  "selection_offer e ic userId target installations verifiedBy s =
     (let entries = selectionEntries installations
      in case issueSelect e ic userId target (map se_installationId entries) verifiedBy s of
           (Inl x, s1) \<Rightarrow> (Inl x, s1)
         | (Inr st, s1) \<Rightarrow> (Inr \<lparr>sl_state = st, sl_installations = entries\<rparr>, s1))"

definition app_enabledConfig :: "github_app_config option \<Rightarrow> exn + github_app_config" where
  "app_enabledConfig config = (case config of None \<Rightarrow> Inl (NotFound ''Not Found'') | Some c \<Rightarrow> Inr c)"

record github_app_select_dto =
  gs_select_state :: string
  gs_select_installationId :: int

definition app_select ::
  "env \<Rightarrow> crypto \<Rightarrow> integrations_key \<Rightarrow> web \<Rightarrow> app_keys \<Rightarrow> github_app_config option \<Rightarrow> (integ_state \<Rightarrow> integ_state)
     \<Rightarrow> (integ_state \<Rightarrow> integ_state) \<Rightarrow> ictx \<Rightarrow> nat \<Rightarrow> github_app_select_dto \<Rightarrow> integ_state
     \<Rightarrow> (oauth_app_callback_result, integ_state) outcome" where
  "app_select e C ks W K config race race2 ic userId dto s =
     (case app_enabledConfig config of
        Inl x \<Rightarrow> (Inl x, s)
      | Inr c \<Rightarrow>
          (case app_consume e race (ic_now ic) userId (gs_select_state dto) StageSelect s of
             (Inl x, s1) \<Rightarrow> (Inl x, s1)
           | (Inr consumed, s1) \<Rightarrow>
               (case app_precheck e (ic_now ic) userId (cg_target consumed) s1 of
                  Inl x \<Rightarrow> (Inl x, s1)
                | Inr _ \<Rightarrow>
                    (let run = (if gs_select_installationId dto \<notin> set (cg_candidates consumed)
                            then Inl (CredentialExn InstallationNotAccessibleError)
                            else validateInstallation W K c (ic_now ic) (gs_select_installationId dto)
                                   (the (cg_verifiedBy consumed)))
                     in case attempt e (ic_now ic) race2 userId run (\<lambda>_. True) s1 of
                          (Inl x, s2) \<Rightarrow> (Inl x, s2)
                        | (Inr validated, s2) \<Rightarrow>
                            app_save e C ks (app_strategy W K config (ic_now ic)) ic userId (cg_target consumed)
                              validated s2))))"

section \<open>GithubAppFlowService\<close>

datatype github_app_mode = ModeInstall | ModeConnect

record github_app_start_dto =
  gd_target :: start_redirect_dto
  gd_mode :: "github_app_mode option"

record github_app_callback_dto =
  gc_code :: string
  gc_state :: string
  gc_installationId :: "int option"

datatype github_app_callback_result =
    ResultStored oauth_app_callback_result
  | ResultSelection github_app_selection

datatype verified =
    Validated validated_credential
  | Several verified_github_user

definition githubAppRedirectUrl :: "web \<Rightarrow> github_app_config \<Rightarrow> github_app_mode \<Rightarrow> string \<Rightarrow> string" where
  "githubAppRedirectUrl W config mode st =
     (case mode of
        ModeInstall \<Rightarrow> ''https://github.com/apps/'' @ wb_encodeURIComponent W (ga_slug config) @ ''/installations/new?''
          @ wb_urlencode W [(''state'', st)]
      | ModeConnect \<Rightarrow> ''https://github.com/login/oauth/authorize?'' @ wb_urlencode W
          [(''client_id'', ga_clientId config), (''redirect_uri'', ga_callbackUrl config), (''state'', st),
           (''allow_signup'', ''false''), (''prompt'', ''select_account'')])"

definition app_start ::
  "env \<Rightarrow> web \<Rightarrow> github_app_config option \<Rightarrow> ictx \<Rightarrow> nat \<Rightarrow> github_app_start_dto \<Rightarrow> integ_state \<Rightarrow> (string, integ_state) outcome" where
  "app_start e W config ic userId dto s =
     (case app_enabledConfig config of
        Inl x \<Rightarrow> (Inl x, s)
      | Inr c \<Rightarrow>
          (case exactlyOneTarget (sd_label (gd_target dto)) (sd_integrationId (gd_target dto)) of
             Inl x \<Rightarrow> (Inl x, s)
           | Inr chosen \<Rightarrow>
               (let target = (case chosen of TargetLabel l \<Rightarrow> AppCreate l | TargetIntegration u \<Rightarrow> AppReplace u)
                in case app_precheck e (ic_now ic) userId target s of
                     Inl x \<Rightarrow> (Inl x, s)
                   | Inr _ \<Rightarrow>
                       (case issueRedirect e ic userId target s of
                          (Inl x, s1) \<Rightarrow> (Inl x, s1)
                        | (Inr st, s1) \<Rightarrow>
                            (Inr (githubAppRedirectUrl W c
                               (case gd_mode dto of Some m \<Rightarrow> m | None \<Rightarrow> ModeInstall) st), s1)))))"

definition pickInstallation :: "github_user_installation list \<Rightarrow> int option \<Rightarrow> exn + int option" where
  "pickInstallation installations claimed =
     (case claimed of
        Some i \<Rightarrow>
          if \<not> list_ex (\<lambda>x. gi_installationId x = i) installations then Inl (CredentialExn InstallationNotAccessibleError)
          else Inr (Some i)
      | None \<Rightarrow>
          (case installations of
             [] \<Rightarrow> Inl (CredentialExn InstallationNotAccessibleError)
           | [x] \<Rightarrow> Inr (Some (gi_installationId x))
           | _ \<Rightarrow> Inr None))"

definition app_verify ::
  "web \<Rightarrow> app_keys \<Rightarrow> github_app_config \<Rightarrow> int \<Rightarrow> github_app_callback_dto \<Rightarrow> (exn + verified) \<times> http_call list" where
  "app_verify W K config now dto =
     (case user_verify W config now (gc_code dto) of
        (Inl x, calls) \<Rightarrow> (Inl (CredentialExn x), calls)
      | (Inr user, calls) \<Rightarrow>
          (case pickInstallation (vu_installations user) (gc_installationId dto) of
             Inl x \<Rightarrow> Inl x
           | Inr None \<Rightarrow> Inr (Several user)
           | Inr (Some i) \<Rightarrow>
               (case validateInstallation W K config now i (vu_login user) of
                  Inl x \<Rightarrow> Inl x
                | Inr v \<Rightarrow> Inr (Validated v)), calls))"

text \<open>What the callback does with the result of its verification.\<close>

definition app_callback_result ::
  "env \<Rightarrow> crypto \<Rightarrow> integrations_key \<Rightarrow> web \<Rightarrow> app_keys \<Rightarrow> github_app_config option \<Rightarrow> ictx \<Rightarrow> nat
     \<Rightarrow> github_app_state_target \<Rightarrow> (verified, integ_state) outcome \<Rightarrow> (github_app_callback_result, integ_state) outcome" where
  "app_callback_result e C ks W K config ic userId target got =
     (case got of
        (Inl x, s) \<Rightarrow> (Inl x, s)
      | (Inr (Several user), s) \<Rightarrow>
          (case selection_offer e ic userId target (vu_installations user) (vu_login user) s of
             (Inl x, s1) \<Rightarrow> (Inl x, s1)
           | (Inr sel, s1) \<Rightarrow> (Inr (ResultSelection sel), s1))
      | (Inr (Validated v), s) \<Rightarrow>
          (case app_save e C ks (app_strategy W K config (ic_now ic)) ic userId target v s of
             (Inl x, s1) \<Rightarrow> (Inl x, s1)
           | (Inr stored, s1) \<Rightarrow> (Inr (ResultStored stored), s1)))"

definition app_callback ::
  "env \<Rightarrow> crypto \<Rightarrow> integrations_key \<Rightarrow> web \<Rightarrow> app_keys \<Rightarrow> github_app_config option \<Rightarrow> (integ_state \<Rightarrow> integ_state)
     \<Rightarrow> (integ_state \<Rightarrow> integ_state) \<Rightarrow> ictx \<Rightarrow> nat \<Rightarrow> github_app_callback_dto \<Rightarrow> integ_state
     \<Rightarrow> (github_app_callback_result, integ_state) outcome \<times> http_call list" where
  "app_callback e C ks W K config race race2 ic userId dto s =
     (case app_enabledConfig config of
        Inl x \<Rightarrow> ((Inl x, s), [])
      | Inr c \<Rightarrow>
          (case app_consume e race (ic_now ic) userId (gc_state dto) StageRedirect s of
             (Inl x, s1) \<Rightarrow> ((Inl x, s1), [])
           | (Inr consumed, s1) \<Rightarrow>
               (case app_precheck e (ic_now ic) userId (cg_target consumed) s1 of
                  Inl x \<Rightarrow> ((Inl x, s1), [])
                | Inr _ \<Rightarrow>
                    (case app_verify W K c (ic_now ic) dto of
                       (run, made) \<Rightarrow>
                         (app_callback_result e C ks W K config ic userId (cg_target consumed)
                            (attempt e (ic_now ic) race2 userId run
                               (\<lambda>r. case r of Validated _ \<Rightarrow> True | Several _ \<Rightarrow> False) s1),
                          if fst (reserveAttempt e (ic_now ic) userId s1) then made else [])))))"

section \<open>GithubAppController\<close>

definition github_app_guard :: "github_app_config option \<Rightarrow> exn + bool" where
  "github_app_guard config = (if config = None then Inl (NotFound ''Not Found'') else Inr True)"

datatype app_callback_body =
    BodyIntegration integration_response
  | BodySelection github_app_selection

definition stored_answer :: "oauth_app_callback_result \<Rightarrow> nat \<times> integration_response" where
  "stored_answer r = (if cr_created r then 201 else 200, cr_integration r)"

definition app_start_route ::
  "env \<Rightarrow> web \<Rightarrow> github_app_config option \<Rightarrow> ictx \<Rightarrow> nat \<Rightarrow> github_app_start_dto \<Rightarrow> integ_state \<Rightarrow> (string, integ_state) outcome" where
  "app_start_route e W config ic userId dto s =
     (case github_app_guard config of Inl x \<Rightarrow> (Inl x, s) | Inr _ \<Rightarrow> app_start e W config ic userId dto s)"

definition app_callback_route ::
  "env \<Rightarrow> crypto \<Rightarrow> integrations_key \<Rightarrow> web \<Rightarrow> app_keys \<Rightarrow> github_app_config option \<Rightarrow> (integ_state \<Rightarrow> integ_state)
     \<Rightarrow> (integ_state \<Rightarrow> integ_state) \<Rightarrow> ictx \<Rightarrow> nat \<Rightarrow> github_app_callback_dto \<Rightarrow> integ_state
     \<Rightarrow> (nat \<times> app_callback_body, integ_state) outcome \<times> http_call list" where
  "app_callback_route e C ks W K config race race2 ic userId dto s =
     (case github_app_guard config of
        Inl x \<Rightarrow> ((Inl x, s), [])
      | Inr _ \<Rightarrow>
          map_prod (body_outcome (\<lambda>r. case r of
              ResultSelection sel \<Rightarrow> (200, BodySelection sel)
            | ResultStored stored \<Rightarrow> map_prod id BodyIntegration (stored_answer stored))) id
            (app_callback e C ks W K config race race2 ic userId dto s))"

definition app_select_route ::
  "env \<Rightarrow> crypto \<Rightarrow> integrations_key \<Rightarrow> web \<Rightarrow> app_keys \<Rightarrow> github_app_config option \<Rightarrow> (integ_state \<Rightarrow> integ_state)
     \<Rightarrow> (integ_state \<Rightarrow> integ_state) \<Rightarrow> ictx \<Rightarrow> nat \<Rightarrow> github_app_select_dto \<Rightarrow> integ_state
     \<Rightarrow> (nat \<times> integration_response, integ_state) outcome" where
  "app_select_route e C ks W K config race race2 ic userId dto s =
     (case github_app_guard config of
        Inl x \<Rightarrow> (Inl x, s)
      | Inr _ \<Rightarrow> body_outcome stored_answer (app_select e C ks W K config race race2 ic userId dto s))"

end
