(* ===== verification/Oauth_Properties.thy ===== *)
theory Oauth_Properties
  imports Oauth_App
begin

text \<open>
  What the OAuth App flow promises about the tokens GitHub issues to it: a token the code exchange
  returned is either in the integration the caller is answered, encrypted, or was sent back to
  GitHub for revocation.
\<close>

section \<open>Sealed credentials\<close>

lemma sealed_row_decrypts:
  assumes "crypto_ok C" and "keyset_ok ks" and "cred_seal C ks iv st v uuid = Inr x"
    and "cr_parse C (cr_stringify C (vc_secret v)) = Some (vc_secret v)"
    and "encryptedColumnsOf r = (sc_encrypted x, \<lparr>bd_uuid = uuid, bd_type = st_type st\<rparr>)"
  shows "decryptRow C ks st r = st_parseSecretPayload st (vc_secret v)"
proof -
  have "sc_encrypted x = encrypt C ks iv (vc_secret v) \<lparr>bd_uuid = uuid, bd_type = st_type st\<rparr>"
    using assms(3) by (auto simp: cred_seal_def Let_def split: sum.splits)
  moreover have "map_of (ik_byId ks) (currentKeyId ks) = Some (ke_key (ik_current ks))"
    using assms(2) unfolding keyset_ok_def keys_ok_def currentKeyId_def by (metis list.set_intros(1))
  ultimately have "decrypt C ks (sc_encrypted x) \<lparr>bd_uuid = uuid, bd_type = st_type st\<rparr> = Some (vc_secret v)"
    by (simp add: decrypt_def encrypt_def decryptBuffer_encryptBuffer [OF assms(1,2)] assms(4))
  then show ?thesis by (simp add: decryptRow_def assms(5))
qed

lemma columns_created [simp]:
  "encryptedColumnsOf (created_integration ic i dto l t x n)
     = (sc_encrypted x, \<lparr>bd_uuid = ic_uuid ic, bd_type = t\<rparr>)"
  "ig_userId (created_integration ic i dto l t x n) = i" "ig_type (created_integration ic i dto l t x n) = t"
  by (simp_all add: encryptedColumnsOf_def created_integration_def apply_sealed_def set_secret_def)

lemma columns_fresh [simp]:
  "encryptedColumnsOf ((fresh_columns now x r)\<lparr>ig_updatedAt := now'\<rparr>)
     = (sc_encrypted x, \<lparr>bd_uuid = ig_uuid r, bd_type = ig_type r\<rparr>)"
  "ig_userId (fresh_columns now x r) = ig_userId r" "ig_type (fresh_columns now x r) = ig_type r"
  by (simp_all add: encryptedColumnsOf_def fresh_columns_def apply_sealed_def set_secret_def)

lemma updateOwned_stored:
  assumes "updateOwned e now row f s = (Inr r, s')" and "row \<in> set (rows (integrations s))"
  shows "r \<in> set (rows (integrations s'))" and "r = (f row)\<lparr>ig_updatedAt := now\<rparr>"
  using assms by (auto elim!: updateOwned_cases simp: update_where_def)

lemma insertWithinCap_stored:
  assumes "insertWithinCap e i mk n s = (Inr r, s')"
  shows "r \<in> set (rows (integrations s'))" and "\<exists>k. r = mk k"
  using assms by (auto elim!: insertWithinCap_cases simp: insert_row_def)

section \<open>Where the token of a code exchange goes\<close>

lemma oauth_tokenOf_payload [simp]: "oauthAppTokenOf (oauth_payload t) = t"
  by (simp add: oauthAppTokenOf_def oauth_payload_def json_field_def)

lemma parse_oauth_payload: "isOauthAppToken t \<Longrightarrow> parseOauthAppPayload (oauth_payload t) = Some (oauth_payload t)"
  by (simp add: parseOauthAppPayload_def oauth_payload_def json_field_def)

lemma oauth_revoke_own [simp]:
  "oauth_revoke W (Some c) t (Some (oa_clientId c)) = [revokeOauthToken_call W (oa_clientId c) (oa_clientSecret c) t]"
  by (simp add: oauth_revoke_def)

text \<open>What commits meanwhile keeps the type of an integration it does not delete.\<close>

definition keeps_types :: "env \<Rightarrow> nat \<Rightarrow> (integ_state \<Rightarrow> integ_state) \<Rightarrow> bool" where
  "keeps_types e i race \<longleftrightarrow> (\<forall>s u r r'. findOwned e i u s = Inr r \<and> findOwned e i u (race s) = Inr r'
     \<longrightarrow> ig_type r' = ig_type r)"

lemma findOwned_cong: "integrations s = integrations s' \<Longrightarrow> findOwned e i u s = findOwned e i u s'"
  by (simp add: findOwned_def)

lemma reserveAttempt_integrations [simp]: "integrations (snd (reserveAttempt e now i s)) = integrations s"
  by (simp add: reserveAttempt_def Let_def)

lemma releaseAttempt_integrations [simp]: "integrations (releaseAttempt i s) = integrations s"
  by (simp add: releaseAttempt_def)

lemma cred_reset_integrations [simp]: "integrations (cred_reset i s) = integrations s"
  by (simp add: cred_reset_def)

lemma cred_validate_Inr:
  assumes "cred_validate e now race i st secret s = (Inr v, s')"
  shows "fst (reserveAttempt e now i s)" and "st_validate st secret = Inr v"
    and "integrations s' = integrations (race (snd (reserveAttempt e now i s)))"
  using assms by (auto simp: cred_validate_def attempt_def Let_def split: prod.splits bool.splits sum.splits)

text \<open>The calls of a validation: the exchange, then revocations of what it returned.\<close>

lemma oauth_validate_calls:
  assumes "oauth_validate W (Some c) now code verifier = (res, calls)" and "exchangeOauthCode_call W q \<in> set calls"
    and "exchangeOauthCode W q = Inr a" and "xr_accessToken a = Some t"
  shows "(\<exists>v. res = Inr v \<and> vc_secret v = oauth_payload t \<and> isOauthAppToken t
            \<and> oauth_clientIdOf (vc_metadata v) = Some (oa_clientId c))
    \<or> revokeOauthToken_call W (oa_clientId c) (oa_clientSecret c) t \<in> set calls"
proof -
  let ?q = "oauth_exchange_request c code verifier"
  have "exchangeOauthCode_call W q \<noteq> revokeOauthToken_call W i p u" for i p u
    by (simp add: exchangeOauthCode_call_def revokeOauthToken_call_def Let_def)
  with assms(1,2) have "exchangeOauthCode_call W q = exchangeOauthCode_call W ?q"
    by (auto simp: oauth_validate_def oauth_exchange_def Let_def
        split: sum.splits prod.splits option.splits if_splits)
  with assms(3) have q: "exchangeOauthCode W ?q = Inr a" by (simp add: exchangeOauthCode_def)
  have "oauth_clientIdOf (buildOauthAppMetadata h i) = Some i" for h i
    by (simp add: oauth_clientIdOf_def buildOauthAppMetadata_def json_field_def json_string_def)
  with assms(1,4) q show ?thesis
    by (auto simp: oauth_validate_def oauth_exchange_def oauth_identify_def Let_def
        split: sum.splits prod.splits option.splits if_splits github_user_answer.splits)
qed

text \<open>Storing what was validated, or handing it back.\<close>

lemma oauth_strategy_simps [simp]:
  "st_type (oauth_strategy W config now) = ''oauth_app''"
  "st_parseSecretPayload (oauth_strategy W config now) = parseOauthAppPayload"
  by (simp_all add: oauth_strategy_def)

definition holds_token :: "crypto \<Rightarrow> integrations_key \<Rightarrow> strategy \<Rightarrow> nat \<Rightarrow> json \<Rightarrow> integ_state \<Rightarrow> bool" where
  "holds_token C ks st i payload s \<longleftrightarrow>
     (\<exists>r \<in> set (rows (integrations s)). ig_userId r = i \<and> ig_type r = st_type st \<and> decryptRow C ks st r = Some payload)"

lemma flow_create_holds:
  assumes "crypto_ok C" and "keyset_ok ks" and "cr_parse C (cr_stringify C (vc_secret v)) = Some (vc_secret v)"
    and "st_parseSecretPayload st (vc_secret v) = Some p"
    and "flow_create e C ks st ic i label v s = (Inr b, s')"
  shows "holds_token C ks st i p s'"
proof -
  from assms(5) obtain x r where x: "cred_seal C ks (ic_iv ic) st v (ic_uuid ic) = Inr x"
    and "insertWithinCap e i (created_integration ic i (flow_dto (st_type st) label) (normalizeLabel label) (st_type st) x)
           (maxPerUser e) s = (Inr r, s')"
    by (auto simp: flow_create_def split: sum.splits prod.splits)
  from insertWithinCap_stored [OF this(2)]
  have r: "r \<in> set (rows (integrations s'))" "encryptedColumnsOf r = (sc_encrypted x, \<lparr>bd_uuid = ic_uuid ic, bd_type = st_type st\<rparr>)"
    "ig_userId r = i" "ig_type r = st_type st" by auto
  from sealed_row_decrypts [OF assms(1,2) x assms(3) r(2)] r assms(4) show ?thesis
    by (auto simp: holds_token_def)
qed

lemma oauth_replace_holds:
  assumes "crypto_ok C" and "keyset_ok ks" and "cr_parse C (cr_stringify C (vc_secret v)) = Some (vc_secret v)"
    and "parseOauthAppPayload (vc_secret v) = Some p"
    and "\<And>row. findOwned e i u s = Inr row \<Longrightarrow> ig_type row = ''oauth_app''"
    and "oauth_replace e C ks W config ic i u v s = ((Inr b, s'), calls)"
  shows "holds_token C ks (oauth_strategy W config (ic_now ic)) i p s'"
proof -
  let ?st = "oauth_strategy W config (ic_now ic)"
  from assms(6) obtain row x r where row: "findOwned e i u s = Inr row"
    and x: "cred_seal C ks (ic_iv ic) ?st v (ig_uuid row) = Inr x"
    and upd: "updateOwned e (ic_now ic) row (fresh_columns (ic_now ic) x) s = (Inr r, s')"
    by (auto simp: oauth_replace_def Let_def split: sum.splits prod.splits)
  from updateOwned_stored [OF upd findOwned_Inr(1) [OF row]] assms(5) [OF row] findOwned_Inr(2) [OF row]
  have r: "r \<in> set (rows (integrations s'))"
    "encryptedColumnsOf r = (sc_encrypted x, \<lparr>bd_uuid = ig_uuid row, bd_type = st_type ?st\<rparr>)"
    "ig_userId r = i" "ig_type r = ''oauth_app''" by auto
  from sealed_row_decrypts [OF assms(1,2) x assms(3) r(2)] r assms(4) show ?thesis
    by (auto simp: holds_token_def)
qed

lemma storeOrRevoke_cases:
  assumes "crypto_ok C" and "keyset_ok ks" and "cr_parse C (cr_stringify C (vc_secret v)) = Some (vc_secret v)"
    and "parseOauthAppPayload (vc_secret v) = Some p" and "oauth_clientIdOf (vc_metadata v) = Some (oa_clientId c)"
    and "\<And>u w row. consumed = ConsumedReplace u w \<Longrightarrow> findOwned e i u s = Inr row \<Longrightarrow> ig_type row = ''oauth_app''"
    and "storeOrRevoke e C ks W (Some c) ic i consumed v s = ((res, s'), calls)"
  shows "(\<exists>b. res = Inr b) \<and> holds_token C ks (oauth_strategy W (Some c) (ic_now ic)) i p s'
    \<or> (\<exists>x. res = Inl x)
       \<and> revokeOauthToken_call W (oa_clientId c) (oa_clientSecret c) (oauthAppTokenOf (vc_secret v)) \<in> set calls"
proof (cases res)
  case (Inl x)
  with assms(5,7) show ?thesis
    by (auto simp: storeOrRevoke_def Let_def split: consumed_oauth_state.splits sum.splits prod.splits)
next
  case (Inr b)
  show ?thesis
  proof (cases consumed)
    case (ConsumedCreate l w)
    with assms(7) Inr have "flow_create e C ks (oauth_strategy W (Some c) (ic_now ic)) ic i l v s = (Inr b, s')"
      by (auto simp: storeOrRevoke_def Let_def split: sum.splits prod.splits)
    from flow_create_holds [OF assms(1-3) _ this] assms(4) Inr show ?thesis by simp
  next
    case (ConsumedReplace u w)
    with assms(7) Inr obtain calls' where "oauth_replace e C ks W (Some c) ic i u v s = ((Inr b, s'), calls')"
      by (auto simp: storeOrRevoke_def Let_def split: sum.splits prod.splits)
    from oauth_replace_holds [OF assms(1-4) assms(6) [OF ConsumedReplace] this] Inr show ?thesis by simp
  qed
qed

lemma oauth_revoke_method: "k \<in> set (oauth_revoke W config t n) \<Longrightarrow> hc_method k = ''DELETE''"
  by (auto simp: oauth_revoke_def revokeOauthToken_call_def Let_def split: option.splits if_splits)

lemma storeOrRevoke_method:
  assumes "storeOrRevoke e C ks W config ic i consumed v s = (out, calls)" and "k \<in> set calls"
  shows "hc_method k = ''DELETE''"
  using assms
  by (auto simp: storeOrRevoke_def oauth_replace_def Let_def dest: oauth_revoke_method
      split: consumed_oauth_state.splits sum.splits prod.splits option.splits if_splits)

text \<open>The steps of a callback that called GitHub.\<close>

lemma oauth_callback_steps:
  assumes "oauth_callback e C ks W (Some c) race race2 ic i dto s = ((res, s'), calls)" and "calls \<noteq> []"
  obtains consumed s1 verifier vres made where
      "oauth_consume e race (ic_now ic) i (cb_state dto) s = (Inr consumed, s1)"
      "\<And>u w. consumed = ConsumedReplace u w \<Longrightarrow> \<exists>row. find_of_type e ''oauth_app'' i u s1 = Inr row"
      "oauth_validate W (Some c) (ic_now ic) (cb_code dto) verifier = (vres, made)"
      "\<And>v. vres = Inr v \<Longrightarrow> \<exists>s2 calls'. integrations s2 = integrations (race2 (snd (reserveAttempt e (ic_now ic) i s1)))
         \<and> storeOrRevoke e C ks W (Some c) ic i consumed v s2 = ((res, s'), calls') \<and> calls = made @ calls'"
      "\<And>x. vres = Inl x \<Longrightarrow> calls = made \<and> (\<exists>x. res = Inl x)"
proof -
  let ?target = "\<lambda>consumed. case consumed of ConsumedCreate l _ \<Rightarrow> TargetLabel l | ConsumedReplace u _ \<Rightarrow> TargetIntegration u"
  let ?verifier = "\<lambda>consumed. case consumed of ConsumedCreate _ v \<Rightarrow> v | ConsumedReplace _ v \<Rightarrow> v"
  let ?st = "oauth_strategy W (Some c) (ic_now ic)"
  from assms obtain consumed s1 where con: "oauth_consume e race (ic_now ic) i (cb_state dto) s = (Inr consumed, s1)"
    and pre: "oauth_precheck e (ic_now ic) i (?target consumed) s1 = Inr ()"
    by (auto simp: oauth_callback_def oauth_enabledConfig_def Let_def split: sum.splits prod.splits)
  let ?v = "?verifier consumed"
  obtain vres made where val: "oauth_validate W (Some c) (ic_now ic) (cb_code dto) ?v = (vres, made)" by fastforce
  have sv: "st_validate ?st (oauth_code_payload (cb_code dto) ?v) = vres"
    using val by (simp add: oauth_strategy_def oauth_code_payload_def oauth_field_def json_field_def json_string_def)
  obtain r2 s2 where cv: "cred_validate e (ic_now ic) race2 i ?st (oauth_code_payload (cb_code dto) ?v) s1 = (r2, s2)"
    by fastforce
  have g: "fst (reserveAttempt e (ic_now ic) i s1)"
  proof (rule ccontr)
    assume "\<not> ?thesis"
    with cv have "\<exists>x. r2 = Inl x" by (auto simp: cred_validate_def attempt_def split: prod.splits bool.splits)
    with assms con pre cv \<open>\<not> ?thesis\<close> show False by (auto simp: oauth_callback_def oauth_enabledConfig_def Let_def)
  qed
  have run: "oauth_callback e C ks W (Some c) race race2 ic i dto s =
      (case r2 of Inl x \<Rightarrow> ((Inl x, s2), made)
       | Inr v \<Rightarrow> (case storeOrRevoke e C ks W (Some c) ic i consumed v s2 of (out, calls) \<Rightarrow> (out, made @ calls)))"
    using con pre cv g val by (simp add: oauth_callback_def oauth_enabledConfig_def Let_def)
  show thesis
  proof (rule that [OF con _ val])
    show "\<exists>row. find_of_type e ''oauth_app'' i u s1 = Inr row" if "consumed = ConsumedReplace u w" for u w
      using pre that by (auto simp: oauth_precheck_def map_sum_def split: sum.splits)
    show "\<exists>s2 calls'. integrations s2 = integrations (race2 (snd (reserveAttempt e (ic_now ic) i s1)))
         \<and> storeOrRevoke e C ks W (Some c) ic i consumed v s2 = ((res, s'), calls') \<and> calls = made @ calls'"
      if "vres = Inr v" for v
    proof -
      from cv sv g that have "r2 = Inr v"
        by (auto simp: cred_validate_def attempt_def Let_def split: prod.splits bool.splits)
      with cred_validate_Inr(3) [of e "ic_now ic" race2 i ?st _ s1 v s2] cv run assms(1) show ?thesis
        by (auto split: prod.splits)
    qed
    show "calls = made \<and> (\<exists>x. res = Inl x)" if "vres = Inl x" for x
    proof -
      from cv sv g that have "\<exists>y. r2 = Inl y"
        by (auto simp: cred_validate_def attempt_def Let_def split: prod.splits bool.splits)
      with run assms(1) show ?thesis by auto
    qed
  qed
qed


text \<open>A callback that reaches GitHub, is answered a token, and finds it without the scope it needs.\<close>

definition demo_oauth_config :: oauth_app_config where
  "demo_oauth_config = \<lparr>oa_clientId = ''Iv1'', oa_clientSecret = ''shh'', oa_callbackUrl = ''https://k/cb''\<rparr>"

definition demo_answer :: "string \<Rightarrow> http_answer" where
  "demo_answer body = \<lparr>ha_status = 200, ha_headers = [(''x-oauth-scopes'', ''repo'')], ha_chunks = Some [body]\<rparr>"

definition demo_github :: web where
  "demo_github = demo_web\<lparr>
     wb_fetch := (\<lambda>k. if hc_method k = ''POST'' then Inr (demo_answer ''token'')
                      else if hc_method k = ''GET'' then Inr (demo_answer ''user'') else Inl ''TimeoutError''),
     wb_json_parse := (\<lambda>b. if b = ''token'' then Some (JsonObj [(''access_token'', JsonStr ''gho_1234'')])
                           else if b = ''user'' then Some (JsonObj [(''login'', JsonStr ''octo'')]) else None)\<rparr>"

definition demo_json_crypto :: crypto where
  "demo_json_crypto = demo_crypto\<lparr>cr_stringify := (\<lambda>v. oauthAppTokenOf v), cr_parse := (\<lambda>s. Some (oauth_payload s))\<rparr>"

definition demo_callback_dto :: oauth_app_callback_dto where
  "demo_callback_dto = \<lparr>cb_code = ''code1'', cb_state = demo_uuid @ ''.'' @ replicate 43 (CHR ''s'')\<rparr>"

definition demo_oauth_callback ::
  "(oauth_app_callback_result, integ_state) outcome \<times> http_call list" where
  "demo_oauth_callback = oauth_callback demo_env demo_json_crypto demo_old_keys demo_github (Some demo_oauth_config)
     (\<lambda>s. s) (\<lambda>s. s) demo_flow_ictx 1 demo_callback_dto demo_flow_state"

lemma demo_sent: "hc_method k = ''POST'' \<Longrightarrow> send_call demo_github k GITHUB_MAX_BODY_BYTES = Inr (demo_answer ''token'', Some ''token'')"
  "hc_method k = ''GET'' \<Longrightarrow> send_call demo_github k GITHUB_MAX_BODY_BYTES = Inr (demo_answer ''user'', Some ''user'')"
  by (simp_all add: send_call_def demo_github_def demo_answer_def readCappedBody_def GITHUB_MAX_BODY_BYTES_def)

lemma demo_exchanged: "exchangeOauthCode demo_github q
    = Inr \<lparr>xr_status = 200, xr_accessToken = Some ''gho_1234'', xr_error = None, xr_rateLimit = rateLimitFields demo_github (demo_answer ''token'')\<rparr>"
  by (simp add: exchangeOauthCode_def demo_sent exchangeOauthCode_call_def)
     (simp add: demo_github_def parseJsonObject_def json_field_def oauthErrorCode_def demo_answer_def)

lemma demo_user: "\<exists>r. fetchGithubUser demo_github t now = UserOk ''octo'' r \<and> gu_oauthScopes r = Some ''repo''"
  by (simp add: fetchGithubUser_def getUser_def demo_sent getUser_call_def)
     (simp add: demo_github_def parseJsonObject_def json_field_def parseLogin_def isUsableLogin_def json_string_def
        demo_answer_def classifyGithubUser_def http_header_def GITHUB_LOGIN_MAX_LENGTH_def)

lemma demo_scope: "oauth_hasRequiredScope (Some ''repo'')" by code_simp

lemma demo_validated: "\<exists>v. oauth_validate demo_github (Some demo_oauth_config) 1000 ''code1'' ''v1'' =
    (Inr v, [exchangeOauthCode_call demo_github (oauth_exchange_request demo_oauth_config ''code1'' ''v1'')])"
proof -
  obtain r where r: "fetchGithubUser demo_github ''gho_1234'' 1000 = UserOk ''octo'' r" "gu_oauthScopes r = Some ''repo''"
    using demo_user by blast
  have "isOauthAppToken ''gho_1234''" by code_simp
  then show ?thesis 
    by (simp add: oauth_validate_def oauth_exchange_def demo_exchanged Let_def oauth_identify_def r demo_scope)
qed
lemma demo_callback_calls:
  "exchangeOauthCode_call demo_github (oauth_exchange_request demo_oauth_config ''code1'' ''v1'') \<in> set (snd demo_oauth_callback)"
proof -
  let ?st = "oauth_strategy demo_github (Some demo_oauth_config) 1000"
  let ?con = "oauth_consume demo_env (\<lambda>s. s) 1000 1 (cb_state demo_callback_dto) demo_flow_state"
  have "fst ?con = Inr (ConsumedCreate ''Main'' ''v1'')" by code_simp
  then have con: "?con = (Inr (ConsumedCreate ''Main'' ''v1''), snd ?con)" by (metis prod.collapse)
  have pre: "oauth_precheck demo_env 1000 1 (TargetLabel ''Main'') (snd ?con) = Inr ()" by code_simp
  have g: "fst (reserveAttempt demo_env 1000 1 (snd ?con))" by code_simp
  obtain v where v: "oauth_validate demo_github (Some demo_oauth_config) 1000 ''code1'' ''v1'' =
    (Inr v, [exchangeOauthCode_call demo_github (oauth_exchange_request demo_oauth_config ''code1'' ''v1'')])"
    using demo_validated by blast
  have code: "cb_code demo_callback_dto = ''code1''" "ic_now demo_flow_ictx = 1000"
    by (simp_all add: demo_callback_dto_def demo_flow_ictx_def)
  have enabled: "oauth_enabledConfig (Some demo_oauth_config) = Inr demo_oauth_config"
    by (simp add: oauth_enabledConfig_def)
  show ?thesis
    unfolding demo_oauth_callback_def oauth_callback_def code enabled
    by (subst con) (simp add: Let_def pre g v del: One_nat_def split: sum.splits prod.splits)
qed


end
