(* ===== verification/Github_App_Properties.thy ===== *)
theory Github_App_Properties
  imports Github_App Oauth_Properties
begin

text \<open>
  Who may store which GitHub App installation.  An installation of this app ends up in a vault only
  after GitHub listed it for a user token of the same user of the program, either in the callback
  that stores it or in an earlier callback whose selection the user picked from.
\<close>

section \<open>What GitHub was asked\<close>

text \<open>The user token the code is exchanged for lists the installation as one of this app.\<close>

definition lists_installation :: "web \<Rightarrow> github_app_config \<Rightarrow> int \<Rightarrow> string \<Rightarrow> int \<Rightarrow> bool" where
  "lists_installation W c now code i \<longleftrightarrow>
     (\<exists>a token xs. exchangeOauthCode W (app_exchange_request c code) = Inr a \<and> xr_accessToken a = Some token
        \<and> installationsOf W now token (ga_appId c) = Inr xs
        \<and> (\<exists>x \<in> set xs. gi_installationId x = i \<and> gi_appId x = ga_appId c))"

lemma map_set_elem: "x \<in> set (map_set y fs) \<Longrightarrow> x = y \<or> x \<in> set fs"
  by (auto simp: map_set_def split: if_splits)

lemma fold_map_set_elem: "x \<in> set (fold map_set ys fs) \<Longrightarrow> x \<in> set ys \<union> set fs"
  by (induction ys arbitrary: fs) (auto dest: map_set_elem)

lemma add_entries_app:
  "\<forall>x \<in> set fs. gi_appId x = n \<Longrightarrow> \<forall>x \<in> set (add_entries n entries fs). gi_appId x = n"
  by (auto simp: add_entries_def dest!: fold_map_set_elem)

lemma installations_pages_app:
  assumes "installations_pages W now token n k url fs = Inr xs" and "\<forall>x \<in> set fs. gi_appId x = n"
  shows "\<forall>x \<in> set xs. gi_appId x = n"
  using assms
proof (induction k arbitrary: url fs)
  case (Suc k)
  note own = add_entries_app [OF Suc.prems(2)]
  from Suc.prems(1) Suc.IH [OF _ own] own show ?case
    by (auto simp: Let_def split: sum.splits prod.splits option.splits)
qed simp

lemma user_verify_Inr:
  assumes "user_verify W c now code = (Inr user, calls)"
  shows "x \<in> set (vu_installations user) \<Longrightarrow> lists_installation W c now code (gi_installationId x)"
    and "isGithubLogin (Some (vu_login user))"
proof -
  from assms obtain a token where ex: "exchangeOauthCode W (app_exchange_request c code) = Inr a"
    "xr_accessToken a = Some token" and l: "app_loginOf W now token = Inr (vu_login user)"
    and inst: "installationsOf W now token (ga_appId c) = Inr (vu_installations user)"
    by (auto simp: user_verify_def app_exchange_def Let_def split: sum.splits prod.splits option.splits if_splits)
  show "isGithubLogin (Some (vu_login user))"
    using l by (auto simp: app_loginOf_def split: github_user_answer.splits if_splits)
  show "lists_installation W c now code (gi_installationId x)" if "x \<in> set (vu_installations user)"
    using ex inst that installations_pages_app [of W now token "ga_appId c" _ None "[]"]
    unfolding lists_installation_def installationsOf_def by fastforce
qed

text \<open>Every user token the exchange returned is handed back in the same verification.\<close>

lemma user_verify_revokes:
  assumes "user_verify W c now code = (res, calls)"
    and "exchangeOauthCode W (app_exchange_request c code) = Inr a" and "xr_accessToken a = Some token"
  shows "revokeOauthToken_call W (ga_clientId c) (ga_clientSecret c) token \<in> set calls"
  using assms
  by (auto simp: user_verify_def app_exchange_def app_revoke_def Let_def split: sum.splits prod.splits if_splits)

text \<open>What a validated installation is: this app's, not suspended, with the permissions it needs.\<close>

definition sound_installation :: "web \<Rightarrow> app_keys \<Rightarrow> github_app_config \<Rightarrow> int \<Rightarrow> int \<Rightarrow> github_app_installation \<Rightarrow> bool" where
  "sound_installation W K c now i a \<longleftrightarrow> installation_check W K c now i = CheckOk a
     \<and> gi_appId (ai_base a) = ga_appId c \<and> \<not> ai_suspended a \<and> hasRequiredPermissions a
     \<and> 0 < gi_installationId (ai_base a) \<and> gi_installationId (ai_base a) < 2 ^ 53"

lemma parseInstallation_ids:
  "parseInstallation raw = Some x \<Longrightarrow> 0 < gi_installationId x \<and> gi_installationId x < 2 ^ 53"
  by (auto simp: parseInstallation_def isPositiveId_def json_int_def Let_def
      split: if_splits option.splits json.splits)

lemma getAppInstallation_ids:
  assumes "getAppInstallation W jwt i = Inr r" and "ar_installation r = Some a"
  shows "0 < gi_installationId (ai_base a) \<and> gi_installationId (ai_base a) < 2 ^ 53"
proof -
  from assms obtain raw where "parseInstallation raw = Some (ai_base a)"
    by (auto simp: getAppInstallation_def map_sum_def parseAppInstallation_def Let_def
        split: sum.splits prod.splits if_splits)
  then show ?thesis by (rule parseInstallation_ids)
qed

lemma installation_check_Ok:
  assumes "installation_check W K c now i = CheckOk a"
  shows "sound_installation W K c now i a"
proof -
  from assms obtain r where r: "getAppInstallation W (mintAppJwt W K (ga_privateKey c) (ga_clientId c) now) i = Inr r"
    and ok: "classifyLookup r (ga_appId c) now = CheckOk a"
    by (auto simp: installation_check_def classifyMint_def classifyFailure_def Let_def
        split: sum.splits prod.splits installation_check.splits if_splits)
  from ok have "ar_installation r = Some a" "gi_appId (ai_base a) = ga_appId c" "\<not> ai_suspended a" "hasRequiredPermissions a"
    by (auto simp: classifyLookup_def classifyFailure_def split: if_splits option.splits)
  with getAppInstallation_ids [OF r] assms show ?thesis by (simp add: sound_installation_def)
qed

lemma validateInstallation_Inr:
  assumes "validateInstallation W K c now i by_login = Inr v"
  shows "\<exists>a. sound_installation W K c now i a \<and> vc_secret v = githubAppPayload (gi_installationId (ai_base a))"
  using assms
  by (auto simp: validateInstallation_def installation_verify_def intro!: installation_check_Ok
      split: sum.splits installation_check.splits)

section \<open>Storing it\<close>

lemma app_strategy_simps [simp]:
  "st_type (app_strategy W K config now) = ''github_app''"
  "st_parseSecretPayload (app_strategy W K config now) = parseGithubAppPayload"
  by (simp_all add: app_strategy_def)

lemma parse_app_payload:
  "0 < i \<Longrightarrow> i < 2 ^ 53 \<Longrightarrow> parseGithubAppPayload (githubAppPayload i) = Some (githubAppPayload i)"
  by (simp add: parseGithubAppPayload_def githubAppPayload_def json_field_def isPositiveId_def json_int_def)

lemma app_save_holds:
  assumes "crypto_ok C" and "keyset_ok ks" and "cr_parse C (cr_stringify C (vc_secret v)) = Some (vc_secret v)"
    and "st_parseSecretPayload st (vc_secret v) = Some p"
    and "\<And>u row. target = AppReplace u \<Longrightarrow> findOwned e i u s = Inr row \<Longrightarrow> ig_type row = st_type st"
    and "app_save e C ks st ic i target v s = (Inr b, s')"
  shows "holds_token C ks st i p s'"
proof (cases target)
  case (AppCreate l)
  with assms(6) have "flow_create e C ks st ic i l v s = (Inr b, s')" by (simp add: app_save_def)
  from flow_create_holds [OF assms(1-4) this] show ?thesis .
next
  case (AppReplace u)
  with assms(6) obtain row x r where row: "findOwned e i u s = Inr row"
    and x: "cred_seal C ks (ic_iv ic) st v (ig_uuid row) = Inr x"
    and upd: "updateOwned e (ic_now ic) row (fresh_columns (ic_now ic) x) s = (Inr r, s')"
    by (auto simp: app_save_def split: sum.splits prod.splits)
  from updateOwned_stored [OF upd findOwned_Inr(1) [OF row]] assms(5) [OF AppReplace row] findOwned_Inr(2) [OF row]
  have r: "r \<in> set (rows (integrations s'))"
    "encryptedColumnsOf r = (sc_encrypted x, \<lparr>bd_uuid = ig_uuid row, bd_type = st_type st\<rparr>)"
    "ig_userId r = i" "ig_type r = st_type st" by auto
  from sealed_row_decrypts [OF assms(1,2) x assms(3) r(2)] r assms(4) show ?thesis
    by (auto simp: holds_token_def)
qed

section \<open>Selections\<close>

text \<open>
  The candidates of every pending selection satisfy \<open>P\<close>, a relation between users and
  installations.
\<close>

definition selections_within :: "(nat \<Rightarrow> int \<Rightarrow> bool) \<Rightarrow> integ_state \<Rightarrow> bool" where
  "selections_within P s \<longleftrightarrow> (\<forall>row \<in> set (rows (github_app_states s)). gs_stage row = StageSelect \<longrightarrow>
     (\<forall>xs. gs_candidateInstallationIds row = Some xs \<longrightarrow> (\<forall>i \<in> set xs. P (gs_userId row) i)))"

lemma selections_within_cong:
  "github_app_states s = github_app_states s' \<Longrightarrow> selections_within P s = selections_within P s'"
  by (simp add: selections_within_def)

lemma selections_within_subset:
  "selections_within P s \<Longrightarrow> set (rows (github_app_states s')) \<subseteq> set (rows (github_app_states s)) \<Longrightarrow> selections_within P s'"
  by (auto simp: selections_within_def)

lemma ensure_lockout_app_states [simp]: "github_app_states (ensure_lockout_row i s) = github_app_states s"
  by (simp add: ensure_lockout_row_def)

lemma reserve_app_states [simp]: "github_app_states (snd (reserveAttempt e now i s)) = github_app_states s"
  by (simp add: reserveAttempt_def Let_def)

lemma attempt_selections:
  assumes "selections_within P s" and "\<And>s. selections_within P s \<Longrightarrow> selections_within P (race s)"
  shows "selections_within P (snd (attempt e now race i run f s))"
proof -
  have r: "selections_within P (snd (reserveAttempt e now i s))"
    using assms(1) by (simp cong: selections_within_cong add: selections_within_def)
  have rel: "github_app_states (releaseAttempt i s) = github_app_states s" "github_app_states (cred_reset i s) = github_app_states s" for s
    by (simp_all add: releaseAttempt_def cred_reset_def)
  have "github_app_states (snd (attempt e now race i run f s)) =
      github_app_states (let (g, s1) = reserveAttempt e now i s in if g then race s1 else s1)"
    by (auto simp: attempt_def settleFailure_def rel Let_def split: prod.splits bool.splits sum.splits exn.splits)
  then show ?thesis
    using r assms(2) [OF r] selections_within_cong [of "snd (attempt e now race i run f s)"]
    by (auto split: prod.splits if_splits)
qed

lemma app_save_app_states [simp]: "github_app_states (snd (app_save e C ks st ic i target v s)) = github_app_states s"
proof -
  have ins: "github_app_states s2 = github_app_states s1" if "insertWithinCap e i mk n s1 = (r, s2)" for mk n r s1 s2
    using that by (auto elim!: insertWithinCap_cases)
  have upd: "github_app_states s2 = github_app_states s1" if "updateOwned e now row f s1 = (r, s2)" for now row f r s1 s2
    using that by (auto elim!: updateOwned_cases)
  show ?thesis
    by (auto simp: app_save_def flow_create_def split: github_app_state_target.splits sum.splits prod.splits
        dest!: ins upd)
qed

lemma app_issue_app_states:
  assumes "row \<in> set (rows (github_app_states (snd (app_issue e ic u stage target cand by_login s))))"
  shows "row \<in> set (rows (github_app_states s)) \<or> (\<exists>n. row = app_state_row e ic u stage target cand by_login n)"
  using assms
  by (auto simp: app_issue_def app_prunePending_def Let_def insert_row_def delete_where_def split: if_splits)

lemma app_consume_app_states:
  "set (rows (github_app_states (snd (app_consume e race now u st stage s))))
     \<subseteq> set (rows (github_app_states s)) \<union> set (rows (github_app_states (race s)))"
  by (auto simp: app_consume_def app_take_def Let_def delete_where_def split: sum.splits if_splits)

lemma app_consume_selections:
  assumes "selections_within P s" and "\<And>s. selections_within P s \<Longrightarrow> selections_within P (race s)"
  shows "selections_within P (snd (app_consume e race now u st stage s))"
  using app_consume_app_states [of e race now u st stage s] assms(1) assms(2) [OF assms(1)]
  unfolding selections_within_def by blast

lemma app_consume_candidates:
  assumes "app_consume e race now u st StageSelect s = (Inr consumed, s1)" and "selections_within P s"
    and "i \<in> set (cg_candidates consumed)"
  shows "P u i"
proof -
  from assms(1) obtain row secret where f: "app_find e u st s = Inr (row, secret)" and st: "gs_stage row = StageSelect"
    and c: "app_toConsumed row = Inr consumed"
    by (auto simp: app_consume_def app_take_def Let_def split: sum.splits if_splits)
  from c st have "gs_candidateInstallationIds row = Some (cg_candidates consumed)"
    by (auto simp: app_toConsumed_def isCandidateList_def split: sum.splits if_splits option.splits)
  moreover from app_find_Inr [OF f] have "row \<in> set (rows (github_app_states s))" "gs_userId row = u" by auto
  ultimately show ?thesis using assms(2,3) st unfolding selections_within_def by blast
qed

text \<open>The entries of a selection come from the listed installations.\<close>

lemma fold_entry_ids:
  "x \<in> set (fold add_selection_entry xs es) \<Longrightarrow> se_installationId x \<in> gi_installationId ` set xs \<union> se_installationId ` set es"
proof (induction xs arbitrary: es)
  case (Cons y xs)
  from Cons.IH [of "add_selection_entry y es"] Cons.prems show ?case
    by (auto simp: add_selection_entry_def split: if_splits)
qed simp

lemma selectionEntries_ids:
  "x \<in> set (selectionEntries xs) \<Longrightarrow> se_installationId x \<in> gi_installationId ` set xs"
  using fold_entry_ids [of x xs "[]"] by (auto simp: selectionEntries_def dest!: in_set_takeD)

section \<open>The handlers\<close>

definition tame_race :: "env \<Rightarrow> (nat \<Rightarrow> int \<Rightarrow> bool) \<Rightarrow> nat \<Rightarrow> (integ_state \<Rightarrow> integ_state) \<Rightarrow> bool" where
  "tame_race e P u race \<longleftrightarrow> (\<forall>s. selections_within P s \<longrightarrow> selections_within P (race s)) \<and> keeps_types e u race"

lemma app_issue_selections:
  assumes "selections_within P s"
    and "\<And>xs. stage = StageSelect \<Longrightarrow> cand = Some xs \<Longrightarrow> \<forall>i \<in> set xs. P u i"
  shows "selections_within P (snd (app_issue e ic u stage target cand by_login s))"
  unfolding selections_within_def
proof (intro ballI impI allI)
  fix row xs i
  assume row: "row \<in> set (rows (github_app_states (snd (app_issue e ic u stage target cand by_login s))))"
    and st: "gs_stage row = StageSelect" and xs: "gs_candidateInstallationIds row = Some xs" and i: "i \<in> set xs"
  from app_issue_app_states [OF row] show "P (gs_userId row) i"
  proof
    assume "row \<in> set (rows (github_app_states s))"
    with assms(1) st xs i show ?thesis by (auto simp: selections_within_def)
  next
    assume "\<exists>n. row = app_state_row e ic u stage target cand by_login n"
    then have "stage = StageSelect" "cand = Some xs" "gs_userId row = u" using st xs by (auto simp: app_state_row_def)
    with assms(2) i show ?thesis by simp
  qed
qed

lemma app_start_selections:
  assumes "selections_within P s"
  shows "selections_within P (snd (app_start e W config ic u dto s))"
proof -
  have "snd (app_start e W config ic u dto s) = s
      \<or> (\<exists>target. snd (app_start e W config ic u dto s) = snd (issueRedirect e ic u target s))"
    by (auto simp: app_start_def Let_def split: sum.splits prod.splits) (metis snd_conv)+
  with assms app_issue_selections [OF assms, where stage = StageRedirect] show ?thesis
    by (auto simp: issueRedirect_def)
qed

lemma app_select_selections:
  assumes "selections_within P s" and "tame_race e P u race" and "tame_race e P u race2"
  shows "selections_within P (snd (app_select e C ks W K config race race2 ic u dto s))"
proof -
  have r: "selections_within P s \<Longrightarrow> selections_within P (race s)" "selections_within P s \<Longrightarrow> selections_within P (race2 s)"
    for s using assms(2,3) by (auto simp: tame_race_def)
  obtain res s1 where con: "app_consume e race (ic_now ic) u (gs_select_state dto) StageSelect s = (res, s1)" by fastforce
  have s1: "selections_within P s1" using app_consume_selections [OF assms(1), of race] r(1) con by (metis snd_conv)
  have a: "selections_within P (snd (attempt e now race2 i run f s1))" for now i f and run :: "exn + validated_credential"
    using attempt_selections [OF s1] r(2) by blast
  have save: "selections_within P (snd (app_save e C ks st ic u target v s2))"
    if "selections_within P s2" for st target v s2
    using that selections_within_cong [of "snd (app_save e C ks st ic u target v s2)" s2] by simp
  show ?thesis
    using assms(1) con s1 a save
    by (auto simp: app_select_def Let_def split: sum.splits prod.splits) (metis snd_conv)+
qed

text \<open>The steps of a callback and of a selection that answer something other than an early error.\<close>

lemma app_precheck_type:
  assumes "app_precheck e now u (AppReplace uuid) s = Inr ()"
  shows "\<exists>r. findOwned e u uuid s = Inr r \<and> ig_type r = ''github_app''"
  using assms by (auto simp: app_precheck_def find_of_type_def map_sum_def split: sum.splits if_splits)

lemma attempt_Inr:
  assumes "attempt e now race i run f s = (Inr v, s')"
  shows "run = Inr v" and "integrations s' = integrations (race (snd (reserveAttempt e now i s)))"
    and "fst (reserveAttempt e now i s)"
  using assms by (auto simp: attempt_def Let_def split: prod.splits bool.splits sum.splits)

lemma type_kept:
  assumes "app_precheck e now u target s1 = Inr ()" and "keeps_types e u race2"
    and "integrations s2 = integrations (race2 (snd (reserveAttempt e now u s1)))"
    and "target = AppReplace uuid" and "findOwned e u uuid s2 = Inr row"
  shows "ig_type row = ''github_app''"
proof -
  from app_precheck_type assms(1,4) obtain r where "findOwned e u uuid s1 = Inr r" "ig_type r = ''github_app''" by blast
  with assms(2,5) findOwned_cong [OF assms(3)] findOwned_cong [of s1 "snd (reserveAttempt e now u s1)"]
  show ?thesis unfolding keeps_types_def by (metis reserveAttempt_integrations)
qed

lemma app_stored_holds:
  assumes "crypto_ok C" and "keyset_ok ks"
    and "\<And>n. cr_parse C (cr_stringify C (githubAppPayload n)) = Some (githubAppPayload n)"
    and "keeps_types e u race2" and "app_precheck e (ic_now ic) u target s1 = Inr ()"
    and "integrations s2 = integrations (race2 (snd (reserveAttempt e (ic_now ic) u s1)))"
    and "validateInstallation W K c (ic_now ic) i by_login = Inr v"
    and "app_save e C ks (app_strategy W K (Some c) (ic_now ic)) ic u target v s2 = (Inr b, s')"
  shows "\<exists>a. sound_installation W K c (ic_now ic) i a
    \<and> holds_token C ks (app_strategy W K (Some c) (ic_now ic)) u (githubAppPayload (gi_installationId (ai_base a))) s'"
proof -
  from validateInstallation_Inr [OF assms(7)] obtain a where a: "sound_installation W K c (ic_now ic) i a"
    and v: "vc_secret v = githubAppPayload (gi_installationId (ai_base a))" by blast
  from a have p: "st_parseSecretPayload (app_strategy W K (Some c) (ic_now ic)) (vc_secret v)
      = Some (githubAppPayload (gi_installationId (ai_base a)))"
    by (simp add: v parse_app_payload sound_installation_def)
  have "holds_token C ks (app_strategy W K (Some c) (ic_now ic)) u (githubAppPayload (gi_installationId (ai_base a))) s'"
    by (rule app_save_holds [OF assms(1,2) _ p _ assms(8)])
      (simp_all add: v assms(3) type_kept [OF assms(5,4,6)])
  with a show ?thesis by blast
qed

lemma app_verify_Inr:
  assumes "app_verify W K c now dto = (Inr r, calls)"
  shows "case r of
      Validated v \<Rightarrow> \<exists>i by_login. lists_installation W c now (gc_code dto) i \<and> validateInstallation W K c now i by_login = Inr v
    | Several user \<Rightarrow> \<forall>x \<in> set (vu_installations user). lists_installation W c now (gc_code dto) (gi_installationId x)"
proof -
  obtain res k where uv: "user_verify W c now (gc_code dto) = (res, k)" by fastforce
  with assms obtain user where user: "res = Inr user" by (auto simp: app_verify_def split: sum.splits)
  note lists = user_verify_Inr(1) [OF uv [unfolded user]]
  show ?thesis
  proof (cases r)
    case (Several user')
    with assms uv user lists show ?thesis
      by (auto simp: app_verify_def split: sum.splits option.splits)
  next
    case (Validated v)
    with assms uv user obtain i where "pickInstallation (vu_installations user) (gc_installationId dto) = Inr (Some i)"
      and v: "validateInstallation W K c now i (vu_login user) = Inr v"
      by (auto simp: app_verify_def split: sum.splits option.splits)
    then obtain x where "x \<in> set (vu_installations user)" "gi_installationId x = i"
      by (auto simp: pickInstallation_def list_ex_iff split: option.splits if_splits list.splits)
    with lists v Validated show ?thesis by auto
  qed
qed

lemma app_callback_steps:
  obtains (early) x where "app_callback e C ks W K (Some c) race race2 ic u dto s =
      ((Inl x, snd (app_consume e race (ic_now ic) u (gc_state dto) StageRedirect s)), [])"
  | (asked) consumed s1 run made calls where
      "app_consume e race (ic_now ic) u (gc_state dto) StageRedirect s = (Inr consumed, s1)"
      "app_precheck e (ic_now ic) u (cg_target consumed) s1 = Inr ()" "app_verify W K c (ic_now ic) dto = (run, made)"
      "app_callback e C ks W K (Some c) race race2 ic u dto s =
         (app_callback_result e C ks W K (Some c) ic u (cg_target consumed)
            (attempt e (ic_now ic) race2 u run (\<lambda>r. case r of Validated _ \<Rightarrow> True | Several _ \<Rightarrow> False) s1), calls)"
proof -
  have en: "app_enabledConfig (Some c) = Inr c" by (simp add: app_enabledConfig_def)
  obtain res s1 where con: "app_consume e race (ic_now ic) u (gc_state dto) StageRedirect s = (res, s1)" by fastforce
  obtain run made where v: "app_verify W K c (ic_now ic) dto = (run, made)" by fastforce
  show thesis
  proof (cases res)
    case (Inl x)
    with con show thesis by (intro early [of x]) (simp add: app_callback_def en)
  next
    case (Inr consumed)
    show thesis
    proof (cases "app_precheck e (ic_now ic) u (cg_target consumed) s1")
      case (Inl x)
      with con Inr show thesis by (intro early [of x]) (simp add: app_callback_def en)
    next
      case (Inr d)
      have p: "app_precheck e (ic_now ic) u (cg_target consumed) s1 = Inr ()" using Inr by simp
      show thesis
        by (rule asked [OF con [unfolded \<open>res = Inr consumed\<close>] p v])
          (simp add: app_callback_def en con \<open>res = Inr consumed\<close> p v)
    qed
  qed
qed

lemma app_callback_result_selections:
  assumes "selections_within P s2"
    and "\<And>user x. got = Inr (Several user) \<Longrightarrow> x \<in> set (vu_installations user) \<Longrightarrow> P u (gi_installationId x)"
  shows "selections_within P (snd (app_callback_result e C ks W K config ic u target (got, s2)))"
proof (cases got)
  case (Inl x)
  with assms(1) show ?thesis by (simp add: app_callback_result_def)
next
  case (Inr r)
  show ?thesis
  proof (cases r)
    case (Validated v)
    let ?save = "app_save e C ks (app_strategy W K config (ic_now ic)) ic u target v s2"
    have "snd (app_callback_result e C ks W K config ic u target (got, s2)) = snd ?save"
      by (simp add: app_callback_result_def Inr Validated split: prod.splits sum.splits)
    with assms(1) selections_within_cong [of "snd ?save" s2] show ?thesis by simp
  next
    case (Several user)
    let ?ids = "map se_installationId (selectionEntries (vu_installations user))"
    let ?issue = "issueSelect e ic u target ?ids (vu_login user) s2"
    have "P u i" if "i \<in> set (take GITHUB_APP_MAX_CANDIDATES ?ids)" for i
      using in_set_takeD [OF that] selectionEntries_ids assms(2) [of user] Inr Several by fastforce
    then have "selections_within P (snd ?issue)"
      unfolding issueSelect_def by (intro app_issue_selections [OF assms(1)]) simp
    moreover have "snd (app_callback_result e C ks W K config ic u target (got, s2)) = snd ?issue"
      by (simp add: app_callback_result_def Inr Several selection_offer_def Let_def split: prod.splits sum.splits)
    ultimately show ?thesis by simp
  qed
qed

lemma app_callback_selections:
  assumes "selections_within P s" and "tame_race e P u race" and "tame_race e P u race2"
    and shown: "\<And>i. lists_installation W c (ic_now ic) (gc_code dto) i \<Longrightarrow> P u i"
  shows "selections_within P (snd (fst (app_callback e C ks W K (Some c) race race2 ic u dto s)))"
proof -
  have r: "selections_within P s \<Longrightarrow> selections_within P (race s)" "selections_within P s \<Longrightarrow> selections_within P (race2 s)"
    for s using assms(2,3) by (auto simp: tame_race_def)
  have consumed: "selections_within P (snd (app_consume e race (ic_now ic) u (gc_state dto) StageRedirect s))"
    using app_consume_selections [OF assms(1)] r(1) by blast
  show ?thesis
  proof (cases rule: app_callback_steps [of e C ks W K c race race2 ic u dto s])
    case (early x)
    with consumed show ?thesis by simp
  next
    case (asked consumed s1 run made calls)
    let ?at = "attempt e (ic_now ic) race2 u run (\<lambda>r. case r of Validated _ \<Rightarrow> True | Several _ \<Rightarrow> False) s1"
    have "selections_within P s1" using consumed asked(1) by simp
    with attempt_selections r(2) have s2: "selections_within P (snd ?at)" by blast
    have "P u (gi_installationId x)" if "fst ?at = Inr (Several user)" "x \<in> set (vu_installations user)" for user x
    proof -
      from that(1) have "run = Inr (Several user)" using attempt_Inr(1) by (metis prod.collapse)
      with app_verify_Inr [of W K c "ic_now ic" dto "Several user" made] asked(3) shown that(2) show ?thesis by auto
    qed
    from app_callback_result_selections [where got = "fst ?at", OF s2 this]
    show ?thesis by (simp add: asked(4))
  qed
qed

text \<open>What a callback or a selection that stores something rests on.\<close>

lemma app_callback_stored:
  assumes "crypto_ok C" and "keyset_ok ks"
    and "\<And>n. cr_parse C (cr_stringify C (githubAppPayload n)) = Some (githubAppPayload n)"
    and "keeps_types e u race2"
    and "app_callback e C ks W K (Some c) race race2 ic u dto s = ((Inr (ResultStored b), s'), calls)"
  shows "\<exists>i a. lists_installation W c (ic_now ic) (gc_code dto) i \<and> sound_installation W K c (ic_now ic) i a
    \<and> holds_token C ks (app_strategy W K (Some c) (ic_now ic)) u (githubAppPayload (gi_installationId (ai_base a))) s'"
proof (cases rule: app_callback_steps [of e C ks W K c race race2 ic u dto s])
  case (early x)
  with assms(5) show ?thesis by simp
next
  case (asked consumed s1 run made calls')
  let ?f = "\<lambda>r. case r of Validated _ \<Rightarrow> True | Several _ \<Rightarrow> False"
  obtain got s2 where at: "attempt e (ic_now ic) race2 u run ?f s1 = (got, s2)" by fastforce
  with assms(5) asked(4) have "app_callback_result e C ks W K (Some c) ic u (cg_target consumed) (got, s2)
      = (Inr (ResultStored b), s')" by simp
  then obtain v where v: "got = Inr (Validated v)"
    and save: "app_save e C ks (app_strategy W K (Some c) (ic_now ic)) ic u (cg_target consumed) v s2 = (Inr b, s')"
    by (auto simp: app_callback_result_def split: sum.splits verified.splits prod.splits)
  note run = attempt_Inr [OF at [unfolded v]]
  from app_verify_Inr asked(3) run(1) obtain i by_login where i: "lists_installation W c (ic_now ic) (gc_code dto) i"
    and val: "validateInstallation W K c (ic_now ic) i by_login = Inr v" by fastforce
  from app_stored_holds [OF assms(1-4) asked(2) run(2) val save] i show ?thesis by blast
qed

lemma app_select_stored:
  assumes "crypto_ok C" and "keyset_ok ks"
    and "\<And>n. cr_parse C (cr_stringify C (githubAppPayload n)) = Some (githubAppPayload n)"
    and "keeps_types e u race2" and "selections_within P s"
    and "app_select e C ks W K (Some c) race race2 ic u dto s = (Inr b, s')"
  shows "P u (gs_select_installationId dto)
    \<and> (\<exists>a. sound_installation W K c (ic_now ic) (gs_select_installationId dto) a
    \<and> holds_token C ks (app_strategy W K (Some c) (ic_now ic)) u (githubAppPayload (gi_installationId (ai_base a))) s')"
proof -
  let ?i = "gs_select_installationId dto"
  obtain res s1 where con: "app_consume e race (ic_now ic) u (gs_select_state dto) StageSelect s = (res, s1)" by fastforce
  with assms(6) obtain consumed where c: "res = Inr consumed"
    and pre: "app_precheck e (ic_now ic) u (cg_target consumed) s1 = Inr ()"
    by (auto simp: app_select_def app_enabledConfig_def split: sum.splits)
  define run where "run = (if ?i \<notin> set (cg_candidates consumed) then Inl (CredentialExn InstallationNotAccessibleError)
      else validateInstallation W K c (ic_now ic) ?i (the (cg_verifiedBy consumed)))"
  obtain got s2 where at: "attempt e (ic_now ic) race2 u run (\<lambda>_. True) s1 = (got, s2)" by fastforce
  with assms(6) con c pre obtain v where v: "got = Inr v"
    and save: "app_save e C ks (app_strategy W K (Some c) (ic_now ic)) ic u (cg_target consumed) v s2 = (Inr b, s')"
    by (auto simp: app_select_def app_enabledConfig_def run_def [symmetric] Let_def split: sum.splits)
  note r = attempt_Inr [OF at [unfolded v]]
  from r(1) have mem: "?i \<in> set (cg_candidates consumed)"
    and val: "validateInstallation W K c (ic_now ic) ?i (the (cg_verifiedBy consumed)) = Inr v"
    by (auto simp: run_def split: if_splits)
  from app_stored_holds [OF assms(1-4) pre r(2) val save]
    app_consume_candidates [OF con [unfolded c] assms(5) mem] show ?thesis by blast
qed

section \<open>Runs\<close>

text \<open>The calls of the routes, with what GitHub answers to each and what commits while it waits.\<close>

datatype app_event =
    EvStart web ictx nat github_app_start_dto
  | EvCallback web "integ_state \<Rightarrow> integ_state" "integ_state \<Rightarrow> integ_state" ictx nat github_app_callback_dto
  | EvSelect web "integ_state \<Rightarrow> integ_state" "integ_state \<Rightarrow> integ_state" ictx nat github_app_select_dto

fun app_run_event ::
  "env \<Rightarrow> crypto \<Rightarrow> integrations_key \<Rightarrow> app_keys \<Rightarrow> github_app_config \<Rightarrow> app_event \<Rightarrow> integ_state
     \<Rightarrow> oauth_app_callback_result option \<times> integ_state" where
  "app_run_event e C ks K c (EvStart W ic u dto) s = (None, snd (app_start e W (Some c) ic u dto s))"
| "app_run_event e C ks K c (EvCallback W race race2 ic u dto) s =
     (case fst (app_callback e C ks W K (Some c) race race2 ic u dto s) of
        (Inr (ResultStored b), s1) \<Rightarrow> (Some b, s1)
      | (_, s1) \<Rightarrow> (None, s1))"
| "app_run_event e C ks K c (EvSelect W race race2 ic u dto) s =
     (case app_select e C ks W K (Some c) race race2 ic u dto s of
        (Inr b, s1) \<Rightarrow> (Some b, s1)
      | (Inl _, s1) \<Rightarrow> (None, s1))"

definition app_run ::
  "env \<Rightarrow> crypto \<Rightarrow> integrations_key \<Rightarrow> app_keys \<Rightarrow> github_app_config \<Rightarrow> app_event list \<Rightarrow> integ_state \<Rightarrow> integ_state" where
  "app_run e C ks K c evs s = fold (\<lambda>ev s. snd (app_run_event e C ks K c ev s)) evs s"

text \<open>A callback of the user in the run had GitHub list the installation for that user's own token.\<close>

definition shown_to :: "github_app_config \<Rightarrow> app_event list \<Rightarrow> nat \<Rightarrow> int \<Rightarrow> bool" where
  "shown_to c evs u i \<longleftrightarrow> (\<exists>W race race2 ic dto. EvCallback W race race2 ic u dto \<in> set evs
     \<and> lists_installation W c (ic_now ic) (gc_code dto) i)"

definition event_tame :: "env \<Rightarrow> (nat \<Rightarrow> int \<Rightarrow> bool) \<Rightarrow> app_event \<Rightarrow> bool" where
  "event_tame e P ev = (case ev of
       EvStart _ _ _ _ \<Rightarrow> True
     | EvCallback _ race race2 _ u _ \<Rightarrow> tame_race e P u race \<and> tame_race e P u race2
     | EvSelect _ race race2 _ u _ \<Rightarrow> tame_race e P u race \<and> tame_race e P u race2)"

lemma app_run_event_selections:
  assumes "selections_within (shown_to c evs) s" and "event_tame e (shown_to c evs) ev" and "ev \<in> set evs"
  shows "selections_within (shown_to c evs) (snd (app_run_event e C ks K c ev s))"
proof (cases ev)
  case (EvStart W ic u dto)
  with app_start_selections [OF assms(1)] show ?thesis by simp
next
  case (EvCallback W race race2 ic u dto)
  let ?cb = "app_callback e C ks W K (Some c) race race2 ic u dto s"
  have "shown_to c evs u i" if "lists_installation W c (ic_now ic) (gc_code dto) i" for i
    using assms(3) that EvCallback unfolding shown_to_def by blast
  with assms(1,2) EvCallback have "selections_within (shown_to c evs) (snd (fst ?cb))"
    by (intro app_callback_selections) (simp_all add: event_tame_def)
  then show ?thesis
    by (auto simp: EvCallback split: prod.splits sum.splits github_app_callback_result.splits)
next
  case (EvSelect W race race2 ic u dto)
  with assms(1,2) have "selections_within (shown_to c evs) (snd (app_select e C ks W K (Some c) race race2 ic u dto s))"
    by (intro app_select_selections [OF assms(1)]) (simp_all add: event_tame_def)
  then show ?thesis by (auto simp: EvSelect split: prod.splits sum.splits)
qed

lemma app_run_selections:
  assumes "selections_within (shown_to c all_evs) s" and "list_all (event_tame e (shown_to c all_evs)) evs"
    and "set evs \<subseteq> set all_evs"
  shows "selections_within (shown_to c all_evs) (app_run e C ks K c evs s)"
  using assms
proof (induction evs arbitrary: s)
  case (Cons ev evs)
  then show ?case using app_run_event_selections [of c all_evs s e ev] by (simp add: app_run_def)
qed (simp add: app_run_def)

text \<open>The user, the time and GitHub of an event.\<close>

fun event_user :: "app_event \<Rightarrow> nat" where
  "event_user (EvStart W ic u dto) = u"
| "event_user (EvCallback W race race2 ic u dto) = u"
| "event_user (EvSelect W race race2 ic u dto) = u"

fun event_now :: "app_event \<Rightarrow> int" where
  "event_now (EvStart W ic u dto) = ic_now ic"
| "event_now (EvCallback W race race2 ic u dto) = ic_now ic"
| "event_now (EvSelect W race race2 ic u dto) = ic_now ic"

fun event_web :: "app_event \<Rightarrow> web" where
  "event_web (EvStart W ic u dto) = W"
| "event_web (EvCallback W race race2 ic u dto) = W"
| "event_web (EvSelect W race race2 ic u dto) = W"


section \<open>A run\<close>

text \<open>A GitHub whose every answer carries the same object; only a minted token answers 201.\<close>

definition demo_installation :: "(string \<times> json) list" where
  "demo_installation = [(''id'', JsonNum 7), (''app_id'', JsonNum 3),
     (''account'', JsonObj [(''login'', JsonStr ''octo''), (''type'', JsonStr ''User'')]),
     (''repository_selection'', JsonStr ''all''),
     (''permissions'', JsonObj [(''issues'', JsonStr ''read''), (''metadata'', JsonStr ''read'')])]"

definition demo_body :: json where
  "demo_body = JsonObj ([(''access_token'', JsonStr ''ghu_1''), (''login'', JsonStr ''octo''),
     (''installations'', JsonArr [JsonObj demo_installation])] @ demo_installation)"

definition demo_app_status :: "http_call \<Rightarrow> nat" where
  "demo_app_status k = (if hc_method k = ''POST'' \<and> hc_url k \<noteq> GITHUB_OAUTH_TOKEN_URL then 201 else 200)"

definition demo_app_github :: web where
  "demo_app_github = demo_web\<lparr>
     wb_fetch := (\<lambda>k. Inr \<lparr>ha_status = demo_app_status k, ha_headers = [], ha_chunks = None\<rparr>),
     wb_json_parse := (\<lambda>b. Some demo_body)\<rparr>"

definition demo_keys :: app_keys where
  "demo_keys = \<lparr>ak_parse = (\<lambda>_. None), ak_sign = (\<lambda>k m. ''sig'')\<rparr>"

definition demo_app_config :: github_app_config where
  "demo_app_config = \<lparr>ga_appId = 3, ga_slug = ''kerghan'', ga_privateKey = ''pem'', ga_clientId = ''Iv2'',
     ga_clientSecret = ''shh'', ga_callbackUrl = ''https://k/cb''\<rparr>"

definition demo_app_crypto :: crypto where
  "demo_app_crypto = demo_crypto\<lparr>
     cr_stringify := (\<lambda>v. if installationIdOf v < 0 then CHR ''-'' # replicate (nat (- installationIdOf v)) (CHR ''i'')
                         else replicate (nat (installationIdOf v)) (CHR ''i'')),
     cr_parse := (\<lambda>s. Some (githubAppPayload (case s of [] \<Rightarrow> 0
        | c # cs \<Rightarrow> if c = CHR ''-'' then - int (length cs) else int (length s))))\<rparr>"

lemma demo_app_json:
  "cr_parse demo_app_crypto (cr_stringify demo_app_crypto (githubAppPayload n)) = Some (githubAppPayload n)"
proof -
  have i: "installationIdOf (githubAppPayload m) = m" for m
    by (simp add: installationIdOf_def githubAppPayload_def json_int_def json_field_def)
  show ?thesis
  proof (cases "0 < n")
    case True
    then obtain k where k: "nat n = Suc k" by (metis gr0_implies_Suc zero_less_nat_eq)
    with True have "1 + int k = n" by linarith
    with True k show ?thesis by (simp add: demo_app_crypto_def i)
  qed (simp add: demo_app_crypto_def i)
qed

lemma demo_app_send [simp]:
  "send_call demo_app_github k n = Inr (\<lparr>ha_status = demo_app_status k, ha_headers = [], ha_chunks = None\<rparr>, Some [])"
  by (simp add: send_call_def demo_app_github_def readCappedBody_def)

lemma demo_app_parse [simp]: "parseJsonObject demo_app_github (Some []) = demo_body"
  by (simp add: parseJsonObject_def demo_app_github_def demo_body_def)

definition demo_listed :: github_user_installation where
  "demo_listed = \<lparr>gi_installationId = 7, gi_appId = 3, gi_accountLogin = ''octo'', gi_accountType = AccountUser\<rparr>"

definition demo_checked :: github_app_installation where
  "demo_checked = \<lparr>ai_base = demo_listed, ai_repositorySelection = SelectionAll, ai_issues = Some ''read'',
     ai_metadata = Some ''read'', ai_suspended = False\<rparr>"

lemma demo_parsed:
  "parseInstallation (as_object (Some (JsonObj demo_installation))) = Some demo_listed"
  "parseAppInstallation demo_body = Some demo_checked"
  "json_field ''installations'' demo_body = Some (JsonArr [JsonObj demo_installation])"
  "json_field ''access_token'' demo_body = Some (JsonStr ''ghu_1'')" "json_field ''error'' demo_body = None"
  "json_field ''login'' demo_body = Some (JsonStr ''octo'')"
  by code_simp+

lemma demo_app_exchange: "\<exists>calls. app_exchange demo_app_github demo_app_config now code = (Inr ''ghu_1'', calls)"
proof -
  have "isUserToken ''ghu_1''" by code_simp
  then show ?thesis
    by (simp add: app_exchange_def exchangeOauthCode_def demo_parsed demo_app_status_def exchangeOauthCode_call_def Let_def)
qed

lemma demo_app_login: "app_loginOf demo_app_github now token = Inr ''octo''"
proof -
  have "isGithubLogin (Some ''octo'')" "isUsableLogin (Some (JsonStr ''octo''))" by code_simp+
  then show ?thesis
    by (simp add: app_loginOf_def fetchGithubUser_def getUser_def parseLogin_def demo_parsed demo_app_status_def
        getUser_call_def json_string_def classifyGithubUser_def Let_def)
qed

lemma demo_app_list: "installationsOf demo_app_github now token 3 = Inr [demo_listed]"
proof -
  have p: "fetchPage demo_app_github now token None = Inr ([demo_listed], None)"
    by (simp add: fetchPage_def listUserInstallations_def parseInstallations_def demo_parsed demo_app_status_def
        get_call_def http_header_def nextPageUrl_def List.map_filter_def)
  have a: "add_entries 3 [demo_listed] [] = [demo_listed]" by code_simp
  have n: "GITHUB_APP_MAX_INSTALLATION_PAGES = Suc 9" by (simp add: GITHUB_APP_MAX_INSTALLATION_PAGES_def)
  show ?thesis
    by (simp only: installationsOf_def n p a installations_pages.simps sum.case prod.case option.case Let_def)
qed

lemma demo_app_check: "installation_check demo_app_github demo_keys demo_app_config now 7 = CheckOk demo_checked"
proof -
  have "hasRequiredPermissions demo_checked" by code_simp
  then show ?thesis
    by (simp add: installation_check_def getAppInstallation_def createInstallationToken_def demo_parsed
        demo_app_status_def get_call_def installation_url_def GITHUB_API_URL_def GITHUB_OAUTH_TOKEN_URL_def
        classifyLookup_def classifyMint_def Let_def)
       (simp add: demo_checked_def demo_listed_def demo_app_config_def)
qed

definition demo_app_metadata :: json where
  "demo_app_metadata = (case buildGithubAppMetadata demo_checked ''octo'' of Inr m \<Rightarrow> m | Inl _ \<Rightarrow> JsonNull)"

lemma demo_app_validated:
  "validateInstallation demo_app_github demo_keys demo_app_config now 7 ''octo'' =
     Inr \<lparr>vc_secret = githubAppPayload 7, vc_githubLogin = ''octo'', vc_expiresAt = None, vc_metadata = demo_app_metadata\<rparr>"
proof -
  have "buildGithubAppMetadata demo_checked ''octo'' = Inr demo_app_metadata" by code_simp
  then show ?thesis
    by (simp add: validateInstallation_def installation_verify_def demo_app_check)
       (simp add: demo_checked_def demo_listed_def)
qed

definition demo_app_start_dto :: github_app_start_dto where
  "demo_app_start_dto = \<lparr>gd_target = \<lparr>sd_label = Some ''Main'', sd_integrationId = None\<rparr>, gd_mode = None\<rparr>"

definition demo_app_callback_dto :: github_app_callback_dto where
  "demo_app_callback_dto = \<lparr>gc_code = ''code1'', gc_state = demo_uuid @ ''.'' @ replicate 43 (CHR ''s''),
     gc_installationId = Some 7\<rparr>"

definition demo_app_started :: integ_state where
  "demo_app_started = app_run demo_env demo_app_crypto demo_old_keys demo_keys demo_app_config
     [EvStart demo_app_github demo_flow_ictx 1 demo_app_start_dto] init_integ_state"

lemma demo_app_callback:
  "\<exists>b s'. app_run_event demo_env demo_app_crypto demo_old_keys demo_keys demo_app_config
     (EvCallback demo_app_github (\<lambda>s. s) (\<lambda>s. s) demo_flow_ictx 1 demo_app_callback_dto) demo_app_started = (Some b, s')"
proof -
  let ?con = "app_consume demo_env (\<lambda>s. s) 1000 1 (gc_state demo_app_callback_dto) StageRedirect demo_app_started"
  let ?c = "\<lparr>cg_target = AppCreate ''Main'', cg_candidates = [], cg_verifiedBy = None\<rparr>"
  let ?v = "\<lparr>vc_secret = githubAppPayload 7, vc_githubLogin = ''octo'', vc_expiresAt = None, vc_metadata = demo_app_metadata\<rparr>"
  let ?at = "attempt demo_env 1000 (\<lambda>s. s) 1 (Inr (Validated ?v)) (\<lambda>r. case r of Validated _ \<Rightarrow> True | Several _ \<Rightarrow> False) (snd ?con)"
  have "fst ?con = Inr ?c" by code_simp
  then have con: "?con = (Inr ?c, snd ?con)" by (metis prod.collapse)
  have pre: "app_precheck demo_env 1000 1 (AppCreate ''Main'') (snd ?con) = Inr ()" by code_simp
  have dto: "gc_code demo_app_callback_dto = ''code1''" "gc_installationId demo_app_callback_dto = Some 7"
    "ic_now demo_flow_ictx = 1000" "ga_appId demo_app_config = 3"
    by (simp_all add: demo_app_callback_dto_def demo_flow_ictx_def demo_app_config_def)
  have pick: "pickInstallation [demo_listed] (Some 7) = Inr (Some 7)" by code_simp
  obtain made where ver: "app_verify demo_app_github demo_keys demo_app_config 1000 demo_app_callback_dto = (Inr (Validated ?v), made)"
    using demo_app_exchange [of 1000 "''code1''"]
    by (auto simp: app_verify_def user_verify_def dto demo_app_login demo_app_list pick demo_app_validated)
  have at: "fst ?at = Inr (Validated ?v)" by code_simp
  have "is_Inr (fst (app_save demo_env demo_app_crypto demo_old_keys
      (app_strategy demo_app_github demo_keys (Some demo_app_config) 1000) demo_flow_ictx 1 (AppCreate ''Main'') ?v (snd ?at)))"
    by code_simp
  then obtain b s' where save: "app_save demo_env demo_app_crypto demo_old_keys
      (app_strategy demo_app_github demo_keys (Some demo_app_config) 1000) demo_flow_ictx 1 (AppCreate ''Main'') ?v (snd ?at) = (Inr b, s')"
    by (auto simp: is_Inr_def split: sum.splits) (metis prod.collapse)
  have at2: "?at = (Inr (Validated ?v), snd ?at)" using at by (metis prod.collapse)
  have "app_callback_result demo_env demo_app_crypto demo_old_keys demo_app_github demo_keys (Some demo_app_config)
      demo_flow_ictx 1 (AppCreate ''Main'') ?at = (Inr (ResultStored b), s')"
    by (subst at2) (simp add: app_callback_result_def dto save del: One_nat_def)
  then have "fst (app_callback demo_env demo_app_crypto demo_old_keys demo_app_github demo_keys (Some demo_app_config)
      (\<lambda>s. s) (\<lambda>s. s) demo_flow_ictx 1 demo_app_callback_dto demo_app_started) = (Inr (ResultStored b), s')"
    unfolding app_callback_def app_enabledConfig_def dto
    by (subst con) (simp add: pre ver del: One_nat_def)
  then show ?thesis by simp
qed


end
