(* ===== verification/Strategy_Contract.thy ===== *)
theory Strategy_Contract
  imports Github_App_Properties
begin

text \<open>
  The contract of \<^verbatim>\<open>types/integration-type-strategy.ts\<close>, which the generic pipeline relies on: metadata
  a type describes is described unchanged ever after, and a credential the type validated can be
  sealed and is read back as it was.  Each of the three types is shown to meet it.
\<close>

section \<open>The contract\<close>

locale strategy_contract =
  fixes st :: strategy and validated :: "validated_credential \<Rightarrow> bool"
  assumes describe_again: "st_describeMetadata st m = Inr m' \<Longrightarrow> st_describeMetadata st m' = Inr m'"
    and payload_parses: "validated v \<Longrightarrow> st_parseSecretPayload st (vc_secret v) = Some (vc_secret v)"
    and metadata_described: "validated v \<Longrightarrow> \<exists>m. st_describeMetadata st (vc_metadata v) = Inr m"
begin

lemma seals:
  assumes "validated v" and "crypto_ok C" and "keyset_ok ks"
    and "cr_parse C (cr_stringify C (vc_secret v)) = Some (vc_secret v)"
  shows "\<exists>x. cred_seal C ks iv st v uuid = Inr x
    \<and> st_describeMetadata st (sc_metadata x) = Inr (sc_metadata x)
    \<and> (\<forall>r. encryptedColumnsOf r = (sc_encrypted x, \<lparr>bd_uuid = uuid, bd_type = st_type st\<rparr>) \<longrightarrow>
          decryptRow C ks st r = Some (vc_secret v))"
proof -
  from metadata_described [OF assms(1)] obtain m where m: "st_describeMetadata st (vc_metadata v) = Inr m" ..
  then obtain x where x: "cred_seal C ks iv st v uuid = Inr x" and "sc_metadata x = m"
    by (simp add: cred_seal_def Let_def)
  with describe_again [OF m] sealed_row_decrypts [OF assms(2,3) x assms(4)] payload_parses [OF assms(1)]
  show ?thesis by auto
qed

end

section \<open>Fields of the copies\<close>

lemma json_field_copy:
  "k \<in> set ks \<Longrightarrow> json_field k (JsonObj (map (\<lambda>k. (k, f k)) ks)) = Some (f k)"
  by (induction ks) (auto simp: json_field_def)

lemma keys_copy: "map fst (map (\<lambda>k. (k, f k)) ks) = ks"
  by (simp add: comp_def)

section \<open>Personal access tokens\<close>

lemma isConsistent_cong:
  assumes "json_field ''tokenKind'' m = json_field ''tokenKind'' m'" and "json_field ''scopes'' m = json_field ''scopes'' m'"
    and "json_field ''permissionsVerified'' m = json_field ''permissionsVerified'' m'"
  shows "isConsistent m = isConsistent m'"
  using assms by (simp add: isConsistent_def)

lemma isConsistent_present:
  assumes "isConsistent m" and "k \<in> {''tokenKind'', ''scopes'', ''permissionsVerified''}"
  shows "json_field k m = Some (the (json_field k m))"
  using assms by (auto simp: isConsistent_def isScopeList_def Let_def split: if_splits option.splits)

lemma pat_describe_again:
  assumes "describePatMetadata m = Inr m'"
  shows "describePatMetadata m' = Inr m'"
proof -
  let ?ks = "[''tokenKind'', ''scopes'', ''permissionsVerified'']"
  let ?m = "JsonObj (map (\<lambda>k. (k, the (json_field k m))) ?ks)"
  from assms have m': "m' = ?m" and c: "isConsistent m"
    by (auto simp: describePatMetadata_def split: json.splits if_splits)
  have f: "json_field k ?m = json_field k m" if "k \<in> set ?ks" for k
    using json_field_copy [OF that, of "\<lambda>k. the (json_field k m)"] isConsistent_present [OF c, of k] that
    by (simp only: list.set(1,2))
  have "isConsistent ?m" using c isConsistent_cong [of ?m m] f by simp
  moreover have "js_join '','' (sort (map fst (map (\<lambda>k. (k, the (json_field k m))) ?ks))) = js_join '','' METADATA_KEYS"
    unfolding keys_copy by (simp add: METADATA_KEYS_def)
  ultimately have "describePatMetadata ?m = Inr (JsonObj (map (\<lambda>k. (k, the (json_field k ?m))) ?ks))"
    unfolding describePatMetadata_def by (simp only: json.case if_False simp_thms)
  also have "map (\<lambda>k. (k, the (json_field k ?m))) ?ks = map (\<lambda>k. (k, the (json_field k m))) ?ks"
    by (intro map_cong) (simp_all only: f)
  finally show ?thesis by (simp only: m')
qed

definition pat_validated :: "env \<Rightarrow> web \<Rightarrow> int \<Rightarrow> validated_credential \<Rightarrow> bool" where
  "pat_validated e W now v \<longleftrightarrow> (\<exists>raw p. parsePatCredential raw = Inr p \<and> pat_validate e W now p = Inr v)"

interpretation pat_contract: strategy_contract "pat_strategy e W now" "pat_validated e W now" for e W now
proof unfold_locales
  fix m m' v
  show "st_describeMetadata (pat_strategy e W now) m = Inr m' \<Longrightarrow> st_describeMetadata (pat_strategy e W now) m' = Inr m'"
    by (simp add: pat_strategy_def pat_describe_again)
  assume "pat_validated e W now v"
  then obtain raw p where p: "parsePatCredential raw = Inr p" and v: "pat_validate e W now p = Inr v"
    unfolding pat_validated_def by blast
  show "st_parseSecretPayload (pat_strategy e W now) (vc_secret v) = Some (vc_secret v)"
    by (simp add: pat_strategy_def pat_validate_Inr(1) [OF v] pat_payload_reparsed(1) [OF p])
  show "\<exists>m. st_describeMetadata (pat_strategy e W now) (vc_metadata v) = Inr m"
    by (simp add: pat_strategy_def pat_validate_Inr(2) [OF v])
qed

section \<open>OAuth App tokens\<close>

lemma scope_strings_map [simp]: "scope_strings (map JsonStr ss) = ss"
  by (induction ss) (simp_all add: scope_strings_def List.map_filter_simps)

lemma isScopeList_strings:
  "isScopeList (Some (JsonArr (map JsonStr ss))) \<longleftrightarrow> length ss \<le> 50 \<and> (\<forall>x \<in> set ss. x \<noteq> [] \<and> length x \<le> 64)"
  by (simp add: isScopeList_def MAX_SCOPES_def MAX_SCOPE_LENGTH_def list_all_iff)

lemma isScopeList_map:
  assumes "isScopeList (Some (JsonArr xs))"
  shows "xs = map JsonStr (scope_strings xs)"
proof -
  have "list_all (\<lambda>x. \<exists>s. x = JsonStr s) xs"
    using assms unfolding isScopeList_def by (auto simp: list_all_iff split: json.splits) (metis json.exhaust)
  then show ?thesis by (induction xs) (auto simp: scope_strings_def List.map_filter_simps)
qed

lemma oauth_describe_strings:
  "describeOauthAppMetadata (JsonObj [(''scopes'', JsonArr (map JsonStr ss)), (''clientId'', JsonStr i)]) =
     (if isScopeList (Some (JsonArr (map JsonStr ss))) \<and> OAUTH_APP_CLIENT_ID_PATTERN i
      then Inr (JsonObj [(''scopes'', JsonArr (map JsonStr (sort (remdups ss)))), (''clientId'', JsonStr i)])
      else Inl (invalidMetadataError ''oauth_app''))"
proof -
  have "sort [''scopes'', ''clientId''] = [''clientId'', ''scopes'']" by code_simp
  then show ?thesis by (simp add: describeOauthAppMetadata_def json_field_def)
qed

lemma oauth_describe_Inr:
  assumes "describeOauthAppMetadata m = Inr m'"
  obtains ss i where "m' = JsonObj [(''scopes'', JsonArr (map JsonStr (sort (remdups ss)))), (''clientId'', JsonStr i)]"
    and "isScopeList (Some (JsonArr (map JsonStr ss)))" and "OAUTH_APP_CLIENT_ID_PATTERN i"
proof -
  from assms obtain xs i where f: "json_field ''scopes'' m = Some (JsonArr xs)"
    and m': "m' = JsonObj [(''scopes'', JsonArr (map JsonStr (sort (remdups (scope_strings xs))))), (''clientId'', JsonStr i)]"
    and l: "isScopeList (Some (JsonArr xs))" and i: "OAUTH_APP_CLIENT_ID_PATTERN i"
    by (auto simp: describeOauthAppMetadata_def Let_def split: json.splits option.splits if_splits)
  from that [OF m' _ i] l isScopeList_map [OF l] show thesis by simp
qed

lemma oauth_describe_again:
  assumes "describeOauthAppMetadata m = Inr m'"
  shows "describeOauthAppMetadata m' = Inr m'"
proof -
  from oauth_describe_Inr [OF assms] obtain ss i
    where m': "m' = JsonObj [(''scopes'', JsonArr (map JsonStr (sort (remdups ss)))), (''clientId'', JsonStr i)]"
      and l: "isScopeList (Some (JsonArr (map JsonStr ss)))" and i: "OAUTH_APP_CLIENT_ID_PATTERN i" .
  have "isScopeList (Some (JsonArr (map JsonStr (sort (remdups ss)))))"
    using l order_trans [OF length_remdups_leq] by (auto simp: isScopeList_strings)
  with i show ?thesis by (simp only: m' oauth_describe_strings) (simp add: sorted_sort_id distinct_remdups_id)
qed

definition oauth_validated :: "web \<Rightarrow> oauth_app_config \<Rightarrow> int \<Rightarrow> validated_credential \<Rightarrow> bool" where
  "oauth_validated W c now v \<longleftrightarrow> OAUTH_APP_CLIENT_ID_PATTERN (oa_clientId c)
     \<and> (\<exists>code verifier. fst (oauth_validate W (Some c) now code verifier) = Inr v)"

lemma oauth_validate_Inr:
  assumes "fst (oauth_validate W (Some c) now code verifier) = Inr v"
  shows "\<exists>t h. vc_secret v = oauth_payload t \<and> isOauthAppToken t \<and> vc_metadata v = buildOauthAppMetadata h (oa_clientId c)"
  using assms
  by (fastforce simp: oauth_validate_def oauth_exchange_def oauth_identify_def Let_def
      split: sum.splits prod.splits option.splits if_splits github_user_answer.splits)

interpretation oauth_contract: strategy_contract "oauth_strategy W (Some c) now" "oauth_validated W c now" for W c now
proof unfold_locales
  fix m m' v
  show "st_describeMetadata (oauth_strategy W (Some c) now) m = Inr m' \<Longrightarrow>
      st_describeMetadata (oauth_strategy W (Some c) now) m' = Inr m'"
    by (simp add: oauth_strategy_def oauth_describe_again)
  assume "oauth_validated W c now v"
  then obtain t h where v: "vc_secret v = oauth_payload t" "isOauthAppToken t"
      "vc_metadata v = buildOauthAppMetadata h (oa_clientId c)" and i: "OAUTH_APP_CLIENT_ID_PATTERN (oa_clientId c)"
    unfolding oauth_validated_def by (auto dest!: oauth_validate_Inr)
  show "st_parseSecretPayload (oauth_strategy W (Some c) now) (vc_secret v) = Some (vc_secret v)"
    by (simp add: v parse_oauth_payload)
  have "isScopeList (Some (JsonArr (map JsonStr (parseScopes h))))"
    using parseScopes_bounds(1) [where h = h] parseScopes_bounds(2) [where h = h] by (auto simp: isScopeList_strings)
  with i show "\<exists>m. st_describeMetadata (oauth_strategy W (Some c) now) (vc_metadata v) = Inr m"
    by (simp add: oauth_strategy_def v buildOauthAppMetadata_def oauth_describe_strings)
qed

section \<open>GitHub App installations\<close>

definition app_metadata :: "json \<Rightarrow> json \<Rightarrow> json \<Rightarrow> json \<Rightarrow> json \<Rightarrow> json \<Rightarrow> json \<Rightarrow> json \<Rightarrow> json" where
  "app_metadata i a l t r issues meta by_login = JsonObj [(''installationId'', i), (''appId'', a), (''accountLogin'', l),
     (''accountType'', t), (''repositorySelection'', r), (''permissions'', JsonObj [(''issues'', issues), (''metadata'', meta)]),
     (''verifiedBy'', by_login)]"

lemma app_describe_fields:
  "describeGithubAppMetadata (app_metadata i a l t r issues meta by_login) =
     (if isPositiveId (Some i) \<and> isPositiveId (Some a) \<and> isGithubLogin (json_string (Some l))
         \<and> isGithubLogin (json_string (Some by_login)) \<and> account_type_of (Some t) \<noteq> None
         \<and> repository_selection_of (Some r) \<noteq> None \<and> has_level (Some issues) \<and> has_level (Some meta)
      then Inr (app_metadata i a l t r issues meta by_login) else Inl (invalidMetadataError ''github_app''))"
proof -
  have keys: "sort [''installationId'', ''appId'', ''accountLogin'', ''accountType'', ''repositorySelection'', ''permissions'',
      ''verifiedBy''] = APP_METADATA_KEYS" by code_simp
  have perm: "js_join '','' (sort [''issues'', ''metadata'']) = ''issues,metadata''" by code_simp
  show ?thesis
    by (simp add: describeGithubAppMetadata_def app_metadata_def keys del: sort_key_simps)
      (auto simp: hasValidIdentity_def hasValidGrant_def perm json_field_def pick_fields_def)
qed

lemma app_describe_Inr:
  assumes "describeGithubAppMetadata m = Inr m'"
  shows "\<exists>i a l t r issues meta by_login. m' = app_metadata i a l t r issues meta by_login
    \<and> isPositiveId (Some i) \<and> isPositiveId (Some a) \<and> isGithubLogin (json_string (Some l))
    \<and> isGithubLogin (json_string (Some by_login)) \<and> account_type_of (Some t) \<noteq> None
    \<and> repository_selection_of (Some r) \<noteq> None \<and> has_level (Some issues) \<and> has_level (Some meta)"
proof -
  from assms have id: "hasValidIdentity m" and gr: "hasValidGrant m"
    and m': "m' = JsonObj (pick_fields [''installationId'', ''appId'', ''accountLogin'', ''accountType'', ''repositorySelection''] m
             @ [(''permissions'', JsonObj (pick_fields [''issues'', ''metadata''] (the (json_field ''permissions'' m))))]
             @ pick_fields [''verifiedBy''] m)"
    by (auto simp: describeGithubAppMetadata_def split: json.splits if_splits)
  have some: "isPositiveId x \<Longrightarrow> x = Some (the x)" "isGithubLogin (json_string x) \<Longrightarrow> x = Some (the x)"
    "account_type_of x \<noteq> None \<Longrightarrow> x = Some (the x)" "repository_selection_of x \<noteq> None \<Longrightarrow> x = Some (the x)"
    "has_level x \<Longrightarrow> x = Some (the x)" for x :: "json option"
    by (cases x; simp add: isPositiveId_def json_string_def isGithubLogin_def account_type_of_def
        repository_selection_of_def has_level_def)+
  from gr obtain ps where ps: "json_field ''permissions'' m = Some (JsonObj ps)"
    and lv: "has_level (json_field ''issues'' (JsonObj ps))" "has_level (json_field ''metadata'' (JsonObj ps))"
    and r: "repository_selection_of (json_field ''repositorySelection'' m) \<noteq> None"
    by (auto simp: hasValidGrant_def split: option.splits json.splits)
  let ?v = "\<lambda>k. the (json_field k m)" and ?p = "\<lambda>k. the (json_field k (JsonObj ps))"
  have eq: "m' = app_metadata (?v ''installationId'') (?v ''appId'') (?v ''accountLogin'') (?v ''accountType'')
      (?v ''repositorySelection'') (?p ''issues'') (?p ''metadata'') (?v ''verifiedBy'')"
    by (simp add: m' app_metadata_def pick_fields_def ps)
  from id have vi: "isPositiveId (json_field ''installationId'' m)" "isPositiveId (json_field ''appId'' m)"
    "isGithubLogin (json_string (json_field ''accountLogin'' m))" "isGithubLogin (json_string (json_field ''verifiedBy'' m))"
    "account_type_of (json_field ''accountType'' m) \<noteq> None" by (simp_all add: hasValidIdentity_def)
  show ?thesis
    using eq vi r lv some(1) [OF vi(1)] some(1) [OF vi(2)] some(2) [OF vi(3)] some(2) [OF vi(4)] some(3) [OF vi(5)]
      some(4) [OF r] some(5) [OF lv(1)] some(5) [OF lv(2)] by metis
qed

lemma app_describe_again: "describeGithubAppMetadata m = Inr m' \<Longrightarrow> describeGithubAppMetadata m' = Inr m'"
  by (drule app_describe_Inr) (auto simp: app_describe_fields)

definition app_validated :: "web \<Rightarrow> app_keys \<Rightarrow> github_app_config \<Rightarrow> int \<Rightarrow> validated_credential \<Rightarrow> bool" where
  "app_validated W K c now v \<longleftrightarrow> (\<exists>i by_login. validateInstallation W K c now i by_login = Inr v)"

interpretation app_contract: strategy_contract "app_strategy W K (Some c) now" "app_validated W K c now" for W K c now
proof unfold_locales
  fix m m' v
  show "st_describeMetadata (app_strategy W K (Some c) now) m = Inr m' \<Longrightarrow>
      st_describeMetadata (app_strategy W K (Some c) now) m' = Inr m'"
    by (simp add: app_strategy_def app_describe_again)
  assume "app_validated W K c now v"
  then obtain i by_login where v: "validateInstallation W K c now i by_login = Inr v"
    unfolding app_validated_def by blast
  from validateInstallation_Inr [OF v] show "st_parseSecretPayload (app_strategy W K (Some c) now) (vc_secret v) = Some (vc_secret v)"
    by (auto simp: sound_installation_def parse_app_payload)
  from v obtain a where "buildGithubAppMetadata a by_login = Inr (vc_metadata v)"
    by (auto simp: validateInstallation_def split: sum.splits)
  then show "\<exists>m. st_describeMetadata (app_strategy W K (Some c) now) (vc_metadata v) = Inr m"
    by (auto simp: app_strategy_def buildGithubAppMetadata_def dest: app_describe_again)
qed

section \<open>Every type\<close>

text \<open>A strategy of the registry together with a credential its own flow validated.\<close>

inductive validated_by :: "env \<Rightarrow> web \<Rightarrow> app_keys \<Rightarrow> int \<Rightarrow> strategy \<Rightarrow> validated_credential \<Rightarrow> bool"
  for e W K now where
  by_pat: "pat_validated e W now v \<Longrightarrow> validated_by e W K now (pat_strategy e W now) v"
| by_oauth: "oauth_validated W c now v \<Longrightarrow> validated_by e W K now (oauth_strategy W (Some c) now) v"
| by_app: "app_validated W K ac now v \<Longrightarrow> validated_by e W K now (app_strategy W K (Some ac) now) v"

text \<open>
  C14. Well-typed credentials: whichever of the three types validated a credential, the pipeline can
  seal it; what is then in the row decrypts, under the row's uuid and type, to exactly the payload
  the type validated, which passes the type's own check of payloads; and the metadata in the row is
  of the type's shape: the type describes it as it is.
\<close>

theorem validated_credentials_are_storable:
  assumes "validated_by e W K now st v" and "crypto_ok C" and "keyset_ok ks"
    and "cr_parse C (cr_stringify C (vc_secret v)) = Some (vc_secret v)"
  shows "\<exists>x. cred_seal C ks iv st v uuid = Inr x
    \<and> st_describeMetadata st (sc_metadata x) = Inr (sc_metadata x)
    \<and> (\<forall>r. encryptedColumnsOf r = (sc_encrypted x, \<lparr>bd_uuid = uuid, bd_type = st_type st\<rparr>) \<longrightarrow>
          decryptRow C ks st r = Some (vc_secret v))"
  using assms(1)
proof cases
  case by_pat
  then show ?thesis using pat_contract.seals [OF by_pat(2) assms(2-4)] by simp
next
  case (by_oauth c)
  then show ?thesis using oauth_contract.seals [OF by_oauth(2) assms(2-4)] by simp
next
  case (by_app ac)
  then show ?thesis using app_contract.seals [OF by_app(2) assms(2-4)] by simp
qed

theorem validated_credentials_are_storable_witness:
  "\<exists>x v. vc_secret v = githubAppPayload 7
    \<and> cred_seal demo_app_crypto demo_old_keys ''iv'' (app_strategy demo_app_github demo_keys (Some demo_app_config) 1000) v demo_uuid = Inr x"
proof -
  let ?v = "\<lparr>vc_secret = githubAppPayload 7, vc_githubLogin = ''octo'', vc_expiresAt = None, vc_metadata = demo_app_metadata\<rparr>"
  have C: "crypto_ok demo_app_crypto"
    using demo_crypto_ok by (simp add: crypto_ok_def demo_app_crypto_def)
  have "app_validated demo_app_github demo_keys demo_app_config 1000 ?v"
    unfolding app_validated_def using demo_app_validated [of 1000] by blast
  then have "validated_by demo_env demo_app_github demo_keys 1000
      (app_strategy demo_app_github demo_keys (Some demo_app_config) 1000) ?v" by (rule by_app)
  from validated_credentials_are_storable [OF this C demo_keysets_ok(1), where iv = "''iv''" and uuid = demo_uuid]
    demo_app_json show ?thesis by force
qed

end
