(* ===== verification/Frontend_Poller.thy ===== *)
theory Frontend_Poller
  imports Kerghan_Prelude
begin

text \<open>
  \<^verbatim>\<open>frontend/assets/js/utils/polling/AuthorizationRequestPoller.js\<close>: the browser side of a device
  request, as a machine driven by its timers, by the answers to its polls and by its owner.  Times
  are milliseconds; a timer's state is the moment it is due.  The callbacks invoked are recorded in
  order; a callback that is not given is invoked to no effect, and none throws.
\<close>

section \<open>The poller\<close>

datatype rejection = RejDenied | RejExpired | RejLogged | RejNotFound

datatype poll_callback = CbApproved | CbRejected rejection | CbTick

record poll_config =
  pc_expiresAt :: "int option"
  pc_intervalMs :: int

record poller =
  po_config :: poll_config
  po_tickHandle :: "int option"
  po_expiryHandle :: "int option"
  po_stopped :: bool
  po_inFlight :: nat
  po_polls :: nat
  po_calls :: "poll_callback list"

definition DEFAULT_INTERVAL_MS :: int where "DEFAULT_INTERVAL_MS = 5000"

definition new_poller :: "poll_config \<Rightarrow> poller" where
  "new_poller c = \<lparr>po_config = c, po_tickHandle = None, po_expiryHandle = None, po_stopped = False,
     po_inFlight = 0, po_polls = 0, po_calls = []\<rparr>"

definition poller_stop :: "poller \<Rightarrow> poller" where
  "poller_stop p = p\<lparr>po_stopped := True, po_tickHandle := None, po_expiryHandle := None\<rparr>"

definition poller_finish :: "poll_callback \<Rightarrow> poller \<Rightarrow> poller" where
  "poller_finish cb p =
     (if po_stopped p then p else let p1 = poller_stop p in p1\<lparr>po_calls := po_calls p1 @ [cb]\<rparr>)"

definition guardedTick :: "poller \<Rightarrow> poller" where
  "guardedTick p = (if po_stopped p then p else p\<lparr>po_calls := po_calls p @ [CbTick]\<rparr>)"

definition scheduleTick :: "int \<Rightarrow> poller \<Rightarrow> poller" where
  "scheduleTick now p = p\<lparr>po_tickHandle := Some (now + pc_intervalMs (po_config p))\<rparr>"

definition poller_reschedule :: "int \<Rightarrow> poller \<Rightarrow> poller" where
  "poller_reschedule now p = (if po_stopped p then p else scheduleTick now p)"

definition armExpiry :: "int \<Rightarrow> poller \<Rightarrow> poller" where
  "armExpiry now p =
     (case pc_expiresAt (po_config p) of
        None \<Rightarrow> p
      | Some expiryMs \<Rightarrow> let delay = max (expiryMs - now) 0 in p\<lparr>po_expiryHandle := Some (now + delay)\<rparr>)"

definition poller_start :: "int \<Rightarrow> poller \<Rightarrow> poller" where
  "poller_start now p = (if po_stopped p then p else armExpiry now (scheduleTick now p))"

section \<open>One poll\<close>

text \<open>The status of the answer, if it is truthy; or the status of the error thrown, if it has one.\<close>

datatype poll_answer = PollResult "string option" | PollError "nat option"

definition dispatchPollResult :: "int \<Rightarrow> string option \<Rightarrow> poller \<Rightarrow> poller" where
  "dispatchPollResult now result p =
     (let status = (case result of Some s \<Rightarrow> if s = [] then ''open'' else s | None \<Rightarrow> ''open'')
      in if status = ''approved'' then poller_finish CbApproved p
         else if status = ''denied'' then poller_finish (CbRejected RejDenied) p
         else if status = ''expired'' then poller_finish (CbRejected RejExpired) p
         else if status = ''logged'' then poller_finish (CbRejected RejLogged) p
         else poller_reschedule now (guardedTick p))"

definition handlePollError :: "int \<Rightarrow> nat option \<Rightarrow> poller \<Rightarrow> poller" where
  "handlePollError now status p =
     (if status = Some 404 then poller_finish (CbRejected RejNotFound) p
      else poller_reschedule now (guardedTick p))"

text \<open>The tick up to its request, and from the answer on.\<close>

definition poll_send :: "int \<Rightarrow> poller \<Rightarrow> poller" where
  "poll_send now p =
     (if case pc_expiresAt (po_config p) of Some expiryMs \<Rightarrow> now \<ge> expiryMs | None \<Rightarrow> False
      then poller_finish (CbRejected RejExpired) p
      else p\<lparr>po_inFlight := po_inFlight p + 1, po_polls := po_polls p + 1\<rparr>)"

definition poll_receive :: "int \<Rightarrow> poll_answer \<Rightarrow> poller \<Rightarrow> poller" where
  "poll_receive now answer p =
     (case answer of
        PollResult status \<Rightarrow> dispatchPollResult now status p
      | PollError status \<Rightarrow> handlePollError now status p)"

section \<open>Events\<close>

text \<open>A timer fires no earlier than it is due; anything that is not pending is not delivered.\<close>

datatype poll_event =
    TickFires int
  | ExpiryFires int
  | PollAnswered int poll_answer
  | OwnerStops

fun poll_happens :: "poll_event \<Rightarrow> poller \<Rightarrow> bool" where
  "poll_happens (TickFires now) p = (case po_tickHandle p of Some d \<Rightarrow> d \<le> now | None \<Rightarrow> False)"
| "poll_happens (ExpiryFires now) p = (case po_expiryHandle p of Some d \<Rightarrow> d \<le> now | None \<Rightarrow> False)"
| "poll_happens (PollAnswered now a) p = (0 < po_inFlight p)"
| "poll_happens OwnerStops p = True"

fun poll_effect :: "poll_event \<Rightarrow> poller \<Rightarrow> poller" where
  "poll_effect (TickFires now) p =
     (let p1 = p\<lparr>po_tickHandle := None\<rparr> in if po_stopped p1 then p1 else poll_send now p1)"
| "poll_effect (ExpiryFires now) p = poller_finish (CbRejected RejExpired) (p\<lparr>po_expiryHandle := None\<rparr>)"
| "poll_effect (PollAnswered now a) p = poll_receive now a (p\<lparr>po_inFlight := po_inFlight p - 1\<rparr>)"
| "poll_effect OwnerStops p = poller_stop p"

definition poll_step :: "poll_event \<Rightarrow> poller \<Rightarrow> poller" where
  "poll_step ev p = (if poll_happens ev p then poll_effect ev p else p)"

primrec poll_run :: "poll_config \<Rightarrow> int \<Rightarrow> (nat \<Rightarrow> poll_event) \<Rightarrow> nat \<Rightarrow> poller" where
  "poll_run c t0 ev 0 = poller_start t0 (new_poller c)"
| "poll_run c t0 ev (Suc n) = poll_step (ev n) (poll_run c t0 ev n)"

section \<open>Runs and progress\<close>

locale transition_run =
  fixes step :: "'e \<Rightarrow> 's \<Rightarrow> 's" and ev :: "nat \<Rightarrow> 'e" and st :: "nat \<Rightarrow> 's"
  assumes run: "st (Suc n) = step (ev n) (st n)"
begin

lemma invariant:
  assumes "I (st 0)" and "\<And>e s. I s \<Longrightarrow> I (step e s)"
  shows "I (st n)"
  by (induction n) (simp_all add: assms run)

text \<open>A helpful event that comes as long as it is awaited leads out of the waiting.\<close>

lemma leads_to:
  assumes "P (st n)" and wait: "\<And>k. P (st k) \<Longrightarrow> P (step (ev k) (st k)) \<or> Q (step (ev k) (st k))"
    and fair: "\<exists>m \<ge> n. helpful (ev m)"
    and acts: "\<And>k. P (st k) \<Longrightarrow> helpful (ev k) \<Longrightarrow> Q (step (ev k) (st k))"
  shows "\<exists>m > n. Q (st m)"
proof (rule ccontr)
  assume never: "\<not> (\<exists>m > n. Q (st m))"
  have "P (st (n + j))" for j
  proof (induction j)
    case (Suc j)
    have "\<not> Q (st (Suc (n + j)))" using never by simp
    with wait [OF Suc] run [of "n + j"] show ?case by simp
  qed (use assms(1) in simp)
  moreover from fair obtain m where "m \<ge> n" "helpful (ev m)" by blast
  ultimately have "Q (st (Suc m))" using acts [of m] run [of m] by (metis le_add_diff_inverse)
  with never \<open>m \<ge> n\<close> show False by (meson le_imp_less_Suc)
qed

end

interpretation polling: transition_run poll_step ev "poll_run c t0 ev" for c t0 ev
  by unfold_locales simp

section \<open>The invariant\<close>

definition terminal :: "poll_callback \<Rightarrow> bool" where
  "terminal cb \<longleftrightarrow> cb \<noteq> CbTick"

definition terminals :: "poller \<Rightarrow> nat" where
  "terminals p = length (filter terminal (po_calls p))"

definition poller_ok :: "poll_config \<Rightarrow> int \<Rightarrow> poller \<Rightarrow> bool" where
  "poller_ok c t0 p \<longleftrightarrow> po_config p = c \<and> po_inFlight p \<le> 1
     \<and> (if po_stopped p then po_tickHandle p = None \<and> po_expiryHandle p = None \<and> terminals p \<le> 1
        else terminals p = 0 \<and> (po_tickHandle p = None \<longleftrightarrow> po_inFlight p = 1)
          \<and> po_expiryHandle p = map_option (\<lambda>x. max x t0) (pc_expiresAt c))"

lemmas poller_defs = poller_ok_def poller_stop_def poller_finish_def guardedTick_def scheduleTick_def
  poller_reschedule_def poll_send_def poll_receive_def dispatchPollResult_def handlePollError_def
  terminals_def terminal_def

lemma poller_ok_start: "poller_ok c t0 (poller_start t0 (new_poller c))"
  by (auto simp: poller_defs poller_start_def armExpiry_def new_poller_def Let_def split: option.splits)

text \<open>The three things a poller does, from a state between two events.\<close>

lemma poller_ok_finish:
  assumes "po_config p = c" and "po_inFlight p \<le> 1" and "\<not> po_stopped p" and "terminals p = 0"
  shows "poller_ok c t0 (poller_finish cb p)"
  using assms by (simp add: poller_defs Let_def)

lemma poller_ok_finish_stopped: "po_stopped p \<Longrightarrow> poller_ok c t0 p \<Longrightarrow> poller_ok c t0 (poller_finish cb p)"
  by (simp add: poller_finish_def)

lemma poller_ok_again:
  assumes "po_config p = c" and "po_inFlight p = 0" and "po_stopped p \<Longrightarrow> poller_ok c t0 p"
    and "\<not> po_stopped p \<Longrightarrow> terminals p = 0 \<and> po_expiryHandle p = map_option (\<lambda>x. max x t0) (pc_expiresAt c)"
  shows "poller_ok c t0 (poller_reschedule now (guardedTick p))"
  using assms by (cases "po_stopped p") (simp_all add: poller_defs)

lemma poller_ok_receive:
  assumes "po_config p = c" and "po_inFlight p = 0" and "po_stopped p \<Longrightarrow> poller_ok c t0 p"
    and "\<not> po_stopped p \<Longrightarrow> terminals p = 0 \<and> po_expiryHandle p = map_option (\<lambda>x. max x t0) (pc_expiresAt c)"
  shows "poller_ok c t0 (poll_receive now a p)"
proof -
  have "poller_ok c t0 (poller_finish cb p)" for cb
    using assms poller_ok_finish [of p c t0 cb] poller_ok_finish_stopped [of p c t0 cb] by (cases "po_stopped p") simp_all
  with poller_ok_again [OF assms] show ?thesis
    by (simp add: poll_receive_def dispatchPollResult_def handlePollError_def Let_def split: poll_answer.split)
qed

lemma poller_ok_step:
  assumes ok: "poller_ok c t0 p"
  shows "poller_ok c t0 (poll_step ev p)"
proof (cases "poll_happens ev p")
  case happens: True
  show ?thesis
  proof (cases ev)
    case (TickFires now)
    let ?q = "p\<lparr>po_tickHandle := None\<rparr>"
    from TickFires ok happens have q: "\<not> po_stopped ?q" "po_config ?q = c" "po_inFlight ?q = 0" "terminals ?q = 0"
      and e: "po_expiryHandle ?q = map_option (\<lambda>x. max x t0) (pc_expiresAt c)"
      by (auto simp: poller_ok_def terminals_def split: if_splits option.splits)
    have sent: "poller_ok c t0 (?q\<lparr>po_inFlight := po_inFlight ?q + 1, po_polls := po_polls ?q + 1\<rparr>)"
      using q e by (simp add: poller_ok_def terminals_def)
    have late: "poller_ok c t0 (poller_finish (CbRejected RejExpired) ?q)"
      by (rule poller_ok_finish) (use q in auto)
    have "poller_ok c t0 (poll_send now ?q)"
      using sent late by (simp only: poll_send_def split: if_split) blast
    with q(1) ok show ?thesis by (simp add: poll_step_def TickFires Let_def)
  next
    case (ExpiryFires now)
    with ok happens have "\<not> po_stopped p" "po_config p = c" "po_inFlight p \<le> 1" "terminals p = 0"
      by (auto simp: poller_ok_def split: if_splits option.splits)
    with ok poller_ok_finish [of "p\<lparr>po_expiryHandle := None\<rparr>" c t0] show ?thesis
      by (simp add: poll_step_def happens ExpiryFires terminals_def)
  next
    case (PollAnswered now a)
    let ?q = "p\<lparr>po_inFlight := po_inFlight p - 1\<rparr>"
    have q: "po_config ?q = c" "po_inFlight ?q = 0" "po_stopped ?q \<Longrightarrow> poller_ok c t0 ?q"
      "\<not> po_stopped ?q \<Longrightarrow> terminals ?q = 0 \<and> po_expiryHandle ?q = map_option (\<lambda>x. max x t0) (pc_expiresAt c)"
      using ok by (simp_all add: poller_ok_def terminals_def split: if_splits)
    from poller_ok_receive [of ?q, OF q] ok show ?thesis by (simp only: poll_step_def PollAnswered poll_effect.simps split: if_split) blast
  next
    case OwnerStops
    with ok show ?thesis by (auto simp: poll_step_def poller_ok_def poller_stop_def terminals_def split: if_splits)
  qed
qed (simp add: poll_step_def ok)

lemma poller_ok_run: "poller_ok c t0 (poll_run c t0 ev n)"
  by (rule polling.invariant) (simp_all add: poller_ok_start poller_ok_step)

section \<open>Settling\<close>

text \<open>A stopped poller does nothing more.\<close>

lemma stopped_step:
  assumes "po_stopped p"
  shows "po_stopped (poll_step ev p) \<and> po_calls (poll_step ev p) = po_calls p \<and> po_polls (poll_step ev p) = po_polls p"
  using assms by (cases ev) (auto simp: poll_step_def poller_defs Let_def split: poll_answer.split option.split)

lemma stopped_run:
  assumes "po_stopped (poll_run c t0 ev n)" and "n \<le> m"
  shows "po_stopped (poll_run c t0 ev m) \<and> po_calls (poll_run c t0 ev m) = po_calls (poll_run c t0 ev n)"
  using assms(2) by (induction m rule: nat_induct_at_least) (use assms(1) stopped_step in auto)

text \<open>It stops for its owner, or with one terminal callback.\<close>

lemma stops_for_a_reason:
  assumes "\<not> po_stopped p" and "terminals p = 0" and "ev \<noteq> OwnerStops" and "po_stopped (poll_step ev p)"
  shows "terminals (poll_step ev p) = 1"
  using assms by (cases ev)
    (auto simp: poll_step_def poller_defs Let_def split: if_splits poll_answer.splits option.splits)

lemma stopped_reason_run:
  "po_stopped (poll_run c t0 ev n) \<Longrightarrow> terminals (poll_run c t0 ev n) = 1 \<or> (\<exists>k < n. ev k = OwnerStops)"
proof (induction n)
  case 0 then show ?case by (auto simp: poller_start_def armExpiry_def scheduleTick_def new_poller_def Let_def split: option.splits)
next
  case (Suc n)
  show ?case
  proof (cases "po_stopped (poll_run c t0 ev n)")
    case True
    with Suc.IH stopped_step [OF True, of "ev n"] show ?thesis by (auto simp: terminals_def less_Suc_eq)
  next
    case False
    with poller_ok_run [of c t0 ev n] have "terminals (poll_run c t0 ev n) = 0" by (simp add: poller_ok_def)
    from stops_for_a_reason [OF False this, of "ev n"] Suc.prems show ?thesis by auto
  qed
qed

lemma expiry_stops:
  assumes e: "pc_expiresAt c = Some e"
    and fair: "\<And>n d. po_expiryHandle (poll_run c t0 ev n) = Some d \<Longrightarrow> \<exists>m \<ge> n. \<exists>now \<ge> d. ev m = ExpiryFires now"
  shows "\<exists>n. po_stopped (poll_run c t0 ev n)"
proof (cases "po_stopped (poll_run c t0 ev 0)")
  case False
  have armed: "po_expiryHandle s = Some (max e t0)" if "poller_ok c t0 s" "\<not> po_stopped s" for s
    using that e by (simp add: poller_ok_def)
  have "\<exists>m > 0. po_stopped (poll_run c t0 ev m)"
  proof (rule polling.leads_to [where P = "\<lambda>s. poller_ok c t0 s \<and> \<not> po_stopped s"
        and helpful = "\<lambda>x. \<exists>now \<ge> max e t0. x = ExpiryFires now"])
    show "poller_ok c t0 (poll_run c t0 ev 0) \<and> \<not> po_stopped (poll_run c t0 ev 0)"
      using False poller_ok_run by blast
    show "\<exists>m \<ge> 0. \<exists>now \<ge> max e t0. ev m = ExpiryFires now"
      using fair [of 0 "max e t0"] armed [OF poller_ok_run False] by blast
  next
    fix k assume "poller_ok c t0 (poll_run c t0 ev k) \<and> \<not> po_stopped (poll_run c t0 ev k)"
      and "\<exists>now \<ge> max e t0. ev k = ExpiryFires now"
    then show "po_stopped (poll_step (ev k) (poll_run c t0 ev k))"
      using armed [of "poll_run c t0 ev k"]
      by (auto simp: poll_step_def poller_finish_def poller_stop_def Let_def)
  qed (auto simp: poller_ok_step)
  then show ?thesis by blast
qed blast

text \<open>
  C23. A device request shown in the browser settles: if its expiry can be read and the browser
  runs the timers that stay pending, then whatever the polls answer, fail to answer or never answer, and
  whenever the owner intervenes, there is a moment from which the poller is stopped with no timer
  pending and calls nothing back any more; by then it has called back exactly one outcome, approved
  or rejected, unless its owner stopped it, and then it has called back at most one.
\<close>
theorem poller_settles_exactly_once:
  assumes "pc_expiresAt c = Some e"
    and "\<And>n d. po_expiryHandle (poll_run c t0 ev n) = Some d \<Longrightarrow> \<exists>m \<ge> n. \<exists>now \<ge> d. ev m = ExpiryFires now"
  shows "\<exists>n. \<forall>m \<ge> n. po_stopped (poll_run c t0 ev m)
     \<and> po_tickHandle (poll_run c t0 ev m) = None \<and> po_expiryHandle (poll_run c t0 ev m) = None
     \<and> po_calls (poll_run c t0 ev m) = po_calls (poll_run c t0 ev n)
     \<and> (terminals (poll_run c t0 ev m) = 1 \<or> (terminals (poll_run c t0 ev m) = 0 \<and> (\<exists>k < n. ev k = OwnerStops)))"
proof -
  obtain n where n: "po_stopped (poll_run c t0 ev n)" using expiry_stops [OF assms] by blast
  have reason: "terminals (poll_run c t0 ev n) = 1 \<or> (terminals (poll_run c t0 ev n) = 0 \<and> (\<exists>k < n. ev k = OwnerStops))"
    using stopped_reason_run [OF n] poller_ok_run [of c t0 ev n] n by (auto simp: poller_ok_def le_Suc_eq)
  show ?thesis
  proof (intro exI [of _ n] allI impI)
    fix m assume "n \<le> m"
    note later = stopped_run [OF n this]
    then have "terminals (poll_run c t0 ev m) = terminals (poll_run c t0 ev n)" by (simp only: terminals_def)
    with later reason poller_ok_run [of c t0 ev m]
    show "po_stopped (poll_run c t0 ev m)
      \<and> po_tickHandle (poll_run c t0 ev m) = None \<and> po_expiryHandle (poll_run c t0 ev m) = None
      \<and> po_calls (poll_run c t0 ev m) = po_calls (poll_run c t0 ev n)
      \<and> (terminals (poll_run c t0 ev m) = 1 \<or> (terminals (poll_run c t0 ev m) = 0 \<and> (\<exists>k < n. ev k = OwnerStops)))"
      by (simp add: poller_ok_def)
  qed
qed

definition demo_events :: "nat \<Rightarrow> poll_event" where
  "demo_events n = (case n of 0 \<Rightarrow> TickFires 5000 | Suc 0 \<Rightarrow> PollAnswered 5100 (PollError None)
     | Suc (Suc 0) \<Rightarrow> ExpiryFires 9000 | _ \<Rightarrow> TickFires 99000)"

lemma demo_run:
  "po_stopped (poll_run \<lparr>pc_expiresAt = Some 9000, pc_intervalMs = DEFAULT_INTERVAL_MS\<rparr> 0 demo_events 3)"
  by code_simp

theorem poller_settles_exactly_once_witness:
  "\<exists>n. \<forall>m \<ge> n. terminals (poll_run \<lparr>pc_expiresAt = Some 9000, pc_intervalMs = DEFAULT_INTERVAL_MS\<rparr> 0 demo_events m) = 1"
proof -
  let ?c = "\<lparr>pc_expiresAt = Some 9000, pc_intervalMs = DEFAULT_INTERVAL_MS\<rparr>"
  have "\<exists>m \<ge> n. \<exists>now \<ge> d. demo_events m = ExpiryFires now"
    if d: "po_expiryHandle (poll_run ?c 0 demo_events n) = Some d" for n d
  proof -
    have live: "\<not> po_stopped (poll_run ?c 0 demo_events n)"
      using d poller_ok_run [of ?c 0 demo_events n] by (auto simp: poller_ok_def)
    then have "n \<le> 2" using stopped_run [OF demo_run, of n] by (cases "3 \<le> n") auto
    moreover have "d = 9000" using d live poller_ok_run [of ?c 0 demo_events n] by (simp add: poller_ok_def)
    ultimately show ?thesis by (intro exI [of _ 2]) (simp add: demo_events_def numeral_2_eq_2)
  qed
  from poller_settles_exactly_once [of ?c 9000 0 demo_events, OF _ this]
  obtain n where n: "terminals (poll_run ?c 0 demo_events m) = 1
      \<or> (terminals (poll_run ?c 0 demo_events m) = 0 \<and> (\<exists>k < n. demo_events k = OwnerStops))" if "m \<ge> n" for m
    by auto
  moreover have "demo_events k \<noteq> OwnerStops" for k by (simp add: demo_events_def split: nat.split)
  ultimately show ?thesis by (intro exI [of _ n]) auto
qed

section \<open>Never giving up\<close>

text \<open>An answer that settles nothing: the request is still open, or a failure other than not found.\<close>

definition keeps_polling :: "poll_answer \<Rightarrow> bool" where
  "keeps_polling a =
     (case a of
        PollResult s \<Rightarrow> s \<notin> Some ` {''approved'', ''denied'', ''expired'', ''logged''}
      | PollError s \<Rightarrow> s \<noteq> Some 404)"

lemma receive_keeps:
  assumes "keeps_polling a" and "\<not> po_stopped p"
  shows "poll_receive now a p = scheduleTick now (p\<lparr>po_calls := po_calls p @ [CbTick]\<rparr>)"
  using assms
  by (auto simp: keeps_polling_def poll_receive_def dispatchPollResult_def handlePollError_def
      guardedTick_def poller_reschedule_def split: poll_answer.splits option.splits)

text \<open>Nothing but timers and such answers.\<close>

definition steady :: "(nat \<Rightarrow> poll_event) \<Rightarrow> bool" where
  "steady ev \<longleftrightarrow> (\<forall>k. ev k \<noteq> OwnerStops \<and> (\<forall>now a. ev k = PollAnswered now a \<longrightarrow> keeps_polling a))"

lemma live_step:
  assumes "pc_expiresAt (po_config p) = None" and "po_expiryHandle p = None" and "\<not> po_stopped p" and "ev \<noteq> OwnerStops"
    and "\<And>now a. ev = PollAnswered now a \<Longrightarrow> keeps_polling a"
  shows "\<not> po_stopped (poll_step ev p) \<and> po_polls p \<le> po_polls (poll_step ev p)"
  using assms by (cases ev) (auto simp: poll_step_def poll_send_def receive_keeps scheduleTick_def Let_def)

lemma live_run:
  assumes "pc_expiresAt c = None" and "steady ev"
  shows "\<not> po_stopped (poll_run c t0 ev n)"
proof (induction n)
  case 0 then show ?case by (simp add: poller_start_def armExpiry_def scheduleTick_def new_poller_def assms(1))
next
  case (Suc n)
  with live_step [of "poll_run c t0 ev n" "ev n"] poller_ok_run [of c t0 ev n] assms show ?case
    by (simp add: poller_ok_def steady_def)
qed

lemma polls_mono:
  assumes "pc_expiresAt c = None" and "steady ev"
  shows "po_polls (poll_run c t0 ev n) \<le> po_polls (poll_step (ev n) (poll_run c t0 ev n))"
  using live_step [of "poll_run c t0 ev n" "ev n"] poller_ok_run [of c t0 ev n] live_run [OF assms] assms
  by (simp add: poller_ok_def steady_def)

text \<open>
  A request whose expiry cannot be read is polled for ever, as long as its polls answer that it is
  open or fail in transit, the browser runs its timers and the owner does not stop it.
\<close>
theorem transient_failures_never_end_the_polling:
  assumes c: "pc_expiresAt c = None" and steady: "steady ev"
    and ticks: "\<And>n d. po_tickHandle (poll_run c t0 ev n) = Some d \<Longrightarrow> \<exists>m \<ge> n. \<exists>now \<ge> d. ev m = TickFires now"
    and answers: "\<And>n. 0 < po_inFlight (poll_run c t0 ev n) \<Longrightarrow> \<exists>m \<ge> n. \<exists>now a. ev m = PollAnswered now a"
  shows "\<exists>n. N \<le> po_polls (poll_run c t0 ev n)"
proof (induction N)
  case (Suc N)
  let ?s = "poll_run c t0 ev"
  note live = live_run [OF c steady] and mono = polls_mono [OF c steady] and ok = poller_ok_run [of c t0 ev]
  have tick: "po_tickHandle (?s k) \<noteq> None \<longleftrightarrow> po_inFlight (?s k) = 0" for k
    using live [of t0 k] ok [of k] by (auto simp: poller_ok_def le_Suc_eq)
  have exp: "po_expiryHandle (?s k) = None" "pc_expiresAt (po_config (?s k)) = None" for k
    using live [of t0 k] ok [of k] c by (simp_all add: poller_ok_def)
  obtain n where n: "N \<le> po_polls (?s n)" using Suc.IH by blast
  have pending: "\<exists>m. N \<le> po_polls (?s m) \<and> po_tickHandle (?s m) \<noteq> None"
  proof (cases "po_inFlight (?s n) = 0")
    case False
    have "\<exists>m > n. N \<le> po_polls (?s m) \<and> po_tickHandle (?s m) \<noteq> None"
    proof (rule polling.leads_to [where P = "\<lambda>s. N \<le> po_polls s \<and> po_tickHandle s = None \<and> s \<in> range ?s"
          and helpful = "\<lambda>x. \<exists>now a. x = PollAnswered now a"])
      show "N \<le> po_polls (?s n) \<and> po_tickHandle (?s n) = None \<and> ?s n \<in> range ?s" using n False tick [of n] by simp
      show "\<exists>m \<ge> n. \<exists>now a. ev m = PollAnswered now a" using answers False by blast
    next
      fix k assume P: "N \<le> po_polls (?s k) \<and> po_tickHandle (?s k) = None \<and> ?s k \<in> range ?s"
      have "N \<le> po_polls (poll_step (ev k) (?s k))" using P mono [of t0 k] by linarith
      moreover have "poll_step (ev k) (?s k) \<in> range ?s" by (metis poll_run.simps(2) rangeI)
      ultimately show "(N \<le> po_polls (poll_step (ev k) (?s k)) \<and> po_tickHandle (poll_step (ev k) (?s k)) = None
            \<and> poll_step (ev k) (?s k) \<in> range ?s)
          \<or> (N \<le> po_polls (poll_step (ev k) (?s k)) \<and> po_tickHandle (poll_step (ev k) (?s k)) \<noteq> None)" by blast
      show "N \<le> po_polls (poll_step (ev k) (?s k)) \<and> po_tickHandle (poll_step (ev k) (?s k)) \<noteq> None"
        if a: "\<exists>now a. ev k = PollAnswered now a"
      proof -
        from a obtain now a where a: "ev k = PollAnswered now a" by blast
        from steady a have keeps_a: "keeps_polling a" by (auto simp: steady_def)
        have "0 < po_inFlight (?s k)" using P tick [of k] by auto
        then have "po_tickHandle (poll_step (ev k) (?s k)) \<noteq> None"
          using live [of t0 k] by (simp add: poll_step_def a receive_keeps [OF keeps_a] scheduleTick_def)
        with P mono [of t0 k] show ?thesis by linarith
      qed
    qed
    then show ?thesis by blast
  qed (use n tick in blast)
  then obtain m d where m: "N \<le> po_polls (?s m)" and d: "po_tickHandle (?s m) = Some d" by blast
  obtain l now where l: "l \<ge> m" "now \<ge> d" "ev l = TickFires now" using ticks [OF d] by blast
  have "\<exists>j > m. Suc N \<le> po_polls (?s j)"
  proof (rule polling.leads_to [where P = "\<lambda>s. N \<le> po_polls s \<and> po_tickHandle s = Some d"
        and helpful = "\<lambda>x. \<exists>now \<ge> d. x = TickFires now"])
    fix k assume P: "N \<le> po_polls (?s k) \<and> po_tickHandle (?s k) = Some d"
    then have idle: "po_inFlight (?s k) = 0" using tick by auto
    show "N \<le> po_polls (poll_step (ev k) (?s k)) \<and> po_tickHandle (poll_step (ev k) (?s k)) = Some d
        \<or> Suc N \<le> po_polls (poll_step (ev k) (?s k))"
      using P idle exp [of k] live [of t0 k] steady
      by (cases "ev k") (auto simp: steady_def poll_step_def poll_send_def Let_def)
    show "Suc N \<le> po_polls (poll_step (ev k) (?s k))" if "\<exists>now \<ge> d. ev k = TickFires now"
      using that P exp [of k] live [of t0 k] by (auto simp: poll_step_def poll_send_def Let_def)
  qed (use m d l in auto)
  then show ?case by blast
qed blast

end
