(* ===== verification/Frontend_Page.thy ===== *)
theory Frontend_Page
  imports Frontend_Poller Integration_State
begin

text \<open>
  The page the browser shows: what the frontend keeps between events.  \<^verbatim>\<open>client/AuthEvents.js\<close> and
  \<^verbatim>\<open>client/LoginModalEvents.js\<close> with their two subscribers, which \<^verbatim>\<open>helpers/AppHelper.jsx\<close> always
  mounts (\<^verbatim>\<open>header/hooks/useAuthEffect.js\<close>, \<^verbatim>\<open>loginModal/hooks/useLoginModal.js\<close>);
  \<^verbatim>\<open>client/AuthSession.js\<close>; \<^verbatim>\<open>utils/routing/redirects.js\<close>.  A window event reaches its handler before
  the call that dispatched it returns; a React state is the last value set.  An asynchronous function
  is a function from a page to what it returns or throws and the next page.  A page component
  extends the record with its own state.
\<close>

section \<open>Values and errors\<close>

text \<open>A JavaScript value that came as JSON; \<^term>\<open>None\<close> is \<open>undefined\<close>.\<close>

fun json_truthy :: "json \<Rightarrow> bool" where
  "json_truthy JsonNull = False"
| "json_truthy (JsonBool b) = b"
| "json_truthy (JsonNum n) = (n \<noteq> 0)"
| "json_truthy (JsonStr s) = (s \<noteq> [])"
| "json_truthy (JsonArr vs) = True"
| "json_truthy (JsonObj fs) = True"

definition js_truthy :: "json option \<Rightarrow> bool" where
  "js_truthy v = (case v of None \<Rightarrow> False | Some j \<Rightarrow> json_truthy j)"

fun js_decimal :: "nat \<Rightarrow> string" where
  "js_decimal n = (if n < 10 then [char_of (48 + n)] else js_decimal (n div 10) @ [char_of (48 + n mod 10)])"

declare js_decimal.simps [simp del]

fun json_text :: "json \<Rightarrow> string" where
  "json_text JsonNull = ''null''"
| "json_text (JsonBool b) = (if b then ''true'' else ''false'')"
| "json_text (JsonNum n) = (if n < 0 then CHR ''-'' # js_decimal (nat (- n)) else js_decimal (nat n))"
| "json_text (JsonStr s) = s"
| "json_text (JsonArr vs) =
     js_join '','' (map (\<lambda>v. case v of JsonNull \<Rightarrow> [] | _ \<Rightarrow> json_text v) vs)"
| "json_text (JsonObj fs) = ''[object Object]''"

definition js_text :: "json option \<Rightarrow> string" where
  "js_text v = (case v of None \<Rightarrow> ''undefined'' | Some j \<Rightarrow> json_text j)"

definition js_field :: "string \<Rightarrow> json option \<Rightarrow> json option" where
  "js_field k v = (case v of None \<Rightarrow> None | Some j \<Rightarrow> json_field k j)"

text \<open>\<^verbatim>\<open>v ?? d\<close>, where \<open>null\<close> counts as missing.\<close>

definition js_nullish :: "json option \<Rightarrow> bool" where
  "js_nullish v \<longleftrightarrow> v = None \<or> v = Some JsonNull"

definition js_coalesce :: "json option \<Rightarrow> json option \<Rightarrow> json option" where
  "js_coalesce v d = (if js_nullish v then d else v)"

record api_error =
  ae_status :: nat
  ae_message :: string
  ae_code :: "json option"
  ae_details :: "json option"
  ae_retryAfter :: "nat option"

text \<open>What a client call throws: an \<^verbatim>\<open>ApiError\<close>, or another error with its message.\<close>

datatype js_error = ApiErr api_error | JsErr string

definition error_message :: "js_error \<Rightarrow> string" where
  "error_message x = (case x of ApiErr a \<Rightarrow> ae_message a | JsErr m \<Rightarrow> m)"

definition error_status :: "js_error \<Rightarrow> nat option" where
  "error_status x = (case x of ApiErr a \<Rightarrow> Some (ae_status a) | JsErr m \<Rightarrow> None)"

definition error_code :: "js_error \<Rightarrow> json option" where
  "error_code x = (case x of ApiErr a \<Rightarrow> ae_code a | JsErr m \<Rightarrow> None)"

text \<open>
  Reading a property of \<open>undefined\<close> or \<open>null\<close>, as destructuring does, throws a \<^verbatim>\<open>TypeError\<close>; its
  text is the engine's.
\<close>

definition destructure_error :: js_error where
  "destructure_error = JsErr ''TypeError''"

type_synonym ('a, 's) js = "'s \<Rightarrow> (js_error + 'a) \<times> 's"

definition js_return :: "'a \<Rightarrow> ('a, 's) js" where
  "js_return a s = (Inr a, s)"

definition js_throw :: "js_error \<Rightarrow> ('a, 's) js" where
  "js_throw x s = (Inl x, s)"

definition js_await :: "('a, 's) js \<Rightarrow> ('a \<Rightarrow> ('b, 's) js) \<Rightarrow> ('b, 's) js" where
  "js_await m f s = (case m s of (Inl x, s1) \<Rightarrow> (Inl x, s1) | (Inr a, s1) \<Rightarrow> f a s1)"

definition js_catch :: "('a, 's) js \<Rightarrow> (js_error \<Rightarrow> ('a, 's) js) \<Rightarrow> ('a, 's) js" where
  "js_catch m h s = (case m s of (Inl x, s1) \<Rightarrow> h x s1 | (Inr a, s1) \<Rightarrow> (Inr a, s1))"

definition js_do :: "('s \<Rightarrow> 's) \<Rightarrow> (unit, 's) js" where
  "js_do f s = (Inr (), f s)"

lemmas js_defs = js_return_def js_throw_def js_await_def js_catch_def js_do_def

text \<open>A computation that keeps a property of the state, whether it returns or throws.\<close>

definition js_keeps :: "('s \<Rightarrow> bool) \<Rightarrow> ('a, 's) js \<Rightarrow> bool" where
  "js_keeps P m \<longleftrightarrow> (\<forall>p. P p \<longrightarrow> P (snd (m p)))"

lemma js_keepsD: "js_keeps P m \<Longrightarrow> P p \<Longrightarrow> P (snd (m p))"
  by (simp add: js_keeps_def)

lemma js_keeps_return: "js_keeps P (js_return r)" "js_keeps P (js_throw x)"
  by (simp_all add: js_keeps_def js_return_def js_throw_def)

lemma js_keeps_await: "js_keeps P a \<Longrightarrow> (\<And>v. js_keeps P (f v)) \<Longrightarrow> js_keeps P (js_await a f)"
  by (simp add: js_keeps_def js_await_def split: prod.split sum.split) (metis snd_conv)

lemma js_keeps_catch: "js_keeps P b \<Longrightarrow> (\<And>x. js_keeps P (h x)) \<Longrightarrow> js_keeps P (js_catch b h)"
  by (simp add: js_keeps_def js_catch_def split: prod.split sum.split) (metis snd_conv)

lemma js_keeps_do: "(\<And>p. P p \<Longrightarrow> P (g p)) \<Longrightarrow> js_keeps P (js_do g)"
  by (simp add: js_keeps_def js_do_def)

definition js_destructure :: "json option \<Rightarrow> (json option, 's) js" where
  "js_destructure v = (if js_nullish v then js_throw destructure_error else js_return v)"

section \<open>The page\<close>

record api_request =
  ar_method :: string
  ar_path :: string
  ar_body :: json

record login_fields =
  lf_username :: string
  lf_email :: string
  lf_password :: string
  lf_passwordConfirmation :: string
  lf_keepSignedIn :: bool

definition INITIAL_FIELDS :: login_fields where
  "INITIAL_FIELDS = \<lparr>lf_username = [], lf_email = [], lf_password = [], lf_passwordConfirmation = [],
     lf_keepSignedIn = False\<rparr>"

record device_poller =
  dp_poller :: poller
  dp_uuid :: "json option"
  dp_pollToken :: "json option"

text \<open>
  The login modal with its controller; \<open>lm_pollers\<close> are the pollers it ever made, \<open>lm_poller\<close> is the
  place of the one the controller holds.
\<close>

record login_modal =
  lm_open :: bool
  lm_mode :: string
  lm_fields :: login_fields
  lm_fieldErrors :: "(string \<times> string) list"
  lm_submitError :: "string option"
  lm_resetToken :: string
  lm_resultPanel :: "string option"
  lm_deviceExpiresAt :: "json option"
  lm_pollers :: "device_poller list"
  lm_poller :: "nat option"

definition closed_modal :: login_modal where
  "closed_modal = \<lparr>lm_open = False, lm_mode = ''password'', lm_fields = INITIAL_FIELDS, lm_fieldErrors = [],
     lm_submitError = None, lm_resetToken = [], lm_resultPanel = None, lm_deviceExpiresAt = None,
     lm_pollers = [], lm_poller = None\<rparr>"

record page =
  pg_cookies :: string
  pg_storage :: "string \<Rightarrow> string option"
  pg_hash :: string
  pg_sent :: "api_request list"
  pg_loggedIn :: bool
  pg_isAdmin :: bool
  pg_pending :: bool
  pg_logoutError :: "string option"
  pg_recheckError :: "string option"
  pg_modal :: login_modal

text \<open>Assigning \<^verbatim>\<open>location.hash\<close> \<open>'/'\<close> makes it read \<open>'#/'\<close>.\<close>

definition redirectHome :: "('a page_scheme) \<Rightarrow> ('a page_scheme)" where
  "redirectHome p = p\<lparr>pg_hash := ''#/''\<rparr>"

definition redirectIfForbidden :: "js_error \<Rightarrow> ('a page_scheme) \<Rightarrow> bool \<times> ('a page_scheme)" where
  "redirectIfForbidden x p = (if error_status x \<noteq> Some 403 then (False, p) else (True, redirectHome p))"

section \<open>Events\<close>

definition handleAuthChanged :: "bool \<Rightarrow> bool \<Rightarrow> bool \<Rightarrow> ('a page_scheme) \<Rightarrow> ('a page_scheme)" where
  "handleAuthChanged loggedIn isAdmin pending p =
     p\<lparr>pg_loggedIn := loggedIn, pg_isAdmin := isAdmin, pg_pending := pending\<rparr>"

definition AuthEvents_emit :: "bool \<Rightarrow> bool \<Rightarrow> bool \<Rightarrow> ('a page_scheme) \<Rightarrow> ('a page_scheme)" where
  "AuthEvents_emit loggedIn isAdmin pending p = handleAuthChanged loggedIn isAdmin pending p"

definition stop_poller_at :: "nat \<Rightarrow> device_poller list \<Rightarrow> device_poller list" where
  "stop_poller_at i ps =
     (if i < length ps then ps[i := (ps ! i)\<lparr>dp_poller := poller_stop (dp_poller (ps ! i))\<rparr>] else ps)"

definition stopPoller :: "login_modal \<Rightarrow> login_modal" where
  "stopPoller m =
     (case lm_poller m of None \<Rightarrow> m | Some i \<Rightarrow> m\<lparr>lm_pollers := stop_poller_at i (lm_pollers m)\<rparr>)\<lparr>lm_poller := None\<rparr>"

definition switchMode :: "string \<Rightarrow> login_modal \<Rightarrow> login_modal" where
  "switchMode mode m = (stopPoller m)\<lparr>lm_deviceExpiresAt := None, lm_mode := mode,
     lm_fields := INITIAL_FIELDS, lm_fieldErrors := [], lm_submitError := None, lm_resultPanel := None\<rparr>"

text \<open>The detail of the event: whether to open, and then the mode and the token.\<close>

definition handleToggle :: "(string \<times> string option) option \<Rightarrow> login_modal \<Rightarrow> login_modal" where
  "handleToggle detail m =
     (case detail of
        Some (mode, token) \<Rightarrow>
          switchMode mode (m\<lparr>lm_open := True, lm_resetToken := (case token of Some t \<Rightarrow> t | None \<Rightarrow> []),
            lm_resultPanel := None\<rparr>)
      | None \<Rightarrow> stopPoller (m\<lparr>lm_open := False\<rparr>))"

definition set_modal :: "(login_modal \<Rightarrow> login_modal) \<Rightarrow> ('a page_scheme) \<Rightarrow> ('a page_scheme)" where
  "set_modal f p = p\<lparr>pg_modal := f (pg_modal p)\<rparr>"

definition LoginModalEvents_open :: "string \<Rightarrow> string option \<Rightarrow> ('a page_scheme) \<Rightarrow> ('a page_scheme)" where
  "LoginModalEvents_open mode token = set_modal (handleToggle (Some (mode, token)))"

definition LoginModalEvents_close :: "('a page_scheme) \<Rightarrow> ('a page_scheme)" where
  "LoginModalEvents_close = set_modal (handleToggle None)"

section \<open>AuthSession\<close>

definition LEGACY_STORAGE_KEY :: string where "LEGACY_STORAGE_KEY = ''kerghan_refresh_token''"

definition HINT_COOKIE :: string where "HINT_COOKIE = ''logged_in=1''"

definition isLoggedIn :: "('a page_scheme) \<Rightarrow> bool" where
  "isLoggedIn p = list_ex (\<lambda>c. js_trim c = HINT_COOKIE) (js_split CHR '';'' (pg_cookies p))"

definition takeLegacyToken :: "('a page_scheme) \<Rightarrow> string option \<times> ('a page_scheme)" where
  "takeLegacyToken p =
     (pg_storage p LEGACY_STORAGE_KEY, p\<lparr>pg_storage := (pg_storage p)(LEGACY_STORAGE_KEY := None)\<rparr>)"

lemma page_op_fields [simp]:
  "pg_sent (LoginModalEvents_open md tk p) = pg_sent p" "pg_cookies (LoginModalEvents_open md tk p) = pg_cookies p"
  "pg_hash (LoginModalEvents_open md tk p) = pg_hash p"
  "pg_sent (LoginModalEvents_close p) = pg_sent p" "pg_cookies (LoginModalEvents_close p) = pg_cookies p"
  "pg_sent (redirectHome p) = pg_sent p" "pg_modal (redirectHome p) = pg_modal p" "pg_hash (redirectHome p) = ''#/''"
  "pg_modal (AuthEvents_emit l a d p) = pg_modal p" "pg_sent (AuthEvents_emit l a d p) = pg_sent p"
  by (simp_all add: LoginModalEvents_open_def LoginModalEvents_close_def set_modal_def redirectHome_def
      AuthEvents_emit_def handleAuthChanged_def)

text \<open>The modal after its events: open in the mode asked for with nothing entered, or closed.\<close>

lemma opened_modal:
  "lm_open (handleToggle (Some (md, tk)) m)" "lm_mode (handleToggle (Some (md, tk)) m) = md"
  "lm_submitError (handleToggle (Some (md, tk)) m) = None"
  "lm_fields (handleToggle (Some (md, tk)) m) = INITIAL_FIELDS"
  "lm_poller (handleToggle (Some (md, tk)) m) = None"
  by (simp_all add: handleToggle_def switchMode_def stopPoller_def split: option.split)

lemma closed_by_event:
  "\<not> lm_open (handleToggle None m)" "lm_submitError (handleToggle None m) = lm_submitError m"
  "lm_poller (handleToggle None m) = None"
  by (simp_all add: handleToggle_def stopPoller_def split: option.split)

text \<open>The migration of the token of an older build happens at most once.\<close>

lemma takeLegacyToken_once: "fst (takeLegacyToken (snd (takeLegacyToken p))) = None"
  by (simp add: takeLegacyToken_def)

end
