(* ===== verification/Frontend_Client.thy ===== *)
theory Frontend_Client
  imports Frontend_Page
begin

text \<open>
  \<^verbatim>\<open>client/ApiClient.js\<close>, \<^verbatim>\<open>ApiError.js\<close>, \<^verbatim>\<open>pickDefined.js\<close>, \<^verbatim>\<open>AccountsClient.js\<close>, \<^verbatim>\<open>AdminClient.js\<close>,
  \<^verbatim>\<open>IntegrationsClient.js\<close> and \<^verbatim>\<open>AuthStatus.js\<close>.  The server is the parameter \<open>network\<close>: \<^verbatim>\<open>fetch\<close>
  rejects with a message or answers, as a function of the requests sent so far, and leaves the
  readable cookies as they are after it; \<^verbatim>\<open>JSON.parse\<close> and \<^verbatim>\<open>Date.parse\<close> are parameters too.
\<close>

section \<open>ApiClient\<close>

record api_response =
  as_status :: nat
  as_statusText :: string
  as_retryAfter :: "string option"
  as_text :: string

record network =
  nw_fetch :: "api_request list \<Rightarrow> (string + api_response) \<times> string"
  nw_json_parse :: "string \<Rightarrow> json option"
  nw_date_parse :: "string \<Rightarrow> int option"

definition REFRESH_PATH :: string where "REFRESH_PATH = ''/auth/refresh.json''"

definition FALLBACK_ERROR_MESSAGE :: string where "FALLBACK_ERROR_MESSAGE = ''Request failed''"

definition response_ok :: "api_response \<Rightarrow> bool" where
  "response_ok r \<longleftrightarrow> 200 \<le> as_status r \<and> as_status r \<le> 299"

definition parseJson :: "network \<Rightarrow> string \<Rightarrow> json" where
  "parseJson N t = (case nw_json_parse N t of Some v \<Rightarrow> v | None \<Rightarrow> JsonObj [])"

definition parseBody :: "network \<Rightarrow> api_response \<Rightarrow> json" where
  "parseBody N r =
     (if as_status r = 204 then JsonObj []
      else if as_text r = [] then JsonObj [] else parseJson N (as_text r))"

definition parseRetryAfter :: "api_response \<Rightarrow> nat option" where
  "parseRetryAfter r =
     (case as_retryAfter r of
        None \<Rightarrow> None
      | Some v \<Rightarrow>
          if js_trim v \<noteq> [] \<and> list_all is_digit (js_trim v) then Some (digits_value (js_trim v)) else None)"

definition buildApiError :: "api_response \<Rightarrow> json \<Rightarrow> js_error" where
  "buildApiError r data =
     (let error = js_coalesce (json_field ''error'' data) (Some (JsonObj []));
          message = js_field ''message'' error
      in ApiErr \<lparr>ae_status = as_status r,
           ae_message = (if js_truthy message then js_text message
              else if as_statusText r \<noteq> [] then as_statusText r else FALLBACK_ERROR_MESSAGE),
           ae_code = js_field ''code'' error, ae_details = js_field ''details'' error,
           ae_retryAfter = parseRetryAfter r\<rparr>)"

definition api_send :: "network \<Rightarrow> string \<Rightarrow> string \<Rightarrow> json \<Rightarrow> (api_response \<times> json, 'a page_scheme) js" where
  "api_send N method path body p =
     (let sent = pg_sent p @ [\<lparr>ar_method = method, ar_path = path, ar_body = body\<rparr>]
      in case nw_fetch N sent of
           (answer, cookies) \<Rightarrow>
             let p1 = p\<lparr>pg_sent := sent, pg_cookies := cookies\<rparr>
             in case answer of
                  Inl m \<Rightarrow> (Inl (JsErr m), p1)
                | Inr r \<Rightarrow> (Inr (r, parseBody N r), p1))"

definition sessionExpired :: "(json option, 'a page_scheme) js" where
  "sessionExpired p = (Inr None, LoginModalEvents_open ''password'' None p)"

text \<open>The request again, once the session was refreshed; and \<^verbatim>\<open>sendJson\<close> as called from outside.\<close>

definition sendJson_retry :: "network \<Rightarrow> string \<Rightarrow> string \<Rightarrow> json \<Rightarrow> (json option, 'a page_scheme) js" where
  "sendJson_retry N method path body =
     js_await (api_send N method path body) (\<lambda>(r, data).
       if response_ok r then js_return (Some data)
       else if as_status r = 401 then sessionExpired
       else js_throw (buildApiError r data))"

definition handleUnauthorized :: "network \<Rightarrow> string \<Rightarrow> string \<Rightarrow> json \<Rightarrow> (json option, 'a page_scheme) js" where
  "handleUnauthorized N method path body p =
     (if \<not> isLoggedIn p then sessionExpired p
      else js_await (api_send N ''POST'' REFRESH_PATH (JsonObj [])) (\<lambda>(r, data).
        if \<not> response_ok r then sessionExpired
        else sendJson_retry N method path body) p)"

definition sendJson :: "network \<Rightarrow> string \<Rightarrow> string \<Rightarrow> json \<Rightarrow> (json option, 'a page_scheme) js" where
  "sendJson N method path body =
     js_await (api_send N method path body) (\<lambda>(r, data).
       if response_ok r then js_return (Some data)
       else if as_status r = 401 then handleUnauthorized N method path body
       else js_throw (buildApiError r data))"

definition postJson :: "network \<Rightarrow> string \<Rightarrow> json \<Rightarrow> (json option, 'a page_scheme) js" where
  "postJson N = sendJson N ''POST''"

definition deleteJson :: "network \<Rightarrow> string \<Rightarrow> json \<Rightarrow> (json option, 'a page_scheme) js" where
  "deleteJson N = sendJson N ''DELETE''"

definition patchJson :: "network \<Rightarrow> string \<Rightarrow> json \<Rightarrow> (json option, 'a page_scheme) js" where
  "patchJson N = sendJson N ''PATCH''"

definition postJsonOnce :: "network \<Rightarrow> string \<Rightarrow> json \<Rightarrow> (json option, 'a page_scheme) js" where
  "postJsonOnce N path body =
     js_await (api_send N ''POST'' path body) (\<lambda>(r, data).
       if \<not> response_ok r then js_throw (buildApiError r data) else js_return (Some data))"

section \<open>AccountsClient\<close>

text \<open>\<^verbatim>\<open>pickDefined\<close>, for the fields of a request body, each undefined or given.\<close>

definition pickDefined :: "(string \<times> json option) list \<Rightarrow> (string \<times> json) list" where
  "pickDefined fs = List.map_filter (\<lambda>(k, v). map_option (Pair k) v) fs"

definition client_register :: "network \<Rightarrow> login_fields \<Rightarrow> (json option, 'a page_scheme) js" where
  "client_register N f = postJson N ''/auth/register.json''
     (JsonObj [(''username'', JsonStr (lf_username f)), (''email'', JsonStr (lf_email f)),
        (''password'', JsonStr (lf_password f)), (''password_confirmation'', JsonStr (lf_passwordConfirmation f))])"

definition client_login :: "network \<Rightarrow> login_fields \<Rightarrow> (json option, 'a page_scheme) js" where
  "client_login N f = postJson N ''/auth/login.json''
     (JsonObj [(''username'', JsonStr (lf_username f)), (''password'', JsonStr (lf_password f)),
        (''keepSignedIn'', JsonBool (lf_keepSignedIn f))])"

definition client_refresh :: "network \<Rightarrow> (json option, 'a page_scheme) js" where
  "client_refresh N = postJson N ''/auth/refresh.json'' (JsonObj [])"

definition migrateLegacyToken :: "network \<Rightarrow> string \<Rightarrow> (bool, 'a page_scheme) js" where
  "migrateLegacyToken N token =
     js_catch (js_await (postJsonOnce N ''/auth/refresh.json'' (JsonObj [(''refreshToken'', JsonStr token)]))
         (\<lambda>_. js_return True))
       (\<lambda>_. js_return False)"

definition client_logout :: "network \<Rightarrow> (unit, 'a page_scheme) js" where
  "client_logout N = js_await (deleteJson N ''/auth/logoff.json'' (JsonObj [])) (\<lambda>_. js_return ())"

definition client_status :: "network \<Rightarrow> (json option, 'a page_scheme) js" where
  "client_status N = postJson N ''/auth/status.json'' (JsonObj [])"

definition client_recover :: "network \<Rightarrow> string \<Rightarrow> (json option, 'a page_scheme) js" where
  "client_recover N email = postJson N ''/auth/recover.json'' (JsonObj [(''email'', JsonStr email)])"

definition client_resetPassword :: "network \<Rightarrow> string \<Rightarrow> string \<Rightarrow> string \<Rightarrow> (json option, 'a page_scheme) js" where
  "client_resetPassword N token password passwordConfirmation = postJson N ''/auth/reset-password.json''
     (JsonObj [(''token'', JsonStr token), (''password'', JsonStr password),
        (''password_confirmation'', JsonStr passwordConfirmation)])"

definition createAuthorizationRequest :: "network \<Rightarrow> string \<Rightarrow> bool \<Rightarrow> (json option, 'a page_scheme) js" where
  "createAuthorizationRequest N username keepSignedIn = postJson N ''/auth/authorization-requests.json''
     (JsonObj [(''username'', JsonStr username), (''keepSignedIn'', JsonBool keepSignedIn)])"

definition pollAuthorizationRequest ::
  "network \<Rightarrow> json option \<Rightarrow> json option \<Rightarrow> (json option, 'a page_scheme) js" where
  "pollAuthorizationRequest N uuid pollToken =
     postJson N (''/auth/authorization-requests/'' @ js_text uuid @ ''/poll.json'')
       (JsonObj (pickDefined [(''pollToken'', pollToken)]))"

definition listAuthorizationRequests :: "network \<Rightarrow> (json option, 'a page_scheme) js" where
  "listAuthorizationRequests N = postJson N ''/auth/authorization-requests/mine.json'' (JsonObj [])"

definition authorizeAuthorizationRequest ::
  "network \<Rightarrow> string \<Rightarrow> string \<Rightarrow> (json option, 'a page_scheme) js" where
  "authorizeAuthorizationRequest N uuid password =
     postJson N (''/auth/authorization-requests/'' @ uuid @ ''/authorize.json'')
       (JsonObj [(''password'', JsonStr password)])"

definition denyAuthorizationRequest :: "network \<Rightarrow> string \<Rightarrow> (json option, 'a page_scheme) js" where
  "denyAuthorizationRequest N uuid =
     postJson N (''/auth/authorization-requests/'' @ uuid @ ''/deny.json'') (JsonObj [])"

text \<open>The fields of an account form that were given.\<close>

record account_update =
  au_currentPassword :: "json option"
  au_username :: "json option"
  au_email :: "json option"
  au_newPassword :: "json option"

definition update_fields :: "account_update \<Rightarrow> (string \<times> json) list" where
  "update_fields u = pickDefined [(''username'', au_username u), (''email'', au_email u),
     (''newPassword'', au_newPassword u)]"

definition client_updateAccount :: "network \<Rightarrow> account_update \<Rightarrow> (json option, 'a page_scheme) js" where
  "client_updateAccount N u = patchJson N ''/auth/account.json''
     (JsonObj (pickDefined [(''currentPassword'', au_currentPassword u)] @ update_fields u))"

definition client_listSessions :: "network \<Rightarrow> (json option, 'a page_scheme) js" where
  "client_listSessions N = postJson N ''/auth/sessions/mine.json'' (JsonObj [])"

definition client_revokeSession :: "network \<Rightarrow> string \<Rightarrow> (json option, 'a page_scheme) js" where
  "client_revokeSession N uuid = postJson N (''/auth/sessions/'' @ uuid @ ''/revoke.json'') (JsonObj [])"

definition client_revokeOtherSessions :: "network \<Rightarrow> (json option, 'a page_scheme) js" where
  "client_revokeOtherSessions N = postJson N ''/auth/sessions/revoke-others.json'' (JsonObj [])"

section \<open>AdminClient\<close>

definition admin_path :: "string \<Rightarrow> string \<Rightarrow> string" where
  "admin_path userId action = ''/admin/users/'' @ userId @ action"

definition client_searchUsers ::
  "network \<Rightarrow> string option \<Rightarrow> string option \<Rightarrow> (json option, 'a page_scheme) js" where
  "client_searchUsers N q status = postJson N ''/admin/users/search.json''
     (JsonObj (pickDefined [(''q'', map_option JsonStr q), (''status'', map_option JsonStr status)]))"

definition client_approveUser :: "network \<Rightarrow> string \<Rightarrow> (json option, 'a page_scheme) js" where
  "client_approveUser N userId = postJson N (admin_path userId ''/approve.json'') (JsonObj [])"

definition client_denyUser :: "network \<Rightarrow> string \<Rightarrow> (json option, 'a page_scheme) js" where
  "client_denyUser N userId = postJson N (admin_path userId ''/deny.json'') (JsonObj [])"

definition client_generateRecoveryLink :: "network \<Rightarrow> string \<Rightarrow> (json option, 'a page_scheme) js" where
  "client_generateRecoveryLink N userId = postJson N (admin_path userId ''/recovery-link.json'') (JsonObj [])"

definition client_sendRecoveryEmail :: "network \<Rightarrow> string \<Rightarrow> (json option, 'a page_scheme) js" where
  "client_sendRecoveryEmail N userId = postJson N (admin_path userId ''/send-recovery-email.json'') (JsonObj [])"

definition client_editUser :: "network \<Rightarrow> string \<Rightarrow> account_update \<Rightarrow> (json option, 'a page_scheme) js" where
  "client_editUser N userId u = postJson N (admin_path userId ''/edit.json'') (JsonObj (update_fields u))"

section \<open>IntegrationsClient\<close>

text \<open>\<^verbatim>\<open>encodeURIComponent\<close>: letters, digits and a few marks stay; the others become their UTF-8 bytes.\<close>

definition hex_digit :: "nat \<Rightarrow> char" where
  "hex_digit n = (if n < 10 then char_of (48 + n) else char_of (55 + n))"

definition percent_byte :: "nat \<Rightarrow> string" where
  "percent_byte b = [CHR ''%'', hex_digit (b div 16), hex_digit (b mod 16)]"

definition is_unreserved :: "char \<Rightarrow> bool" where
  "is_unreserved c =
     (let n = (of_char c :: nat)
      in (48 \<le> n \<and> n \<le> 57) \<or> (65 \<le> n \<and> n \<le> 90) \<or> (97 \<le> n \<and> n \<le> 122)
         \<or> c \<in> set ''-_.!~*'' \<or> c = CHR 0x27 \<or> c \<in> set ''()'')"

definition encode_char :: "char \<Rightarrow> string" where
  "encode_char c =
     (let n = (of_char c :: nat)
      in if is_unreserved c then [c]
         else if n < 128 then percent_byte n
         else percent_byte (192 + n div 64) @ percent_byte (128 + n mod 64))"

definition js_encodeURIComponent :: "string \<Rightarrow> string" where
  "js_encodeURIComponent s = concat (map encode_char s)"

definition integrationPath :: "string \<Rightarrow> string \<Rightarrow> string" where
  "integrationPath uuid suff = ''/integrations/'' @ js_encodeURIComponent uuid @ suff @ ''.json''"

definition client_listMine :: "network \<Rightarrow> (json option, 'a page_scheme) js" where
  "client_listMine N = postJson N ''/integrations/mine.json'' (JsonObj [])"

definition client_listTypes :: "network \<Rightarrow> (json option, 'a page_scheme) js" where
  "client_listTypes N = postJson N ''/integrations/types.json'' (JsonObj [])"

definition client_create :: "network \<Rightarrow> string \<Rightarrow> string \<Rightarrow> json \<Rightarrow> (json option, 'a page_scheme) js" where
  "client_create N label type credential = postJson N ''/integrations.json''
     (JsonObj [(''label'', JsonStr label), (''provider'', JsonStr ''github''), (''type'', JsonStr type),
        (''credential'', credential)])"

definition client_rename :: "network \<Rightarrow> string \<Rightarrow> string \<Rightarrow> (json option, 'a page_scheme) js" where
  "client_rename N uuid label = patchJson N (integrationPath uuid []) (JsonObj [(''label'', JsonStr label)])"

definition client_replaceCredential :: "network \<Rightarrow> string \<Rightarrow> json \<Rightarrow> (json option, 'a page_scheme) js" where
  "client_replaceCredential N uuid credential =
     postJson N (integrationPath uuid ''/credential'') (JsonObj [(''credential'', credential)])"

definition client_test :: "network \<Rightarrow> string \<Rightarrow> (json option, 'a page_scheme) js" where
  "client_test N uuid = postJson N (integrationPath uuid ''/test'') (JsonObj [])"

definition client_remove :: "network \<Rightarrow> string \<Rightarrow> (json option, 'a page_scheme) js" where
  "client_remove N uuid = deleteJson N (integrationPath uuid []) (JsonObj [])"

definition startOauthApp :: "network \<Rightarrow> json \<Rightarrow> (json option, 'a page_scheme) js" where
  "startOauthApp N body = postJson N ''/integrations/oauth_app/start.json'' body"

definition completeOauthApp :: "network \<Rightarrow> json option \<Rightarrow> json option \<Rightarrow> (json option, 'a page_scheme) js" where
  "completeOauthApp N code state = postJson N ''/integrations/oauth_app/callback.json''
     (JsonObj (pickDefined [(''code'', code), (''state'', state)]))"

definition startGithubApp :: "network \<Rightarrow> json \<Rightarrow> (json option, 'a page_scheme) js" where
  "startGithubApp N body = postJson N ''/integrations/github_app/start.json''
     (JsonObj (pickDefined (map (\<lambda>k. (k, json_field k body)) [''label'', ''integrationId'', ''mode''])))"

definition completeGithubApp ::
  "network \<Rightarrow> string \<Rightarrow> string \<Rightarrow> (nat \<times> string) option \<Rightarrow> (json option, 'a page_scheme) js" where
  "completeGithubApp N code state installation = postJson N ''/integrations/github_app/callback.json''
     (JsonObj (pickDefined [(''code'', Some (JsonStr code)), (''state'', Some (JsonStr state)),
        (''installationId'', map_option (JsonNum \<circ> int \<circ> fst) installation),
        (''setupAction'', map_option (JsonStr \<circ> snd) installation)]))"

definition selectGithubAppInstallation ::
  "network \<Rightarrow> json option \<Rightarrow> json option \<Rightarrow> (json option, 'a page_scheme) js" where
  "selectGithubAppInstallation N state installationId = postJson N ''/integrations/github_app/select.json''
     (JsonObj (pickDefined [(''state'', state), (''installationId'', installationId)]))"

section \<open>AuthStatus\<close>

text \<open>Destructuring \<open>undefined\<close> or \<open>null\<close> throws.\<close>

definition AuthStatus_refresh :: "network \<Rightarrow> (bool \<times> bool \<times> bool, 'a page_scheme) js" where
  "AuthStatus_refresh N =
     js_await (js_await (client_status N) js_destructure) (\<lambda>v.
       let loggedIn = js_truthy (js_field ''loggedIn'' v); isAdmin = js_truthy (js_field ''isAdmin'' v);
           pending = (js_field ''status'' v = Some (JsonStr ''pending''))
       in js_await (js_do (AuthEvents_emit loggedIn isAdmin pending)) (\<lambda>_.
            js_return (loggedIn, isAdmin, pending)))"

section \<open>What a client call does\<close>

lemma api_send_result:
  "api_send N m path b p =
     (case fst (nw_fetch N (pg_sent p @ [\<lparr>ar_method = m, ar_path = path, ar_body = b\<rparr>])) of
        Inl x \<Rightarrow> Inl (JsErr x) | Inr a \<Rightarrow> Inr (a, parseBody N a),
      p\<lparr>pg_sent := pg_sent p @ [\<lparr>ar_method = m, ar_path = path, ar_body = b\<rparr>],
        pg_cookies := snd (nw_fetch N (pg_sent p @ [\<lparr>ar_method = m, ar_path = path, ar_body = b\<rparr>]))\<rparr>)"
  by (simp add: api_send_def Let_def split: prod.split sum.split)

text \<open>
  What a call to the server may do to a page: it sends its request, perhaps the refresh, and its
  request once more, and it returns, throws or declares the session expired.
\<close>

definition session_asked :: "('a page_scheme) \<Rightarrow> bool" where
  "session_asked p \<longleftrightarrow> lm_open (pg_modal p) \<and> lm_mode (pg_modal p) = ''password''
     \<and> lm_submitError (pg_modal p) = None"

definition answered_ok :: "network \<Rightarrow> api_request list \<Rightarrow> json \<Rightarrow> bool" where
  "answered_ok N sent d \<longleftrightarrow> (\<exists>a. fst (nw_fetch N sent) = Inr a \<and> response_ok a \<and> d = parseBody N a)"

text \<open>The five things a reader of one answer does.\<close>

definition call_outcome :: "network \<Rightarrow> ('a page_scheme) \<Rightarrow> (js_error + json option) \<times> ('a page_scheme) \<Rightarrow> bool" where
  "call_outcome N p out \<longleftrightarrow>
     (case out of (r, p1) \<Rightarrow>
        (case r of
           Inl (ApiErr e) \<Rightarrow> ae_status e \<noteq> 401 \<and> pg_modal p1 = pg_modal p
         | Inl (JsErr x) \<Rightarrow> fst (nw_fetch N (pg_sent p1)) = Inl x \<and> pg_modal p1 = pg_modal p
         | Inr None \<Rightarrow> session_asked p1
         | Inr (Some d) \<Rightarrow> answered_ok N (pg_sent p1) d \<and> pg_modal p1 = pg_modal p))"

lemma call_outcome_modal:
  "call_outcome N q out \<Longrightarrow> pg_modal q = pg_modal p \<Longrightarrow> call_outcome N p out"
  by (auto simp: call_outcome_def split: prod.splits sum.splits js_error.splits option.splits)

lemma expired_outcome: "call_outcome N p (sessionExpired q)"
  by (simp add: call_outcome_def sessionExpired_def session_asked_def LoginModalEvents_open_def
      set_modal_def opened_modal)

lemma expired_sent [simp]: "pg_sent (snd (sessionExpired p)) = pg_sent p"
  by (simp add: sessionExpired_def)

lemma failure_outcome:
  assumes "as_status a \<noteq> 401" and "pg_modal q = pg_modal p"
  shows "call_outcome N p (js_throw (buildApiError a d) q)"
  using assms by (simp add: call_outcome_def js_throw_def buildApiError_def Let_def)

lemma success_outcome:
  assumes "fst (nw_fetch N (pg_sent q)) = Inr a" and "response_ok a" and "pg_modal q = pg_modal p"
  shows "call_outcome N p (js_return (Some (parseBody N a)) q)"
  using assms by (simp add: call_outcome_def js_return_def answered_ok_def)

lemma network_outcome:
  assumes "fst (nw_fetch N (pg_sent q)) = Inl x" and "pg_modal q = pg_modal p"
  shows "call_outcome N p (Inl (JsErr x), q)"
  using assms by (simp add: call_outcome_def)

lemmas outcomes = expired_outcome failure_outcome success_outcome network_outcome

lemma retry_outcome:
  "call_outcome N p (sendJson_retry N m path b p)"
  "pg_sent (snd (sendJson_retry N m path b p)) = pg_sent p @ [\<lparr>ar_method = m, ar_path = path, ar_body = b\<rparr>]"
  unfolding sendJson_retry_def js_await_def api_send_result
   apply (auto split: sum.split intro!: outcomes) [1]
  by (auto split: sum.split simp: js_return_def js_throw_def)

lemma unauthorized_outcome:
  "call_outcome N p (handleUnauthorized N m path b p)"
  "pg_sent (snd (handleUnauthorized N m path b p)) \<in> {pg_sent p,
     pg_sent p @ [\<lparr>ar_method = ''POST'', ar_path = REFRESH_PATH, ar_body = JsonObj []\<rparr>]}
   \<or> pg_sent (snd (handleUnauthorized N m path b p)) = pg_sent p @
       [\<lparr>ar_method = ''POST'', ar_path = REFRESH_PATH, ar_body = JsonObj []\<rparr>, \<lparr>ar_method = m, ar_path = path, ar_body = b\<rparr>]
     \<and> (\<exists>d. answered_ok N (pg_sent p @ [\<lparr>ar_method = ''POST'', ar_path = REFRESH_PATH, ar_body = JsonObj []\<rparr>]) d)"
proof -
  let ?rf = "\<lparr>ar_method = ''POST'', ar_path = REFRESH_PATH, ar_body = JsonObj []\<rparr>"
  let ?q = "p\<lparr>pg_sent := pg_sent p @ [?rf], pg_cookies := snd (nw_fetch N (pg_sent p @ [?rf]))\<rparr>"
  have retry: "call_outcome N p (sendJson_retry N m path b ?q)"
    by (rule call_outcome_modal [OF retry_outcome(1)]) simp
  show "call_outcome N p (handleUnauthorized N m path b p)"
    using retry
    by (auto simp: handleUnauthorized_def js_await_def api_send_result split: sum.split intro!: outcomes)
  show "pg_sent (snd (handleUnauthorized N m path b p)) \<in> {pg_sent p, pg_sent p @ [?rf]}
   \<or> pg_sent (snd (handleUnauthorized N m path b p)) = pg_sent p @ [?rf, \<lparr>ar_method = m, ar_path = path, ar_body = b\<rparr>]
     \<and> (\<exists>d. answered_ok N (pg_sent p @ [?rf]) d)"
    by (auto simp: handleUnauthorized_def js_await_def api_send_result retry_outcome(2) answered_ok_def
        split: sum.split)
qed

lemma sendJson_outcome: "call_outcome N p (sendJson N m path b p)"
proof -
  let ?rq = "\<lparr>ar_method = m, ar_path = path, ar_body = b\<rparr>"
  let ?q = "p\<lparr>pg_sent := pg_sent p @ [?rq], pg_cookies := snd (nw_fetch N (pg_sent p @ [?rq]))\<rparr>"
  show ?thesis
    using call_outcome_modal [OF unauthorized_outcome(1) [of N ?q m path b], of p]
    by (auto simp: sendJson_def js_await_def api_send_result split: sum.split intro!: outcomes)
qed

lemma sendJson_sent:
  fixes p :: "'a page_scheme"
  defines "rf \<equiv> \<lparr>ar_method = ''POST'', ar_path = REFRESH_PATH, ar_body = JsonObj []\<rparr>"
    and "rq m path b \<equiv> \<lparr>ar_method = m, ar_path = path, ar_body = b\<rparr>"
  shows "pg_sent (snd (sendJson N m path b p)) \<in>
      {pg_sent p @ [rq m path b], pg_sent p @ [rq m path b, rf], pg_sent p @ [rq m path b, rf, rq m path b]}
     \<and> (pg_sent (snd (sendJson N m path b p)) = pg_sent p @ [rq m path b, rf, rq m path b]
          \<longrightarrow> (\<exists>d. answered_ok N (pg_sent p @ [rq m path b, rf]) d))"
proof -
  let ?q = "p\<lparr>pg_sent := pg_sent p @ [rq m path b], pg_cookies := snd (nw_fetch N (pg_sent p @ [rq m path b]))\<rparr>"
  show ?thesis
    using unauthorized_outcome(2) [of N m path b ?q]
    by (auto simp: sendJson_def js_await_def api_send_result js_return_def js_throw_def rf_def rq_def split: sum.split)
qed

text \<open>The modal after a call: as it was, or asking for the password.\<close>

definition asks_password :: "login_modal \<Rightarrow> login_modal" where
  "asks_password m = handleToggle (Some (''password'', None)) m"

lemma sendJson_modal:
  "pg_modal (snd (sendJson N m path b p)) \<in> {pg_modal p, asks_password (pg_modal p)}"
  by (auto simp: sendJson_def handleUnauthorized_def sendJson_retry_def js_defs api_send_result sessionExpired_def
      LoginModalEvents_open_def set_modal_def asks_password_def split: sum.split)

text \<open>
  C16. A call of the browser to the server sends its request, at most one refresh of the session
  after it, and its request once more only when that refresh was answered with success.  It never
  throws a 401: it returns the body of a successful answer to the request it sent last, or
  \<open>undefined\<close> with the login modal open in password mode; in every other case it throws, and then,
  as after a success, it leaves the modal alone.
\<close>
theorem browser_call_recovers_once:
  fixes p :: "'a page_scheme"
  defines "rf \<equiv> \<lparr>ar_method = ''POST'', ar_path = REFRESH_PATH, ar_body = JsonObj []\<rparr>"
  shows "case sendJson N m path b p of (r, p1) \<Rightarrow>
     (let rq = \<lparr>ar_method = m, ar_path = path, ar_body = b\<rparr>; sent = pg_sent p
      in pg_sent p1 \<in> {sent @ [rq], sent @ [rq, rf], sent @ [rq, rf, rq]}
         \<and> (pg_sent p1 = sent @ [rq, rf, rq] \<longrightarrow> (\<exists>d. answered_ok N (sent @ [rq, rf]) d))
         \<and> (case r of
              Inl (ApiErr e) \<Rightarrow> ae_status e \<noteq> 401 \<and> pg_modal p1 = pg_modal p
            | Inl (JsErr x) \<Rightarrow> fst (nw_fetch N (pg_sent p1)) = Inl x \<and> pg_modal p1 = pg_modal p
            | Inr None \<Rightarrow> session_asked p1
            | Inr (Some d) \<Rightarrow> answered_ok N (pg_sent p1) d \<and> pg_modal p1 = pg_modal p))"
  using sendJson_outcome [of N p m path b] sendJson_sent [of N m path b p]
  by (auto simp: call_outcome_def Let_def rf_def split: prod.splits)

definition demo_page :: page where
  "demo_page = \<lparr>pg_cookies = ''theme=dark; logged_in=1'', pg_storage = (\<lambda>_. None), pg_hash = [], pg_sent = [],
     pg_loggedIn = True, pg_isAdmin = False, pg_pending = False, pg_logoutError = None,
     pg_recheckError = None, pg_modal = closed_modal\<rparr>"

text \<open>A server whose access token has expired: it refuses the first request and accepts what follows.\<close>

definition demo_network :: network where
  "demo_network = \<lparr>nw_fetch = (\<lambda>sent. (Inr \<lparr>as_status = (if length sent = 1 then 401 else 200),
       as_statusText = [], as_retryAfter = None, as_text = ''null''\<rparr>, ''theme=dark; logged_in=1'')),
     nw_json_parse = (\<lambda>_. Some JsonNull), nw_date_parse = (\<lambda>_. None)\<rparr>"

theorem browser_call_recovers_once_witness:
  "pg_sent (snd (sendJson demo_network ''POST'' ''/auth/sessions/mine.json'' (JsonObj []) demo_page)) =
     [\<lparr>ar_method = ''POST'', ar_path = ''/auth/sessions/mine.json'', ar_body = JsonObj []\<rparr>,
      \<lparr>ar_method = ''POST'', ar_path = REFRESH_PATH, ar_body = JsonObj []\<rparr>,
      \<lparr>ar_method = ''POST'', ar_path = ''/auth/sessions/mine.json'', ar_body = JsonObj []\<rparr>]
   \<and> (\<exists>d. answered_ok demo_network [\<lparr>ar_method = ''POST'', ar_path = ''/auth/sessions/mine.json'', ar_body = JsonObj []\<rparr>,
        \<lparr>ar_method = ''POST'', ar_path = REFRESH_PATH, ar_body = JsonObj []\<rparr>] d)"
proof -
  have sent: "pg_sent (snd (sendJson demo_network ''POST'' ''/auth/sessions/mine.json'' (JsonObj []) demo_page)) =
     [\<lparr>ar_method = ''POST'', ar_path = ''/auth/sessions/mine.json'', ar_body = JsonObj []\<rparr>,
      \<lparr>ar_method = ''POST'', ar_path = REFRESH_PATH, ar_body = JsonObj []\<rparr>,
      \<lparr>ar_method = ''POST'', ar_path = ''/auth/sessions/mine.json'', ar_body = JsonObj []\<rparr>]"
    by code_simp
  moreover have "pg_sent demo_page = []" by (simp add: demo_page_def)
  ultimately show ?thesis
    using browser_call_recovers_once [where N = demo_network and m = "''POST''" and path = "''/auth/sessions/mine.json''"
        and b = "JsonObj []" and p = demo_page]
    by (simp add: Let_def split: prod.splits)
qed

text \<open>The requests a call adds: its own, up to twice, and the refresh.\<close>

definition new_requests :: "('a page_scheme) \<Rightarrow> ('a page_scheme) \<Rightarrow> api_request set" where
  "new_requests p q = set (drop (length (pg_sent p)) (pg_sent q))"

definition refresh_request :: api_request where
  "refresh_request = \<lparr>ar_method = ''POST'', ar_path = REFRESH_PATH, ar_body = JsonObj []\<rparr>"

lemma sendJson_requests:
  "new_requests p (snd (sendJson N m path b p)) \<subseteq> {\<lparr>ar_method = m, ar_path = path, ar_body = b\<rparr>, refresh_request}"
  using sendJson_sent [of N m path b p] by (auto simp: new_requests_def refresh_request_def)

section \<open>Paths\<close>

text \<open>The reader of an encoded component, which the encoding of every string returns to it.\<close>

definition hex_value :: "char \<Rightarrow> nat" where
  "hex_value c = (let n = (of_char c :: nat) in if n < 58 then n - 48 else n - 55)"

fun decode_component :: "string \<Rightarrow> string" where
  "decode_component [] = []"
| "decode_component (c # a # b # cs) =
     (if c \<noteq> CHR ''%'' then c # decode_component (a # b # cs)
      else let n = 16 * hex_value a + hex_value b
           in if n < 128 then char_of n # decode_component cs
              else (case cs of
                      d # e # f # rest \<Rightarrow>
                        char_of (64 * (n - 192) + (16 * hex_value e + hex_value f - 128)) # decode_component rest
                    | _ \<Rightarrow> []))"
| "decode_component (c # cs) = c # decode_component cs"

lemma utf8_bytes:
  assumes "n < (256::nat)"
  shows "n div 64 < 4 \<and> (192 + n div 64) div 16 < 16 \<and> (128 + n mod 64) div 16 < 16"
proof -
  have "192 + n div 64 < 256" "128 + n mod 64 < 256" "n div 64 < 4" using assms by auto
  then show ?thesis by auto
qed

lemma hex_value_digit: "n < 16 \<Longrightarrow> hex_value (hex_digit n) = n"
  by (simp add: hex_value_def hex_digit_def Let_def)

lemma decode_plain: "c \<noteq> CHR ''%'' \<Longrightarrow> decode_component (c # cs) = c # decode_component cs"
  by (cases cs; cases "tl cs") auto

lemma decode_encode_char: "decode_component (encode_char c @ cs) = c # decode_component cs"
proof -
  define n where "n = (of_char c :: nat)"
  have c: "c = char_of n" by (simp add: n_def)
  have lt: "n < 256" by (simp add: n_def)
  show ?thesis
  proof (cases "is_unreserved c")
    case True
    then have "c \<noteq> CHR ''%''" by (auto simp: is_unreserved_def Let_def)
    with True show ?thesis by (simp add: encode_char_def decode_plain Let_def)
  next
    case reserved: False
    show ?thesis
    proof (cases "n < 128")
      case True
      with reserved show ?thesis
        by (simp add: encode_char_def percent_byte_def hex_value_digit Let_def flip: n_def)
          (simp add: c)
    next
      case False
      from utf8_bytes [OF lt] False reserved show ?thesis
        by (simp add: encode_char_def percent_byte_def hex_value_digit Let_def flip: n_def)
          (simp add: c)
    qed
  qed
qed

lemma decode_encode: "decode_component (js_encodeURIComponent s) = s"
  by (induction s) (simp_all add: js_encodeURIComponent_def decode_encode_char)

lemma encode_char_plain: "c \<in> set (encode_char d) \<Longrightarrow> is_unreserved c \<or> c = CHR ''%''"
proof -
  have hex: "is_unreserved (hex_digit n)" if "n < 16" for n
    using that by (auto simp: is_unreserved_def hex_digit_def Let_def)
  from utf8_bytes [OF nat_of_char_less_256]
  have "(192 + (of_char d :: nat) div 64) div 16 < 16" "(128 + (of_char d :: nat) mod 64) div 16 < 16" by blast+
  with hex show "c \<in> set (encode_char d) \<Longrightarrow> is_unreserved c \<or> c = CHR ''%''"
    by (auto simp: encode_char_def percent_byte_def Let_def split: if_splits)
qed

text \<open>
  The path of an integration: whatever the identifier, it adds no segment, query or fragment to the
  path, and two identifiers never give the same path.
\<close>
theorem integration_path_is_one_segment:
  "CHR ''/'' \<notin> set (js_encodeURIComponent uuid) \<and> CHR ''?'' \<notin> set (js_encodeURIComponent uuid)
     \<and> CHR 0x23 \<notin> set (js_encodeURIComponent uuid)
     \<and> (integrationPath uuid suff = integrationPath uuid' suff \<longleftrightarrow> uuid = uuid')"
proof -
  have "is_unreserved c \<or> c = CHR ''%''" if "c \<in> set (js_encodeURIComponent uuid)" for c
    using that encode_char_plain by (auto simp: js_encodeURIComponent_def)
  moreover have "\<not> is_unreserved (CHR ''/'')" "\<not> is_unreserved (CHR ''?'')" "\<not> is_unreserved (CHR 0x23)"
    by (simp_all add: is_unreserved_def Let_def)
  moreover have "integrationPath uuid suff = integrationPath uuid' suff \<longleftrightarrow> uuid = uuid'"
    by (auto simp: integrationPath_def dest: arg_cong [where f = decode_component] simp: decode_encode)
  ultimately show ?thesis by auto
qed

end
