(* ===== verification/Frontend_Forms.thy ===== *)
theory Frontend_Forms
  imports Frontend_Client
begin

text \<open>
  \<^verbatim>\<open>utils/validation/fieldValidators.js\<close>, \<^verbatim>\<open>formValidators.js\<close> and the forms that edit an account:
  \<^verbatim>\<open>common/forms/controllers/AccountEditFormController.js\<close> and its subclasses
  \<^verbatim>\<open>accounts/pages/controllers/MyAccountController.js\<close> and
  \<^verbatim>\<open>admin/pages/controllers/AdminUserEditController.js\<close>, on the state of
  \<^verbatim>\<open>common/forms/hooks/useAccountEditForm.js\<close>.  An error object is the list of its properties.
\<close>

section \<open>Validators\<close>

definition MIN_PASSWORD_LENGTH :: nat where "MIN_PASSWORD_LENGTH = 8"

text \<open>\<^verbatim>\<open>EMAIL_PATTERN\<close>: one \<open>@\<close>, no white space, and a dot inside the part after it.\<close>

definition email_matches :: "string \<Rightarrow> bool" where
  "email_matches s =
     (list_all (\<lambda>c. \<not> js_space c) s
      \<and> (case js_split CHR ''@'' s of
           [a, d] \<Rightarrow> a \<noteq> [] \<and> list_ex (\<lambda>i. d ! i = CHR ''.'') [1..<length d - 1]
         | _ \<Rightarrow> False))"

definition validateEmail :: "string \<Rightarrow> string \<Rightarrow> (string \<times> string) list" where
  "validateEmail email field = (if email_matches email then [] else [(field, ''Email is invalid'')])"

definition validatePasswordLength :: "string \<Rightarrow> string \<Rightarrow> (string \<times> string) list" where
  "validatePasswordLength password field =
     (if length password \<ge> MIN_PASSWORD_LENGTH then []
      else [(field, ''Password must be at least '' @ js_decimal MIN_PASSWORD_LENGTH @ '' characters'')])"

definition validatePasswordConfirmation :: "string \<Rightarrow> string \<Rightarrow> string \<Rightarrow> (string \<times> string) list" where
  "validatePasswordConfirmation password confirmation field =
     (if password = confirmation then [] else [(field, ''Passwords do not match'')])"

definition validateRequiredUsername :: "string \<Rightarrow> (string \<times> string) list" where
  "validateRequiredUsername username =
     (if username \<noteq> [] then [] else [(''username'', ''Username is required'')])"

definition validateRequiredEmail :: "string \<Rightarrow> (string \<times> string) list" where
  "validateRequiredEmail email =
     (if email = [] then [(''email'', ''Email is required'')] else validateEmail email ''email'')"

definition validateRequiredPassword :: "string \<Rightarrow> (string \<times> string) list" where
  "validateRequiredPassword password =
     (if password \<noteq> [] then [] else [(''password'', ''Password is required'')])"

definition validateRequiredPasswordConfirmation :: "string \<Rightarrow> string \<Rightarrow> (string \<times> string) list" where
  "validateRequiredPasswordConfirmation password passwordConfirmation =
     (if passwordConfirmation = [] then [(''passwordConfirmation'', ''Password confirmation is required'')]
      else if password \<noteq> [] then validatePasswordConfirmation password passwordConfirmation ''passwordConfirmation''
      else [])"

definition validateResetPassword :: "login_fields \<Rightarrow> (string \<times> string) list" where
  "validateResetPassword f =
     obj_spread (validateRequiredPassword (lf_password f))
       (validateRequiredPasswordConfirmation (lf_password f) (lf_passwordConfirmation f))"

definition validateRegistration :: "login_fields \<Rightarrow> (string \<times> string) list" where
  "validateRegistration f =
     obj_spread (obj_spread (validateRequiredUsername (lf_username f)) (validateRequiredEmail (lf_email f)))
       (validateResetPassword f)"

section \<open>The account forms\<close>

record edit_fields =
  ef_username :: "json option"
  ef_email :: "json option"
  ef_currentPassword :: string
  ef_newPassword :: string
  ef_newPasswordConfirmation :: string

record form_page = page +
  fp_fields :: edit_fields
  fp_fieldErrors :: "(string \<times> string) list"
  fp_submitError :: "string option"
  fp_success :: bool

text \<open>What a subclass overrides.\<close>

record form_class =
  fc_validate :: "edit_fields \<Rightarrow> (string \<times> string) list"
  fc_buildPayload :: "edit_fields \<Rightarrow> account_update"
  fc_extractAccount :: "json option \<Rightarrow> json option"
  fc_clearedFields :: "edit_fields \<Rightarrow> edit_fields"
  fc_handleSubmitError :: "js_error \<Rightarrow> form_page \<Rightarrow> form_page"

definition form_validateEmail :: "json option \<Rightarrow> (string \<times> string) list" where
  "form_validateEmail email = (if js_truthy email then validateEmail (js_text email) ''email'' else [])"

definition form_validateNewPassword :: "string \<Rightarrow> string \<Rightarrow> (string \<times> string) list" where
  "form_validateNewPassword newPassword newPasswordConfirmation =
     (if newPassword = [] then []
      else let lengthErrors = validatePasswordLength newPassword ''newPassword''
           in if lengthErrors \<noteq> [] then lengthErrors
              else validatePasswordConfirmation newPassword newPasswordConfirmation ''newPasswordConfirmation'')"

definition form_validate :: "edit_fields \<Rightarrow> (string \<times> string) list" where
  "form_validate f = obj_spread (form_validateEmail (ef_email f))
     (form_validateNewPassword (ef_newPassword f) (ef_newPasswordConfirmation f))"

definition form_buildPayload :: "edit_fields \<Rightarrow> account_update" where
  "form_buildPayload f = \<lparr>au_currentPassword = None,
     au_username = (if js_truthy (ef_username f) then ef_username f else None),
     au_email = (if js_truthy (ef_email f) then ef_email f else None),
     au_newPassword = (if ef_newPassword f \<noteq> [] then Some (JsonStr (ef_newPassword f)) else None)\<rparr>"

definition form_hasUpdate :: "account_update \<Rightarrow> bool" where
  "form_hasUpdate u \<longleftrightarrow> au_username u \<noteq> None \<or> au_email u \<noteq> None \<or> au_newPassword u \<noteq> None"

definition form_clearedFields :: "edit_fields \<Rightarrow> edit_fields" where
  "form_clearedFields f = f\<lparr>ef_newPassword := [], ef_newPasswordConfirmation := []\<rparr>"

definition form_handleSubmitError :: "js_error \<Rightarrow> form_page \<Rightarrow> form_page" where
  "form_handleSubmitError x p = p\<lparr>fp_submitError := Some (error_message x)\<rparr>"

definition base_form :: form_class where
  "base_form = \<lparr>fc_validate = form_validate, fc_buildPayload = form_buildPayload, fc_extractAccount = id,
     fc_clearedFields = form_clearedFields, fc_handleSubmitError = form_handleSubmitError\<rparr>"

definition applySuccess :: "form_class \<Rightarrow> json option \<Rightarrow> (unit, form_page) js" where
  "applySuccess C result =
     js_await (js_destructure (fc_extractAccount C result)) (\<lambda>account.
       js_do (\<lambda>p. p\<lparr>fp_fields := fc_clearedFields C ((fp_fields p)\<lparr>ef_username := js_field ''username'' account,
           ef_email := js_field ''email'' account\<rparr>), fp_success := True\<rparr>))"

definition form_send ::
  "form_class \<Rightarrow> account_update \<Rightarrow> (account_update \<Rightarrow> (json option, form_page) js) \<Rightarrow> (unit, form_page) js" where
  "form_send C payload send =
     js_catch (js_await (send payload) (\<lambda>result.
         if \<not> js_truthy result then js_return () else applySuccess C result))
       (\<lambda>x. js_do (fc_handleSubmitError C x))"

definition form_submit ::
  "form_class \<Rightarrow> edit_fields \<Rightarrow> (account_update \<Rightarrow> (json option, form_page) js) \<Rightarrow> (unit, form_page) js" where
  "form_submit C f send p =
     (let errors = fc_validate C f;
          p1 = p\<lparr>fp_fieldErrors := errors, fp_success := False\<rparr>;
          payload = fc_buildPayload C f
      in if errors \<noteq> [] then (Inr (), p1)
         else if \<not> form_hasUpdate payload
         then (Inr (), p1\<lparr>fp_submitError := Some ''Provide a username, email, or new password to update.''\<rparr>)
         else form_send C payload send (p1\<lparr>fp_submitError := None\<rparr>))"

subsection \<open>The user's own account\<close>

definition validateCurrentPassword :: "string \<Rightarrow> (string \<times> string) list" where
  "validateCurrentPassword currentPassword =
     (if currentPassword \<noteq> [] then [] else [(''currentPassword'', ''Current password is required'')])"

definition my_account_form :: form_class where
  "my_account_form = base_form\<lparr>
     fc_validate := \<lambda>f. obj_spread (validateCurrentPassword (ef_currentPassword f)) (form_validate f),
     fc_buildPayload := \<lambda>f. (form_buildPayload f)\<lparr>au_currentPassword := Some (JsonStr (ef_currentPassword f))\<rparr>,
     fc_clearedFields := \<lambda>f. form_clearedFields (f\<lparr>ef_currentPassword := []\<rparr>)\<rparr>"

definition my_account_handleSubmit :: "network \<Rightarrow> edit_fields \<Rightarrow> (unit, form_page) js" where
  "my_account_handleSubmit N f = form_submit my_account_form f (client_updateAccount N)"

subsection \<open>An administrator's edit of an account\<close>

definition admin_edit_form :: form_class where
  "admin_edit_form = base_form\<lparr>
     fc_extractAccount := js_field ''user'',
     fc_handleSubmitError := \<lambda>x p.
       (case redirectIfForbidden x p of (redirected, p1) \<Rightarrow>
          if redirected then p1 else form_handleSubmitError x p1)\<rparr>"

definition admin_edit_handleSubmit :: "network \<Rightarrow> string \<Rightarrow> edit_fields \<Rightarrow> (unit, form_page) js" where
  "admin_edit_handleSubmit N userId f = form_submit admin_edit_form f (client_editUser N userId)"

subsection \<open>The hook\<close>

definition form_onChange :: "(edit_fields \<Rightarrow> edit_fields) \<Rightarrow> form_page \<Rightarrow> form_page" where
  "form_onChange f p = p\<lparr>fp_fields := f (fp_fields p)\<rparr>"

definition form_onSubmit :: "(edit_fields \<Rightarrow> (unit, form_page) js) \<Rightarrow> (unit, form_page) js" where
  "form_onSubmit handle p = handle (fp_fields p) p"

section \<open>Spreading error objects\<close>

lemma no_errors:
  "form_validateEmail email = [] \<longleftrightarrow> (js_truthy email \<longrightarrow> email_matches (js_text email))"
  "form_validateNewPassword pw conf = [] \<longleftrightarrow> (pw \<noteq> [] \<longrightarrow> 8 \<le> length pw \<and> pw = conf)"
  "validateCurrentPassword cur = [] \<longleftrightarrow> cur \<noteq> []"
  by (auto simp: form_validateEmail_def validateEmail_def form_validateNewPassword_def Let_def
      validatePasswordLength_def validatePasswordConfirmation_def MIN_PASSWORD_LENGTH_def
      validateCurrentPassword_def)

text \<open>The pattern, as the words it matches.\<close>

lemma js_split_two:
  "js_split d s = [a, b] \<longleftrightarrow> s = a @ d # b \<and> d \<notin> set a \<and> d \<notin> set b"
proof
  assume two: "js_split d s = [a, b]"
  with js_join_split [of d s] have "s = a @ d # b" by simp
  with two js_split_no_sep [of a d s] js_split_no_sep [of b d s] show "s = a @ d # b \<and> d \<notin> set a \<and> d \<notin> set b"
    by simp
qed (simp add: js_split_append js_split_plain)

lemma email_matches_iff:
  "email_matches s \<longleftrightarrow>
     (\<exists>a d e. s = a @ CHR ''@'' # d @ CHR ''.'' # e \<and> a \<noteq> [] \<and> d \<noteq> [] \<and> e \<noteq> []
        \<and> CHR ''@'' \<notin> set (a @ d @ e) \<and> (\<forall>c \<in> set s. \<not> js_space c))" (is "_ \<longleftrightarrow> ?R")
proof
  assume m: "email_matches s"
  then obtain a b where ab: "js_split CHR ''@'' s = [a, b]"
    by (auto simp: email_matches_def split: list.splits)
  with m obtain i where i: "a \<noteq> []" "1 \<le> i" "i < length b - 1" "b ! i = CHR ''.''"
      and sp: "\<forall>c \<in> set s. \<not> js_space c"
    by (auto simp: email_matches_def list_ex_iff list_all_iff)
  have s: "s = a @ CHR ''@'' # b" and no: "CHR ''@'' \<notin> set a" "CHR ''@'' \<notin> set b"
    using ab by (simp_all add: js_split_two)
  have b: "b = take i b @ CHR ''.'' # drop (Suc i) b"
    using i id_take_nth_drop [of i b] by simp
  have "CHR ''@'' \<notin> set (a @ take i b @ drop (Suc i) b)"
    using no by (auto dest: in_set_takeD in_set_dropD)
  moreover have "s = a @ CHR ''@'' # take i b @ CHR ''.'' # drop (Suc i) b"
    using s b by simp
  moreover have "take i b \<noteq> []" "drop (Suc i) b \<noteq> []" using i by auto
  ultimately show ?R using i(1) sp by blast
next
  assume ?R
  then obtain a d e where s: "s = a @ CHR ''@'' # d @ CHR ''.'' # e" "a \<noteq> []" "d \<noteq> []" "e \<noteq> []"
      "CHR ''@'' \<notin> set (a @ d @ e)" "\<forall>c \<in> set s. \<not> js_space c" by blast
  have "js_split CHR ''@'' s = [a, d @ CHR ''.'' # e]" using s by (auto simp: js_split_two)
  moreover have "(d @ CHR ''.'' # e) ! length d = CHR ''.''" by simp
  moreover have "length d \<in> set [1..<length (d @ CHR ''.'' # e) - 1]" using s(3,4) by (simp add: Suc_le_eq)
  ultimately have "list_ex (\<lambda>i. (d @ CHR ''.'' # e) ! i = CHR ''.'') [1..<length (d @ CHR ''.'' # e) - 1]"
    unfolding list_ex_iff by blast
  with \<open>js_split CHR ''@'' s = [a, d @ CHR ''.'' # e]\<close> s(2,6) show "email_matches s"
    by (simp add: email_matches_def list_all_iff)
qed

section \<open>What the forms send\<close>

text \<open>An update as the fields allow it.\<close>

definition checked_update :: "edit_fields \<Rightarrow> account_update \<Rightarrow> bool" where
  "checked_update f u \<longleftrightarrow> form_hasUpdate u
     \<and> (\<forall>e. au_email u = Some e \<longrightarrow> email_matches (json_text e))
     \<and> (\<forall>x. au_newPassword u = Some x \<longrightarrow>
          (\<exists>pw. x = JsonStr pw \<and> 8 \<le> length pw \<and> pw = ef_newPasswordConfirmation f))"

lemma base_update_checked:
  assumes "form_validate f = []" and "form_hasUpdate (form_buildPayload f)"
  shows "checked_update f (form_buildPayload f)"
  using assms by (auto simp: checked_update_def form_validate_def no_errors form_buildPayload_def js_text_def
      split: if_splits option.splits)

text \<open>What a subclass of the form has to respect.\<close>

locale edit_form =
  fixes C :: form_class
  assumes validates_more: "fc_validate C f = [] \<Longrightarrow> form_validate f = []"
    and builds_more: "\<exists>cur. fc_buildPayload C f = (form_buildPayload f)\<lparr>au_currentPassword := cur\<rparr>"
    and errors_stay_local: "pg_sent (fc_handleSubmitError C x p) = pg_sent p"
begin

lemma applySuccess_local: "pg_sent (snd (applySuccess C r p)) = pg_sent p"
  by (simp add: applySuccess_def js_destructure_def js_defs)

lemma form_send_sent: "pg_sent (snd (form_send C u send p)) = pg_sent (snd (send u p))"
proof (cases "send u p")
  case (Pair r q)
  then show ?thesis
    using applySuccess_local [of "projr r" q] errors_stay_local
    by (cases r) (auto simp: form_send_def js_defs split: prod.split sum.split)
qed

lemma submits_checked:
  assumes "rq \<in> new_requests p (snd (form_submit C f send p))"
  obtains q where "checked_update f (fc_buildPayload C f)" and "fc_validate C f = []"
    and "rq \<in> new_requests q (snd (send (fc_buildPayload C f) q))"
proof (cases "fc_validate C f = [] \<and> form_hasUpdate (fc_buildPayload C f)")
  case True
  let ?q = "p\<lparr>fp_fieldErrors := [], fp_success := False, fp_submitError := None\<rparr>"
  obtain cur where b: "fc_buildPayload C f = (form_buildPayload f)\<lparr>au_currentPassword := cur\<rparr>"
    using builds_more by blast
  with True have "checked_update f (fc_buildPayload C f)"
    using base_update_checked [of f] validates_more [of f]
    by (simp add: checked_update_def form_hasUpdate_def)
  moreover have "rq \<in> new_requests ?q (snd (send (fc_buildPayload C f) ?q))"
    using assms True form_send_sent [of "fc_buildPayload C f" send ?q]
    by (simp add: form_submit_def Let_def new_requests_def)
  ultimately show thesis using that True by blast
next
  case False
  with assms have False by (auto simp: form_submit_def Let_def new_requests_def)
  then show thesis ..
qed

end

interpretation my_account: edit_form my_account_form
proof unfold_locales
  fix f show "\<exists>cur. fc_buildPayload my_account_form f = (form_buildPayload f)\<lparr>au_currentPassword := cur\<rparr>"
    by (auto simp: my_account_form_def)
qed (simp_all add: my_account_form_def base_form_def form_handleSubmitError_def)

interpretation admin_edit: edit_form admin_edit_form
proof unfold_locales
  fix f show "\<exists>cur. fc_buildPayload admin_edit_form f = (form_buildPayload f)\<lparr>au_currentPassword := cur\<rparr>"
    by (intro exI [of _ None]) (simp add: admin_edit_form_def base_form_def form_buildPayload_def)
qed (simp_all add: admin_edit_form_def base_form_def form_handleSubmitError_def redirectIfForbidden_def split: prod.split)

lemma update_field_lookup:
  "map_of (update_fields u) ''email'' = au_email u" "map_of (update_fields u) ''newPassword'' = au_newPassword u"
  "map_of (update_fields u) ''username'' = au_username u" "map_of (update_fields u) ''currentPassword'' = None"
  by (cases "au_username u"; cases "au_email u"; cases "au_newPassword u";
      simp add: update_fields_def pickDefined_def List.map_filter_def)+

text \<open>What a request that edits an account carries.\<close>

definition edit_request_ok :: "edit_fields \<Rightarrow> api_request \<Rightarrow> bool" where
  "edit_request_ok f rq \<longleftrightarrow>
     (\<forall>e. json_field ''email'' (ar_body rq) = Some e \<longrightarrow> email_matches (json_text e))
     \<and> (\<forall>x. json_field ''newPassword'' (ar_body rq) = Some x \<longrightarrow>
          (\<exists>pw. x = JsonStr pw \<and> 8 \<le> length pw \<and> pw = ef_newPasswordConfirmation f))
     \<and> (\<exists>k \<in> {''username'', ''email'', ''newPassword''}. json_field k (ar_body rq) \<noteq> None)"

text \<open>
  Besides refreshing the session, the two account forms send one kind of request: a change of at
  least one of username, email and password, with an email of the accepted form, and with a new
  password only if it is long enough and was confirmed; the user's own form sends the current
  password with it, and never an empty one.
\<close>
theorem account_edits_are_checked:
  "(\<forall>rq \<in> new_requests p (snd (my_account_handleSubmit N f p)) - {refresh_request}.
      ar_path rq = ''/auth/account.json'' \<and> edit_request_ok f rq
      \<and> (\<exists>cur. cur \<noteq> [] \<and> json_field ''currentPassword'' (ar_body rq) = Some (JsonStr cur)))
   \<and> (\<forall>rq \<in> new_requests p (snd (admin_edit_handleSubmit N uid f p)) - {refresh_request}.
      ar_path rq = admin_path uid ''/edit.json'' \<and> edit_request_ok f rq)"
proof -
  have ok: "edit_request_ok f \<lparr>ar_method = m, ar_path = path, ar_body = JsonObj (fs @ update_fields u)\<rparr>"
    if "checked_update f u" "\<forall>k \<in> fst ` set fs. k = ''currentPassword''" for m path fs u
  proof -
    have "map_of fs k = None" if "k \<in> {''username'', ''email'', ''newPassword''}" for k
      using that \<open>\<forall>k \<in> fst ` set fs. k = ''currentPassword''\<close> by (force simp: map_of_eq_None_iff)
    with that(1) show ?thesis
      by (auto simp: edit_request_ok_def json_field_def map_add_def update_field_lookup checked_update_def
          form_hasUpdate_def split: option.splits)
  qed
  have my: "ar_path rq = ''/auth/account.json'' \<and> edit_request_ok f rq
      \<and> (\<exists>cur. cur \<noteq> [] \<and> json_field ''currentPassword'' (ar_body rq) = Some (JsonStr cur))"
    if "rq \<in> new_requests p (snd (my_account_handleSubmit N f p)) - {refresh_request}" for rq
  proof -
    let ?u = "fc_buildPayload my_account_form f"
    from that have rq: "rq \<in> new_requests p (snd (form_submit my_account_form f (client_updateAccount N) p))"
      and "rq \<noteq> refresh_request" by (simp_all add: my_account_handleSubmit_def)
    obtain q :: form_page where q: "checked_update f ?u" "fc_validate my_account_form f = []"
        "rq \<in> new_requests q (snd (client_updateAccount N ?u q))"
      by (rule my_account.submits_checked [OF rq])
    with \<open>rq \<noteq> refresh_request\<close> have "rq = \<lparr>ar_method = ''PATCH'', ar_path = ''/auth/account.json'', ar_body =
        JsonObj ([(''currentPassword'', JsonStr (ef_currentPassword f))] @ update_fields ?u)\<rparr>"
      using sendJson_requests [of q N "''PATCH''" "''/auth/account.json''"
        "JsonObj ([(''currentPassword'', JsonStr (ef_currentPassword f))] @ update_fields ?u)"]
      by (auto simp: client_updateAccount_def patchJson_def my_account_form_def pickDefined_def List.map_filter_def)
    with q(1,2) ok [of ?u "[(''currentPassword'', JsonStr (ef_currentPassword f))]"] show ?thesis
      by (simp add: json_field_def my_account_form_def no_errors)
  qed
  have admin: "ar_path rq = admin_path uid ''/edit.json'' \<and> edit_request_ok f rq"
    if "rq \<in> new_requests p (snd (admin_edit_handleSubmit N uid f p)) - {refresh_request}" for rq
  proof -
    let ?u = "fc_buildPayload admin_edit_form f"
    from that have rq: "rq \<in> new_requests p (snd (form_submit admin_edit_form f (client_editUser N uid) p))"
      and "rq \<noteq> refresh_request" by (simp_all add: admin_edit_handleSubmit_def)
    obtain q :: form_page where q: "checked_update f ?u"
        "rq \<in> new_requests q (snd (client_editUser N uid ?u q))"
      by (rule admin_edit.submits_checked [OF rq])
    with \<open>rq \<noteq> refresh_request\<close> have "rq = \<lparr>ar_method = ''POST'', ar_path = admin_path uid ''/edit.json'', ar_body = JsonObj ([] @ update_fields ?u)\<rparr>"
      using sendJson_requests [of q N "''POST''" "admin_path uid ''/edit.json''" "JsonObj (update_fields ?u)"]
      by (auto simp: client_editUser_def postJson_def)
    with q(1) ok [of ?u "[]"] show ?thesis by simp
  qed
  from my admin show ?thesis by blast
qed

end
