(* ===== verification/Frontend_Routing.thy ===== *)
theory Frontend_Routing
  imports Frontend_Forms
begin

text \<open>
  Hash routing: \<^verbatim>\<open>utils/routing/Route.js\<close>, \<^verbatim>\<open>Router.js\<close>, \<^verbatim>\<open>HashRouteResolver.js\<close> and the table of
  pages in \<^verbatim>\<open>helpers/AppHelper.jsx\<close>.  An object made of entries is the list of its properties.
\<close>

section \<open>Route\<close>

record route =
  ro_segments :: "string list"
  ro_page :: string

definition route_split :: "string \<Rightarrow> string list" where
  "route_split path =
     (let segments = js_split CHR ''/'' path
      in if length segments > 1 \<and> last segments = [] then butlast segments else segments)"

definition new_route :: "string \<Rightarrow> string \<Rightarrow> route" where
  "new_route path page = \<lparr>ro_segments = route_split path, ro_page = page\<rparr>"

definition matchSegment :: "string \<Rightarrow> string \<Rightarrow> (string \<times> string) list option" where
  "matchSegment expected actual =
     (if \<not> (expected \<noteq> [] \<and> hd expected = CHR '':'') then if expected = actual then Some [] else None
      else if actual = [] then None else Some [(tl expected, actual)])"

text \<open>The loop over the segments, and the entries it collects.\<close>

fun match_segments :: "string list \<Rightarrow> string list \<Rightarrow> (string \<times> string) list option" where
  "match_segments (expected # es) (actual # as) =
     (case matchSegment expected actual of
        None \<Rightarrow> None
      | Some entries \<Rightarrow> map_option ((@) entries) (match_segments es as))"
| "match_segments es as = Some []"

definition route_match :: "route \<Rightarrow> string \<Rightarrow> (string \<times> string) list option" where
  "route_match r path =
     (let segments = route_split path
      in if length segments \<noteq> length (ro_segments r) then None
         else map_option (obj_spread []) (match_segments (ro_segments r) segments))"

definition route_matches :: "route \<Rightarrow> string \<Rightarrow> bool" where
  "route_matches r path \<longleftrightarrow> route_match r path \<noteq> None"

definition route_params :: "route \<Rightarrow> string \<Rightarrow> (string \<times> string) list" where
  "route_params r path = (case route_match r path of Some entries \<Rightarrow> entries | None \<Rightarrow> [])"

section \<open>Router\<close>

definition router_resolve :: "route list \<Rightarrow> string \<Rightarrow> string" where
  "router_resolve routes path =
     (case List.find (\<lambda>r. route_matches r path) routes of Some r \<Rightarrow> ro_page r | None \<Rightarrow> ''home'')"

definition drop_hash :: "string \<Rightarrow> string" where
  "drop_hash s = (case s of [] \<Rightarrow> [] | c # cs \<Rightarrow> if c = CHR 0x23 then cs else s)"

definition hash_path :: "string \<Rightarrow> string" where
  "hash_path h = drop_hash (hd (js_split CHR ''?'' h))"

definition extractParams :: "string \<Rightarrow> string \<Rightarrow> (string \<times> string) list" where
  "extractParams path h = route_params (new_route path ''_internal_extract_params_'') (hash_path h)"

section \<open>HashRouteResolver\<close>

definition ROUTES :: "(string \<times> string) list" where
  "ROUTES =
     [(''/recover-password'', ''reset-password''),
      (''/admin/users/:id/edit'', ''admin-user-edit''),
      (''/admin/users'', ''admin-users''),
      (''/account/authorization-requests'', ''authorization-requests''),
      (''/account/integrations'', ''integrations''),
      (''/account/sessions'', ''sessions''),
      (''/account/my-account'', ''my-account''),
      (''/'', ''home'')]"

definition resolver_routes :: "route list" where
  "resolver_routes = map (\<lambda>(path, key). new_route path key) ROUTES"

definition getPage :: "string \<Rightarrow> string" where
  "getPage h = (let route = hash_path h in router_resolve resolver_routes (if route \<noteq> [] then route else ''/''))"

text \<open>The pages there are; any other name shows the home page.\<close>

definition PAGES :: "string list" where
  "PAGES = [''register'', ''login'', ''reset-password'', ''admin-users'', ''admin-user-edit'',
     ''authorization-requests'', ''integrations'', ''sessions'', ''my-account'', ''home'']"

definition rendered_page :: "string \<Rightarrow> string" where
  "rendered_page page = (if page \<in> set PAGES then page else ''home'')"

section \<open>Parameters survive the round trip\<close>

text \<open>The path of a route with its parameters filled in.\<close>

definition is_param :: "string \<Rightarrow> bool" where
  "is_param s \<longleftrightarrow> s \<noteq> [] \<and> hd s = CHR '':''"

definition fill_segment :: "(string \<Rightarrow> string) \<Rightarrow> string \<Rightarrow> string" where
  "fill_segment v s = (if is_param s then v (tl s) else s)"

definition fill_path :: "(string \<Rightarrow> string) \<Rightarrow> string \<Rightarrow> string" where
  "fill_path v path = js_join ''/'' (map (fill_segment v) (route_split path))"

lemma match_filled:
  assumes "\<And>s. s \<in> set segs \<Longrightarrow> is_param s \<Longrightarrow> v (tl s) \<noteq> []"
  shows "match_segments segs (map (fill_segment v) segs) = Some (map (\<lambda>s. (tl s, v (tl s))) (filter is_param segs))"
  using assms by (induction segs) (auto simp: matchSegment_def fill_segment_def is_param_def)

lemma js_split_join:
  assumes "ws \<noteq> []" and "\<And>w. w \<in> set ws \<Longrightarrow> d \<notin> set w"
  shows "js_split d (js_join [d] ws) = ws"
  using assms
proof (induction ws rule: induct_list012)
  case (3 w w' ws)
  then show ?case by (simp add: js_split_append js_split_plain)
qed (simp_all add: js_split_plain)

lemma obj_spread_distinct:
  assumes "distinct (map fst (fs @ gs))"
  shows "obj_spread fs gs = fs @ gs"
  using assms
proof (induction gs arbitrary: fs)
  case (Cons g gs)
  then show ?case by (cases g) (auto simp: obj_set_def)
qed simp

lemma route_split_slashless:
  assumes "w \<in> set (route_split path)"
  shows "CHR ''/'' \<notin> set w"
  using assms js_split_no_sep [of w "CHR ''/''" path]
  by (auto simp: route_split_def Let_def split: if_splits dest: in_set_butlastD)

lemma js_join_mono: "w \<in> set ws \<Longrightarrow> set w \<subseteq> set (js_join sep ws)"
  by (induction sep ws rule: js_join.induct) auto

lemma set_js_join: "c \<in> set (js_join sep ws) \<Longrightarrow> c \<in> set sep \<or> (\<exists>w \<in> set ws. c \<in> set w)"
  by (induction sep ws rule: js_join.induct) auto

text \<open>
  A parameter written into the path of a route is what the route's page reads back, whatever query
  follows: for a route whose last segment is not empty and whose parameters have different names, and
  for values that are not empty and hold no slash, question mark or hash.
\<close>
theorem route_params_roundtrip:
  assumes segs: "last (route_split path) \<noteq> []" "hd (route_split path) = []" "2 \<le> length (route_split path)"
    and names: "distinct (filter is_param (route_split path))"
    and plain: "CHR ''?'' \<notin> set path"
    and vals: "\<And>k. v k \<noteq> [] \<and> CHR ''/'' \<notin> set (v k) \<and> CHR ''?'' \<notin> set (v k)"
  shows "extractParams path (CHR 0x23 # fill_path v path @ CHR ''?'' # query) =
     map (\<lambda>s. (tl s, v (tl s))) (filter is_param (route_split path))"
proof -
  let ?segs = "route_split path"
  let ?ws = "map (fill_segment v) ?segs"
  have ne: "?segs \<noteq> []" using segs(3) by auto
  have noslash: "CHR ''/'' \<notin> set w" if "w \<in> set ?ws" for w
    using that vals route_split_slashless by (auto simp: fill_segment_def)
  have split: "js_split CHR ''/'' (fill_path v path) = ?ws"
    unfolding fill_path_def using ne noslash by (intro js_split_join) auto
  have "last ?ws \<noteq> []"
    using segs(1) vals ne by (simp add: last_map fill_segment_def)
  then have refilled: "route_split (fill_path v path) = ?ws"
    by (simp add: route_split_def split Let_def)
  have noq: "CHR ''?'' \<notin> set w" if "w \<in> set ?ws" for w
  proof -
    from that obtain s where s: "s \<in> set ?segs" "w = fill_segment v s" by auto
    have "set s \<subseteq> set path"
    proof
      fix c assume "c \<in> set s"
      with s(1) have "s \<in> set (js_split CHR ''/'' path)"
        by (auto simp: route_split_def Let_def split: if_splits dest: in_set_butlastD)
      then have "set s \<subseteq> set (js_join ''/'' (js_split CHR ''/'' path))" by (rule js_join_mono)
      with \<open>c \<in> set s\<close> show "c \<in> set path" by (auto simp: js_join_split)
    qed
    with s plain vals show ?thesis by (auto simp: fill_segment_def)
  qed
  have "CHR ''?'' \<notin> set (fill_path v path)"
    using noq set_js_join [of "CHR ''?''" "''/''" ?ws] by (auto simp: fill_path_def)
  then have "js_split CHR ''?'' (CHR 0x23 # fill_path v path @ CHR ''?'' # query) =
      (CHR 0x23 # fill_path v path) # js_split CHR ''?'' query"
    using js_split_append [of "CHR ''?''" "CHR 0x23 # fill_path v path" query]
    by (simp add: js_split_plain)
  then have h: "hash_path (CHR 0x23 # fill_path v path @ CHR ''?'' # query) = fill_path v path"
    by (simp add: hash_path_def drop_hash_def)
  have inj: "distinct (map tl (filter is_param ?segs))"
  proof -
    have "inj_on tl (set (filter is_param ?segs))"
      by (rule inj_onI) (auto simp: is_param_def, metis list.collapse)
    with names show ?thesis by (simp add: distinct_map)
  qed
  have m: "match_segments ?segs ?ws = Some (map (\<lambda>s. (tl s, v (tl s))) (filter is_param ?segs))"
    by (rule match_filled) (use vals in blast)
  show ?thesis
    using inj
    by (simp add: extractParams_def h route_params_def route_match_def new_route_def refilled m Let_def
        obj_spread_distinct o_def)
qed

section \<open>The table of routes\<close>

text \<open>The pages of the paths, written out.\<close>

definition reference_page :: "string list \<Rightarrow> string" where
  "reference_page segs =
     (if segs = [[], ''recover-password''] then ''reset-password''
      else if \<exists>uid \<in> set segs. uid \<noteq> [] \<and> segs = [[], ''admin'', ''users'', uid, ''edit''] then ''admin-user-edit''
      else if segs = [[], ''admin'', ''users''] then ''admin-users''
      else if segs = [[], ''account'', ''authorization-requests''] then ''authorization-requests''
      else if segs = [[], ''account'', ''integrations''] then ''integrations''
      else if segs = [[], ''account'', ''sessions''] then ''sessions''
      else if segs = [[], ''account'', ''my-account''] then ''my-account''
      else ''home'')"

lemma resolver_routes_eq: "resolver_routes = 
  [\<lparr>ro_segments = [[], ''recover-password''], ro_page = ''reset-password''\<rparr>,
   \<lparr>ro_segments = [[], ''admin'', ''users'', '':id'', ''edit''], ro_page = ''admin-user-edit''\<rparr>,
   \<lparr>ro_segments = [[], ''admin'', ''users''], ro_page = ''admin-users''\<rparr>,
   \<lparr>ro_segments = [[], ''account'', ''authorization-requests''], ro_page = ''authorization-requests''\<rparr>,
   \<lparr>ro_segments = [[], ''account'', ''integrations''], ro_page = ''integrations''\<rparr>,
   \<lparr>ro_segments = [[], ''account'', ''sessions''], ro_page = ''sessions''\<rparr>,
   \<lparr>ro_segments = [[], ''account'', ''my-account''], ro_page = ''my-account''\<rparr>,
   \<lparr>ro_segments = [[]], ro_page = ''home''\<rparr>]"
  by code_simp

lemma match_literal:
  assumes "\<And>s. s \<in> set es \<Longrightarrow> \<not> is_param s"
  shows "(length as = length es \<and> match_segments es as \<noteq> None) \<longleftrightarrow> as = es"
  using assms
proof (induction es as rule: match_segments.induct)
  case (1 e es a as)
  then show ?case by (auto simp: matchSegment_def is_param_def split: option.splits)
qed auto

lemma route_matches_literal:
  assumes "\<And>s. s \<in> set es \<Longrightarrow> \<not> is_param s"
  shows "route_matches \<lparr>ro_segments = es, ro_page = pg\<rparr> path \<longleftrightarrow> route_split path = es"
  using match_literal [OF assms, where as = "route_split path"]
  by (auto simp: route_matches_def route_match_def Let_def)

lemma route_matches_edit:
  "route_matches \<lparr>ro_segments = [[], ''admin'', ''users'', '':id'', ''edit''], ro_page = pg\<rparr> path \<longleftrightarrow>
     (\<exists>uid. uid \<noteq> [] \<and> route_split path = [[], ''admin'', ''users'', uid, ''edit''])"
proof
  let ?r = "\<lparr>ro_segments = [[], ''admin'', ''users'', '':id'', ''edit''], ro_page = pg\<rparr>"
  assume m: "route_matches ?r path"
  then have "length (route_split path) = 5" by (auto simp: route_matches_def route_match_def Let_def split: if_splits)
  then obtain a b c d e where xs: "route_split path = [a, b, c, d, e]"
    by (auto simp: length_Suc_conv eval_nat_numeral)
  with m show "\<exists>uid. uid \<noteq> [] \<and> route_split path = [[], ''admin'', ''users'', uid, ''edit'']"
    by (auto simp: route_matches_def route_match_def Let_def matchSegment_def split: if_splits)
qed (auto simp: route_matches_def route_match_def Let_def matchSegment_def)

lemma router_resolve_simps:
  "router_resolve [] path = ''home''"
  "router_resolve (r # rs) path = (if route_matches r path then ro_page r else router_resolve rs path)"
  by (simp_all add: router_resolve_def)

lemma edit_segments:
  "(\<exists>uid \<in> set segs. uid \<noteq> [] \<and> segs = [[], ''admin'', ''users'', uid, ''edit'']) \<longleftrightarrow>
   (\<exists>uid. uid \<noteq> [] \<and> segs = [[], ''admin'', ''users'', uid, ''edit''])"
  by auto

lemma literal_route:
  assumes "list_all (\<lambda>s. \<not> is_param s) es"
  shows "route_matches \<lparr>ro_segments = es, ro_page = pg\<rparr> path \<longleftrightarrow> route_split path = es"
  by (rule route_matches_literal) (use assms in \<open>auto simp: list_all_iff\<close>)

lemma literal_routes:
  "list_all (\<lambda>s. \<not> is_param s) [[], ''recover-password'']"
  "list_all (\<lambda>s. \<not> is_param s) [[], ''admin'', ''users'']"
  "list_all (\<lambda>s. \<not> is_param s) [[], ''account'', ''authorization-requests'']"
  "list_all (\<lambda>s. \<not> is_param s) [[], ''account'', ''integrations'']"
  "list_all (\<lambda>s. \<not> is_param s) [[], ''account'', ''sessions'']"
  "list_all (\<lambda>s. \<not> is_param s) [[], ''account'', ''my-account'']"
  "list_all (\<lambda>s. \<not> is_param s) [[]]"
  by (simp_all add: is_param_def)

lemma resolve_table: "router_resolve resolver_routes path = reference_page (route_split path)"
  unfolding resolver_routes_eq reference_page_def edit_segments router_resolve_simps
    route_matches_edit literal_routes [THEN literal_route] route.select_convs if_cancel
  by (rule refl)

text \<open>
  Every hash shows the page that its path, without the query and up to one trailing slash, names in
  the written-out table, the home page being that of every other path; and every page shown exists.
\<close>
theorem hash_routing_reference:
  "getPage h = reference_page (route_split (if hash_path h \<noteq> [] then hash_path h else ''/''))
   \<and> rendered_page (getPage h) = getPage h"
  by (simp add: getPage_def Let_def resolve_table) (simp add: reference_page_def rendered_page_def PAGES_def)

end
