(* ===== verification/Frontend_Login.thy ===== *)
theory Frontend_Login
  imports Frontend_Forms
begin

text \<open>
  The login modal (\<^verbatim>\<open>loginModal/controllers/LoginModalController.js\<close>, \<^verbatim>\<open>LoginErrorMessages.js\<close>,
  \<^verbatim>\<open>LoginModal.jsx\<close>) with the polling of device requests, and the controllers of the header
  (\<^verbatim>\<open>header/controllers/HeaderController.js\<close>), of the waiting page
  (\<^verbatim>\<open>awaitingApproval/controllers/AwaitingApprovalController.js\<close>) and of registration
  (\<^verbatim>\<open>accounts/pages/controllers/RegisterController.js\<close>).
\<close>

section \<open>LoginModalController\<close>

definition USER_DENIED_MESSAGE :: string where
  "USER_DENIED_MESSAGE = ''This account has been denied access.''"

definition forLogin :: "js_error \<Rightarrow> string" where
  "forLogin x = (if error_code x = Some (JsonStr ''USER_DENIED'') then USER_DENIED_MESSAGE else error_message x)"

definition setSubmitError :: "string option \<Rightarrow> ('a page_scheme) \<Rightarrow> ('a page_scheme)" where
  "setSubmitError e = set_modal (\<lambda>m. m\<lparr>lm_submitError := e\<rparr>)"

definition setResultPanel :: "string option \<Rightarrow> ('a page_scheme) \<Rightarrow> ('a page_scheme)" where
  "setResultPanel r = set_modal (\<lambda>m. m\<lparr>lm_resultPanel := r\<rparr>)"

definition setFieldErrors :: "(string \<times> string) list \<Rightarrow> ('a page_scheme) \<Rightarrow> ('a page_scheme)" where
  "setFieldErrors es = set_modal (\<lambda>m. m\<lparr>lm_fieldErrors := es\<rparr>)"

definition setKeepSignedIn :: "bool \<Rightarrow> login_modal \<Rightarrow> login_modal" where
  "setKeepSignedIn checked m = m\<lparr>lm_fields := (lm_fields m)\<lparr>lf_keepSignedIn := checked\<rparr>\<rparr>"

definition handleSuccess :: "network \<Rightarrow> (unit, 'a page_scheme) js" where
  "handleSuccess N =
     js_await (AuthStatus_refresh N) (\<lambda>_. js_do (\<lambda>p. redirectHome (LoginModalEvents_close p)))"

definition submitPassword :: "network \<Rightarrow> login_fields \<Rightarrow> (unit, 'a page_scheme) js" where
  "submitPassword N f p =
     js_catch (js_await (client_login N f) (\<lambda>_. handleSuccess N))
       (\<lambda>x. js_do (setSubmitError (Some (forLogin x)))) (setSubmitError None p)"

definition submitRegister :: "network \<Rightarrow> login_fields \<Rightarrow> (unit, 'a page_scheme) js" where
  "submitRegister N f p =
     (let errors = validateRegistration f; p1 = setFieldErrors errors p
      in if errors \<noteq> [] then (Inr (), p1)
         else js_catch (js_await (client_register N f) (\<lambda>_. handleSuccess N))
           (\<lambda>x. js_do (setSubmitError (Some (error_message x)))) (setSubmitError None p1))"

text \<open>The \<^verbatim>\<open>finally\<close> shows the panel; an error is thrown on.\<close>

definition submitRecover :: "network \<Rightarrow> login_fields \<Rightarrow> (unit, 'a page_scheme) js" where
  "submitRecover N f p =
     (case client_recover N (lf_email f) (setSubmitError None p) of
        (Inl x, p1) \<Rightarrow> (Inl x, setResultPanel (Some ''recover'') p1)
      | (Inr v, p1) \<Rightarrow> (Inr (), setResultPanel (Some ''recover'') p1))"

definition submitResetPassword :: "network \<Rightarrow> login_fields \<Rightarrow> string \<Rightarrow> (unit, 'a page_scheme) js" where
  "submitResetPassword N f token p =
     (let errors = validateResetPassword f; p1 = setFieldErrors errors p
      in if errors \<noteq> [] then (Inr (), p1)
         else js_catch (js_await (client_resetPassword N token (lf_password f) (lf_passwordConfirmation f))
               (\<lambda>_. js_do (setResultPanel (Some ''resetPassword''))))
           (\<lambda>x. js_do (setSubmitError (Some (error_message x)))) (setSubmitError None p1))"

text \<open>
  A request for a device, and the poller it starts; \<open>race\<close> is what happened to the page while the
  request was under way.
\<close>

definition new_device_poller :: "network \<Rightarrow> int \<Rightarrow> json option \<Rightarrow> device_poller" where
  "new_device_poller N now request = \<lparr>
     dp_poller = poller_start now (new_poller
       \<lparr>pc_expiresAt = nw_date_parse N (js_text (js_field ''expiresAt'' request)), pc_intervalMs = DEFAULT_INTERVAL_MS\<rparr>),
     dp_uuid = js_field ''uuid'' request, dp_pollToken = js_field ''pollToken'' request\<rparr>"

definition hold_poller :: "device_poller \<Rightarrow> login_modal \<Rightarrow> login_modal" where
  "hold_poller dp m = m\<lparr>lm_pollers := lm_pollers m @ [dp], lm_poller := Some (length (lm_pollers m))\<rparr>"

definition submitDevice ::
  "network \<Rightarrow> int \<Rightarrow> (('a page_scheme) \<Rightarrow> ('a page_scheme)) \<Rightarrow> login_fields \<Rightarrow> (unit, 'a page_scheme) js" where
  "submitDevice N now race f p =
     (case createAuthorizationRequest N (lf_username f) (lf_keepSignedIn f) (setSubmitError None p) of
        (Inl x, p1) \<Rightarrow> (Inr (), setSubmitError (Some (error_message x)) (race p1))
      | (Inr result, p1) \<Rightarrow>
          js_await (js_destructure result) (\<lambda>request.
            js_do (\<lambda>q. set_modal (hold_poller (new_device_poller N now request))
              (setResultPanel (Some ''device:waiting'')
                (set_modal (\<lambda>m. m\<lparr>lm_deviceExpiresAt := js_field ''expiresAt'' request\<rparr>) q)))) (race p1))"

definition modal_handleSubmit ::
  "network \<Rightarrow> int \<Rightarrow> (('a page_scheme) \<Rightarrow> ('a page_scheme)) \<Rightarrow> string \<Rightarrow> login_fields \<Rightarrow> string
     \<Rightarrow> (unit, 'a page_scheme) js" where
  "modal_handleSubmit N now race mode f resetToken =
     (if mode = ''register'' then submitRegister N f
      else if mode = ''recover'' then submitRecover N f
      else if mode = ''resetPassword'' then submitResetPassword N f resetToken
      else if mode = ''device'' then submitDevice N now race f
      else submitPassword N f)"

section \<open>The poller of the modal\<close>

definition rejection_panel :: "rejection \<Rightarrow> string" where
  "rejection_panel r =
     (case r of RejDenied \<Rightarrow> ''device:denied'' | RejExpired \<Rightarrow> ''device:expired''
      | RejLogged \<Rightarrow> ''device:logged'' | RejNotFound \<Rightarrow> ''device:notFound'')"

definition handleDeviceRejection :: "rejection \<Rightarrow> ('a page_scheme) \<Rightarrow> ('a page_scheme)" where
  "handleDeviceRejection r p = set_modal stopPoller (setResultPanel (Some (rejection_panel r)) p)"

definition device_callback :: "network \<Rightarrow> poll_callback \<Rightarrow> ('a page_scheme) \<Rightarrow> ('a page_scheme)" where
  "device_callback N cb p =
     (case cb of
        CbApproved \<Rightarrow>
          snd (js_catch (handleSuccess N) (\<lambda>x. js_do (setSubmitError (Some (error_message x)))) p)
      | CbRejected r \<Rightarrow> handleDeviceRejection r p
      | CbTick \<Rightarrow> p)"

definition set_poller :: "nat \<Rightarrow> poller \<Rightarrow> login_modal \<Rightarrow> login_modal" where
  "set_poller i po m = m\<lparr>lm_pollers := (lm_pollers m)[i := (lm_pollers m ! i)\<lparr>dp_poller := po\<rparr>]\<rparr>"

text \<open>An event reaches the \<open>i\<close>-th poller, which then invokes its callbacks.\<close>

definition device_event :: "network \<Rightarrow> nat \<Rightarrow> poll_event \<Rightarrow> ('a page_scheme) \<Rightarrow> ('a page_scheme)" where
  "device_event N i ev p =
     (if i < length (lm_pollers (pg_modal p)) then
        let po = dp_poller (lm_pollers (pg_modal p) ! i); po1 = poll_step ev po
        in fold (device_callback N) (drop (length (po_calls po)) (po_calls po1)) (set_modal (set_poller i po1) p)
      else p)"

definition poll_answer_of :: "js_error + json option \<Rightarrow> poll_answer" where
  "poll_answer_of r =
     (case r of
        Inl x \<Rightarrow> PollError (error_status x)
      | Inr v \<Rightarrow> PollResult (case js_field ''status'' v of Some (JsonStr s) \<Rightarrow> Some s | _ \<Rightarrow> None))"

text \<open>A tick of the \<open>i\<close>-th poller at \<open>now\<close>: its request, answered at \<open>later\<close>, and the answer.\<close>

definition device_tick :: "network \<Rightarrow> nat \<Rightarrow> int \<Rightarrow> int \<Rightarrow> ('a page_scheme) \<Rightarrow> ('a page_scheme)" where
  "device_tick N i now later p =
     (let p1 = device_event N i (TickFires now) p;
          sends = (\<lambda>q. po_polls (dp_poller (lm_pollers (pg_modal q) ! i)))
      in if i < length (lm_pollers (pg_modal p)) \<and> sends p < sends p1 then
           let dp = lm_pollers (pg_modal p1) ! i
           in case pollAuthorizationRequest N (dp_uuid dp) (dp_pollToken dp) p1 of
                (r, p2) \<Rightarrow> device_event N i (PollAnswered later (poll_answer_of r)) p2
         else p1)"

section \<open>The header, the waiting page and registration\<close>

definition LOGOUT_ERROR_MESSAGE :: string where
  "LOGOUT_ERROR_MESSAGE = ''Could not sign out, please try again.''"

definition RECHECK_ERROR_MESSAGE :: string where
  "RECHECK_ERROR_MESSAGE = ''Could not check your account status, please try again.''"

text \<open>\<open>onError\<close> is the setter of the component that shows the message.\<close>

definition handleLogout ::
  "network \<Rightarrow> (string option \<Rightarrow> ('a page_scheme) \<Rightarrow> ('a page_scheme)) \<Rightarrow> (bool, 'a page_scheme) js" where
  "handleLogout N onError p =
     (case client_logout N (snd (takeLegacyToken (onError None p))) of
        (Inl x, p1) \<Rightarrow> (Inr False, onError (Some LOGOUT_ERROR_MESSAGE) p1)
      | (Inr v, p1) \<Rightarrow> (Inr True, redirectHome (AuthEvents_emit False False False p1)))"

definition migrateIfNeeded :: "network \<Rightarrow> (unit, 'a page_scheme) js" where
  "migrateIfNeeded N p =
     (case takeLegacyToken p of
        (token, p1) \<Rightarrow>
          (case token of
             Some t \<Rightarrow> if t \<noteq> [] then js_await (migrateLegacyToken N t) (\<lambda>_. js_return ()) p1 else (Inr (), p1)
           | None \<Rightarrow> (Inr (), p1)))"

definition checkStatus :: "network \<Rightarrow> (unit, 'a page_scheme) js" where
  "checkStatus N =
     js_await (migrateIfNeeded N) (\<lambda>_ p.
       if \<not> isLoggedIn p then (Inr (), AuthEvents_emit False False False p)
       else js_await (AuthStatus_refresh N) (\<lambda>_. js_return ()) p)"

definition set_logoutError :: "string option \<Rightarrow> ('a page_scheme) \<Rightarrow> ('a page_scheme)" where
  "set_logoutError e p = p\<lparr>pg_logoutError := e\<rparr>"

definition set_recheckError :: "string option \<Rightarrow> ('a page_scheme) \<Rightarrow> ('a page_scheme)" where
  "set_recheckError e p = p\<lparr>pg_recheckError := e\<rparr>"

definition checkAgain :: "network \<Rightarrow> (unit, 'a page_scheme) js" where
  "checkAgain N p =
     js_catch (js_await (AuthStatus_refresh N) (\<lambda>_. js_return ()))
       (\<lambda>x. js_do (set_recheckError (Some RECHECK_ERROR_MESSAGE))) (set_recheckError None p)"

definition awaiting_logout :: "network \<Rightarrow> (bool, 'a page_scheme) js" where
  "awaiting_logout N = handleLogout N set_recheckError"

record register_page = page +
  rp_fieldErrors :: "(string \<times> string) list"
  rp_submitError :: "string option"

definition register_handleSubmit :: "network \<Rightarrow> login_fields \<Rightarrow> (unit, register_page) js" where
  "register_handleSubmit N f p =
     (let errors = validateRegistration f; p1 = p\<lparr>rp_fieldErrors := errors\<rparr>
      in if errors \<noteq> [] then (Inr (), p1)
         else js_catch (js_await (client_register N f) (\<lambda>_. js_await (AuthStatus_refresh N) (\<lambda>_. js_do redirectHome)))
           (\<lambda>x. js_do (\<lambda>q. q\<lparr>rp_submitError := Some (error_message x)\<rparr>)) (p1\<lparr>rp_submitError := None\<rparr>))"

section \<open>Events of the modal\<close>

text \<open>
  What happens to the modal: another component opens it, it is closed, a mode is selected, a field is
  edited, a form is submitted, or a timer of a poller fires; a device form may also be submitted with
  other events coming before its request is answered.
\<close>

datatype modal_event =
    EvOpen string "string option"
  | EvClose
  | EvSelect string
  | EvEdit login_fields
  | EvSubmit int string login_fields string
  | EvTick nat int int
  | EvExpiry nat int

fun modal_step :: "network \<Rightarrow> modal_event \<Rightarrow> ('a page_scheme) \<Rightarrow> ('a page_scheme)" where
  "modal_step N (EvOpen mode token) p = LoginModalEvents_open mode token p"
| "modal_step N EvClose p = LoginModalEvents_close p"
| "modal_step N (EvSelect mode) p =
     set_modal (\<lambda>m. switchMode mode (m\<lparr>lm_resultPanel := None, lm_resetToken := []\<rparr>)) p"
| "modal_step N (EvEdit f) p = set_modal (\<lambda>m. m\<lparr>lm_fields := f\<rparr>) p"
| "modal_step N (EvSubmit now mode f token) p = snd (modal_handleSubmit N now id mode f token p)"
| "modal_step N (EvTick i now later) p = device_tick N i now later p"
| "modal_step N (EvExpiry i now) p = device_event N i (ExpiryFires now) p"

datatype modal_move = Event modal_event | DeviceRequest int login_fields "modal_event list"

fun apply_move :: "network \<Rightarrow> modal_move \<Rightarrow> ('a page_scheme) \<Rightarrow> ('a page_scheme)" where
  "apply_move N (Event ev) p = modal_step N ev p"
| "apply_move N (DeviceRequest now f meanwhile) p =
     snd (modal_handleSubmit N now (fold (modal_step N) meanwhile) ''device'' f [] p)"

definition modal_run :: "network \<Rightarrow> modal_move list \<Rightarrow> ('a page_scheme) \<Rightarrow> ('a page_scheme)" where
  "modal_run N moves p = fold (apply_move N) moves p"

section \<open>What runs behind the modal\<close>

text \<open>The pollers that still run are the one the controller holds; or none runs.\<close>

definition held_only :: "login_modal \<Rightarrow> bool" where
  "held_only m \<longleftrightarrow> (\<forall>i < length (lm_pollers m).
     \<not> po_stopped (dp_poller (lm_pollers m ! i)) \<longrightarrow> lm_poller m = Some i)"

definition quiet :: "login_modal \<Rightarrow> bool" where
  "quiet m \<longleftrightarrow> lm_poller m = None \<and> held_only m"

text \<open>A computation that keeps a property of the modal.\<close>

abbreviation keeps :: "(login_modal \<Rightarrow> bool) \<Rightarrow> ('r, 'a page_scheme) js \<Rightarrow> bool" where
  "keeps R m \<equiv> js_keeps (\<lambda>p. R (pg_modal p)) m"

lemma set_modal_modal [simp]: "pg_modal (set_modal f p) = f (pg_modal p)"
  by (simp add: set_modal_def)

text \<open>
  A property of the pollers that stopping the held one and stepping any one keeps is kept by
  everything that happens to a modal, the start of a poller apart.
\<close>

locale modal_invariant =
  fixes R :: "login_modal \<Rightarrow> bool"
  assumes pollers_only: "lm_pollers m' = lm_pollers m \<Longrightarrow> lm_poller m' = lm_poller m \<Longrightarrow> R m' = R m"
    and stopping: "R m \<Longrightarrow> R (stopPoller m)"
    and stepping: "R m \<Longrightarrow> i < length (lm_pollers m) \<Longrightarrow>
      R (set_poller i (poll_step ev (dp_poller (lm_pollers m ! i))) m)"
begin

lemma updates [simp]:
  "R (m\<lparr>lm_submitError := e\<rparr>) = R m" "R (m\<lparr>lm_resultPanel := r\<rparr>) = R m"
  "R (m\<lparr>lm_fieldErrors := es\<rparr>) = R m" "R (m\<lparr>lm_deviceExpiresAt := x\<rparr>) = R m"
  "R (m\<lparr>lm_fields := fl\<rparr>) = R m" "R (m\<lparr>lm_resetToken := tk\<rparr>) = R m"
  "R (m\<lparr>lm_open := opn\<rparr>) = R m" "R (m\<lparr>lm_mode := md\<rparr>) = R m"
  by (rule pollers_only; simp)+

lemma switching: "R m \<Longrightarrow> R (switchMode md m)"
  by (simp add: switchMode_def stopping)

lemma toggling: "R m \<Longrightarrow> R (handleToggle d m)"
  by (auto simp: handleToggle_def stopping switching split: option.split prod.split)

lemma setters [simp]:
  "R (pg_modal (setSubmitError e p)) = R (pg_modal p)" "R (pg_modal (setResultPanel r p)) = R (pg_modal p)"
  "R (pg_modal (setFieldErrors es p)) = R (pg_modal p)"
  by (simp_all add: setSubmitError_def setResultPanel_def setFieldErrors_def)

lemma calls: "keeps R (sendJson N m path body :: (json option, 'a page_scheme) js)"
  unfolding js_keeps_def
proof (intro allI impI)
  fix p :: "'a page_scheme"
  assume "R (pg_modal p)"
  then show "R (pg_modal (snd (sendJson N m path body p)))"
    using sendJson_modal [of N m path body p] toggling [of "pg_modal p"] by (auto simp: asks_password_def)
qed

lemma events:
  "R (pg_modal p) \<Longrightarrow> R (pg_modal (LoginModalEvents_open md tk p))"
  "R (pg_modal p) \<Longrightarrow> R (pg_modal (LoginModalEvents_close p))"
  "R (pg_modal p) \<Longrightarrow> R (pg_modal (redirectHome p))"
  "R (pg_modal p) \<Longrightarrow> R (pg_modal (AuthEvents_emit l a d p))"
  by (simp_all add: LoginModalEvents_open_def LoginModalEvents_close_def toggling)

lemma client_calls:
  "keeps R (client_login N f)" "keeps R (client_register N f)" "keeps R (client_status N)"
  "keeps R (client_recover N em)" "keeps R (client_resetPassword N tk pw pc)"
  "keeps R (createAuthorizationRequest N u k)" "keeps R (pollAuthorizationRequest N uuid tok)"
  by (simp_all add: client_login_def client_register_def client_status_def client_recover_def
      client_resetPassword_def createAuthorizationRequest_def pollAuthorizationRequest_def postJson_def calls)

lemma setters_keep: "keeps R (js_do (setSubmitError e))" "keeps R (js_do (setResultPanel r))"
  by (rule js_keeps_do, simp)+

lemma success: "keeps R (handleSuccess N)"
  unfolding handleSuccess_def AuthStatus_refresh_def js_destructure_def Let_def
  by (intro js_keeps_await client_calls js_keeps_do) (auto intro!: events js_keeps_return js_keeps_await js_keeps_do)

lemma submitting_password: "R (pg_modal p) \<Longrightarrow> R (pg_modal (snd (submitPassword N f p)))"
proof -
  have "keeps R (js_catch (js_await (client_login N f) (\<lambda>_. handleSuccess N))
      (\<lambda>x. js_do (setSubmitError (Some (forLogin x)))))"
    by (intro js_keeps_catch js_keeps_await client_calls success setters_keep)
  from js_keepsD [OF this, of "setSubmitError None p"] show "R (pg_modal p) \<Longrightarrow> ?thesis"
    by (simp add: submitPassword_def)
qed

lemma submitting_register: "R (pg_modal p) \<Longrightarrow> R (pg_modal (snd (submitRegister N f p)))"
proof -
  have "keeps R (js_catch (js_await (client_register N f) (\<lambda>_. handleSuccess N))
      (\<lambda>x. js_do (setSubmitError (Some (error_message x)))))"
    by (intro js_keeps_catch js_keeps_await client_calls success setters_keep)
  from js_keepsD [OF this, of "setSubmitError None (setFieldErrors [] p)"] show "R (pg_modal p) \<Longrightarrow> ?thesis"
    by (simp add: submitRegister_def Let_def)
qed

lemma submitting_recover: "R (pg_modal p) \<Longrightarrow> R (pg_modal (snd (submitRecover N f p)))"
  using js_keepsD [OF client_calls(4), of "setSubmitError None p" N "lf_email f"]
  by (cases "client_recover N (lf_email f) (setSubmitError None p)") (simp add: submitRecover_def split: sum.split)

lemma submitting_reset: "R (pg_modal p) \<Longrightarrow> R (pg_modal (snd (submitResetPassword N f token p)))"
proof -
  have "keeps R (js_catch (js_await (client_resetPassword N token (lf_password f) (lf_passwordConfirmation f))
        (\<lambda>_. js_do (setResultPanel (Some ''resetPassword''))))
      (\<lambda>x. js_do (setSubmitError (Some (error_message x)))))"
    by (intro js_keeps_catch js_keeps_await client_calls setters_keep)
  from js_keepsD [OF this, of "setSubmitError None (setFieldErrors [] p)"] show "R (pg_modal p) \<Longrightarrow> ?thesis"
    by (simp add: submitResetPassword_def Let_def)
qed

lemma callbacks: "R (pg_modal p) \<Longrightarrow> R (pg_modal (device_callback N cb p))"
proof (cases cb)
  case CbApproved
  have "keeps R (js_catch (handleSuccess N) (\<lambda>x. js_do (setSubmitError (Some (error_message x)))))"
    by (intro js_keeps_catch success setters_keep)
  from js_keepsD [OF this] show "R (pg_modal p) \<Longrightarrow> ?thesis" by (simp add: device_callback_def CbApproved)
next
  case (CbRejected r)
  show "R (pg_modal p) \<Longrightarrow> ?thesis"
    by (simp add: device_callback_def CbRejected handleDeviceRejection_def setResultPanel_def stopping)
qed (simp add: device_callback_def)

lemma callback_lists: "R (pg_modal p) \<Longrightarrow> R (pg_modal (fold (device_callback N) cbs p))"
  by (induction cbs arbitrary: p) (simp_all add: callbacks)

lemma poller_events: "R (pg_modal p) \<Longrightarrow> R (pg_modal (device_event N i ev p))"
  by (simp add: device_event_def Let_def callback_lists stepping)

lemma poller_ticks: "R (pg_modal p) \<Longrightarrow> R (pg_modal (device_tick N i now later p))"
proof -
  assume "R (pg_modal p)"
  then have p1: "R (pg_modal (device_event N i (TickFires now) p))" by (rule poller_events)
  show ?thesis
    using js_keepsD [OF client_calls(7), OF p1] p1
    by (auto simp: device_tick_def Let_def split: prod.split intro!: poller_events) (metis snd_conv)
qed

lemma starting:
  assumes "R (pg_modal p)" and race: "\<And>q. R (pg_modal q) \<Longrightarrow> R (pg_modal (race q))"
    and hold: "\<And>m dp. R m \<Longrightarrow> S (hold_poller dp m)" and weaker: "\<And>m. R m \<Longrightarrow> S m"
  shows "S (pg_modal (snd (submitDevice N now race f p)))"
proof -
  obtain r q where c: "createAuthorizationRequest N (lf_username f) (lf_keepSignedIn f) (setSubmitError None p) = (r, q)"
    by fastforce
  have q: "R (pg_modal (race q))"
    using race [of q] js_keepsD [OF client_calls(6), of "setSubmitError None p" N "lf_username f" "lf_keepSignedIn f"]
      assms(1) c by simp
  show ?thesis
  proof (cases r)
    case (Inl x)
    with q weaker show ?thesis by (simp add: submitDevice_def c)
  next
    case (Inr v)
    show ?thesis
    proof (cases "js_nullish v")
      case True with Inr q weaker show ?thesis by (simp add: submitDevice_def c js_destructure_def js_defs)
    next
      case False
      let ?m = "(pg_modal (race q))\<lparr>lm_deviceExpiresAt := js_field ''expiresAt'' v, lm_resultPanel := Some ''device:waiting''\<rparr>"
      have "S (hold_poller (new_device_poller N now v) ?m)" by (rule hold) (simp add: q)
      with Inr False show ?thesis by (simp add: submitDevice_def c js_destructure_def js_defs setResultPanel_def)
    qed
  qed
qed

end

text \<open>Both properties are of that kind.\<close>

lemma held_stop: "held_only m \<Longrightarrow> quiet (stopPoller m)"
proof -
  assume "held_only m"
  then have "po_stopped (dp_poller (lm_pollers (stopPoller m) ! j))" if "j < length (lm_pollers (stopPoller m))" for j
    using that
    by (cases "lm_poller m")
      (auto simp: held_only_def stopPoller_def stop_poller_at_def poller_stop_def nth_list_update split: if_splits)
  then show ?thesis by (simp add: quiet_def held_only_def stopPoller_def)
qed

lemma held_step:
  assumes "held_only m" and "i < length (lm_pollers m)"
  shows "held_only (set_poller i (poll_step ev (dp_poller (lm_pollers m ! i))) m)"
  using assms stopped_step [of "dp_poller (lm_pollers m ! i)" ev]
  by (auto simp: held_only_def set_poller_def nth_list_update)

interpretation held: modal_invariant held_only
proof unfold_locales
  fix m :: login_modal and i ev
  show "held_only m \<Longrightarrow> held_only (stopPoller m)" using held_stop [of m] by (simp add: quiet_def)
qed (simp add: held_only_def, rule held_step)

interpretation calm: modal_invariant quiet
proof unfold_locales
  fix m :: login_modal and i ev
  show "quiet m \<Longrightarrow> quiet (stopPoller m)" using held_stop [of m] by (simp add: quiet_def)
  show "quiet m \<Longrightarrow> i < length (lm_pollers m) \<Longrightarrow> quiet (set_poller i (poll_step ev (dp_poller (lm_pollers m ! i))) m)"
    using held_step [of m i ev] by (simp add: quiet_def) (simp add: set_poller_def)
qed (simp add: quiet_def held_only_def)

lemma quiet_hold: "quiet m \<Longrightarrow> held_only (hold_poller dp m)"
  by (auto simp: quiet_def held_only_def hold_poller_def nth_append less_Suc_eq)

lemma switch_quiet: "held_only m \<Longrightarrow> quiet (switchMode md m)"
  using held_stop [of m] by (simp add: switchMode_def)

lemma toggle_quiet: "held_only m \<Longrightarrow> quiet (handleToggle d m)"
  by (auto simp: handleToggle_def held_stop switch_quiet split: option.split prod.split)

section \<open>One poller at a time\<close>

fun asks_device :: "modal_event \<Rightarrow> bool" where
  "asks_device (EvSubmit now mode f token) = (mode = ''device'')"
| "asks_device ev = False"

text \<open>
  A device form is only submitted while the controller holds no poller, and no other device form
  before its request is answered.
\<close>

fun one_device_form :: "modal_move \<Rightarrow> ('a page_scheme) \<Rightarrow> bool" where
  "one_device_form (Event ev) p = (asks_device ev \<longrightarrow> lm_poller (pg_modal p) = None)"
| "one_device_form (DeviceRequest now f meanwhile) p =
     (lm_poller (pg_modal p) = None \<and> \<not> list_ex asks_device meanwhile)"

fun orderly :: "network \<Rightarrow> modal_move list \<Rightarrow> ('a page_scheme) \<Rightarrow> bool" where
  "orderly N [] p = True"
| "orderly N (mv # moves) p = (one_device_form mv p \<and> orderly N moves (apply_move N mv p))"

context modal_invariant
begin

lemma plain_steps: "\<not> asks_device ev \<Longrightarrow> R (pg_modal p) \<Longrightarrow> R (pg_modal (modal_step N ev p))"
  by (cases ev) (auto simp: events switching modal_handleSubmit_def submitting_password submitting_register
      submitting_recover submitting_reset poller_events poller_ticks)

lemma plain_step_lists: "\<not> list_ex asks_device evs \<Longrightarrow> R (pg_modal p) \<Longrightarrow> R (pg_modal (fold (modal_step N) evs p))"
  by (induction evs arbitrary: p) (simp_all add: plain_steps)

end

lemma move_held:
  fixes p :: "'a page_scheme"
  assumes "held_only (pg_modal p)" and "one_device_form mv p"
  shows "held_only (pg_modal (apply_move N mv p))"
proof -
  have device: "held_only (pg_modal (snd (submitDevice N now (fold (modal_step N) evs) f p)))"
    if "lm_poller (pg_modal p) = None" "\<not> list_ex asks_device evs" for now f evs
  proof (rule calm.starting)
    show "quiet (pg_modal p)" using that assms(1) by (simp add: quiet_def)
    show "quiet (pg_modal (fold (modal_step N) evs q))" if "quiet (pg_modal q)" for q :: "'a page_scheme"
      using calm.plain_step_lists \<open>\<not> list_ex asks_device evs\<close> that by blast
  qed (simp_all add: quiet_hold, simp add: quiet_def)
  show ?thesis
  proof (cases mv)
    case (Event ev)
    show ?thesis
    proof (cases "asks_device ev")
      case False with Event assms show ?thesis by (simp add: held.plain_steps)
    next
      case True
      then obtain now f tok where "ev = EvSubmit now ''device'' f tok" by (cases ev) auto
      with Event assms device [of "[]" now f] show ?thesis by (simp add: modal_handleSubmit_def id_def)
    qed
  next
    case (DeviceRequest now f evs)
    with assms(2) device [of evs now f] show ?thesis by (simp add: modal_handleSubmit_def)
  qed
qed

lemma run_held: "held_only (pg_modal p) \<Longrightarrow> orderly N moves p \<Longrightarrow> held_only (pg_modal (modal_run N moves p))"
  by (induction moves arbitrary: p) (simp_all add: modal_run_def move_held)

text \<open>
  C30. Behind the login modal at most one device request is polled: whatever the user does and whatever
  the server answers, as long as a second device form is not submitted beside a running one, every
  poller that still runs is the one the controller holds; and closing the modal, opening it again or
  selecting another mode leaves none running.
\<close>
theorem modal_polls_one_request:
  assumes "quiet (pg_modal p)" and "orderly N moves p"
  defines "q \<equiv> modal_run N moves p"
  shows "(\<forall>i < length (lm_pollers (pg_modal q)).
       \<not> po_stopped (dp_poller (lm_pollers (pg_modal q) ! i)) \<longrightarrow> lm_poller (pg_modal q) = Some i)
     \<and> (\<forall>ev \<in> {EvClose, EvOpen mode token, EvSelect mode}. \<forall>dp \<in> set (lm_pollers (pg_modal (modal_step N ev q))).
          po_stopped (dp_poller dp))"
proof -
  have q: "held_only (pg_modal q)" using assms by (simp add: q_def run_held quiet_def)
  have none: "po_stopped (dp_poller dp)" if "quiet m" "dp \<in> set (lm_pollers m)" for m dp
    using that by (auto simp: quiet_def held_only_def in_set_conv_nth)
  have "quiet (handleToggle d (pg_modal q))" for d using toggle_quiet [OF q] .
  moreover have "quiet (switchMode mode ((pg_modal q)\<lparr>lm_resultPanel := None, lm_resetToken := []\<rparr>))"
    by (rule switch_quiet) (simp add: q)
  ultimately show ?thesis
    using q none by (auto simp: held_only_def LoginModalEvents_open_def LoginModalEvents_close_def)
qed

text \<open>A server that answers every request with a device request that expires at 900000.\<close>

definition device_network :: network where
  "device_network = \<lparr>nw_fetch = (\<lambda>sent. (Inr \<lparr>as_status = 200, as_statusText = [], as_retryAfter = None,
       as_text = ''body''\<rparr>, [])),
     nw_json_parse = (\<lambda>_. Some (JsonObj [(''uuid'', JsonStr ''u1''), (''pollToken'', JsonStr ''t1''),
       (''expiresAt'', JsonStr ''later'')])),
     nw_date_parse = (\<lambda>_. Some 900000)\<rparr>"

abbreviation running :: "login_modal \<Rightarrow> nat list" where
  "running m \<equiv> filter (\<lambda>i. \<not> po_stopped (dp_poller (lm_pollers m ! i))) [0..<length (lm_pollers m)]"

lemma demo_device_run:
  "quiet (pg_modal demo_page)"
  "orderly device_network [Event (EvSubmit 0 ''device'' INITIAL_FIELDS []), Event (EvTick 0 5000 5100)] demo_page"
  "running (pg_modal (modal_run device_network
     [Event (EvSubmit 0 ''device'' INITIAL_FIELDS []), Event (EvTick 0 5000 5100)] demo_page)) = [0]"
  by (simp add: quiet_def held_only_def demo_page_def closed_modal_def, code_simp, code_simp)

theorem modal_polls_one_request_witness:
  "running (pg_modal (modal_step device_network EvClose (modal_run device_network
     [Event (EvSubmit 0 ''device'' INITIAL_FIELDS []), Event (EvTick 0 5000 5100)] demo_page))) = []"
proof -
  define m where "m = pg_modal (modal_step device_network EvClose (modal_run device_network
     [Event (EvSubmit 0 ''device'' INITIAL_FIELDS []), Event (EvTick 0 5000 5100)] demo_page))"
  have "\<forall>dp \<in> set (lm_pollers m). po_stopped (dp_poller dp)"
    using modal_polls_one_request [OF demo_device_run(1,2)] unfolding m_def by blast
  then have "running m = []" by (simp add: filter_empty_conv)
  then show ?thesis by (simp only: m_def)
qed

text \<open>
  Outside those conditions a poller is left behind.  A second device form sent before the first is
  answered: closing the modal stops only the poller of the one answered last.
\<close>

lemma second_device_form_leaks_poller:
  "running (pg_modal (modal_run device_network
     [DeviceRequest 0 INITIAL_FIELDS [EvSubmit 0 ''device'' INITIAL_FIELDS []], Event EvClose] demo_page)) = [0]"
  by code_simp

text \<open>The modal closed before the device form is answered: the poller starts behind the closed modal.\<close>

lemma closed_modal_starts_polling:
  "running (pg_modal (modal_run device_network [DeviceRequest 0 INITIAL_FIELDS [EvClose]] demo_page)) = [0]"
  "\<not> lm_open (pg_modal (modal_run device_network [DeviceRequest 0 INITIAL_FIELDS [EvClose]] demo_page))"
  by code_simp+

section \<open>Logging in\<close>

text \<open>After a success the modal is closed and the page shows what the server last said of the session.\<close>

theorem success_shows_the_status:
  assumes "handleSuccess N p = (Inr (), q)"
  shows "\<not> lm_open (pg_modal q) \<and> lm_poller (pg_modal q) = None \<and> pg_hash q = ''#/''
     \<and> (\<exists>v. answered_ok N (pg_sent q) v \<and> pg_loggedIn q = js_truthy (json_field ''loggedIn'' v)
          \<and> pg_isAdmin q = js_truthy (json_field ''isAdmin'' v)
          \<and> pg_pending q = (json_field ''status'' v = Some (JsonStr ''pending'')))"
proof -
  obtain r p1 where c: "client_status N p = (r, p1)" by fastforce
  have "call_outcome N p (r, p1)"
    using sendJson_outcome [of N p "''POST''" "''/auth/status.json''" "JsonObj []"] c
    by (simp add: client_status_def postJson_def)
  moreover obtain v where "r = Inr (Some v)" "v \<noteq> JsonNull"
    using assms c
    by (auto simp: handleSuccess_def AuthStatus_refresh_def js_destructure_def js_nullish_def js_defs
        split: sum.splits if_splits option.splits)
  ultimately have ok: "answered_ok N (pg_sent p1) v" and r: "r = Inr (Some v)" "v \<noteq> JsonNull"
    by (simp_all add: call_outcome_def)
  have "q = redirectHome (LoginModalEvents_close (AuthEvents_emit (js_truthy (json_field ''loggedIn'' v))
      (js_truthy (json_field ''isAdmin'' v)) (json_field ''status'' v = Some (JsonStr ''pending'')) p1))"
    using assms c r
    by (simp add: handleSuccess_def AuthStatus_refresh_def js_destructure_def js_nullish_def js_defs js_field_def Let_def)
  with ok show ?thesis
    by (auto simp: LoginModalEvents_close_def AuthEvents_emit_def handleAuthChanged_def redirectHome_def
        set_modal_def closed_by_event)
qed

text \<open>
  A wrong password is not reported.  The backend refuses it with a 401, which the client of the page
  takes for an expired session: without the hint cookie the call returns as if it had succeeded, and
  the modal closes without a message.
\<close>

lemma wrong_password_goes_unreported:
  fixes p :: "'a page_scheme" and f :: login_fields
  defines "login \<equiv> pg_sent p @ [\<lparr>ar_method = ''POST'', ar_path = ''/auth/login.json'',
     ar_body = JsonObj [(''username'', JsonStr (lf_username f)), (''password'', JsonStr (lf_password f)),
        (''keepSignedIn'', JsonBool (lf_keepSignedIn f))]\<rparr>]"
  defines "status \<equiv> login @ [\<lparr>ar_method = ''POST'', ar_path = ''/auth/status.json'', ar_body = JsonObj []\<rparr>]"
  assumes refused: "nw_fetch N login = (Inr a, [])" "as_status a = 401"
    and anonymous: "nw_fetch N status = (Inr b, [])" "response_ok b" "parseBody N b = JsonObj [(''loggedIn'', JsonBool False)]"
  shows "case submitPassword N f p of (r, q) \<Rightarrow> r = Inr () \<and> \<not> lm_open (pg_modal q)
     \<and> lm_submitError (pg_modal q) = None \<and> pg_hash q = ''#/'' \<and> \<not> pg_loggedIn q"
proof -
  have no: "\<not> response_ok a" using refused(2) by (simp add: response_ok_def)
  have hint: "\<not> isLoggedIn (p'\<lparr>pg_cookies := []\<rparr>)" for p' :: "'a page_scheme"
    by (simp add: isLoggedIn_def HINT_COOKIE_def js_trim_def)
  let ?p1 = "(setSubmitError None p)\<lparr>pg_sent := login, pg_cookies := []\<rparr>"
  have sent: "pg_sent (setSubmitError None p) = pg_sent p" by (simp add: setSubmitError_def set_modal_def)
  have login: "client_login N f (setSubmitError None p) = (Inr None, LoginModalEvents_open ''password'' None ?p1)"
    using refused no hint [of "(setSubmitError None p)\<lparr>pg_sent := login\<rparr>"]
    by (simp add: client_login_def postJson_def sendJson_def js_await_def api_send_result sent login_def
        handleUnauthorized_def sessionExpired_def)
  have "client_status N (LoginModalEvents_open ''password'' None ?p1) =
      (Inr (Some (JsonObj [(''loggedIn'', JsonBool False)])),
       (LoginModalEvents_open ''password'' None ?p1)\<lparr>pg_sent := status, pg_cookies := []\<rparr>)"
    using anonymous
    by (simp add: client_status_def postJson_def sendJson_def js_await_def api_send_result status_def js_return_def)
  then show ?thesis
    by (simp add: submitPassword_def login js_defs handleSuccess_def AuthStatus_refresh_def js_destructure_def
        js_nullish_def js_field_def json_field_def js_truthy_def AuthEvents_emit_def handleAuthChanged_def
        redirectHome_def LoginModalEvents_close_def LoginModalEvents_open_def set_modal_def closed_by_event opened_modal)
qed

end
