(* ===== verification/Frontend_Lists.thy ===== *)
theory Frontend_Lists
  imports Frontend_Login
begin

text \<open>
  The pages that list and act on rows: \<^verbatim>\<open>accounts/pages/controllers/SessionsController.js\<close>,
  \<^verbatim>\<open>AuthorizationRequestsController.js\<close> and \<^verbatim>\<open>admin/pages/controllers/AdminUsersController.js\<close>.
  The state a page keeps for a row is an object, a list of properties, under the row's id.  A body
  without the user it should carry throws where the user is read.
\<close>

section \<open>Rows and calls\<close>

type_synonym row_state = "(string \<times> json option) list"

type_synonym row_map = "string \<Rightarrow> row_state option"

definition patch_row :: "string \<Rightarrow> row_state \<Rightarrow> row_map \<Rightarrow> row_map" where
  "patch_row rid patch rws =
     rws(rid \<mapsto> obj_spread (case rws rid of Some r \<Rightarrow> r | None \<Rightarrow> []) patch)"

definition no_error :: row_state where "no_error = [(''error'', Some JsonNull)]"

definition row_error :: "js_error \<Rightarrow> row_state" where
  "row_error x = [(''error'', Some (JsonStr (error_message x)))]"

text \<open>The elements of a list in a body; a body of another shape lists nothing.\<close>

definition json_items :: "json option \<Rightarrow> json list" where
  "json_items v = (case v of Some (JsonArr vs) \<Rightarrow> vs | _ \<Rightarrow> [])"

text \<open>A call inside \<^verbatim>\<open>try\<close>, whose missing result ends the action.\<close>

definition guarded_call ::
  "(json option, 's) js \<Rightarrow> (json option \<Rightarrow> (unit, 's) js) \<Rightarrow> (js_error \<Rightarrow> 's \<Rightarrow> 's) \<Rightarrow> (unit, 's) js" where
  "guarded_call call proceed fail =
     js_catch (js_await call (\<lambda>result. if \<not> js_truthy result then js_return () else proceed result))
       (\<lambda>x. js_do (fail x))"

lemma js_keeps_guarded:
  assumes "js_keeps P call" and "\<And>v. js_keeps P (proceed v)" and "\<And>x p. P p \<Longrightarrow> P (fail x p)"
  shows "js_keeps P (guarded_call call proceed fail)"
  unfolding guarded_call_def
proof (intro js_keeps_catch js_keeps_await js_keeps_do)
  show "js_keeps P (if \<not> js_truthy v then js_return () else proceed v)" for v
    using assms(2) by (simp add: js_keeps_return)
qed (use assms in auto)

section \<open>SessionsController\<close>

record sessions_page = page +
  ss_sessions :: "json option"
  ss_loadError :: "string option"
  ss_rows :: row_map
  ss_confirmingRevokeOthers :: bool
  ss_pageError :: "string option"

definition sessions_load :: "network \<Rightarrow> (unit, sessions_page) js" where
  "sessions_load N = guarded_call (client_listSessions N)
     (\<lambda>v. js_do (\<lambda>p. p\<lparr>ss_sessions := js_field ''sessions'' v, ss_loadError := None\<rparr>))
     (\<lambda>x p. p\<lparr>ss_loadError := Some (error_message x)\<rparr>)"

definition sessions_patchRow :: "string \<Rightarrow> row_state \<Rightarrow> sessions_page \<Rightarrow> sessions_page" where
  "sessions_patchRow rid patch p = p\<lparr>ss_rows := patch_row rid patch (ss_rows p)\<rparr>"

definition sessions_revoke :: "network \<Rightarrow> string \<Rightarrow> (unit, sessions_page) js" where
  "sessions_revoke N rid = guarded_call (client_revokeSession N rid)
     (\<lambda>_. js_await (js_do (sessions_patchRow rid no_error)) (\<lambda>_. sessions_load N))
     (\<lambda>x. sessions_patchRow rid (row_error x))"

definition set_pageState :: "bool \<Rightarrow> string option \<Rightarrow> sessions_page \<Rightarrow> sessions_page" where
  "set_pageState confirming error p = p\<lparr>ss_confirmingRevokeOthers := confirming, ss_pageError := error\<rparr>"

definition requestRevokeOthers :: "sessions_page \<Rightarrow> sessions_page" where
  "requestRevokeOthers = set_pageState True None"

definition cancelRevokeOthers :: "sessions_page \<Rightarrow> sessions_page" where
  "cancelRevokeOthers = set_pageState False None"

definition confirmRevokeOthers :: "network \<Rightarrow> (unit, sessions_page) js" where
  "confirmRevokeOthers N = guarded_call (client_revokeOtherSessions N)
     (\<lambda>_. js_await (js_do (set_pageState False None)) (\<lambda>_. sessions_load N))
     (\<lambda>x. set_pageState False (Some (error_message x)))"

section \<open>AuthorizationRequestsController\<close>

record requests_page = page +
  rq_requests :: "json option"
  rq_loadError :: "string option"
  rq_rows :: row_map

definition requests_load :: "network \<Rightarrow> (unit, requests_page) js" where
  "requests_load N = guarded_call (listAuthorizationRequests N)
     (\<lambda>v. js_do (\<lambda>p. p\<lparr>rq_requests := js_field ''requests'' v, rq_loadError := None\<rparr>))
     (\<lambda>x p. p\<lparr>rq_loadError := Some (error_message x)\<rparr>)"

definition requests_patchRow :: "string \<Rightarrow> row_state \<Rightarrow> requests_page \<Rightarrow> requests_page" where
  "requests_patchRow rid patch p = p\<lparr>rq_rows := patch_row rid patch (rq_rows p)\<rparr>"

definition performRowAction :: "network \<Rightarrow> string \<Rightarrow> (json option, requests_page) js \<Rightarrow> (unit, requests_page) js" where
  "performRowAction N rid call = guarded_call call
     (\<lambda>_. js_await (js_do (requests_patchRow rid no_error)) (\<lambda>_. requests_load N))
     (\<lambda>x. requests_patchRow rid (row_error x))"

definition requests_authorize :: "network \<Rightarrow> string \<Rightarrow> string \<Rightarrow> (unit, requests_page) js" where
  "requests_authorize N rid password = performRowAction N rid (authorizeAuthorizationRequest N rid password)"

definition requests_deny :: "network \<Rightarrow> string \<Rightarrow> (unit, requests_page) js" where
  "requests_deny N rid = performRowAction N rid (denyAuthorizationRequest N rid)"

section \<open>AdminUsersController\<close>

datatype row_result = RowUrl "json option" | RowSent "json option" | RowError string

record admin_page = page +
  ad_users :: "json option"
  ad_rowResults :: "string \<Rightarrow> row_result option"
  ad_searchError :: "string option"
  ad_currentUserId :: "json option"

definition setRowResult :: "string \<Rightarrow> row_result option \<Rightarrow> admin_page \<Rightarrow> admin_page" where
  "setRowResult userId r p = p\<lparr>ad_rowResults := (ad_rowResults p)(userId := r)\<rparr>"

definition replaceUser :: "json \<Rightarrow> admin_page \<Rightarrow> admin_page" where
  "replaceUser updated p =
     setRowResult (js_text (json_field ''id'' updated)) None
       (p\<lparr>ad_users := Some (JsonArr (map
           (\<lambda>u. if json_field ''id'' u = json_field ''id'' updated then updated else u) (json_items (ad_users p))))\<rparr>)"

definition handleTopLevelError :: "js_error \<Rightarrow> admin_page \<Rightarrow> admin_page" where
  "handleTopLevelError x p =
     (case redirectIfForbidden x p of (redirected, p1) \<Rightarrow>
        if redirected then p1 else p1\<lparr>ad_searchError := Some (error_message x)\<rparr>)"

definition handleRowError :: "string \<Rightarrow> js_error \<Rightarrow> admin_page \<Rightarrow> admin_page" where
  "handleRowError userId x p =
     (case redirectIfForbidden x p of (redirected, p1) \<Rightarrow>
        if redirected then p1 else setRowResult userId (Some (RowError (error_message x))) p1)"

text \<open>A call whose result is destructured inside \<^verbatim>\<open>try\<close>.\<close>

definition admin_call ::
  "(json option, admin_page) js \<Rightarrow> (json option \<Rightarrow> (unit, admin_page) js) \<Rightarrow> (js_error \<Rightarrow> admin_page \<Rightarrow> admin_page)
     \<Rightarrow> (unit, admin_page) js" where
  "admin_call call proceed fail =
     js_catch (js_await (js_await call js_destructure) proceed) (\<lambda>x. js_do (fail x))"

definition handleSearch :: "network \<Rightarrow> string option \<Rightarrow> string option \<Rightarrow> (unit, admin_page) js" where
  "handleSearch N q status p = admin_call (client_searchUsers N q status)
     (\<lambda>v. js_do (\<lambda>p. p\<lparr>ad_users := js_field ''users'' v, ad_currentUserId := js_field ''currentUserId'' v\<rparr>))
     handleTopLevelError (p\<lparr>ad_searchError := None\<rparr>)"

definition take_user :: "json option \<Rightarrow> (unit, admin_page) js" where
  "take_user v = js_await (js_destructure (js_field ''user'' v)) (\<lambda>u. js_do (replaceUser (the u)))"

definition handleApprove :: "network \<Rightarrow> string \<Rightarrow> (unit, admin_page) js" where
  "handleApprove N userId = admin_call (client_approveUser N userId) take_user (handleRowError userId)"

definition handleDeny :: "network \<Rightarrow> bool \<Rightarrow> string \<Rightarrow> (unit, admin_page) js" where
  "handleDeny N confirmed userId =
     (if \<not> confirmed then js_return ()
      else admin_call (client_denyUser N userId) take_user (handleRowError userId))"

definition handleGenerateLink :: "network \<Rightarrow> string \<Rightarrow> (unit, admin_page) js" where
  "handleGenerateLink N userId = admin_call (client_generateRecoveryLink N userId)
     (\<lambda>v. js_do (setRowResult userId (Some (RowUrl (js_field ''resetUrl'' v))))) (handleRowError userId)"

definition handleSendEmail :: "network \<Rightarrow> string \<Rightarrow> (unit, admin_page) js" where
  "handleSendEmail N userId = admin_call (client_sendRecoveryEmail N userId)
     (\<lambda>v. js_do (setRowResult userId (Some (RowSent (js_field ''sent'' v))))) (handleRowError userId)"

text \<open>The filter of \<^verbatim>\<open>AdminUsers.jsx\<close>: no status selected is no filter.\<close>

definition toStatusFilter :: "string \<Rightarrow> string option" where
  "toStatusFilter status = (if status = [] then None else Some status)"

section \<open>Errors of a page\<close>

lemma sendJson_more: "page.more (snd (sendJson N m path b p)) = page.more p"
proof -
  have "page.more (snd (sessionExpired q)) = page.more q" for q :: "'a page_scheme"
    by (simp add: sessionExpired_def LoginModalEvents_open_def set_modal_def)
  then show ?thesis
    by (simp add: sendJson_def handleUnauthorized_def sendJson_retry_def js_defs api_send_result split: sum.split)
qed

lemma call_more: "sendJson N m path b p = (r, q) \<Longrightarrow> page.more q = page.more p"
  using sendJson_more [of N m path b p] by simp

text \<open>
  An expired session found by the first call of an action changes nothing of the page's own state: the
  page still lists what it listed, and only the login modal asks for the password.
\<close>

lemma guarded_expired:
  assumes "call p = (Inr None, q)"
  shows "guarded_call call proceed fail p = (Inr (), q)"
  using assms by (simp add: guarded_call_def js_defs js_truthy_def)

theorem expired_session_keeps_the_lists:
  "client_listSessions N p = (Inr None, q) \<Longrightarrow>
     snd (sessions_load N p) = q \<and> page.more q = page.more p \<and> session_asked q"
  "client_revokeSession N rid p = (Inr None, q) \<Longrightarrow>
     snd (sessions_revoke N rid p) = q \<and> page.more q = page.more p \<and> session_asked q"
  "client_revokeOtherSessions N p = (Inr None, q) \<Longrightarrow>
     snd (confirmRevokeOthers N p) = q \<and> page.more q = page.more p \<and> session_asked q"
proof -
  have asked: "session_asked q" if "sendJson N m path b p = (Inr None, q)" for m path b
    using sendJson_outcome [of N p m path b] that by (simp add: call_outcome_def)
  show "client_listSessions N p = (Inr None, q) \<Longrightarrow>
     snd (sessions_load N p) = q \<and> page.more q = page.more p \<and> session_asked q"
    using asked call_more by (force simp: sessions_load_def guarded_expired client_listSessions_def postJson_def)
  show "client_revokeSession N rid p = (Inr None, q) \<Longrightarrow>
     snd (sessions_revoke N rid p) = q \<and> page.more q = page.more p \<and> session_asked q"
    using asked call_more by (force simp: sessions_revoke_def guarded_expired client_revokeSession_def postJson_def)
  show "client_revokeOtherSessions N p = (Inr None, q) \<Longrightarrow>
     snd (confirmRevokeOthers N p) = q \<and> page.more q = page.more p \<and> session_asked q"
    using asked call_more by (force simp: confirmRevokeOthers_def guarded_expired client_revokeOtherSessions_def postJson_def)
qed

text \<open>A forbidden answer sends an administrator page home and shows nothing else.\<close>

theorem forbidden_leaves_the_admin_page:
  assumes "call p = (Inl (ApiErr e), q)" and "ae_status e = 403"
  shows "admin_call call proceed (handleRowError userId) p = (Inr (), redirectHome q)"
    and "admin_call call proceed handleTopLevelError p = (Inr (), redirectHome q)"
  using assms by (simp_all add: admin_call_def js_defs handleRowError_def handleTopLevelError_def
      redirectIfForbidden_def error_status_def)

text \<open>
  The administrator page does not look for a missing result: when the session has expired, a search
  shows the engine's complaint about \<open>undefined\<close> beside the login modal.
\<close>

lemma expired_search_shows_type_error:
  assumes "client_searchUsers N q status (p\<lparr>ad_searchError := None\<rparr>) = (Inr None, p1)"
  shows "ad_searchError (snd (handleSearch N q status p)) = Some (error_message destructure_error)"
  using assms
  by (simp add: handleSearch_def admin_call_def js_defs js_destructure_def js_nullish_def handleTopLevelError_def
      redirectIfForbidden_def error_status_def destructure_error_def)

text \<open>An action on one row leaves the state of every other row alone.\<close>

lemma patch_row_other: "rid' \<noteq> rid \<Longrightarrow> patch_row rid patch rws rid' = rws rid'"
  by (simp add: patch_row_def)

end
