(* ===== verification/Frontend_Redirects.thy ===== *)
theory Frontend_Redirects
  imports Frontend_Lists
begin

text \<open>
  The integrations page's state and its redirect flows: \<^verbatim>\<open>utils/oauth/createRedirectLanding.js\<close> with
  the two landings and \<^verbatim>\<open>RedirectLandings.js\<close>; under \<^verbatim>\<open>accounts/pages/integrations/\<close> the types
  (\<^verbatim>\<open>types/*.js\<close>), \<^verbatim>\<open>errorMessages.js\<close>, \<^verbatim>\<open>redirectShared.js\<close>, \<^verbatim>\<open>redirectFlow.js\<close>, \<^verbatim>\<open>githubAppFlow.js\<close>
  and \<^verbatim>\<open>redirectFlows.js\<close>.  The parsed query of an address is the parameter \<open>params\<close>, a value or none
  per name.  The keys of rows and timers are the texts of ids.
\<close>

section \<open>Integration types\<close>

datatype flow_kind = FlowPaste | FlowRedirect

text \<open>The types that are implemented, in order, each with its flow.\<close>

definition IMPLEMENTED :: "(string \<times> flow_kind) list" where
  "IMPLEMENTED = [(''pat'', FlowPaste), (''oauth_app'', FlowRedirect), (''github_app'', FlowRedirect)]"

definition type_flow :: "string option \<Rightarrow> flow_kind option" where
  "type_flow t = (case t of None \<Rightarrow> None | Some s \<Rightarrow> map_of IMPLEMENTED s)"

definition available_types :: "json list \<Rightarrow> string list" where
  "available_types enabled =
     List.map_filter (\<lambda>v. case json_field ''type'' v of
        Some (JsonStr t) \<Rightarrow> if map_of IMPLEMENTED t \<noteq> None then Some t else None | _ \<Rightarrow> None) enabled"

text \<open>Only the pasted type builds a credential; another type has no such function.\<close>

definition buildCredential :: "string option \<Rightarrow> (string \<times> string) list \<Rightarrow> json option" where
  "buildCredential t values =
     (if t = Some ''pat''
      then Some (JsonObj [(''token'', JsonStr (case map_of values ''token'' of Some s \<Rightarrow> s | None \<Rightarrow> []))])
      else None)"

definition type_errorText :: "string option \<Rightarrow> json option \<Rightarrow> string option" where
  "type_errorText t code =
     (if t = Some ''github_app'' \<and> code = Some (JsonStr ''INTEGRATION_REDIRECT_STATE_INVALID'')
      then Some ''This GitHub link expired or was already used. Start again.'' else None)"

section \<open>Error messages\<close>

definition cooldownMessage :: "nat option \<Rightarrow> string" where
  "cooldownMessage retryAfter =
     (case retryAfter of
        None \<Rightarrow> ''This integration was tested recently. Try again shortly.''
      | Some s \<Rightarrow> ''This integration was tested recently. Try again in '' @ js_decimal s @ '' seconds.'')"

definition error_retryAfter :: "js_error \<Rightarrow> nat option" where
  "error_retryAfter x = (case x of ApiErr a \<Rightarrow> ae_retryAfter a | JsErr m \<Rightarrow> None)"

text \<open>An apostrophe, which a string literal does not hold.\<close>

definition apos :: string where "apos = [CHR 0x27]"

definition MESSAGES :: "(string \<times> (js_error \<Rightarrow> string)) list" where
  "MESSAGES =
     [(''INTEGRATION_LABEL_TAKEN'', \<lambda>_. ''You already have an integration with this label. Choose another one.''),
      (''INTEGRATIONS_LIMIT_REACHED'', \<lambda>_. ''You reached the maximum number of integrations. Remove one before adding another.''),
      (''INTEGRATION_CREDENTIAL_LOCKED'', \<lambda>_. ''Too many failed attempts. Wait a while before trying again.''),
      (''INTEGRATION_CREDENTIAL_INVALID'', \<lambda>_. ''GitHub rejected this credential. Check it and try again.''),
      (''INTEGRATION_INSUFFICIENT_PERMISSIONS'', \<lambda>_. ''This credential lacks the required permissions.''),
      (''INTEGRATION_TEST_COOLDOWN'', \<lambda>x. cooldownMessage (error_retryAfter x)),
      (''INTEGRATION_REDIRECT_STATE_INVALID'', \<lambda>_. ''This GitHub authorization link expired or was already used. Start again.''),
      (''INTEGRATION_INSTALLATION_NOT_ACCESSIBLE'', \<lambda>_. ''Your GitHub account can'' @ apos
         @ ''t access that installation of Kerghan'' @ apos @ ''s GitHub App. Install it, or ask the account''
         @ apos @ ''s owner to.''),
      (''INTEGRATION_INSTALLATION_SUSPENDED'', \<lambda>_. ''This installation is suspended on GitHub. Unsuspend it in the account''
         @ apos @ ''s GitHub settings, then try again.''),
      (''GITHUB_UNAVAILABLE'', \<lambda>_. ''GitHub is unavailable right now. Try again later.''),
      (''GITHUB_RATE_LIMITED'', \<lambda>_. ''GitHub rate limit reached. Try again later.''),
      (''VALIDATION_FAILED'', \<lambda>x. ''Some fields are invalid: '' @ error_message x)]"

definition messageFor :: "js_error \<Rightarrow> string option \<Rightarrow> string" where
  "messageFor x t =
     (case type_errorText t (error_code x) of
        Some override \<Rightarrow> override
      | None \<Rightarrow>
          (case (case error_code x of Some (JsonStr c) \<Rightarrow> map_of MESSAGES c | _ \<Rightarrow> None) of
             Some build \<Rightarrow> build x
           | None \<Rightarrow> if error_message x \<noteq> [] then error_message x else ''Request failed''))"

section \<open>The page\<close>

datatype landing_kind = LandCancelled | LandRequested | LandFailed

datatype landing =
    LandNotice landing_kind
  | LandCallback string string "(nat \<times> string) option"

record add_form =
  fo_open :: bool
  fo_type :: "string option"
  fo_label :: string
  fo_credential :: "(string \<times> string) list"
  fo_error :: "string option"

definition CLOSED_ADD_FORM :: add_form where
  "CLOSED_ADD_FORM = \<lparr>fo_open = False, fo_type = None, fo_label = [], fo_credential = [], fo_error = None\<rparr>"

record integrations_page = page +
  ip_integrations :: "json option"
  ip_types :: "string list"
  ip_loading :: bool
  ip_loadError :: "string option"
  ip_rows :: row_map
  ip_addForm :: add_form
  ip_notice :: "(string \<times> string) option"
  ip_selection :: "json option"
  ip_timers :: "string \<Rightarrow> int option"
  ip_navigated :: "string list"
  ip_address :: string
  ip_oauthLanding :: "landing option"
  ip_appLanding :: "landing option"

definition patchRow :: "string \<Rightarrow> row_state \<Rightarrow> integrations_page \<Rightarrow> integrations_page" where
  "patchRow uuid patch p = p\<lparr>ip_rows := patch_row uuid patch (ip_rows p)\<rparr>"

definition setNotice :: "(string \<times> string) option \<Rightarrow> integrations_page \<Rightarrow> integrations_page" where
  "setNotice n p = p\<lparr>ip_notice := n\<rparr>"

definition navigate :: "string \<Rightarrow> integrations_page \<Rightarrow> integrations_page" where
  "navigate url p = p\<lparr>ip_navigated := ip_navigated p @ [url]\<rparr>"

definition setIntegrations :: "(json list \<Rightarrow> json list) \<Rightarrow> integrations_page \<Rightarrow> integrations_page" where
  "setIntegrations f p = p\<lparr>ip_integrations := Some (JsonArr (f (json_items (ip_integrations p))))\<rparr>"

definition patchAddForm :: "(add_form \<Rightarrow> add_form) \<Rightarrow> integrations_page \<Rightarrow> integrations_page" where
  "patchAddForm f p = p\<lparr>ip_addForm := f (ip_addForm p)\<rparr>"

section \<open>Landings\<close>

definition OAUTH_LANDING_PATH :: string where "OAUTH_LANDING_PATH = ''/integrations/oauth_app/callback''"
definition APP_LANDING_PATH :: string where "APP_LANDING_PATH = ''/integrations/github_app/callback''"
definition LANDING_TARGET :: string where "LANDING_TARGET = ''/#/account/integrations''"

definition classify_oauth :: "(string \<Rightarrow> string option) \<Rightarrow> landing" where
  "classify_oauth params =
     (if params ''error'' = Some ''access_denied'' then LandNotice LandCancelled
      else if truthy (params ''error'') \<or> \<not> truthy (params ''code'') \<or> \<not> truthy (params ''state'')
      then LandNotice LandFailed
      else LandCallback (the (params ''code'')) (the (params ''state'')) None)"

definition MAX_INSTALLATION_ID :: nat where "MAX_INSTALLATION_ID = 9007199254740991"

definition positive_integer :: "string \<Rightarrow> bool" where
  "positive_integer s = (s \<noteq> [] \<and> list_all is_digit s \<and> hd s \<noteq> CHR ''0'')"

text \<open>
  Nothing at all, a pair that is not acceptable (\<^term>\<open>None\<close>), or the installation.
\<close>

definition landing_installation :: "string option \<Rightarrow> string option \<Rightarrow> (nat \<times> string) option option" where
  "landing_installation installationId setupAction =
     (if installationId = None \<and> setupAction = None then Some None
      else case (installationId, setupAction) of
             (Some i, Some a) \<Rightarrow>
               if a \<notin> {''install'', ''update''} \<or> \<not> positive_integer i then None
               else if digits_value i \<le> MAX_INSTALLATION_ID then Some (Some (digits_value i, a)) else None
           | _ \<Rightarrow> None)"

definition classify_app :: "(string \<Rightarrow> string option) \<Rightarrow> landing" where
  "classify_app params =
     (if params ''error'' = Some ''access_denied'' then LandNotice LandCancelled
      else if params ''setup_action'' = Some ''request'' then LandNotice LandRequested
      else case landing_installation (params ''installation_id'') (params ''setup_action'') of
             None \<Rightarrow> LandNotice LandFailed
           | Some installation \<Rightarrow>
               if truthy (params ''error'') \<or> \<not> truthy (params ''code'') \<or> \<not> truthy (params ''state'')
               then LandNotice LandFailed
               else LandCallback (the (params ''code'')) (the (params ''state'')) installation)"

text \<open>\<^verbatim>\<open>RedirectLandings.capture\<close>: the landing of the path cleans the address and remembers what came.\<close>

definition landings_capture ::
  "string \<Rightarrow> (string \<Rightarrow> string option) \<Rightarrow> integrations_page \<Rightarrow> bool \<times> integrations_page" where
  "landings_capture pathname params p =
     (if pathname = OAUTH_LANDING_PATH
      then (True, p\<lparr>ip_address := LANDING_TARGET, ip_oauthLanding := Some (classify_oauth params)\<rparr>)
      else if pathname = APP_LANDING_PATH
      then (True, p\<lparr>ip_address := LANDING_TARGET, ip_appLanding := Some (classify_app params)\<rparr>)
      else (False, p))"

definition take_oauth :: "integrations_page \<Rightarrow> landing option \<times> integrations_page" where
  "take_oauth p = (ip_oauthLanding p, p\<lparr>ip_oauthLanding := None\<rparr>)"

definition take_app :: "integrations_page \<Rightarrow> landing option \<times> integrations_page" where
  "take_app p = (ip_appLanding p, p\<lparr>ip_appLanding := None\<rparr>)"

section \<open>What the flows share\<close>

definition UNEXPECTED_URL_MESSAGE :: string where
  "UNEXPECTED_URL_MESSAGE = ''Kerghan received an unexpected authorization address and did not follow it.''"

definition upsert :: "json \<Rightarrow> json list \<Rightarrow> json list" where
  "upsert integration current =
     (if \<not> list_ex (\<lambda>i. json_field ''id'' i = json_field ''id'' integration) current then integration # current
      else map (\<lambda>i. if json_field ''id'' i = json_field ''id'' integration then integration else i) current)"

definition report_to :: "json \<Rightarrow> string option \<Rightarrow> integrations_page \<Rightarrow> integrations_page" where
  "report_to body error p =
     (let integrationId = json_field ''integrationId'' body
      in if js_truthy integrationId
         then patchRow (js_text integrationId) [(''error'', Some (case error of Some m \<Rightarrow> JsonStr m | None \<Rightarrow> JsonNull))] p
         else patchAddForm (\<lambda>f. f\<lparr>fo_error := error\<rparr>) p)"

section \<open>The OAuth App flow\<close>

definition OAUTH_NOTICES :: "landing_kind \<Rightarrow> (string \<times> string) option" where
  "OAUTH_NOTICES k =
     (case k of
        LandCancelled \<Rightarrow> Some (''warning'', ''You cancelled the GitHub authorization.'')
      | LandFailed \<Rightarrow> Some (''danger'', ''GitHub didn'' @ apos @ ''t complete the authorization. Try again.'')
      | LandRequested \<Rightarrow> None)"

definition GITHUB_AUTHORIZE_PREFIX :: string where
  "GITHUB_AUTHORIZE_PREFIX = ''https://github.com/login/oauth/authorize?''"

definition isGithubAuthorizeUrl :: "json option \<Rightarrow> bool" where
  "isGithubAuthorizeUrl url = (case url of Some (JsonStr u) \<Rightarrow> prefix GITHUB_AUTHORIZE_PREFIX u | _ \<Rightarrow> False)"

text \<open>Both flows ask the server for an address and follow it if it is GitHub's.\<close>

definition start_redirect ::
  "(json \<Rightarrow> (json option, integrations_page) js) \<Rightarrow> string \<Rightarrow> (json option \<Rightarrow> bool) \<Rightarrow> string option \<Rightarrow> json
     \<Rightarrow> (unit, integrations_page) js" where
  "start_redirect call key accepts t body p =
     guarded_call (call body)
       (\<lambda>result. let url = js_field key result
          in if \<not> accepts url then js_do (report_to body (Some UNEXPECTED_URL_MESSAGE))
             else js_do (navigate (js_text url)))
       (\<lambda>x. report_to body (Some (messageFor x t))) (report_to body None p)"

definition oauthflow_start :: "network \<Rightarrow> json \<Rightarrow> (unit, integrations_page) js" where
  "oauthflow_start N = start_redirect (startOauthApp N) ''authorizeUrl'' isGithubAuthorizeUrl None"

definition oauthflow_complete :: "network \<Rightarrow> json option \<Rightarrow> json option \<Rightarrow> (unit, integrations_page) js" where
  "oauthflow_complete N code state =
     guarded_call (completeOauthApp N code state)
       (\<lambda>v. js_do (\<lambda>p. setNotice (Some (''success'', ''Connected to GitHub as '' @ js_text (js_field ''githubLogin'' v)))
          (setIntegrations (upsert (the v)) p)))
       (\<lambda>x. setNotice (Some (''danger'', messageFor x None)))"

definition oauthflow_completeLanding :: "network \<Rightarrow> (unit, integrations_page) js" where
  "oauthflow_completeLanding N p =
     (case take_oauth p of
        (None, p1) \<Rightarrow> (Inr (), p1)
      | (Some (LandNotice k), p1) \<Rightarrow>
          (case OAUTH_NOTICES k of
             Some n \<Rightarrow> (Inr (), setNotice (Some n) p1)
           | None \<Rightarrow> oauthflow_complete N None None p1)
      | (Some (LandCallback code state _), p1) \<Rightarrow> oauthflow_complete N (Some (JsonStr code)) (Some (JsonStr state)) p1)"

section \<open>The GitHub App flow\<close>

definition APP_NOTICES :: "landing_kind \<Rightarrow> string \<times> string" where
  "APP_NOTICES k =
     (case k of
        LandCancelled \<Rightarrow> (''warning'', ''You cancelled the GitHub authorization.'')
      | LandRequested \<Rightarrow> (''info'', ''Waiting for an organization owner to approve the installation. ''
          @ ''Once they do, use '' @ [CHR 0x22] @ ''Connect existing installation'' @ [CHR 0x22] @ ''.'')
      | LandFailed \<Rightarrow> (''danger'', ''GitHub didn'' @ apos @ ''t complete the installation. Try again.''))"

definition url_slug_char :: "char \<Rightarrow> bool" where
  "url_slug_char c = (let n = (of_char c :: nat) in (97 \<le> n \<and> n \<le> 122) \<or> is_digit c \<or> c = CHR ''-'')"

text \<open>\<^verbatim>\<open>INSTALL_URL\<close>: a slug of the accepted characters between two literals.\<close>

definition INSTALL_PREFIX :: string where "INSTALL_PREFIX = ''https://github.com/apps/''"

definition is_install_url :: "string \<Rightarrow> bool" where
  "is_install_url u =
     (prefix INSTALL_PREFIX u
      \<and> (let rest = drop (length INSTALL_PREFIX) u; slug = takeWhile url_slug_char rest
         in slug \<noteq> [] \<and> prefix ''/installations/new?'' (drop (length slug) rest)))"

definition isGithubAppUrl :: "json option \<Rightarrow> bool" where
  "isGithubAppUrl url =
     (case url of Some (JsonStr u) \<Rightarrow> is_install_url u \<or> prefix GITHUB_AUTHORIZE_PREFIX u | _ \<Rightarrow> False)"

definition appflow_start :: "network \<Rightarrow> json \<Rightarrow> (unit, integrations_page) js" where
  "appflow_start N = start_redirect (startGithubApp N) ''redirectUrl'' isGithubAppUrl (Some ''github_app'')"

definition showResult :: "json option \<Rightarrow> integrations_page \<Rightarrow> integrations_page" where
  "showResult v p =
     (let selection = js_field ''selection'' v
      in if js_truthy selection then p\<lparr>ip_selection := selection\<rparr>
         else setNotice (Some (''success'',
             ''Connected to the GitHub App installation on '' @ js_text (js_field ''githubLogin'' v)))
           (setIntegrations (upsert (the v)) p))"

definition appflow_complete :: "(json option, integrations_page) js \<Rightarrow> (unit, integrations_page) js" where
  "appflow_complete call = guarded_call call (\<lambda>v. js_do (showResult v))
     (\<lambda>x. setNotice (Some (''danger'', messageFor x (Some ''github_app''))))"

definition appflow_completeLanding :: "network \<Rightarrow> (unit, integrations_page) js" where
  "appflow_completeLanding N p =
     (case take_app p of
        (None, p1) \<Rightarrow> (Inr (), p1)
      | (Some (LandNotice k), p1) \<Rightarrow> (Inr (), setNotice (Some (APP_NOTICES k)) p1)
      | (Some (LandCallback code state installation), p1) \<Rightarrow>
          appflow_complete (completeGithubApp N code state installation) p1)"

definition appflow_select :: "network \<Rightarrow> json option \<Rightarrow> json option \<Rightarrow> (unit, integrations_page) js" where
  "appflow_select N selection installationId p =
     appflow_complete (selectGithubAppInstallation N (js_field ''state'' selection) installationId)
       (p\<lparr>ip_selection := None\<rparr>)"

section \<open>Both flows\<close>

definition startBody :: "json \<Rightarrow> string option \<Rightarrow> json" where
  "startBody body mode =
     (if truthy mode
      then (case body of JsonObj fs \<Rightarrow> JsonObj (obj_set ''mode'' (JsonStr (the mode)) fs) | v \<Rightarrow> v)
      else body)"

definition flows_start :: "network \<Rightarrow> string option \<Rightarrow> json \<Rightarrow> (unit, integrations_page) js" where
  "flows_start N t body =
     (if t = Some ''oauth_app'' then oauthflow_start N body
      else if t = Some ''github_app'' then appflow_start N body
      else js_throw destructure_error)"

definition completeLandings :: "network \<Rightarrow> (unit, integrations_page) js" where
  "completeLandings N = js_await (oauthflow_completeLanding N) (\<lambda>_. appflow_completeLanding N)"

end
