(* ===== verification/Frontend_Integrations.thy ===== *)
theory Frontend_Integrations
  imports Frontend_Redirects Github_App
begin

text \<open>
  The integrations page: \<^verbatim>\<open>accounts/pages/controllers/IntegrationsController.js\<close>, and under
  \<^verbatim>\<open>accounts/pages/integrations/\<close> \<^verbatim>\<open>cooldown.js\<close>, \<^verbatim>\<open>CooldownTimers.js\<close>, \<^verbatim>\<open>formatters.js\<close> and
  \<^verbatim>\<open>IntegrationsHandlers.js\<close>.  A pending timer is the moment it is set for.  The two lists a load
  asks for at once are answered one after the other.
\<close>

section \<open>Cooldowns\<close>

definition parse_date_value :: "network \<Rightarrow> json option \<Rightarrow> int option" where
  "parse_date_value N v = (if \<not> js_truthy v then None else nw_date_parse N (js_text v))"

definition row_cooldown :: "row_state \<Rightarrow> int option" where
  "row_cooldown row =
     (case map_of row ''cooldownUntil'' of Some (Some (JsonNum t)) \<Rightarrow> Some t | _ \<Rightarrow> None)"

definition cooldown_endsAt :: "network \<Rightarrow> json \<Rightarrow> row_state \<Rightarrow> int option" where
  "cooldown_endsAt N integration row =
     (let ends = List.map_filter id [parse_date_value N (json_field ''nextTestAt'' integration), row_cooldown row]
      in if ends = [] then None else Some (Max (set ends)))"

definition cooldown_isActive :: "network \<Rightarrow> json \<Rightarrow> row_state \<Rightarrow> int \<Rightarrow> bool" where
  "cooldown_isActive N integration row now =
     (case cooldown_endsAt N integration row of Some endsAt \<Rightarrow> endsAt > now | None \<Rightarrow> False)"

definition timer_clear :: "string \<Rightarrow> (string \<Rightarrow> int option) \<Rightarrow> string \<Rightarrow> int option" where
  "timer_clear uuid timers = timers(uuid := None)"

definition timer_schedule ::
  "int \<Rightarrow> string \<Rightarrow> int option \<Rightarrow> (string \<Rightarrow> int option) \<Rightarrow> string \<Rightarrow> int option" where
  "timer_schedule now uuid endsAt timers =
     (case endsAt of
        None \<Rightarrow> timers
      | Some t \<Rightarrow>
          if t \<le> now \<or> (case timers uuid of Some current \<Rightarrow> current \<ge> t | None \<Rightarrow> False) then timers
          else (timer_clear uuid timers)(uuid \<mapsto> t))"

definition timers_clearAll :: "(string \<Rightarrow> int option) \<Rightarrow> string \<Rightarrow> int option" where
  "timers_clearAll timers = (\<lambda>_. None)"

text \<open>A timer that fires is forgotten and ends the cooldown of its row.\<close>

definition timer_fires :: "string \<Rightarrow> integrations_page \<Rightarrow> integrations_page" where
  "timer_fires uuid p =
     (case ip_timers p uuid of
        None \<Rightarrow> p
      | Some _ \<Rightarrow> patchRow uuid [(''cooldownUntil'', Some JsonNull)] (p\<lparr>ip_timers := (ip_timers p)(uuid := None)\<rparr>))"

section \<open>Formatters\<close>

definition MINUTE_MS :: int where "MINUTE_MS = 60 * 1000"
definition HOUR_MS :: int where "HOUR_MS = 60 * MINUTE_MS"
definition DAY_MS :: int where "DAY_MS = 24 * HOUR_MS"
definition EXPIRING_SOON_WINDOW :: int where "EXPIRING_SOON_WINDOW = 7 * DAY_MS"

definition format_relative :: "int \<Rightarrow> int \<Rightarrow> string" where
  "format_relative time now =
     (let elapsed = now - time
      in case List.find (\<lambda>(unit_ms, name). elapsed \<ge> unit_ms) [(DAY_MS, ''day''), (HOUR_MS, ''hour''), (MINUTE_MS, ''minute'')] of
           None \<Rightarrow> ''just now''
         | Some (unit_ms, name) \<Rightarrow>
             let count = elapsed div unit_ms
             in js_decimal (nat count) @ '' '' @ name @ (if count = 1 then [] else ''s'') @ '' ago'')"

definition isExpiringSoon :: "network \<Rightarrow> json \<Rightarrow> int \<Rightarrow> bool" where
  "isExpiringSoon N integration now =
     (if \<not> js_truthy (json_field ''expiresAt'' integration)
         \<or> json_field ''status'' integration = Some (JsonStr ''expired'') then False
      else (case nw_date_parse N (js_text (json_field ''expiresAt'' integration)) of
              Some t \<Rightarrow> t - now \<le> EXPIRING_SOON_WINDOW | None \<Rightarrow> False))"

definition sharedLogins :: "json list \<Rightarrow> json option list" where
  "sharedLogins items =
     snd (fold (\<lambda>i (seen, shared).
         let login = json_field ''githubLogin'' i
         in (List.insert login seen, if js_truthy login \<and> login \<in> set seen then List.insert login shared else shared))
       items ([], []))"

section \<open>IntegrationsController\<close>

definition id_text :: "json \<Rightarrow> string" where
  "id_text integration = js_text (json_field ''id'' integration)"

definition trackCooldown :: "network \<Rightarrow> int \<Rightarrow> json \<Rightarrow> integrations_page \<Rightarrow> integrations_page" where
  "trackCooldown N now integration p =
     p\<lparr>ip_timers := timer_schedule now (id_text integration) (cooldown_endsAt N integration []) (ip_timers p)\<rparr>"

definition replaceIntegration :: "network \<Rightarrow> int \<Rightarrow> json \<Rightarrow> integrations_page \<Rightarrow> integrations_page" where
  "replaceIntegration N now updated p = trackCooldown N now updated (setIntegrations
     (map (\<lambda>i. if json_field ''id'' i = json_field ''id'' updated then updated else i)) p)"

definition set_loadState :: "bool \<Rightarrow> string option \<Rightarrow> integrations_page \<Rightarrow> integrations_page" where
  "set_loadState loading error p = p\<lparr>ip_loading := loading, ip_loadError := error\<rparr>"

text \<open>The two lists; the first rejection is the one thrown.\<close>

definition both_lists :: "network \<Rightarrow> (json option \<times> json option, integrations_page) js" where
  "both_lists N p =
     (case client_listMine N p of (mine, p1) \<Rightarrow>
        (case client_listTypes N p1 of (enabled, p2) \<Rightarrow>
           (case mine of
              Inl x \<Rightarrow> (Inl x, p2)
            | Inr m \<Rightarrow> (case enabled of Inl x \<Rightarrow> (Inl x, p2) | Inr t \<Rightarrow> (Inr (m, t), p2)))))"

definition show_lists :: "network \<Rightarrow> int \<Rightarrow> json option \<Rightarrow> json option \<Rightarrow> (unit, integrations_page) js" where
  "show_lists N now mine enabled p =
     (let p1 = p\<lparr>ip_integrations := js_field ''integrations'' mine\<rparr>
      in case js_field ''types'' enabled of
           Some (JsonArr ts) \<Rightarrow>
             let p2 = p1\<lparr>ip_types := available_types ts\<rparr>
             in (case js_field ''integrations'' mine of
                   Some (JsonArr vs) \<Rightarrow> (Inr (), set_loadState False None (fold (trackCooldown N now) vs p2))
                 | _ \<Rightarrow> (Inl destructure_error, p2))
         | _ \<Rightarrow> (Inl destructure_error, p1))"

definition integrations_load :: "network \<Rightarrow> int \<Rightarrow> (unit, integrations_page) js" where
  "integrations_load N now = js_await (completeLandings N) (\<lambda>_.
     js_catch (js_await (both_lists N) (\<lambda>(mine, enabled).
         if \<not> js_truthy mine \<or> \<not> js_truthy enabled then js_return () else show_lists N now mine enabled))
       (\<lambda>x. js_do (set_loadState False (Some (messageFor x None)))))"

definition integrations_retry :: "network \<Rightarrow> int \<Rightarrow> (unit, integrations_page) js" where
  "integrations_retry N now p = integrations_load N now (set_loadState True None p)"

definition startRedirect :: "network \<Rightarrow> string option \<Rightarrow> json \<Rightarrow> (unit, integrations_page) js" where
  "startRedirect N t body = flows_start N t body"

definition form_create :: "network \<Rightarrow> int \<Rightarrow> add_form \<Rightarrow> string option \<Rightarrow> (unit, integrations_page) js" where
  "form_create N now f mode p =
     (let p1 = patchAddForm (\<lambda>g. g\<lparr>fo_credential := [], fo_error := None\<rparr>) p
      in case type_flow (fo_type f) of
           None \<Rightarrow> (Inl destructure_error, p1)
         | Some FlowRedirect \<Rightarrow>
             startRedirect N (fo_type f) (startBody (JsonObj [(''label'', JsonStr (fo_label f))]) mode) p1
         | Some FlowPaste \<Rightarrow>
             guarded_call (client_create N (fo_label f) (the (fo_type f))
                 (the (buildCredential (fo_type f) (fo_credential f))))
               (\<lambda>v. js_do (\<lambda>q. (trackCooldown N now (the v) (setIntegrations ((#) (the v)) q))
                  \<lparr>ip_addForm := CLOSED_ADD_FORM\<rparr>))
               (\<lambda>x. patchAddForm (\<lambda>g. g\<lparr>fo_error := Some (messageFor x None)\<rparr>)) p1)"

definition selectInstallation :: "network \<Rightarrow> json option \<Rightarrow> json option \<Rightarrow> (unit, integrations_page) js" where
  "selectInstallation N selection installationId = appflow_select N selection installationId"

definition rowAction ::
  "string \<Rightarrow> (json option, integrations_page) js \<Rightarrow> (json \<Rightarrow> integrations_page \<Rightarrow> integrations_page)
     \<Rightarrow> (js_error \<Rightarrow> integrations_page \<Rightarrow> integrations_page) \<Rightarrow> (unit, integrations_page) js" where
  "rowAction uuid call onSuccess onError = guarded_call call
     (\<lambda>v. js_do (onSuccess (the v)))
     (\<lambda>x p. onError x (patchRow uuid [(''error'', Some (JsonStr (messageFor x None)))] p))"

definition row_rename :: "network \<Rightarrow> int \<Rightarrow> string \<Rightarrow> string \<Rightarrow> (unit, integrations_page) js" where
  "row_rename N now uuid label = rowAction uuid (client_rename N uuid label)
     (\<lambda>i p. patchRow uuid [(''renaming'', Some (JsonBool False)), (''error'', Some JsonNull)] (replaceIntegration N now i p))
     (\<lambda>_. id)"

text \<open>A type without a credential to build throws inside the action.\<close>

definition row_replaceCredential ::
  "network \<Rightarrow> int \<Rightarrow> string \<Rightarrow> string option \<Rightarrow> (string \<times> string) list \<Rightarrow> (unit, integrations_page) js" where
  "row_replaceCredential N now uuid t values p =
     rowAction uuid
       (case buildCredential t values of
          Some credential \<Rightarrow> client_replaceCredential N uuid credential
        | None \<Rightarrow> js_throw destructure_error)
       (\<lambda>i q. patchRow uuid [(''replacing'', Some (JsonBool False)), (''error'', Some JsonNull)] (replaceIntegration N now i q))
       (\<lambda>_. id) (patchRow uuid [(''credential'', Some (JsonObj []))] p)"

definition row_remove :: "network \<Rightarrow> string \<Rightarrow> (unit, integrations_page) js" where
  "row_remove N uuid = rowAction uuid (client_remove N uuid)
     (\<lambda>_ p. let p1 = setIntegrations (filter (\<lambda>i. json_field ''id'' i \<noteq> Some (JsonStr uuid))) p
        in p1\<lparr>ip_timers := timer_clear uuid (ip_timers p1), ip_rows := (ip_rows p1)(uuid := None)\<rparr>)
     (\<lambda>_. id)"

definition startRetryCooldown :: "int \<Rightarrow> string \<Rightarrow> js_error \<Rightarrow> integrations_page \<Rightarrow> integrations_page" where
  "startRetryCooldown now uuid x p =
     (case error_retryAfter x of
        Some s \<Rightarrow>
          if error_status x \<noteq> Some 429 then p
          else let cooldownUntil = now + int s * 1000;
                   p1 = patchRow uuid [(''cooldownUntil'', Some (JsonNum cooldownUntil))] p
               in p1\<lparr>ip_timers := timer_schedule now uuid (Some cooldownUntil) (ip_timers p1)\<rparr>
      | None \<Rightarrow> p)"

definition row_test :: "network \<Rightarrow> int \<Rightarrow> string \<Rightarrow> (unit, integrations_page) js" where
  "row_test N now uuid = rowAction uuid (client_test N uuid)
     (\<lambda>i p. patchRow uuid [(''error'', Some JsonNull)] (replaceIntegration N now i p))
     (startRetryCooldown now uuid)"

definition integrations_dispose :: "integrations_page \<Rightarrow> integrations_page" where
  "integrations_dispose p = p\<lparr>ip_timers := timers_clearAll (ip_timers p), ip_selection := None\<rparr>"

section \<open>What the user does on the page\<close>

text \<open>
  The handlers of \<^verbatim>\<open>IntegrationsHandlers.js\<close>, each with what the event carries, the loading of the
  page, its leaving, and the timers.
\<close>

datatype integrations_event =
    EvLoad int | EvRetry int | EvDispose | EvTimer string | EvDismissNotice
  | EvOpenAdd | EvCancelAdd | EvPickType string | EvAddLabel string | EvAddCredential string string
  | EvSubmitAdd int "string option"
  | EvStartRename string string | EvRenameChange string string | EvCancelRename string | EvSubmitRename int string
  | EvStartReplace string | EvCancelReplace string | EvReconnect string string "string option"
  | EvReplaceCredential string string string | EvSubmitReplace int string "string option"
  | EvAskRemove string | EvCancelRemove string | EvConfirmRemove string | EvTest int string
  | EvSelectInstallation "json option" | EvCancelSelection

definition row_of :: "string \<Rightarrow> integrations_page \<Rightarrow> row_state" where
  "row_of uuid p = (case ip_rows p uuid of Some r \<Rightarrow> r | None \<Rightarrow> [])"

definition row_label :: "row_state \<Rightarrow> string" where
  "row_label row = (case map_of row ''label'' of Some (Some (JsonStr l)) \<Rightarrow> l | _ \<Rightarrow> [])"

definition row_credential :: "row_state \<Rightarrow> (string \<times> string) list" where
  "row_credential row =
     (case map_of row ''credential'' of
        Some (Some (JsonObj fs)) \<Rightarrow> List.map_filter (\<lambda>(k, v). case v of JsonStr s \<Rightarrow> Some (k, s) | _ \<Rightarrow> None) fs
      | _ \<Rightarrow> [])"

definition str_value :: "string \<Rightarrow> json option" where "str_value s = Some (JsonStr s)"
definition bool_value :: "bool \<Rightarrow> json option" where "bool_value b = Some (JsonBool b)"

fun page_step :: "network \<Rightarrow> integrations_event \<Rightarrow> integrations_page \<Rightarrow> integrations_page" where
  "page_step N (EvLoad now) p = snd (integrations_load N now p)"
| "page_step N (EvRetry now) p = snd (integrations_retry N now p)"
| "page_step N EvDispose p = integrations_dispose p"
| "page_step N (EvTimer uuid) p = timer_fires uuid p"
| "page_step N EvDismissNotice p = setNotice None p"
| "page_step N EvOpenAdd p = p\<lparr>ip_addForm := CLOSED_ADD_FORM\<lparr>fo_open := True\<rparr>\<rparr>"
| "page_step N EvCancelAdd p = p\<lparr>ip_addForm := CLOSED_ADD_FORM\<rparr>"
| "page_step N (EvPickType t) p = patchAddForm (\<lambda>f. f\<lparr>fo_type := Some t, fo_credential := []\<rparr>) p"
| "page_step N (EvAddLabel l) p = patchAddForm (\<lambda>f. f\<lparr>fo_label := l\<rparr>) p"
| "page_step N (EvAddCredential k v) p =
     patchAddForm (\<lambda>f. f\<lparr>fo_credential := obj_set k v (fo_credential f)\<rparr>) p"
| "page_step N (EvSubmitAdd now mode) p = snd (form_create N now (ip_addForm p) mode p)"
| "page_step N (EvStartRename uuid label) p =
     patchRow uuid [(''renaming'', bool_value True), (''label'', str_value label), (''error'', Some JsonNull)] p"
| "page_step N (EvRenameChange uuid label) p = patchRow uuid [(''label'', str_value label)] p"
| "page_step N (EvCancelRename uuid) p = patchRow uuid [(''renaming'', bool_value False)] p"
| "page_step N (EvSubmitRename now uuid) p = snd (row_rename N now uuid (row_label (row_of uuid p)) p)"
| "page_step N (EvStartReplace uuid) p =
     patchRow uuid [(''replacing'', bool_value True), (''credential'', Some (JsonObj [])), (''error'', Some JsonNull)] p"
| "page_step N (EvCancelReplace uuid) p =
     patchRow uuid [(''replacing'', bool_value False), (''credential'', Some (JsonObj []))] p"
| "page_step N (EvReconnect uuid t mode) p =
     snd (startRedirect N (Some t) (startBody (JsonObj [(''integrationId'', JsonStr uuid)]) mode) p)"
| "page_step N (EvReplaceCredential uuid k v) p =
     patchRow uuid [(''credential'', Some (JsonObj (map (map_prod id JsonStr) (obj_set k v (row_credential (row_of uuid p))))))] p"
| "page_step N (EvSubmitReplace now uuid t) p =
     snd (row_replaceCredential N now uuid t (row_credential (row_of uuid p)) p)"
| "page_step N (EvAskRemove uuid) p =
     patchRow uuid [(''confirmingRemove'', bool_value True), (''error'', Some JsonNull)] p"
| "page_step N (EvCancelRemove uuid) p = patchRow uuid [(''confirmingRemove'', bool_value False)] p"
| "page_step N (EvConfirmRemove uuid) p = snd (row_remove N uuid p)"
| "page_step N (EvTest now uuid) p = snd (row_test N now uuid p)"
| "page_step N (EvSelectInstallation i) p = snd (selectInstallation N (ip_selection p) i p)"
| "page_step N EvCancelSelection p = p\<lparr>ip_selection := None\<rparr>"

end
