(* ===== verification/Frontend_Github.thy ===== *)
theory Frontend_Github
  imports Frontend_Integrations
begin

text \<open>
  What the integrations page does with addresses, secrets and timers: where it sends the browser, that
  the server's redirects and the page's checks agree, that what comes back from GitHub is used once,
  that a pasted credential does not linger, and which timers run.
\<close>

section \<open>Where the browser goes\<close>

definition github_url :: "string \<Rightarrow> bool" where
  "github_url u \<longleftrightarrow> prefix ''https://github.com/'' u"

lemma accepted_urls:
  "isGithubAuthorizeUrl url \<Longrightarrow> github_url (js_text url)"
  "isGithubAppUrl url \<Longrightarrow> github_url (js_text url)"
  by (auto simp: isGithubAuthorizeUrl_def isGithubAppUrl_def github_url_def GITHUB_AUTHORIZE_PREFIX_def
      is_install_url_def INSTALL_PREFIX_def js_text_def prefix_def split: option.splits json.splits)

text \<open>Every address followed is GitHub's, or was followed before.\<close>

definition went_to :: "string set \<Rightarrow> integrations_page \<Rightarrow> bool" where
  "went_to U p \<longleftrightarrow> (\<forall>u \<in> set (ip_navigated p). github_url u \<or> u \<in> U)"

lemma same_navigation: "ip_navigated q = ip_navigated p \<Longrightarrow> went_to U q = went_to U p"
  by (simp add: went_to_def)

lemma setters_navigation [simp]:
  "ip_navigated (patchRow uuid patch p) = ip_navigated p" "ip_navigated (setNotice n p) = ip_navigated p"
  "ip_navigated (setIntegrations g p) = ip_navigated p" "ip_navigated (patchAddForm h p) = ip_navigated p"
  "ip_navigated (report_to body e p) = ip_navigated p" "ip_navigated (trackCooldown N now i p) = ip_navigated p"
  "ip_navigated (replaceIntegration N now i p) = ip_navigated p"
  "ip_navigated (set_loadState l e p) = ip_navigated p" "ip_navigated (showResult v p) = ip_navigated p"
  "ip_navigated (startRetryCooldown now uuid x p) = ip_navigated p"
  by (simp_all add: patchRow_def setNotice_def setIntegrations_def patchAddForm_def report_to_def
      trackCooldown_def replaceIntegration_def set_loadState_def showResult_def startRetryCooldown_def Let_def
      split: option.split)

text \<open>A computation after which the browser has gone nowhere else.\<close>

abbreviation stays :: "string set \<Rightarrow> ('a, integrations_page) js \<Rightarrow> bool" where
  "stays U m \<equiv> js_keeps (went_to U) m"

lemma stays_call: "stays U (sendJson N m path b)"
proof -
  have "ip_navigated (snd (sendJson N m path b p)) = ip_navigated p" for p :: integrations_page
  proof -
    have more: "ip_navigated q = ip_navigated p" if "page.more q = page.more p" for q p :: integrations_page
      using that by (cases q; cases p) simp
    show ?thesis by (rule more) (rule sendJson_more)
  qed
  then show ?thesis by (simp add: js_keeps_def went_to_def)
qed

lemma stays_do: "(\<And>p. ip_navigated (g p) = ip_navigated p) \<Longrightarrow> stays U (js_do g)"
  by (rule js_keeps_do) (simp add: went_to_def)

lemma stays_guarded:
  assumes "stays U call" and "\<And>v. stays U (proceed v)" and "\<And>x p. ip_navigated (fail x p) = ip_navigated p"
  shows "stays U (guarded_call call proceed fail)"
  by (rule js_keeps_guarded) (use assms in \<open>auto simp: went_to_def\<close>)

lemmas stays_clients = client_listMine_def client_listTypes_def client_create_def client_rename_def
  client_replaceCredential_def client_test_def client_remove_def startOauthApp_def completeOauthApp_def
  startGithubApp_def completeGithubApp_def selectGithubAppInstallation_def postJson_def patchJson_def deleteJson_def

lemma stays_after: "stays U m \<Longrightarrow> ip_navigated q = ip_navigated p \<Longrightarrow> went_to U p \<Longrightarrow> went_to U (snd (m q))"
  using js_keepsD [of "went_to U" m q] same_navigation [of q p U] by simp

lemma stays_start:
  assumes "stays U (call body)" and "\<And>url. accepts url \<Longrightarrow> github_url (js_text url)"
  shows "stays U (start_redirect call key accepts t body)"
proof -
  have "stays U (js_do (navigate (js_text url)))" if "accepts url" for url
    by (rule js_keeps_do) (use assms(2) that in \<open>auto simp: went_to_def navigate_def\<close>)
  then have g: "stays U (guarded_call (call body)
     (\<lambda>result. let url = js_field key result
        in if \<not> accepts url then js_do (report_to body (Some UNEXPECTED_URL_MESSAGE)) else js_do (navigate (js_text url)))
     (\<lambda>x. report_to body (Some (messageFor x t))))"
    by (intro stays_guarded assms(1)) (auto simp: Let_def intro: stays_do)
  show ?thesis
    unfolding js_keeps_def start_redirect_def
  proof (intro allI impI)
    fix p assume "went_to U p"
    then show "went_to U (snd (guarded_call (call body)
     (\<lambda>result. let url = js_field key result
        in if \<not> accepts url then js_do (report_to body (Some UNEXPECTED_URL_MESSAGE)) else js_do (navigate (js_text url)))
     (\<lambda>x. report_to body (Some (messageFor x t))) (report_to body None p)))"
      using stays_after [OF g, of "report_to body None p" p] by simp
  qed
qed

lemma stays_flows: "stays U (flows_start N t body)"
  by (auto simp: flows_start_def oauthflow_start_def appflow_start_def js_keeps_return accepted_urls stays_clients
      intro!: stays_start stays_call)

lemma stays_complete:
  "stays U (oauthflow_complete N code state)" "stays U call \<Longrightarrow> stays U (appflow_complete call)"
  unfolding oauthflow_complete_def appflow_complete_def stays_clients
  by (intro stays_guarded stays_call stays_do; simp)+

lemma stays_landings: "stays U (completeLandings N)"
proof -
  have "went_to U (snd (oauthflow_completeLanding N p))" if "went_to U p" for p
  proof -
    let ?p1 = "p\<lparr>ip_oauthLanding := None\<rparr>"
    have "went_to U (snd (oauthflow_complete N c s ?p1))" for c s
      using stays_after [OF stays_complete(1), of ?p1 p] that by simp
    moreover have "went_to U ?p1" "went_to U (setNotice n ?p1)" for n
      using that same_navigation [of ?p1 p] same_navigation [of "setNotice n ?p1" p] by simp_all
    ultimately show ?thesis
      by (simp add: oauthflow_completeLanding_def take_oauth_def split: option.split landing.split)
  qed
  then have 1: "stays U (oauthflow_completeLanding N)" by (simp add: js_keeps_def)
  have "went_to U (snd (appflow_completeLanding N p))" if "went_to U p" for p
  proof -
    let ?p1 = "p\<lparr>ip_appLanding := None\<rparr>"
    have "stays U (completeGithubApp N c s i)" for c s i by (simp add: stays_clients stays_call)
    then have "went_to U (snd (appflow_complete (completeGithubApp N c s i) ?p1))" for c s i
      using stays_after [OF stays_complete(2), of U _ ?p1 p] that by simp
    moreover have "went_to U ?p1" "went_to U (setNotice n ?p1)" for n
      using that same_navigation [of ?p1 p] same_navigation [of "setNotice n ?p1" p] by simp_all
    ultimately show ?thesis
      by (simp add: appflow_completeLanding_def take_app_def split: option.split landing.split)
  qed
  then have 2: "stays U (appflow_completeLanding N)" by (simp add: js_keeps_def)
  show ?thesis unfolding completeLandings_def by (intro js_keeps_await 1 2)
qed

lemma stays_lists: "stays U (both_lists N)"
proof -
  have "ip_navigated (snd (sendJson N m path b p)) = ip_navigated p" for m path b and p :: integrations_page
  proof -
    have more: "ip_navigated q = ip_navigated p" if "page.more q = page.more p" for q p :: integrations_page
      using that by (cases q; cases p) simp
    show ?thesis by (rule more) (rule sendJson_more)
  qed
  then have "ip_navigated (snd (both_lists N p)) = ip_navigated p" for p
    by (auto simp: both_lists_def stays_clients split: prod.split sum.split) (metis snd_conv)+
  then show ?thesis by (simp add: js_keeps_def went_to_def)
qed

lemma tracked_navigation: "ip_navigated (fold (trackCooldown N now) vs p) = ip_navigated p"
  by (induction vs arbitrary: p) simp_all

lemma stays_load: "stays U (integrations_load N now)"
proof -
  have "ip_navigated (snd (show_lists N now m t p)) = ip_navigated p" for m t p
    by (auto simp: show_lists_def Let_def tracked_navigation split: option.split json.split)
  then have "stays U (show_lists N now m t)" for m t by (simp add: js_keeps_def went_to_def)
  then show ?thesis
    unfolding integrations_load_def
    by (intro js_keeps_await js_keeps_catch stays_landings stays_lists stays_do)
      (auto simp: js_keeps_return split: prod.split)
qed

lemma stays_row:
  assumes "stays U call" and "\<And>i p. ip_navigated (ok i p) = ip_navigated p" and "\<And>x p. ip_navigated (err x p) = ip_navigated p"
  shows "stays U (rowAction uuid call ok err)"
  unfolding rowAction_def using assms by (intro stays_guarded stays_do) simp_all

lemma stays_create: "went_to U p \<Longrightarrow> went_to U (snd (form_create N now f mode p))"
proof -
  assume p: "went_to U p"
  let ?p1 = "patchAddForm (\<lambda>g. g\<lparr>fo_credential := [], fo_error := None\<rparr>) p"
  have "stays U (guarded_call (client_create N l t c)
      (\<lambda>v. js_do (\<lambda>q. (trackCooldown N now (the v) (setIntegrations ((#) (the v)) q))\<lparr>ip_addForm := CLOSED_ADD_FORM\<rparr>))
      (\<lambda>x. patchAddForm (\<lambda>g. g\<lparr>fo_error := Some (messageFor x None)\<rparr>)))" for l t c
    by (intro stays_guarded stays_do) (simp_all add: stays_clients stays_call)
  from stays_after [OF this _ p, of ?p1] stays_after [OF stays_flows _ p, of ?p1] p show ?thesis
    by (auto simp: form_create_def startRedirect_def Let_def went_to_def split: option.split flow_kind.split)
qed

lemma went_to_step: "went_to U p \<Longrightarrow> went_to U (page_step N ev p)"
proof -
  assume p: "went_to U p"
  have load: "went_to U (snd (integrations_load N now q))" if "ip_navigated q = ip_navigated p" for now q
    using stays_after [OF stays_load that p] .
  have retry: "went_to U (snd (integrations_load N now (set_loadState True None p)))" for now
    by (rule load) simp
  have rename: "stays U (row_rename N now uuid label)" for now uuid label
    unfolding row_rename_def by (rule stays_row) (simp_all add: stays_clients stays_call)
  have remove: "stays U (row_remove N uuid)" for uuid
    unfolding row_remove_def by (rule stays_row) (simp_all add: stays_clients stays_call Let_def)
  have test: "stays U (row_test N now uuid)" for now uuid
    unfolding row_test_def by (rule stays_row) (simp_all add: stays_clients stays_call)
  have replace: "went_to U (snd (row_replaceCredential N now uuid t vs p))" for now uuid t vs
    unfolding row_replaceCredential_def
    by (rule stays_after [OF stays_row _ p]) (auto simp: stays_clients stays_call js_keeps_return split: option.split)
  have select: "went_to U (snd (appflow_select N sel i p))" for sel i
    unfolding appflow_select_def
    by (rule stays_after [OF stays_complete(2) _ p]) (auto simp: stays_clients stays_call)
  have same: "went_to U (setNotice n p)" "went_to U (patchAddForm h p)" "went_to U (patchRow uuid patch p)"
    "went_to U (p\<lparr>ip_addForm := f\<rparr>)" "went_to U (p\<lparr>ip_selection := sel\<rparr>)" "went_to U (timer_fires uuid p)"
    "went_to U (integrations_dispose p)" for n h uuid patch f sel
    using p by (simp_all add: went_to_def timer_fires_def integrations_dispose_def split: option.split)
  show ?thesis
    by (cases ev) (simp_all add: load retry integrations_retry_def startRedirect_def selectInstallation_def
        js_keepsD [OF rename p] js_keepsD [OF remove p] js_keepsD [OF test p] js_keepsD [OF stays_flows p]
        replace select stays_create [OF p] same)
qed

text \<open>
  C24. Whatever the user does on the integrations page, and whatever the server or a forged landing
  answers, the browser is sent to no address but one under \<open>https://github.com/\<close>.
\<close>
theorem browser_follows_only_github:
  assumes "u \<in> set (ip_navigated (fold (page_step N) evs p))" and "u \<notin> set (ip_navigated p)"
  shows "prefix ''https://github.com/'' u"
proof -
  have run: "went_to U (fold (page_step N) evs q)" if "went_to U q" for U q
    using that by (induction evs arbitrary: q) (simp_all add: went_to_step)
  have "went_to (set (ip_navigated p)) (fold (page_step N) evs p)"
    by (rule run) (simp add: went_to_def)
  with assms show ?thesis by (auto simp: went_to_def github_url_def)
qed

text \<open>A server that answers every request with GitHub's authorize page.\<close>

definition github_network :: network where
  "github_network = \<lparr>nw_fetch = (\<lambda>sent. (Inr \<lparr>as_status = 200, as_statusText = [], as_retryAfter = None,
       as_text = ''body''\<rparr>, [])),
     nw_json_parse = (\<lambda>_. Some (JsonObj [(''authorizeUrl'', JsonStr ''https://github.com/login/oauth/authorize?state=s'')])),
     nw_date_parse = (\<lambda>_. None)\<rparr>"

definition demo_integrations_page :: integrations_page where
  "demo_integrations_page = page.extend demo_page
     \<lparr>ip_integrations = Some (JsonArr []), ip_types = [''oauth_app''], ip_loading = False, ip_loadError = None,
      ip_rows = (\<lambda>_. None), ip_addForm = CLOSED_ADD_FORM, ip_notice = None, ip_selection = None,
      ip_timers = (\<lambda>_. None), ip_navigated = [], ip_address = [], ip_oauthLanding = None, ip_appLanding = None\<rparr>"

lemma demo_navigation:
  "ip_navigated demo_integrations_page = []"
  "ip_navigated (fold (page_step github_network) [EvOpenAdd, EvPickType ''oauth_app'', EvSubmitAdd 0 None]
     demo_integrations_page) = [''https://github.com/login/oauth/authorize?state=s'']"
  by (simp add: demo_integrations_page_def page.defs, code_simp)

theorem browser_follows_only_github_witness:
  "prefix ''https://github.com/'' ''https://github.com/login/oauth/authorize?state=s''"
  by (rule browser_follows_only_github [of _ github_network
        "[EvOpenAdd, EvPickType ''oauth_app'', EvSubmitAdd 0 None]" demo_integrations_page])
    (simp_all only: demo_navigation list.set insert_iff empty_iff simp_thms)

section \<open>The page and the server agree\<close>

lemma takeWhile_slug:
  assumes "list_all url_slug_char s" and "\<not> url_slug_char c"
  shows "takeWhile url_slug_char (s @ c # r) = s"
  using assms by (induction s) auto

lemma encode_slug: "list_all slug_char s \<Longrightarrow> js_encodeURIComponent s = s"
proof (induction s)
  case (Cons c s)
  then have "is_unreserved c"
    by (auto simp: slug_char_def is_unreserved_def is_digit_def Let_def)
  with Cons show ?case by (simp add: js_encodeURIComponent_def encode_char_def)
qed (simp add: js_encodeURIComponent_def)

lemma accepted_slug:
  assumes "buildGithubAppConfig parseUrl K e = Inr (Some c)"
  shows "list_all slug_char (ga_slug c) \<and> ga_slug c \<noteq> []"
proof -
  have "GITHUB_APP_SLUG_PATTERN (ga_slug c)"
    using assms by (auto simp: buildGithubAppConfig_def Let_def checkPattern_def split: if_splits sum.splits)
  then show ?thesis by (auto simp: GITHUB_APP_SLUG_PATTERN_def)
qed

lemma install_url_accepted:
  assumes "slug \<noteq> []" and "list_all url_slug_char slug"
  shows "is_install_url (INSTALL_PREFIX @ slug @ ''/installations/new?'' @ q)"
proof -
  have "\<not> url_slug_char (CHR ''/'')" by (simp add: url_slug_char_def is_digit_def)
  from takeWhile_slug [OF assms(2) this]
  have "takeWhile url_slug_char (slug @ ''/installations/new?'' @ q) = slug" by simp
  then show ?thesis
    unfolding is_install_url_def Let_def by (simp only: append_eq_conv_conj drop_append) (simp add: assms(1))
qed

lemma server_urls_accepted:
  assumes enc: "wb_encodeURIComponent W = js_encodeURIComponent"
    and config: "buildGithubAppConfig parseUrl K e = Inr (Some c)"
  shows "isGithubAppUrl (Some (JsonStr (githubAppRedirectUrl W c mode st)))"
proof (cases mode)
  case ModeInstall
  from accepted_slug [OF config] have slug: "list_all slug_char (ga_slug c)" "ga_slug c \<noteq> []" by auto
  then have chars: "list_all url_slug_char (ga_slug c)"
    by (simp add: slug_char_def url_slug_char_def [abs_def] list_all_iff)
  note install = install_url_accepted [OF slug(2) chars]
  have "githubAppRedirectUrl W c mode st =
      INSTALL_PREFIX @ ga_slug c @ ''/installations/new?'' @ wb_urlencode W [(''state'', st)]"
    by (simp only: ModeInstall githubAppRedirectUrl_def github_app_mode.case INSTALL_PREFIX_def enc
        encode_slug [OF slug(1)])
  with install show ?thesis by (simp only: isGithubAppUrl_def option.case json.case simp_thms)
next
  case ModeConnect
  then show ?thesis by (simp add: isGithubAppUrl_def githubAppRedirectUrl_def GITHUB_AUTHORIZE_PREFIX_def)
qed

lemma captured_paths:
  "fst (landings_capture OAUTH_LANDING_PATH params p)" "fst (landings_capture APP_LANDING_PATH params p)"
  "ip_address (snd (landings_capture OAUTH_LANDING_PATH params p)) = LANDING_TARGET"
  "ip_address (snd (landings_capture APP_LANDING_PATH params p)) = LANDING_TARGET"
  by (simp_all add: landings_capture_def)

lemma callback_origin:
  assumes "buildCallbackUrl parseUrl e path n = Inr url"
  shows "\<exists>origin. url = origin @ path"
proof (cases "parseOrigin parseUrl (readTrimmed e ''FRONTEND_BASE_URL'') n")
  case (Inr u)
  with assms have "url = url_origin u @ path" by (simp add: buildCallbackUrl_def split: if_splits)
  then show ?thesis by blast
qed (use assms in \<open>simp add: buildCallbackUrl_def\<close>)

lemma configured_callbacks:
  "buildGithubAppConfig parseUrl K e = Inr (Some c) \<Longrightarrow> \<exists>origin. ga_callbackUrl c = origin @ APP_LANDING_PATH"
  "buildOauthAppConfig parseUrl e = Inr (Some oc) \<Longrightarrow> \<exists>origin. oa_callbackUrl oc = origin @ OAUTH_LANDING_PATH"
  by (auto simp: buildGithubAppConfig_def buildOauthAppConfig_def Let_def APP_LANDING_PATH_def OAUTH_LANDING_PATH_def
      dest!: callback_origin split: if_splits sum.splits)

lemma redirect_followed:
  assumes "call body (report_to body None p) = (Inr (Some (JsonObj [(key, JsonStr u)])), q)"
    and "accepts (Some (JsonStr u))"
  shows "snd (start_redirect call key accepts t body p) = navigate u q"
  using assms by (simp add: start_redirect_def guarded_call_def js_catch_def js_await_def js_do_def js_truthy_def
      js_field_def json_field_def js_text_def)

text \<open>
  C17. The redirects the server starts are redirects the page follows: for every configuration of the two
  apps its boot validation accepts, whatever the mode, the state and the challenge are, the address of the
  answer passes the page's check and becomes the address of the browser; and the callback address
  registered with GitHub is one whose landing the page captures.
\<close>
theorem server_redirects_are_followed:
  assumes "wb_encodeURIComponent W = js_encodeURIComponent"
    and "buildOauthAppConfig parseUrl e = Inr (Some oc)" and "buildGithubAppConfig parseUrl K e = Inr (Some c)"
    and "startOauthApp N body (report_to body None p) =
      (Inr (Some (JsonObj [(''authorizeUrl'', JsonStr (authorizeUrl W oc st challenge))])), q)"
    and "startGithubApp N' body' (report_to body' None p') =
      (Inr (Some (JsonObj [(''redirectUrl'', JsonStr (githubAppRedirectUrl W c mode st'))])), q')"
  shows "snd (oauthflow_start N body p) = navigate (authorizeUrl W oc st challenge) q
    \<and> snd (appflow_start N' body' p') = navigate (githubAppRedirectUrl W c mode st') q'
    \<and> (\<exists>origin. oa_callbackUrl oc = origin @ OAUTH_LANDING_PATH) \<and> fst (landings_capture OAUTH_LANDING_PATH params r)
    \<and> (\<exists>origin. ga_callbackUrl c = origin @ APP_LANDING_PATH) \<and> fst (landings_capture APP_LANDING_PATH params r)"
proof -
  have "isGithubAuthorizeUrl (Some (JsonStr (authorizeUrl W oc st challenge)))"
    by (simp add: isGithubAuthorizeUrl_def authorizeUrl_def GITHUB_AUTHORIZE_PREFIX_def)
  from redirect_followed [where call = "startOauthApp N" and accepts = isGithubAuthorizeUrl, OF assms(4) this]
  have "snd (oauthflow_start N body p) = navigate (authorizeUrl W oc st challenge) q"
    by (simp add: oauthflow_start_def)
  moreover from redirect_followed [where call = "startGithubApp N'" and accepts = isGithubAppUrl, OF assms(5) server_urls_accepted [OF assms(1,3)]]
  have "snd (appflow_start N' body' p') = navigate (githubAppRedirectUrl W c mode st') q'"
    by (simp add: appflow_start_def)
  ultimately show ?thesis
    using configured_callbacks(1) [OF assms(3)] configured_callbacks(2) [OF assms(2)] captured_paths by simp
qed

text \<open>A server with both apps configured, and what it answers when each is started.\<close>

definition redirect_web :: web where
  "redirect_web = \<lparr>wb_fetch = (\<lambda>_. Inl []), wb_urlencode = (\<lambda>ps. js_join ''&'' (map (\<lambda>(k, v). k @ ''='' @ js_encodeURIComponent v) ps)),
     wb_encodeURIComponent = js_encodeURIComponent, wb_json_parse = (\<lambda>_. None), wb_json_stringify = (\<lambda>_. []),
     wb_number = (\<lambda>_. NaN), wb_sha256_base64url = id\<rparr>"

definition demo_apps_env :: env where
  "demo_apps_env = demo_env\<lparr>env_config := (\<lambda>k. case map_of
     [(''KERGHAN_GITHUB_OAUTH_APP_CLIENT_ID'', ''oauth''), (''KERGHAN_GITHUB_OAUTH_APP_CLIENT_SECRET'', ''s1''),
      (''KERGHAN_GITHUB_APP_ID'', ''7''), (''KERGHAN_GITHUB_APP_SLUG'', ''kerghan''),
      (''KERGHAN_GITHUB_APP_PRIVATE_KEY'', ''key''), (''KERGHAN_GITHUB_APP_CLIENT_ID'', ''app''),
      (''KERGHAN_GITHUB_APP_CLIENT_SECRET'', ''s2''), (''FRONTEND_BASE_URL'', ''https://k'')] k of
     Some v \<Rightarrow> JString v | None \<Rightarrow> JUndefined)\<rparr>"

definition redirect_parse_url :: url_parser where
  "redirect_parse_url raw = Some \<lparr>url_protocol = ''https:'', url_origin = raw, url_host = ''k''\<rparr>"

definition demo_app_keys :: app_keys where
  "demo_app_keys = \<lparr>ak_parse = (\<lambda>_. Some (''rsa'', ''key'')), ak_sign = (\<lambda>_. id)\<rparr>"

definition redirect_oauth_config :: oauth_app_config where
  "redirect_oauth_config = \<lparr>oa_clientId = ''oauth'', oa_clientSecret = ''s1'',
     oa_callbackUrl = ''https://k/integrations/oauth_app/callback''\<rparr>"

definition redirect_app_config :: github_app_config where
  "redirect_app_config = \<lparr>ga_appId = 7, ga_slug = ''kerghan'', ga_privateKey = ''key'', ga_clientId = ''app'',
     ga_clientSecret = ''s2'', ga_callbackUrl = ''https://k/integrations/github_app/callback''\<rparr>"

lemma demo_apps_accepted:
  "buildOauthAppConfig redirect_parse_url demo_apps_env = Inr (Some redirect_oauth_config)"
  "buildGithubAppConfig redirect_parse_url demo_app_keys demo_apps_env = Inr (Some redirect_app_config)"
  by code_simp+

definition answers_with :: "string \<Rightarrow> string \<Rightarrow> network" where
  "answers_with key u = \<lparr>nw_fetch = (\<lambda>sent. (Inr \<lparr>as_status = 200, as_statusText = [], as_retryAfter = None,
       as_text = ''body''\<rparr>, [])),
     nw_json_parse = (\<lambda>_. Some (JsonObj [(key, JsonStr u)])), nw_date_parse = (\<lambda>_. None)\<rparr>"

lemma demo_start:
  "fst (startOauthApp (answers_with key u) (JsonObj []) demo_integrations_page) = Inr (Some (JsonObj [(key, JsonStr u)]))"
  "fst (startGithubApp (answers_with key u) (JsonObj []) demo_integrations_page) = Inr (Some (JsonObj [(key, JsonStr u)]))"
  by code_simp+

lemma demo_reported: "report_to (JsonObj []) None demo_integrations_page = demo_integrations_page"
  by (simp add: report_to_def demo_integrations_page_def demo_page_def page.defs patchAddForm_def CLOSED_ADD_FORM_def
      json_field_def js_truthy_def)

theorem server_redirects_are_followed_witness:
  "let install = githubAppRedirectUrl redirect_web redirect_app_config ModeInstall ''st'' in
   ip_navigated (snd (appflow_start (answers_with ''redirectUrl'' install) (JsonObj []) demo_integrations_page)) = [install]"
proof -
  define u where "u = authorizeUrl redirect_web redirect_oauth_config ''st'' ''ch''"
  define install where "install = githubAppRedirectUrl redirect_web redirect_app_config ModeInstall ''st''"
  define N where "N = answers_with ''authorizeUrl'' u"
  define N' where "N' = answers_with ''redirectUrl'' install"
  obtain q q' where q: "startOauthApp N (JsonObj []) demo_integrations_page = (Inr (Some (JsonObj [(''authorizeUrl'', JsonStr u)])), q)"
    and q': "startGithubApp N' (JsonObj []) demo_integrations_page = (Inr (Some (JsonObj [(''redirectUrl'', JsonStr install)])), q')"
    using demo_start(1) [of "''authorizeUrl''" u] demo_start(2) [of "''redirectUrl''" install]
    unfolding N_def N'_def by (metis prod.collapse)
  have enc: "wb_encodeURIComponent redirect_web = js_encodeURIComponent" by (simp add: redirect_web_def)
  have "snd (appflow_start N' (JsonObj []) demo_integrations_page) = navigate install q'"
    using server_redirects_are_followed [OF enc demo_apps_accepted, of N "JsonObj []" demo_integrations_page
        "''st''" "''ch''" q N' "JsonObj []" demo_integrations_page ModeInstall "''st''" q'] q q'
    by (simp add: demo_reported u_def install_def)
  moreover have "ip_navigated (snd (startGithubApp N' (JsonObj []) demo_integrations_page)) = []"
    unfolding N'_def by code_simp
  with q' have "ip_navigated q' = []" by simp
  ultimately show ?thesis by (simp add: navigate_def N'_def install_def Let_def)
qed

section \<open>Landings are used once\<close>

definition landings_are :: "landing option \<Rightarrow> landing option \<Rightarrow> integrations_page \<Rightarrow> bool" where
  "landings_are l a p \<longleftrightarrow> ip_oauthLanding p = l \<and> ip_appLanding p = a"

lemma landings_call: "js_keeps (landings_are l a) (sendJson N m path b)"
proof -
  have more: "landings_are l a q = landings_are l a p" if "page.more q = page.more p" for q p
    using that by (cases q; cases p) (simp add: landings_are_def)
  show ?thesis using more [OF sendJson_more] by (simp add: js_keeps_def)
qed

lemma landings_setters [simp]:
  "landings_are l a (setNotice n q) = landings_are l a q"
  "landings_are l a (setIntegrations h q) = landings_are l a q"
  "landings_are l a (showResult v q) = landings_are l a q"
  by (simp_all add: landings_are_def setNotice_def setIntegrations_def showResult_def Let_def)

lemma landings_complete:
  "js_keeps (landings_are l a) (oauthflow_complete N code state)"
  "js_keeps (landings_are l a) (appflow_complete (completeGithubApp N c s i))"
  unfolding oauthflow_complete_def appflow_complete_def stays_clients
  by (intro js_keeps_guarded landings_call js_keeps_do; simp)+

text \<open>A completed flow never throws: what it catches it shows.\<close>

lemma guarded_returns:
  assumes "\<And>v q. \<exists>r p. proceed v q = (Inr r, p)"
  shows "\<exists>r p. guarded_call call proceed fail q = (Inr r, p)"
proof (cases "call q")
  case (Pair r q1)
  with assms [of "the (Some (projr r))" q1] show ?thesis
    by (cases r) (auto simp: guarded_call_def js_catch_def js_await_def js_do_def js_return_def)
qed

lemma oauth_returns: "\<exists>r q. oauthflow_completeLanding N p = (Inr r, q)"
proof -
  have "\<exists>r q. oauthflow_complete N c s p = (Inr r, q)" for c s p
    unfolding oauthflow_complete_def by (rule guarded_returns) (simp add: js_do_def)
  then show ?thesis
    by (simp add: oauthflow_completeLanding_def take_oauth_def split: option.split landing.split)
qed

lemma oauth_taken: "landings_are None (ip_appLanding p) (snd (oauthflow_completeLanding N p))"
  using js_keepsD [OF landings_complete(1), of None "ip_appLanding p" "p\<lparr>ip_oauthLanding := None\<rparr>"]
  by (simp add: oauthflow_completeLanding_def take_oauth_def landings_are_def setNotice_def
      split: option.split landing.split)

lemma app_taken:
  assumes "ip_oauthLanding p = None"
  shows "landings_are None None (snd (appflow_completeLanding N p))"
  using js_keepsD [OF landings_complete(2), of None None "p\<lparr>ip_appLanding := None\<rparr>"] assms
  by (simp add: appflow_completeLanding_def take_app_def landings_are_def setNotice_def
      split: option.split landing.split)

text \<open>
  Completing the landings consumes them, whatever the server answers; doing so again sends nothing and
  changes nothing.
\<close>
theorem landings_are_taken_once:
  "landings_are None None (snd (completeLandings N p))"
  "landings_are None None q \<Longrightarrow> completeLandings N q = (Inr (), q)"
proof -
  obtain r p1 where r: "oauthflow_completeLanding N p = (Inr r, p1)" using oauth_returns by blast
  then have "ip_oauthLanding p1 = None" using oauth_taken [of p N] by (simp add: landings_are_def)
  with r show "landings_are None None (snd (completeLandings N p))"
    by (simp add: completeLandings_def js_await_def app_taken)
next
  assume none: "landings_are None None q"
  then have "q\<lparr>ip_oauthLanding := None\<rparr> = q" "q\<lparr>ip_appLanding := None\<rparr> = q" by (simp_all add: landings_are_def)
  with none show "completeLandings N q = (Inr (), q)"
    by (simp add: completeLandings_def js_await_def oauthflow_completeLanding_def appflow_completeLanding_def
        take_oauth_def take_app_def landings_are_def)
qed

section \<open>Secrets do not linger\<close>

text \<open>No credential is left in the add form, or in the row of an integration.\<close>

definition form_cleared :: "integrations_page \<Rightarrow> bool" where
  "form_cleared p \<longleftrightarrow> fo_credential (ip_addForm p) = []"

definition row_cleared :: "string \<Rightarrow> integrations_page \<Rightarrow> bool" where
  "row_cleared uuid p \<longleftrightarrow> row_credential (row_of uuid p) = []"

lemma cleared_call: "js_keeps form_cleared (sendJson N m path b)" "js_keeps (row_cleared uuid) (sendJson N m path b)"
proof -
  have more: "form_cleared q = form_cleared p" "row_cleared uuid q = row_cleared uuid p"
    if "page.more q = page.more p" for q p
    using that by (cases q; cases p; simp add: form_cleared_def row_cleared_def row_of_def)+
  show "js_keeps form_cleared (sendJson N m path b)" "js_keeps (row_cleared uuid) (sendJson N m path b)"
    using more [OF sendJson_more] by (simp_all add: js_keeps_def)
qed

lemma other_fields_keep_credential:
  assumes "\<And>k. k \<in> fst ` set patch \<Longrightarrow> k \<noteq> ''credential''"
  shows "row_cleared uuid (patchRow uuid' patch p) = row_cleared uuid p"
proof -
  have "''credential'' \<notin> fst ` set patch" using assms by blast
  then show ?thesis
    by (simp add: row_cleared_def row_credential_def row_of_def patchRow_def patch_row_def obj_spread_other
        split: option.split)
qed

lemma replaced_row_cleared: "row_cleared uuid (replaceIntegration N now i p) = row_cleared uuid p"
  by (simp add: row_cleared_def row_of_def replaceIntegration_def trackCooldown_def setIntegrations_def)

lemma cleared_start:
  assumes "\<And>p. js_keeps form_cleared (call p)"
  shows "js_keeps form_cleared (start_redirect call key accepts t body)"
proof -
  have report [simp]: "form_cleared (report_to body e p) = form_cleared p" for e p
    by (simp add: form_cleared_def report_to_def patchRow_def patchAddForm_def Let_def)
  have navigate [simp]: "form_cleared (navigate url p) = form_cleared p" for url p
    by (simp add: form_cleared_def navigate_def)
  have "js_keeps form_cleared (guarded_call (call body)
     (\<lambda>result. let url = js_field key result
        in if \<not> accepts url then js_do (report_to body (Some UNEXPECTED_URL_MESSAGE)) else js_do (navigate (js_text url)))
     (\<lambda>x. report_to body (Some (messageFor x t))))"
    by (intro js_keeps_guarded assms) (auto simp: Let_def intro!: js_keeps_do)
  then show ?thesis by (simp add: start_redirect_def js_keeps_def)
qed

text \<open>
  A submitted credential is gone from the page's state when the submission is over, whatever became of
  it: the server may have answered anything, or nothing.
\<close>
theorem secrets_do_not_linger:
  "form_cleared (page_step N (EvSubmitAdd now mode) p)"
  "row_cleared uuid (page_step N (EvSubmitReplace now uuid t) p)"
proof -
  let ?p1 = "patchAddForm (\<lambda>g. g\<lparr>fo_credential := [], fo_error := None\<rparr>) p"
  have p1: "form_cleared ?p1" by (simp add: form_cleared_def patchAddForm_def)
  have "js_keeps form_cleared (startRedirect N t' body)" for t' body
    by (auto simp: startRedirect_def flows_start_def oauthflow_start_def appflow_start_def stays_clients
        intro!: cleared_start cleared_call js_keeps_return)
  moreover have "js_keeps form_cleared (guarded_call (client_create N l t' c)
      (\<lambda>v. js_do (\<lambda>q. (trackCooldown N now (the v) (setIntegrations ((#) (the v)) q))\<lparr>ip_addForm := CLOSED_ADD_FORM\<rparr>))
      (\<lambda>x. patchAddForm (\<lambda>g. g\<lparr>fo_error := Some (messageFor x None)\<rparr>)))" for l t' c
    unfolding stays_clients
    by (intro js_keeps_guarded cleared_call js_keeps_do) (simp_all add: form_cleared_def CLOSED_ADD_FORM_def patchAddForm_def)
  ultimately show "form_cleared (page_step N (EvSubmitAdd now mode) p)"
    using p1 by (simp add: form_create_def Let_def js_keepsD split: option.split flow_kind.split)
next
  let ?call = "\<lambda>vs. case buildCredential t vs of Some credential \<Rightarrow> client_replaceCredential N uuid credential
        | None \<Rightarrow> js_throw destructure_error"
  let ?ok = "\<lambda>i q. patchRow uuid [(''replacing'', Some (JsonBool False)), (''error'', Some JsonNull)] (replaceIntegration N now i q)"
  have cleared: "row_cleared uuid (patchRow uuid [(''credential'', Some (JsonObj []))] p)"
    by (simp add: row_cleared_def row_of_def patchRow_def patch_row_def row_credential_def obj_set_lookup List.map_filter_def)
  have "js_keeps (row_cleared uuid) (?call vs)" for vs
    by (simp add: stays_clients cleared_call js_keeps_return split: option.split)
  moreover have "row_cleared uuid (patchRow uuid [(''replacing'', a), (''error'', b)] q) = row_cleared uuid q"
    "row_cleared uuid (patchRow uuid [(''error'', b)] q) = row_cleared uuid q" for a b q
    by (rule other_fields_keep_credential; auto)+
  ultimately have "js_keeps (row_cleared uuid) (rowAction uuid (?call vs) ?ok (\<lambda>_. id))" for vs
    unfolding rowAction_def by (intro js_keeps_guarded js_keeps_do) (simp_all add: replaced_row_cleared)
  with cleared show "row_cleared uuid (page_step N (EvSubmitReplace now uuid t) p)"
    by (simp add: row_replaceCredential_def js_keepsD)
qed

end
