(* ===== verification/Frontend_Types.thy ===== *)
theory Frontend_Types
  imports Frontend_Redirects Github_App
begin

text \<open>
  What the integrations page says about the types (\<^verbatim>\<open>integrations/types/*.js\<close>), and that it knows the
  types, the flows and the reasons of the backend's strategies.
\<close>

section \<open>Texts of the types\<close>

definition type_reasonText :: "string \<Rightarrow> string \<Rightarrow> string option" where
  "type_reasonText t reason =
     (if t = ''pat'' then map_of
        [(''bad_credentials'', ''GitHub rejected this token. It may have been revoked or deleted. Replace it with a new token.''),
         (''insufficient_permissions'', ''This classic token lacks the `repo` scope. Replace it with a token that has `repo`, or with a fine-grained token.'')] reason
      else if t = ''oauth_app'' then map_of
        [(''revoked'', ''GitHub no longer accepts this authorization. It may have been revoked on GitHub, unused for a year, or replaced by newer authorizations. Reconnect to fix it.''),
         (''insufficient_permissions'', ''This authorization lacks the `repo` scope. Reconnect with GitHub to grant it.'')] reason
      else if t = ''github_app'' then map_of
        [(''uninstalled'', ''Kerghan'' @ apos @ ''s GitHub App is no longer installed on this account. Reinstall it and reconnect.''),
         (''suspended'', ''This installation is suspended on GitHub. Unsuspend it in the account'' @ apos @ ''s GitHub settings, then test again.''),
         (''insufficient_permissions'', ''This installation hasn'' @ apos @ ''t granted Issues and Metadata read access. Accept the app'' @ apos @ ''s requested permissions on GitHub, then test again.'')] reason
      else None)"

definition GENERIC_REASONS :: "(string \<times> string) list" where
  "GENERIC_REASONS =
     [(''insufficient_permissions'', ''This integration lacks the required permissions. Replace its credential.'')]"

definition TYPE_NAMES :: "(string \<times> string) list" where
  "TYPE_NAMES = [(''pat'', ''Personal Access Token''), (''oauth_app'', ''OAuth App''), (''github_app'', ''GitHub App'')]"

definition nameOf :: "string \<Rightarrow> string" where
  "nameOf t = (case map_of TYPE_NAMES t of Some n \<Rightarrow> n | None \<Rightarrow> t)"

definition reasonText :: "string \<Rightarrow> string option \<Rightarrow> string option" where
  "reasonText t reason =
     (case reason of
        None \<Rightarrow> None
      | Some r \<Rightarrow>
          if r = [] then None
          else (case type_reasonText t r of
                  Some text \<Rightarrow> Some text
                | None \<Rightarrow> (case map_of GENERIC_REASONS r of Some text \<Rightarrow> Some text | None \<Rightarrow> Some r)))"

definition REPOSITORY_SELECTIONS :: "(string \<times> string) list" where
  "REPOSITORY_SELECTIONS = [(''all'', ''all repositories''), (''selected'', ''selected repositories'')]"

text \<open>Only the GitHub App has details; a field that is missing or empty is left out.\<close>

definition detailsOf :: "json \<Rightarrow> json list" where
  "detailsOf integration =
     (if json_field ''type'' integration = Some (JsonStr ''github_app'') then
        let metadata = js_field ''metadata'' (Some integration);
            selection = (case js_field ''repositorySelection'' metadata of
               Some (JsonStr s) \<Rightarrow> map_option JsonStr (map_of REPOSITORY_SELECTIONS s) | _ \<Rightarrow> None)
        in map the (filter js_truthy [js_field ''accountType'' metadata, selection])
      else [])"

definition app_removeReminder :: "json \<Rightarrow> string" where
  "app_removeReminder integration =
     (let login = json_field ''githubLogin'' integration;
          account = (if js_truthy login then js_text login else ''its GitHub account'')
      in ''Kerghan'' @ apos @ ''s GitHub App stays installed on '' @ account
           @ '', and other connections may still use it. Uninstall it on GitHub if you no longer want it.'')"

definition removeReminderFor :: "json \<Rightarrow> string option" where
  "removeReminderFor integration =
     (case json_field ''type'' integration of
        Some (JsonStr t) \<Rightarrow>
          if t = ''pat'' then Some ''Kerghan only forgets the token. Revoke it on GitHub if you no longer need it.''
          else if t = ''oauth_app'' then Some (''Kerghan will also try to revoke this authorization on GitHub. Other ''
            @ ''connections of the same GitHub account keep working.'')
          else if t = ''github_app'' then Some (app_removeReminder integration) else None
      | _ \<Rightarrow> None)"

section \<open>The page knows the backend's types\<close>

text \<open>
  For every strategy of the backend the page has a type of its name, of the flow the strategy accepts,
  and with a text of its own for every reason with which the strategy can reject an integration.
\<close>

definition page_knows :: "strategy \<Rightarrow> bool" where
  "page_knows st \<longleftrightarrow>
     (\<exists>flow. type_flow (Some (st_type st)) = Some flow
       \<and> (flow = FlowRedirect \<longleftrightarrow> fl_redirect (st_flows st)) \<and> (flow = FlowPaste \<longleftrightarrow> fl_credentialPaste (st_flows st)))
     \<and> (\<forall>secret current reason. st_test st secret current = Inr (OutcomeInvalid reason)
       \<longrightarrow> type_reasonText (st_type st) reason \<noteq> None)"

lemma pat_reasons:
  "pat_test e W now secret current = OutcomeInvalid reason \<Longrightarrow>
     reason = STATUS_REASON_INSUFFICIENT_PERMISSIONS \<or> reason = PAT_REASON_BAD_CREDENTIALS"
  by (auto simp: pat_test_def pat_activeOutcome_def Let_def split: github_user_answer.splits if_splits)

lemma oauth_reasons:
  "oauth_test W config now secret current = OutcomeInvalid reason \<Longrightarrow>
     reason = STATUS_REASON_INSUFFICIENT_PERMISSIONS \<or> reason = OAUTH_APP_REASON_REVOKED"
  by (auto simp: oauth_test_def oauth_activeOutcome_def Let_def split: github_user_answer.splits if_splits)

lemma probe_reasons:
  "installation_probe W K c now i = Inl (OutcomeInvalid reason) \<Longrightarrow>
     reason = STATUS_REASON_INSUFFICIENT_PERMISSIONS \<or> reason = GITHUB_APP_REASON_SUSPENDED
       \<or> reason = GITHUB_APP_REASON_UNINSTALLED"
  by (auto simp: installation_probe_def Let_def split: installation_check.splits sum.splits)

lemma app_reasons:
  "app_test W K config now secret current = Inr (OutcomeInvalid reason) \<Longrightarrow>
     reason = STATUS_REASON_INSUFFICIENT_PERMISSIONS \<or> reason = GITHUB_APP_REASON_SUSPENDED
       \<or> reason = GITHUB_APP_REASON_UNINSTALLED"
  by (auto simp: app_test_def Let_def dest: probe_reasons split: option.splits sum.splits)

lemmas reason_defs = STATUS_REASON_INSUFFICIENT_PERMISSIONS_def PAT_REASON_BAD_CREDENTIALS_def
  OAUTH_APP_REASON_REVOKED_def GITHUB_APP_REASON_SUSPENDED_def GITHUB_APP_REASON_UNINSTALLED_def

theorem backend_types_are_known:
  "page_knows (pat_strategy e W now)" "page_knows (oauth_strategy W oconfig now)" "page_knows (app_strategy W K aconfig now)"
  by (auto simp: page_knows_def pat_strategy_def oauth_strategy_def app_strategy_def type_flow_def IMPLEMENTED_def
      type_reasonText_def reason_defs dest!: pat_reasons oauth_reasons app_reasons)

text \<open>A reason is never shown as nothing, and an unknown one as its code.\<close>

lemma reasonText_shown: "r \<noteq> [] \<Longrightarrow> \<exists>text. reasonText t (Some r) = Some text \<and> text \<noteq> []"
  by (auto simp: reasonText_def type_reasonText_def GENERIC_REASONS_def split: option.splits if_splits)

end
