(* ===== verification/Operations.thy ===== *)
theory Operations
  imports Integrations_Key_Rotation Auth_Http
begin

text \<open>
  What operates the backend: the lifetime and keys of signatures (\<^verbatim>\<open>app.module.ts\<close>,
  \<^verbatim>\<open>core/cache-token.service.ts\<close>), logging (\<^verbatim>\<open>core/logger.service.ts\<close>, \<^verbatim>\<open>log-context.ts\<close>,
  \<^verbatim>\<open>request-context.service.ts\<close>, \<^verbatim>\<open>request-context.middleware.ts\<close>), the health routes (\<^verbatim>\<open>health/\<close>) and
  the command line of the key rotation (\<^verbatim>\<open>integrations/cli/integrations-keys.ts\<close>).  The console is the
  list of entries written; the id of the request that is being served, if any, is the value the
  asynchronous context holds.
\<close>

section \<open>Signing\<close>

text \<open>The lifetime of an access token, in seconds; the HMAC of the cache token is a parameter.\<close>

definition buildJwtSignOptions :: "env \<Rightarrow> js_number" where
  "buildJwtSignOptions e =
     (case js_Number e (config_get_default e ''KERGHAN_ACCESS_TOKEN_TTL_MS'' DEFAULT_ACCESS_TOKEN_TTL_MS) of
        NaN \<Rightarrow> NaN | Finite ttlMs \<Rightarrow> Finite (ttlMs div 1000))"

definition cacheToken_generate :: "(string \<Rightarrow> string \<Rightarrow> string) \<Rightarrow> env \<Rightarrow> nat \<Rightarrow> string" where
  "cacheToken_generate hmac e userId = hmac (sk_current (buildSecretKeys e)) (nat_to_string userId)"

text \<open>The access cookie lives as long as the token in it, but for the part of a second the token drops.\<close>

lemma access_cookie_tracks_token:
  assumes "SetCookie c \<in> set (setSessionCookies e now result)" and "ck_name c = ACCESS_TOKEN_COOKIE"
    and "js_Number e (ck_maxAge c) = Finite n"
  shows "\<exists>s. buildJwtSignOptions e = Finite s \<and> s * 1000 \<le> n \<and> n < s * 1000 + 1000"
proof -
  have "buildJwtSignOptions e = Finite (n div 1000)"
    using assms by (auto simp: setSessionCookies_def Let_def buildJwtSignOptions_def ACCESS_TOKEN_COOKIE_def
        REFRESH_TOKEN_COOKIE_def LOGGED_IN_COOKIE_def)
  moreover have "n div 1000 * 1000 \<le> n" "n < n div 1000 * 1000 + 1000" by presburger+
  ultimately show ?thesis by blast
qed

section \<open>LoggerService\<close>

datatype log_level = LevelDebug | LevelInfo | LevelWarn | LevelError

datatype log_value = LogText string | LogNumber int | LogParams "string list"

type_synonym log_attributes = "(string \<times> log_value) list"

record log_entry =
  le_level :: log_level
  le_message :: string
  le_attributes :: "log_attributes option"

type_synonym console = "log_entry list"

definition level_rank :: "log_level \<Rightarrow> nat" where
  "level_rank l = (case l of LevelDebug \<Rightarrow> 0 | LevelInfo \<Rightarrow> 1 | LevelWarn \<Rightarrow> 2 | LevelError \<Rightarrow> 3)"

definition LEVEL_RANK :: "(string \<times> nat) list" where
  "LEVEL_RANK = [(''debug'', 0), (''info'', 1), (''warn'', 2), (''error'', 3)]"

definition log_threshold :: "env \<Rightarrow> string" where
  "log_threshold e = (case env_config e ''KERGHAN_LOG_LEVEL'' of
       JUndefined \<Rightarrow> ''info'' | JString s \<Rightarrow> s | _ \<Rightarrow> [])"

text \<open>An unrecognised threshold has no rank, and nothing compares with it.\<close>

definition shouldLog :: "env \<Rightarrow> log_level \<Rightarrow> bool" where
  "shouldLog e level =
     (case map_of LEVEL_RANK (log_threshold e) of Some rank \<Rightarrow> level_rank level \<ge> rank | None \<Rightarrow> False)"

definition resolveAttributes :: "string option \<Rightarrow> log_attributes option \<Rightarrow> log_attributes option" where
  "resolveAttributes requestId attributes =
     (case requestId of
        None \<Rightarrow> attributes
      | Some i \<Rightarrow> Some (obj_spread [(''requestId'', LogText i)] (case attributes of Some fs \<Rightarrow> fs | None \<Rightarrow> [])))"

definition log_write ::
  "env \<Rightarrow> string option \<Rightarrow> log_level \<Rightarrow> string \<Rightarrow> log_attributes option \<Rightarrow> console \<Rightarrow> console" where
  "log_write e requestId level message attributes out =
     (if \<not> shouldLog e level then out
      else out @ [\<lparr>le_level = level, le_message = message, le_attributes = resolveAttributes requestId attributes\<rparr>])"

definition toAttributes :: "string list \<Rightarrow> log_attributes option" where
  "toAttributes optionalParams =
     (if optionalParams = [] then None else Some [(''optionalParams'', LogParams optionalParams)])"

definition nest_log :: "env \<Rightarrow> string option \<Rightarrow> string \<Rightarrow> string list \<Rightarrow> console \<Rightarrow> console" where
  "nest_log e requestId message optionalParams = log_write e requestId LevelInfo message (toAttributes optionalParams)"

definition nest_verbose :: "env \<Rightarrow> string option \<Rightarrow> string \<Rightarrow> string list \<Rightarrow> console \<Rightarrow> console" where
  "nest_verbose e requestId message optionalParams = log_write e requestId LevelDebug message (toAttributes optionalParams)"

text \<open>\<^verbatim>\<open>LogContext\<close>: attributes bound once, under those of the call.\<close>

definition logContext_merge :: "log_attributes \<Rightarrow> log_attributes option \<Rightarrow> log_attributes" where
  "logContext_merge bound attributes = obj_spread bound (case attributes of Some fs \<Rightarrow> fs | None \<Rightarrow> [])"

definition logContext_write ::
  "env \<Rightarrow> string option \<Rightarrow> log_attributes \<Rightarrow> log_level \<Rightarrow> string \<Rightarrow> log_attributes option \<Rightarrow> console \<Rightarrow> console" where
  "logContext_write e requestId bound level message attributes =
     log_write e requestId level message (Some (logContext_merge bound attributes))"

section \<open>RequestContextMiddleware\<close>

definition request_attributes :: "string \<Rightarrow> string \<Rightarrow> nat \<Rightarrow> string \<Rightarrow> log_attributes" where
  "request_attributes method originalUrl statusCode requestId =
     [(''method'', LogText method), (''path'', LogText (hd (js_split CHR ''?'' originalUrl))),
      (''statusCode'', LogNumber (int statusCode)), (''requestId'', LogText requestId)]"

text \<open>The rest of the chain runs inside the context of the request; its end is logged.\<close>

definition middleware_use ::
  "env \<Rightarrow> string \<Rightarrow> string \<Rightarrow> string \<Rightarrow> (string option \<Rightarrow> console \<Rightarrow> nat \<times> console) \<Rightarrow> console \<Rightarrow> nat \<times> console" where
  "middleware_use e requestId method originalUrl next_handler out =
     (case next_handler (Some requestId) out of (statusCode, out1) \<Rightarrow>
        (statusCode, log_write e (Some requestId) LevelInfo ''request''
           (Some (request_attributes method originalUrl statusCode requestId)) out1))"

section \<open>Health\<close>

text \<open>The answer of the database to \<^verbatim>\<open>SELECT 1\<close>: an error message, or nothing.\<close>

definition checkDatabase :: "env \<Rightarrow> string option \<Rightarrow> string option \<Rightarrow> console \<Rightarrow> bool \<times> console" where
  "checkDatabase e requestId answer out =
     (case answer of
        None \<Rightarrow> (True, out)
      | Some reason \<Rightarrow> (False, log_write e requestId LevelError ''readiness check failed''
          (Some [(''context'', LogText ''HealthService''), (''check'', LogText ''database''),
                 (''reason'', LogText reason)]) out))"

record readiness =
  rd_status :: string
  rd_checks :: "(string \<times> string) list"

definition checkReadiness :: "env \<Rightarrow> string option \<Rightarrow> string option \<Rightarrow> console \<Rightarrow> readiness \<times> console" where
  "checkReadiness e requestId answer out =
     (case checkDatabase e requestId answer out of (up, out1) \<Rightarrow>
        let checks = [(''database'', if up then ''up'' else ''down'')];
            allUp = list_all (\<lambda>(k, state). state = ''up'') checks
        in (\<lparr>rd_status = (if allUp then ''ok'' else ''error''), rd_checks = checks\<rparr>, out1))"

definition ready_route :: "env \<Rightarrow> string option \<Rightarrow> string option \<Rightarrow> console \<Rightarrow> (nat \<times> readiness) \<times> console" where
  "ready_route e requestId answer out =
     (case checkReadiness e requestId answer out of (result, out1) \<Rightarrow>
        ((if rd_status result = ''ok'' then 200 else 503, result), out1))"

section \<open>The command line of the key rotation\<close>

definition CLI_USAGE :: string where
  "CLI_USAGE = ''usage: integrations-keys <status|reencrypt>'' @ [CHR 0x0A]"

definition USAGE_EXIT_CODE :: nat where "USAGE_EXIT_CODE = 2"

record cli_result =
  co_stdout :: string
  co_stderr :: string
  co_exitCode :: nat

text \<open>
  \<open>boot\<close> is what starting the application gives: the message of the error that stops it, or the key
  configuration.  A command that does not return has no result.  The log, which the command also sends to
  the standard error, is not part of the result.
\<close>

definition cli_main ::
  "string + integrations_key \<Rightarrow> crypto \<Rightarrow> (nat \<Rightarrow> string) \<Rightarrow> int \<Rightarrow> (nat \<Rightarrow> integ_state \<Rightarrow> integ_state)
     \<Rightarrow> string option \<Rightarrow> integ_state \<Rightarrow> (cli_result \<times> integ_state) option" where
  "cli_main boot C iv now race command s =
     (if command \<noteq> Some ''status'' \<and> command \<noteq> Some ''reencrypt''
      then Some (\<lparr>co_stdout = [], co_stderr = CLI_USAGE, co_exitCode = USAGE_EXIT_CODE\<rparr>, s)
      else case boot of
             Inl message \<Rightarrow> Some (\<lparr>co_stdout = [], co_stderr = message @ [CHR 0x0A], co_exitCode = 1\<rparr>, s)
           | Inr ks \<Rightarrow>
               if command = Some ''status''
               then Some (\<lparr>co_stdout = formatKeyStatus (key_status ks s), co_stderr = [], co_exitCode = 0\<rparr>, s)
               else map_option (\<lambda>(result, s1).
                 (\<lparr>co_stdout = formatReencryptSummary result, co_stderr = [], co_exitCode = reencryptExitCode result\<rparr>, s1))
                   (reencrypt_all C ks iv now race s))"

section \<open>What the log holds\<close>

lemma log_write_grows: "\<exists>new. log_write e r l m a out = out @ new \<and> length new \<le> 1"
  by (simp add: log_write_def)

text \<open>
  Every entry written while a request is served can be attributed to it: it carries the id of the
  request unless the caller gave another one, and every attribute of the caller.
\<close>
theorem entries_carry_the_request:
  assumes "entry \<in> set (log_write e (Some i) level message (Some attributes) out)" and "entry \<notin> set out"
    and "distinct (map fst attributes)"
  shows "\<exists>fs. le_attributes entry = Some fs
     \<and> map_of fs ''requestId'' = Some (case map_of attributes ''requestId'' of Some v \<Rightarrow> v | None \<Rightarrow> LogText i)
     \<and> (\<forall>k v. map_of attributes k = Some v \<longrightarrow> map_of fs k = Some v)"
proof -
  let ?fs = "obj_spread [(''requestId'', LogText i)] attributes"
  have lookup: "map_of ?fs = [''requestId'' \<mapsto> LogText i] ++ map_of attributes"
    using obj_spread_lookup [OF assms(3), of "[(''requestId'', LogText i)]"] by simp
  have "le_attributes entry = Some ?fs"
    using assms(1,2) by (simp add: log_write_def resolveAttributes_def split: if_splits)
  then show ?thesis by (auto simp: lookup map_add_def split: option.split)
qed

text \<open>
  The line that ends a request names the path without its query, so that neither the code nor the
  state of a callback reaches the log through it.
\<close>
lemma request_path_has_no_query: "CHR ''?'' \<notin> set (hd (js_split CHR ''?'' url))"
  using js_split_no_sep [of "hd (js_split CHR ''?'' url)" "CHR ''?''" url] js_split_nonempty [of "CHR ''?''" url] by simp

lemma below_threshold_is_silent:
  "map_of LEVEL_RANK (log_threshold e) = None \<or> level_rank level < the (map_of LEVEL_RANK (log_threshold e))
     \<Longrightarrow> log_write e r level m a out = out"
  by (auto simp: log_write_def shouldLog_def split: option.split)

lemma ready_iff_database_answers:
  "fst (fst (ready_route e r answer out)) = (if answer = None then 200 else 503)"
  "answer = None \<Longrightarrow> snd (ready_route e r answer out) = out"
  by (simp_all add: ready_route_def checkReadiness_def checkDatabase_def Let_def split: option.split)

section \<open>What the command line promises\<close>

text \<open>
  The command always ends with one of three exit codes: 2 exactly for an unknown command, and then, as
  for \<^verbatim>\<open>status\<close> and for an application that does not start, nothing is stored; the report goes to the
  standard output only, errors only to the other one.
\<close>
theorem cli_answers:
  assumes "no_new_rows race"
  shows "\<exists>out s'. cli_main boot C iv now race command s = Some (out, s')
     \<and> co_exitCode out \<in> {0, 1, 2}
     \<and> (co_exitCode out = 2 \<longleftrightarrow> command \<notin> {Some ''status'', Some ''reencrypt''})
     \<and> (co_stdout out = [] \<or> co_stderr out = [])
     \<and> (command \<noteq> Some ''reencrypt'' \<or> (\<exists>m. boot = Inl m) \<longrightarrow> s' = s)"
proof (cases "command = Some ''reencrypt'' \<and> (\<exists>ks. boot = Inr ks)")
  case True
  then obtain ks where ks: "boot = Inr ks" "command = Some ''reencrypt''" by blast
  obtain ro where "reencrypt_loop C ks iv now race
      \<lparr>ro_result = \<lparr>rr_reencrypted = 0, rr_skippedUndecryptable = 0, rr_skippedChanged = 0\<rparr>,
       ro_afterId = 0, ro_state = s\<rparr> = Some ro"
    using reencrypt_loop_returns [OF assms] by blast
  then show ?thesis by (simp add: cli_main_def ks reencrypt_all_def reencryptExitCode_def)
next
  case False
  then show ?thesis by (cases boot) (auto simp: cli_main_def USAGE_EXIT_CODE_def)
qed

text \<open>The command line on a store with one row under a previous key.\<close>

lemma cli_answers_demo:
  "\<exists>out s'. cli_main (Inr demo_new_keys) demo_crypto (\<lambda>_. ''iv2'') 9 (\<lambda>_ s. s) (Some ''reencrypt'') demo_integ = Some (out, s')
     \<and> co_exitCode out \<in> {0, 1}"
  using cli_answers [of "\<lambda>_ s. s" "Inr demo_new_keys" demo_crypto "\<lambda>_. ''iv2''" 9 "Some ''reencrypt''" demo_integ]
  by (auto simp: no_new_rows_def)

end
