(* ===== verification/Spec2Isabelle.thy ===== *)
theory Spec2Isabelle
  imports Session_System Auth_Http Integrations_System Strategy_Contract Frontend_Routing Frontend_Github Frontend_Types Operations
begin

text \<open>
  Kerghan is a self-hosted web application: a NestJS backend (\<^verbatim>\<open>backend/src\<close>), a React frontend
  (\<^verbatim>\<open>frontend/assets/js\<close>) and a shell installer.  This development models the backend's own logic:
  accounts, sessions and their HTTP surface, device authorization, mail, and the Integrations module
  that stores users' GitHub credentials encrypted; and the logic of the frontend below its views: the
  HTTP client, the pollers, routing, forms, and the controllers of the pages.  The two meet in the
  requests the client sends, and in the addresses that lead a browser to GitHub and back.

  \<^bold>\<open>Conventions.\<close>
  \<^item> A table of the database is a list of rows in insertion order and its next id; a service method
    is a function from a state to a result and the next state.  \<^term>\<open>Inl\<close> is a throw, and what
    was committed before the throw stays; a transaction that throws leaves the state it began with.
  \<^item> A request reads the clock once, and its random values are inputs (\<^verbatim>\<open>ctx\<close>, \<^verbatim>\<open>ictx\<close>); that a
    drawn value is new is a hypothesis where a property needs it.
  \<^item> Third-party code is a parameter: bcrypt, SHA-256, JWT, the collation of MySQL and the process
    environment (\<^verbatim>\<open>env\<close>), AES-GCM and the JSON codec (\<^verbatim>\<open>crypto\<close>), the network and its encodings
    (\<^verbatim>\<open>web\<close>), RSA keys (\<^verbatim>\<open>app_keys\<close>), nodemailer's delivery, URL and address parsing, the template
    files.  What the code relies on of them is a named predicate
    (\<^verbatim>\<open>bcrypt_ok\<close>, \<^verbatim>\<open>collate_ok\<close>, \<^verbatim>\<open>crypto_ok\<close>) that an instance of the witnesses satisfies.
  \<^item> Text that a request supplies is compared with a column by the collation; digests, key ids and
    session ids, which the server writes, exactly.  Characters are codes below 256, dates are exact
    milliseconds, configured numbers are integers.
  \<^item> A page of the browser is a record with what its components show and what the browser holds (cookies,
    storage, address, requests sent so far).  An \<^verbatim>\<open>async\<close> function is a state function whose result is
    a thrown error or a value (\<^verbatim>\<open>js\<close>, with \<^verbatim>\<open>js_await\<close> and \<^verbatim>\<open>js_catch\<close>); \<^verbatim>\<open>network\<close> gives the answer to
    the requests sent so far and the parsers of the browser.  Timers and clicks are events with the
    time they come at.
  \<^item> Concurrency is explicit.  A handler that reads and writes later is split into a load and a
    commit, or takes a parameter \<open>race\<close>: what other requests committed while it waited.

  \<^bold>\<open>Theories and sources.\<close>
  \<^item> \<^verbatim>\<open>Kerghan_Prelude\<close> (tables, JavaScript strings), \<^verbatim>\<open>Runtime\<close> (exceptions, platform,
    \<^verbatim>\<open>core/numeric-config.ts\<close>), \<^verbatim>\<open>Demo\<close> (the platform of the witnesses).
  \<^item> \<^verbatim>\<open>Auth_State\<close> (entities), \<^verbatim>\<open>Token_Service\<close>, \<^verbatim>\<open>Auth_Service\<close>, \<^verbatim>\<open>Rotation\<close> and
    \<^verbatim>\<open>Session_System\<close>: \<^verbatim>\<open>auth/token.service.ts\<close>, \<^verbatim>\<open>auth/auth.service.ts\<close>; refresh rotation, replay
    detection, and the interleaving of concurrent refreshes.
  \<^item> \<^verbatim>\<open>Session_Lookup\<close>, \<^verbatim>\<open>Session_Service\<close>, \<^verbatim>\<open>Session_Properties\<close>: the guard \<^verbatim>\<open>core/jwt.guard.ts\<close>
    against the contract of \<^verbatim>\<open>core/session-lookup.ts\<close>, and \<^verbatim>\<open>auth/session.service.ts\<close> as its provider.
  \<^item> \<^verbatim>\<open>Lockout\<close> (\<^verbatim>\<open>core/lockout-state.ts\<close>): the locale \<^verbatim>\<open>cool_off\<close> with the brute-force bound, which
    the account guard, the device guard and the credential guard interpret.
  \<^item> \<^verbatim>\<open>Account_Service\<close>, \<^verbatim>\<open>Admin_Service\<close>, \<^verbatim>\<open>Password_Reset\<close>, \<^verbatim>\<open>Default_User\<close>,
    \<^verbatim>\<open>Default_User_Config\<close>, \<^verbatim>\<open>User_System\<close>: the services of \<^verbatim>\<open>auth/\<close> that write users, and the
    invariant of all of them together.
  \<^item> \<^verbatim>\<open>Device_Authorization\<close>, \<^verbatim>\<open>Device_System\<close>: \<^verbatim>\<open>auth/authorization-request*.ts\<close>, its status machine
    and its interleavings.
  \<^item> \<^verbatim>\<open>Mail_Template\<close>, \<^verbatim>\<open>Mail_Service\<close>: \<^verbatim>\<open>mail/\<close>.
  \<^item> \<^verbatim>\<open>Request_Security\<close>, \<^verbatim>\<open>Auth_Http\<close>: the global guards, the client address, caching, the exception
    filter, and the controllers with their cookies.
  \<^item> \<^verbatim>\<open>Integration_State\<close>, \<^verbatim>\<open>Integrations_Key\<close>, \<^verbatim>\<open>Integrations_Encryption\<close>, \<^verbatim>\<open>Integration_Store\<close>,
    \<^verbatim>\<open>Integrations_Key_Rotation\<close>, \<^verbatim>\<open>Integration_Types\<close>, \<^verbatim>\<open>Integration_Credential\<close>,
    \<^verbatim>\<open>Integrations_Service\<close>, \<^verbatim>\<open>Integrations_System\<close>: \<^verbatim>\<open>integrations/\<close>.  The locales
    \<^verbatim>\<open>store_updates\<close> and \<^verbatim>\<open>store_client\<close> carry a property of the rows through every route; the
    invariant, the isolation of the owners and the refinement to vaults are interpretations.
  \<^item> \<^verbatim>\<open>Operations\<close>: the lifetime of signatures, logging (\<^verbatim>\<open>core/logger.service.ts\<close> and what is around it), the health routes, and the
    command line of the key rotation.
  \<^item> \<^verbatim>\<open>Github_Http\<close>, \<^verbatim>\<open>Github_App_Client\<close>: the GitHub clients.  GitHub's answers are a function of the
    call within one request; operations that issue or revoke a token also return those calls.
  \<^item> \<^verbatim>\<open>Pat_Type\<close>, \<^verbatim>\<open>Redirect_Config\<close>, \<^verbatim>\<open>Redirect_State\<close>, \<^verbatim>\<open>Oauth_App\<close>, \<^verbatim>\<open>Oauth_Properties\<close>,
    \<^verbatim>\<open>Github_App\<close>, \<^verbatim>\<open>Github_App_Properties\<close>: \<^verbatim>\<open>integrations/types/\<close>.  The locale \<^verbatim>\<open>single_use\<close> is the
    contract of redirect states, interpreted by both state services.
  \<^item> \<^verbatim>\<open>Strategy_Contract\<close>: the contract of \<^verbatim>\<open>integration-type-strategy.ts\<close> as a locale, interpreted
    by the three types.
  \<^item> \<^verbatim>\<open>Frontend_Poller\<close> (\<^verbatim>\<open>utils/polling/\<close>; the locale \<^verbatim>\<open>transition_run\<close>), \<^verbatim>\<open>Frontend_Page\<close> (the page and
    its events), \<^verbatim>\<open>Frontend_Client\<close> (\<^verbatim>\<open>client/\<close>), \<^verbatim>\<open>Frontend_Forms\<close> (\<^verbatim>\<open>utils/validation/\<close> and the account
    forms; the locale \<^verbatim>\<open>edit_form\<close> is interpreted by both forms), \<^verbatim>\<open>Frontend_Routing\<close>
    (\<^verbatim>\<open>utils/routing/\<close>), \<^verbatim>\<open>Frontend_Login\<close> (the login modal, the header, the waiting page and
    registration; the locale \<^verbatim>\<open>modal_invariant\<close>), \<^verbatim>\<open>Frontend_Lists\<close> (the controllers of sessions,
    authorization requests and users).
  \<^item> \<^verbatim>\<open>Frontend_Redirects\<close>, \<^verbatim>\<open>Frontend_Integrations\<close>, \<^verbatim>\<open>Frontend_Github\<close>, \<^verbatim>\<open>Frontend_Types\<close>: the integrations
    page (\<^verbatim>\<open>accounts/pages/integrations/\<close>, \<^verbatim>\<open>utils/oauth/\<close>), what it does with addresses, secrets and
    landings, and that it knows the types, flows and reasons of the backend.

  \<^bold>\<open>What the properties show.\<close>  C1, C2, C5, C6, C22, C25, C27 to C29 and C31 are about sessions: replay
  detection, one live row per session, the gate, cookies and guards.  C7 to C12 are about device
  requests, C13 and C15 about mail, C18 to C21 about accounts and administration, C32 to C40 about
  stored integrations; C3, C4, C14 and C26 about the credential types and redirect flows: no token is
  left behind, no installation is stored that is not the user's.  C16, C23, C24 and C30 are about the
  browser: the recovery from an expired session, the end of every polling, the addresses that are
  followed, and what runs behind the login modal; C17 is about both sides of a redirect.
  Termination is proved where a loop is not structural: the re-encryption loop is a partial function
  that is shown to return (C34), and a poller is shown to end when its expiry timer fires (C23).
  Where the code does less than it means to, a lemma shows an execution:
  \<^verbatim>\<open>denied_request_still_grants_session\<close>, \<^verbatim>\<open>wrong_password_goes_unreported\<close>,
  \<^verbatim>\<open>second_device_form_leaks_poller\<close> and others of their kind.

  \<^bold>\<open>Not modelled.\<close>  What the services log; migrations; the wiring of modules; the installer and the
  proxy.  Of the frontend the rendered markup, the effects that only mount and
  unmount a component, the countdown of the device panel and the static descriptions of the types;
  a timeout is taken to fire when it is due, although a browser fires one of more than 24 days at
  once, and two requests sent together are answered in order.  The body validation of the redirect
  routes' classes is left to the framework's decorators.  The \<^verbatim>\<open>updated_at\<close> columns of \<^verbatim>\<open>auth\<close> tables
  are left out, as nothing reads them.
\<close>

end
